(* ===== verification/Go_Prelude.thy ===== *)
theory Go_Prelude
  imports Main "HOL-Library.Word" "HOL-Library.Finite_Map" "HOL-Library.List_Lexorder"
    "HOL-Library.Char_ord" "HOL-Library.Multiset"
begin

text \<open>
  The part of the Go language and of its standard library that the sources of CIFleet use,
  and the lemmas every component shares.

  \<^item> \<open>int\<close> and \<open>int64\<close> are HOL integers; every arithmetic operation of the source that can
    leave the 64-bit range is followed by \<open>wrap64\<close>, two's complement reduction to 64 bits.
  \<^item> \<open>time.Time\<close> is the number of nanoseconds since the zero time (year 1, UTC), so that
    \<open>IsZero\<close> is a comparison with 0; \<open>time.Duration\<close> is a 64-bit number of nanoseconds.
  \<^item> A Go string is the list of its bytes. \<open>TrimSpace\<close>, \<open>ToLower\<close> and \<open>EqualFold\<close> are
    their ASCII definitions: a byte of a multi-byte rune is neither a letter nor a space.
  \<^item> A Go map is a finite map. \<open>range\<close> over a map visits the keys in an unspecified order:
    \<open>range_keys\<close> takes that order as an arbitrary ranking of the keys.
  \<^item> An \<open>error\<close> value is a \<open>goerror\<close>, with the chain that \<open>%w\<close> builds; a returned \<open>error\<close>
    is \<open>None\<close> for \<open>nil\<close>.
\<close>

named_theorems go_simps \<open>evaluation rules of the Go library functions\<close>
named_theorems job_frame \<open>what an operation of the runner manager leaves unchanged\<close>
named_theorems trace_simps \<open>effects recorded by the operations of the runner manager\<close>

section \<open>Integers and time\<close>

definition wrap64 :: "int \<Rightarrow> int" where
  "wrap64 x = sint (word_of_int x :: 64 word)"

definition in_int64 :: "int \<Rightarrow> bool" where
  "in_int64 x \<longleftrightarrow> - (2 ^ 63) \<le> x \<and> x < 2 ^ 63"

lemma wrap64_signed_take_bit: "wrap64 x = signed_take_bit 63 x"
  by (simp add: wrap64_def signed_of_int)

lemma wrap64_id [simp]: "in_int64 x \<Longrightarrow> wrap64 x = x"
  by (simp add: wrap64_signed_take_bit in_int64_def signed_take_bit_int_eq_self)

lemma in_int64_wrap64 [simp]: "in_int64 (wrap64 x)"
  using signed_take_bit_int_greater_eq_minus_exp [of 63 x]
    signed_take_bit_int_less_exp [of 63 x]
  by (simp add: wrap64_signed_take_bit in_int64_def)

lemma wrap64_add_left [simp]: "wrap64 (wrap64 a + b) = wrap64 (a + b)"
  by (simp add: wrap64_def)

lemma wrap64_diff_right [simp]: "wrap64 (a - wrap64 b) = wrap64 (a - b)"
  by (simp add: wrap64_def)

lemma wrap64_id_iff: "wrap64 x = x \<longleftrightarrow> in_int64 x"
  by (metis in_int64_wrap64 wrap64_id)

lemma in_int64_mono: "in_int64 b \<Longrightarrow> 0 \<le> a \<Longrightarrow> a \<le> b \<Longrightarrow> in_int64 a"
  by (simp add: in_int64_def)

type_synonym time = int
type_synonym duration = int

definition Nanosecond :: duration where "Nanosecond = 1"
definition Second :: duration where "Second = 1000000000"
definition Minute :: duration where "Minute = 60000000000"
definition Hour :: duration where "Hour = 3600000000000"

lemmas duration_defs = Nanosecond_def Second_def Minute_def Hour_def

definition IsZero :: "time \<Rightarrow> bool" where
  "IsZero t \<longleftrightarrow> t = 0"

definition time_Add :: "time \<Rightarrow> duration \<Rightarrow> time" where
  "time_Add t d = t + d"

text \<open>\<open>t.Sub(u)\<close> is clamped to the range of a \<open>Duration\<close>.\<close>

definition time_Sub :: "time \<Rightarrow> time \<Rightarrow> duration" where
  "time_Sub t u = max (- (2 ^ 63)) (min (2 ^ 63 - 1) (t - u))"

definition time_After :: "time \<Rightarrow> time \<Rightarrow> bool" where
  "time_After t u \<longleftrightarrow> u < t"

definition unix_epoch_seconds :: int where
  "unix_epoch_seconds = 62135596800"

definition time_Unix :: "time \<Rightarrow> int" where
  "time_Unix t = t div Second - unix_epoch_seconds"

lemma time_Sub_le_iff: "in_int64 d \<Longrightarrow> d < 2 ^ 63 - 1 \<Longrightarrow> time_Sub t u \<le> d \<longleftrightarrow> t - u \<le> d"
  by (auto simp: time_Sub_def in_int64_def)

lemma time_Sub_gt_iff: "in_int64 d \<Longrightarrow> d < 2 ^ 63 - 1 \<Longrightarrow> d < time_Sub t u \<longleftrightarrow> d < t - u"
  by (auto simp: time_Sub_def in_int64_def)

text \<open>Go's integer division truncates towards zero.\<close>

definition go_div :: "int \<Rightarrow> int \<Rightarrow> int" where
  "go_div a b = sgn a * sgn b * (\<bar>a\<bar> div \<bar>b\<bar>)"

lemma go_div_nonneg: "0 \<le> a \<Longrightarrow> 0 < b \<Longrightarrow> go_div a b = a div b"
  by (cases "a = 0") (auto simp: go_div_def)

section \<open>Errors\<close>

datatype goerror =
    Sentinel string
  | Errorf string
  | Wrapf string goerror string

primrec Error :: "goerror \<Rightarrow> string" where
  "Error (Sentinel s) = s"
| "Error (Errorf s) = s"
| "Error (Wrapf p e q) = p @ Error e @ q"

primrec errors_Is :: "goerror \<Rightarrow> goerror \<Rightarrow> bool" where
  "errors_Is (Sentinel s) t \<longleftrightarrow> Sentinel s = t"
| "errors_Is (Errorf s) t \<longleftrightarrow> False"
| "errors_Is (Wrapf p e q) t \<longleftrightarrow> errors_Is e t"

section \<open>Strings\<close>

definition isSpace :: "char \<Rightarrow> bool" where
  "isSpace c \<longleftrightarrow> (of_char c :: nat) \<in> {9, 10, 11, 12, 13, 32}"

definition TrimSpace :: "string \<Rightarrow> string" where
  "TrimSpace s = rev (dropWhile isSpace (rev (dropWhile isSpace s)))"

definition lower_byte :: "char \<Rightarrow> char" where
  "lower_byte c =
     (if 65 \<le> (of_char c :: nat) \<and> (of_char c :: nat) \<le> 90
      then char_of ((of_char c :: nat) + 32) else c)"

definition ToLower :: "string \<Rightarrow> string" where
  "ToLower s = map lower_byte s"

definition EqualFold :: "string \<Rightarrow> string \<Rightarrow> bool" where
  "EqualFold s t \<longleftrightarrow> ToLower s = ToLower t"

definition HasPrefix :: "string \<Rightarrow> string \<Rightarrow> bool" where
  "HasPrefix s p \<longleftrightarrow> take (length p) s = p"

definition TrimPrefix :: "string \<Rightarrow> string \<Rightarrow> string" where
  "TrimPrefix s p = (if HasPrefix s p then drop (length p) s else s)"

fun Contains :: "string \<Rightarrow> string \<Rightarrow> bool" where
  "Contains [] sub \<longleftrightarrow> sub = []"
| "Contains (c # s) sub \<longleftrightarrow> HasPrefix (c # s) sub \<or> Contains s sub"

text \<open>\<open>strings.Trim(s, cutset)\<close>, \<open>strings.TrimRight(s, cutset)\<close> for ASCII cutsets.\<close>

definition TrimRight :: "string \<Rightarrow> string \<Rightarrow> string" where
  "TrimRight s cutset = rev (dropWhile (\<lambda>c. c \<in> set cutset) (rev s))"

definition Trim :: "string \<Rightarrow> string \<Rightarrow> string" where
  "Trim s cutset = TrimRight (dropWhile (\<lambda>c. c \<in> set cutset) s) cutset"

text \<open>\<open>strings.SplitN(s, sep, 2)\<close> and \<open>strings.Split(s, sep)\<close> for a separator of one byte.\<close>

definition SplitN2 :: "string \<Rightarrow> char \<Rightarrow> string list" where
  "SplitN2 s sep =
     (case dropWhile (\<lambda>c. c \<noteq> sep) s of
        [] \<Rightarrow> [s]
      | _ # rest \<Rightarrow> [takeWhile (\<lambda>c. c \<noteq> sep) s, rest])"

fun Split :: "string \<Rightarrow> char \<Rightarrow> string list" where
  "Split [] sep = [[]]"
| "Split (c # s) sep =
     (if c = sep then [] # Split s sep
      else (case Split s sep of [] \<Rightarrow> [[c]] | w # ws \<Rightarrow> (c # w) # ws))"

text \<open>\<open>strings.Fields(s)\<close>: the maximal runs of non-space bytes.\<close>

fun Fields_acc :: "string \<Rightarrow> string \<Rightarrow> string list" where
  "Fields_acc w [] = (if w = [] then [] else [rev w])"
| "Fields_acc w (c # s) =
     (if isSpace c then (if w = [] then Fields_acc [] s else rev w # Fields_acc [] s)
      else Fields_acc (c # w) s)"

definition Fields :: "string \<Rightarrow> string list" where
  "Fields s = Fields_acc [] s"

section \<open>Decimal numbers and quoting\<close>

definition digit :: "nat \<Rightarrow> char" where
  "digit d = char_of (48 + d)"

fun nat_dec :: "nat \<Rightarrow> string" where
  "nat_dec n = (if n < 10 then [digit n] else nat_dec (n div 10) @ [digit (n mod 10)])"

declare nat_dec.simps [simp del]

text \<open>\<open>strconv.Itoa\<close>, \<open>strconv.FormatInt(n, 10)\<close> and the verb \<open>%d\<close>.\<close>

definition FormatInt :: "int \<Rightarrow> string" where
  "FormatInt n = (if n < 0 then CHR ''-'' # nat_dec (nat (- n)) else nat_dec (nat n))"

definition digit_value :: "char \<Rightarrow> nat option" where
  "digit_value c =
     (if 48 \<le> (of_char c :: nat) \<and> (of_char c :: nat) \<le> 57 then Some (of_char c - 48) else None)"

fun parse_digits :: "nat \<Rightarrow> string \<Rightarrow> nat option" where
  "parse_digits n [] = Some n"
| "parse_digits n (c # s) =
     (case digit_value c of None \<Rightarrow> None | Some d \<Rightarrow> parse_digits (10 * n + d) s)"

definition parse_unsigned :: "string \<Rightarrow> nat option" where
  "parse_unsigned s = (if s = [] then None else parse_digits 0 s)"

text \<open>
  \<open>strconv.ParseInt(s, 10, 64)\<close> and \<open>strconv.Atoi\<close>: an optional sign, at least one decimal
  digit, and the range of a signed 64-bit integer; \<open>None\<close> stands for the returned error.
\<close>

definition ParseInt :: "string \<Rightarrow> int option" where
  "ParseInt s =
     (case s of
        [] \<Rightarrow> None
      | c # r \<Rightarrow>
          if c = CHR ''-'' then
            (case parse_unsigned r of None \<Rightarrow> None
             | Some n \<Rightarrow> if int n \<le> 2 ^ 63 then Some (- int n) else None)
          else
            (case parse_unsigned (if c = CHR ''+'' then r else s) of None \<Rightarrow> None
             | Some n \<Rightarrow> if int n < 2 ^ 63 then Some (int n) else None))"

text \<open>The verb \<open>%q\<close> on ASCII text.\<close>

definition hex_digit :: "nat \<Rightarrow> char" where
  "hex_digit d = (if d < 10 then char_of (48 + d) else char_of (87 + d))"

definition quote_byte :: "char \<Rightarrow> string" where
  "quote_byte c = (let n = of_char c :: nat; b = char_of (92::nat) in
     if c = CHR 0x22 \<or> n = 92 then [b, c]
     else if 32 \<le> n \<and> n < 127 then [c]
     else case map_of [(7, CHR ''a''), (8, CHR ''b''), (9, CHR ''t''), (10, CHR ''n''),
         (11, CHR ''v''), (12, CHR ''f''), (13, CHR ''r'')] n of
       Some e \<Rightarrow> [b, e]
     | None \<Rightarrow> [b, CHR ''x'', hex_digit (n div 16), hex_digit (n mod 16)])"

definition Quote :: "string \<Rightarrow> string" where
  "Quote s = [CHR 0x22] @ concat (map quote_byte s) @ [CHR 0x22]"

section \<open>Maps\<close>

text \<open>\<open>m[k]\<close> on a missing key is the zero value.\<close>

definition index0 :: "'v \<Rightarrow> ('k, 'v) fmap \<Rightarrow> 'k \<Rightarrow> 'v" where
  "index0 zero m k = (case fmlookup m k of None \<Rightarrow> zero | Some v \<Rightarrow> v)"

definition range_keys :: "('k \<Rightarrow> nat) \<Rightarrow> ('k::linorder, 'v) fmap \<Rightarrow> 'k list" where
  "range_keys rank m = sort_key rank (sorted_list_of_fset (fmdom m))"

text \<open>
  \<open>sort.SliceStable(xs, less)\<close>: for a strict weak order every stable sort computes the same
  list; insertion from the right keeps equal elements in their order.
\<close>

fun insert_stable :: "('a \<Rightarrow> 'a \<Rightarrow> bool) \<Rightarrow> 'a \<Rightarrow> 'a list \<Rightarrow> 'a list" where
  "insert_stable lt x [] = [x]"
| "insert_stable lt x (y # ys) =
     (if lt y x then y # insert_stable lt x ys else x # y # ys)"

definition SliceStable :: "('a \<Rightarrow> 'a \<Rightarrow> bool) \<Rightarrow> 'a list \<Rightarrow> 'a list" where
  "SliceStable lt xs = foldr (insert_stable lt) xs []"

section \<open>Lemmas shared by the components\<close>

subsection \<open>Lemmas on decimal numbers\<close>

lemma digit_value_digit [simp]: "d < 10 \<Longrightarrow> digit_value (digit d) = Some d"
  by (simp add: digit_value_def digit_def)

lemma digit_not_sign [simp]: "d < 10 \<Longrightarrow> digit d \<noteq> CHR ''-''" "d < 10 \<Longrightarrow> digit d \<noteq> CHR ''+''"
  by (auto simp: digit_def char_of_eq_iff take_bit_nat_def)

lemma parse_digits_append:
  "parse_digits n (s @ t) = (case parse_digits n s of None \<Rightarrow> None | Some k \<Rightarrow> parse_digits k t)"
  by (induction n s rule: parse_digits.induct) (auto split: option.splits)

lemma nat_dec_not_Nil [simp]: "nat_dec n \<noteq> []"
  by (subst nat_dec.simps) simp

lemma parse_digits_nat_dec: "parse_digits 0 (nat_dec n) = Some n"
proof (induction n rule: nat_dec.induct)
  case (1 n)
  show ?case
  proof (cases "n < 10")
    case True
    then show ?thesis by (simp add: nat_dec.simps [of n])
  next
    case False
    with "1" have "parse_digits 0 (nat_dec (n div 10)) = Some (n div 10)" by simp
    with False show ?thesis
      by (simp add: nat_dec.simps [of n] parse_digits_append)
  qed
qed

lemma parse_unsigned_nat_dec [simp]: "parse_unsigned (nat_dec n) = Some n"
  by (simp add: parse_unsigned_def parse_digits_nat_dec)

lemma nat_dec_digits: "\<forall>c \<in> set (nat_dec n). \<exists>d < 10. c = digit d"
proof (induction n rule: nat_dec.induct)
  case (1 n)
  show ?case
  proof (cases "n < 10")
    case True
    then show ?thesis by (auto simp: nat_dec.simps [of n])
  next
    case False
    with "1" have "\<forall>c \<in> set (nat_dec (n div 10)). \<exists>d < 10. c = digit d" by simp
    with False show ?thesis
      by (auto simp: nat_dec.simps [of n] intro: exI [of _ "n mod 10"])
  qed
qed

lemma minus_notin_nat_dec [simp]: "CHR ''-'' \<notin> set (nat_dec n)"
  using nat_dec_digits [of n] digit_not_sign(1) by fastforce

lemma hd_nat_dec_not_sign: "nat_dec n = c # r \<Longrightarrow> c \<noteq> CHR ''-'' \<and> c \<noteq> CHR ''+''"
  using nat_dec_digits [of n] digit_not_sign by (metis list.set_intros(1))

lemma ParseInt_FormatInt: "in_int64 n \<Longrightarrow> ParseInt (FormatInt n) = Some n"
proof (cases "n < 0")
  case True
  then show "in_int64 n \<Longrightarrow> ParseInt (FormatInt n) = Some n"
    by (simp add: ParseInt_def FormatInt_def in_int64_def nat_le_iff)
next
  case False
  obtain c r where cr: "nat_dec (nat n) = c # r"
    by (cases "nat_dec (nat n)") simp_all
  with hd_nat_dec_not_sign [OF cr] False
  show "in_int64 n \<Longrightarrow> ParseInt (FormatInt n) = Some n"
    using parse_unsigned_nat_dec [of "nat n"]
    by (auto simp: ParseInt_def FormatInt_def in_int64_def nat_less_iff simp del: parse_unsigned_nat_dec)
qed

lemma nat_dec_inject [simp]: "nat_dec m = nat_dec n \<longleftrightarrow> m = n"
  using parse_digits_nat_dec by (metis option.inject)

lemma FormatInt_inject [simp]: "FormatInt m = FormatInt n \<longleftrightarrow> m = n"
proof -
  have "nat_dec a \<noteq> CHR ''-'' # r" for a r
    using minus_notin_nat_dec [of a] by force
  then show ?thesis
    by (auto simp: FormatInt_def) (metis+)
qed

subsection \<open>Lemmas on strings\<close>

lemma HasPrefix_append [simp]: "HasPrefix (p @ s) p"
  by (simp add: HasPrefix_def)

lemma HasPrefix_iff: "HasPrefix s p \<longleftrightarrow> (\<exists>r. s = p @ r)"
  unfolding HasPrefix_def by (metis append_take_drop_id append_eq_conv_conj)

lemma TrimPrefix_append [simp]: "TrimPrefix (p @ s) p = s"
  by (simp add: TrimPrefix_def)

lemma Contains_iff: "Contains s sub \<longleftrightarrow> (\<exists>p r. s = p @ sub @ r)"
proof (induction s)
  case Nil
  show ?case by auto
next
  case (Cons c s)
  have "(\<exists>p r. c # s = p @ sub @ r) \<longleftrightarrow> (\<exists>r. c # s = sub @ r) \<or> (\<exists>p r. s = p @ sub @ r)"
    by (auto simp: Cons_eq_append_conv)
  with Cons show ?case by (simp add: HasPrefix_iff)
qed

lemma Contains_append [simp]: "Contains (p @ sub @ r) sub"
  by (auto simp: Contains_iff)

lemma EqualFold_refl [simp]: "EqualFold s s"
  by (simp add: EqualFold_def)

lemma EqualFold_sym: "EqualFold s t \<Longrightarrow> EqualFold t s"
  by (simp add: EqualFold_def)

lemma EqualFold_trans: "EqualFold s t \<Longrightarrow> EqualFold t u \<Longrightarrow> EqualFold s u"
  by (simp add: EqualFold_def)

lemma lower_byte_idem [simp]: "lower_byte (lower_byte c) = lower_byte c"
  by (auto simp: lower_byte_def)

lemma ToLower_idem [simp]: "ToLower (ToLower s) = ToLower s"
  by (simp add: ToLower_def)

lemma set_TrimRight_subset: "set (TrimRight s cs) \<subseteq> set s"
  using set_dropWhileD by (fastforce simp: TrimRight_def)

lemma set_Trim_subset: "set (Trim s cs) \<subseteq> set s"
  using set_TrimRight_subset set_dropWhileD by (fastforce simp: Trim_def)

lemma last_TrimRight: "TrimRight s cs \<noteq> [] \<Longrightarrow> last (TrimRight s cs) \<notin> set cs"
  using hd_dropWhile [of "\<lambda>c. c \<in> set cs" "rev s"] by (simp add: TrimRight_def last_rev)

lemma hd_TrimRight: "TrimRight s cs \<noteq> [] \<Longrightarrow> hd (TrimRight s cs) = hd s"
proof -
  have "rev s = takeWhile (\<lambda>c. c \<in> set cs) (rev s) @ dropWhile (\<lambda>c. c \<in> set cs) (rev s)"
    by simp
  then have "s = TrimRight s cs @ rev (takeWhile (\<lambda>c. c \<in> set cs) (rev s))"
    unfolding TrimRight_def by (metis rev_append rev_rev_ident)
  then show "TrimRight s cs \<noteq> [] \<Longrightarrow> hd (TrimRight s cs) = hd s"
    by (metis hd_append2)
qed

lemma Trim_ends:
  assumes "Trim s cs \<noteq> []"
  shows "hd (Trim s cs) \<notin> set cs" and "last (Trim s cs) \<notin> set cs"
proof -
  let ?t = "dropWhile (\<lambda>c. c \<in> set cs) s"
  from assms have ne: "TrimRight ?t cs \<noteq> []" by (simp add: Trim_def)
  then have "?t \<noteq> []"
    unfolding TrimRight_def by (metis dropWhile.simps(1) rev.simps(1))
  then have "hd ?t \<notin> set cs" using hd_dropWhile [of "\<lambda>c. c \<in> set cs" s] by simp
  with hd_TrimRight [OF ne] show "hd (Trim s cs) \<notin> set cs" by (simp add: Trim_def)
  from last_TrimRight [OF ne] show "last (Trim s cs) \<notin> set cs" by (simp add: Trim_def)
qed

lemma TrimSpace_none: "\<forall>c \<in> set s. \<not> isSpace c \<Longrightarrow> TrimSpace s = s"
proof -
  have drop: "\<forall>c \<in> set t. \<not> isSpace c \<Longrightarrow> dropWhile isSpace t = t" for t by (cases t) auto
  show "\<forall>c \<in> set s. \<not> isSpace c \<Longrightarrow> ?thesis" using drop [of s] drop [of "rev s"] by (simp add: TrimSpace_def)
qed

lemma TrimSpace_Nil_iff: "TrimSpace s = [] \<longleftrightarrow> (\<forall>c \<in> set s. isSpace c)"
proof -
  have "(\<forall>c \<in> set (dropWhile isSpace s). isSpace c) \<longleftrightarrow> (\<forall>c \<in> set s. isSpace c)"
    by (induction s) auto
  then show ?thesis by (simp add: TrimSpace_def dropWhile_eq_Nil_conv)
qed

lemma TrimSpace_Nil [simp]: "TrimSpace [] = []"
  by (simp add: TrimSpace_def)

subsection \<open>Lemmas on maps\<close>

lemma set_range_keys [simp]: "set (range_keys rank m) = fset (fmdom m)"
  by (simp add: range_keys_def)

lemma distinct_range_keys [simp]: "distinct (range_keys rank m)"
  by (simp add: range_keys_def sorted_list_of_fset.rep_eq)

lemma range_keys_lookup: "k \<in> set (range_keys rank m) \<longleftrightarrow> fmlookup m k \<noteq> None"
  by (simp add: fmdom_notI fmlookup_dom_iff)

lemma index0_Some [simp]: "fmlookup m k = Some v \<Longrightarrow> index0 z m k = v"
  by (simp add: index0_def)

lemma index0_None [simp]: "fmlookup m k = None \<Longrightarrow> index0 z m k = z"
  by (simp add: index0_def)

lemma index0_fmupd [simp]: "index0 z (fmupd k v m) j = (if k = j then v else index0 z m j)"
  by (simp add: index0_def)

text \<open>Any visiting order of a map's keys is the order of some ranking.\<close>

lemma range_keys_any_order:
  assumes "distinct ks" and "set ks = fset (fmdom m)"
  shows "\<exists>rank. range_keys rank m = ks"
proof -
  define rank where "rank k = length (takeWhile (\<lambda>j. j \<noteq> k) ks)" for k
  have rank_nth: "rank (ks ! i) = i" if "i < length ks" for i
  proof -
    from that assms(1) have "takeWhile (\<lambda>j. j \<noteq> ks ! i) ks = take i ks"
      by (intro takeWhile_eq_take_P_nth) (auto simp: nth_eq_iff_index_eq)
    with that show ?thesis by (simp add: rank_def)
  qed
  have "sorted (map rank ks)"
    by (auto simp: sorted_iff_nth_mono rank_nth)
  moreover have "inj_on rank (set ks)"
    by (auto simp: inj_on_def in_set_conv_nth rank_nth)
  moreover have "mset ks = mset (sorted_list_of_fset (fmdom m))"
    using assms by (simp add: set_eq_iff_mset_eq_distinct [symmetric] sorted_list_of_fset.rep_eq)
  ultimately have "sort_key rank (sorted_list_of_fset (fmdom m)) = ks"
    by (intro sort_key_inj_key_eq) (auto simp: assms(2))
  then show ?thesis unfolding range_keys_def by blast
qed

subsection \<open>Lemmas on lists\<close>

lemma find_SomeD: "find P xs = Some x \<Longrightarrow> x \<in> set xs \<and> P x"
  by (auto simp: find_Some_iff)

lemma find_NoneD: "find P xs = None \<Longrightarrow> x \<in> set xs \<Longrightarrow> \<not> P x"
  by (auto simp: find_None_iff)

subsection \<open>Lemmas on sorting\<close>

lemma insert_stable_key:
  fixes key :: "'a \<Rightarrow> 'b::linorder"
  assumes "\<And>x y. lt x y \<longleftrightarrow> key x < key y"
  shows "insert_stable lt x ys = insort_key key x ys"
  by (induction ys) (auto simp: assms)

lemma SliceStable_key:
  fixes key :: "'a \<Rightarrow> 'b::linorder"
  assumes "\<And>x y. lt x y \<longleftrightarrow> key x < key y"
  shows "SliceStable lt xs = sort_key key xs"
  unfolding SliceStable_def
  by (induction xs) (simp_all add: insert_stable_key [where key = key, OF assms])

text \<open>The head of a stably sorted list is the first of its least elements.\<close>

lemma hd_sort_key:
  fixes key :: "'a \<Rightarrow> 'b::linorder"
  assumes "sort_key key xs = x # zs"
  shows "\<exists>pre post. xs = pre @ x # post \<and> (\<forall>y \<in> set pre. key x < key y)
      \<and> (\<forall>y \<in> set post. key x \<le> key y)"
  using assms
proof (induction xs arbitrary: x zs)
  case Nil
  then show ?case by simp
next
  case (Cons a xs)
  show ?case
  proof (cases "sort_key key xs")
    case Nil
    then have "xs = []" by (metis length_0_conv length_sort)
    with Cons.prems show ?thesis by (intro exI [of _ "[]"]) auto
  next
    case (Cons y ys)
    have tail: "\<forall>z \<in> set xs. key y \<le> key z"
      using sorted_sort_key [of key xs] by (metis Cons list.simps(9) set_ConsD set_sort sorted_simps(2) image_eqI list.set_map order_refl)
    show ?thesis
    proof (cases "key a \<le> key y")
      case True
      with Cons Cons.prems have "x = a" by simp
      with True tail show ?thesis
        by (intro exI [of _ "[]"] exI [of _ xs]) auto
    next
      case False
      with Cons Cons.prems have "x = y" by simp
      moreover from Cons.IH [OF Cons] obtain pre post where
        "xs = pre @ y # post" "\<forall>z \<in> set pre. key y < key z" "\<forall>z \<in> set post. key y \<le> key z"
        by blast
      ultimately show ?thesis using False
        by (intro exI [of _ "a # pre"] exI [of _ post]) auto
    qed
  qed
qed

end
