(* ===== verification/Model.thy ===== *)
theory Model
  imports Go_Prelude
begin

text \<open>
  The data model of \<open>src/internal/model/model.go\<close> and the execution backend's data of
  \<open>src/internal/backend/backend.go\<close>: platforms, node capacity, nodes, job requirements,
  placements, job specifications and instances, and the effective timeout of a job; and the
  records that the GitHub client of \<open>src/internal/githubapp/client.go\<close> returns.
\<close>

section \<open>model.go\<close>

type_synonym OS = string
type_synonym Arch = string
type_synonym BackendKind = string
type_synonym Isolation = string

definition OSLinux :: OS where "OSLinux = ''linux''"
definition OSWindows :: OS where "OSWindows = ''windows''"
definition OSMacOS :: OS where "OSMacOS = ''macos''"
definition ArchAMD64 :: Arch where "ArchAMD64 = ''amd64''"
definition ArchARM64 :: Arch where "ArchARM64 = ''arm64''"
definition BackendDocker :: BackendKind where "BackendDocker = ''docker''"
definition BackendKVM :: BackendKind where "BackendKVM = ''kvm''"
definition BackendHyperV :: BackendKind where "BackendHyperV = ''hyperv''"
definition BackendNative :: BackendKind where "BackendNative = ''native''"
definition IsolationContainer :: Isolation where "IsolationContainer = ''container''"
definition IsolationVM :: Isolation where "IsolationVM = ''vm''"
definition IsolationNative :: Isolation where "IsolationNative = ''native''"

lemmas model_consts [go_simps] =
  OSLinux_def OSWindows_def OSMacOS_def ArchAMD64_def ArchARM64_def
  BackendDocker_def BackendKVM_def BackendHyperV_def BackendNative_def
  IsolationContainer_def IsolationVM_def IsolationNative_def

record Capacity =
  TotalCPU :: int
  FreeCPU :: int
  TotalMemoryM :: int
  FreeMemoryM :: int
  RunningJobs :: int

definition zero_Capacity :: Capacity where
  "zero_Capacity = \<lparr>TotalCPU = 0, FreeCPU = 0, TotalMemoryM = 0, FreeMemoryM = 0, RunningJobs = 0\<rparr>"

record Node =
  node_ID :: string
  node_Endpoint :: string
  node_OS :: OS
  node_Arch :: Arch
  node_Backends :: "BackendKind list"
  node_Capabilities :: "string list"
  node_Labels :: "string list"
  node_Capacity :: Capacity
  node_Online :: bool
  node_LastSeen :: time

record JobRequirements =
  req_Repository :: string
  req_OS :: OS
  req_Arch :: Arch
  req_Isolation :: Isolation
  req_Capabilities :: "string list"
  req_CPU :: int
  req_MemoryM :: int

record Placement =
  pl_NodeID :: string
  pl_Backend :: BackendKind

section \<open>backend.go\<close>

record CacheMount =
  cm_Name :: string
  cm_Target :: string
  cm_ReadOnly :: bool

record JobSpec =
  spec_ID :: string
  spec_Repository :: string
  spec_RunnerConfig :: string
  spec_Image :: string
  spec_Command :: "string list"
  spec_CPU :: int
  spec_MemoryM :: int
  spec_Environment :: "(string, string) fmap"
  spec_CacheMounts :: "CacheMount list"
  spec_Timeout :: duration
  spec_TimeoutSeconds :: int

definition EffectiveTimeout :: "JobSpec \<Rightarrow> duration \<Rightarrow> duration" where
  "EffectiveTimeout s fallback =
     (if spec_Timeout s > 0 then spec_Timeout s
      else if spec_TimeoutSeconds s > 0 then wrap64 (spec_TimeoutSeconds s * Second)
      else fallback)"

record Instance =
  inst_ID :: string
  inst_Backend :: BackendKind
  inst_NodeID :: string
  inst_Deadline :: time

section \<open>githubapp/client.go: results of the GitHub API\<close>

record RepositoryRef =
  rr_FullName :: string
  rr_Private :: bool

record WorkflowRun =
  run_ID :: int
  run_Event :: string
  run_Repository :: RepositoryRef
  run_HeadRepository :: "RepositoryRef option"

record JITConfig =
  jit_RunnerID :: int
  jit_EncodedConfig :: string

section \<open>A sample fleet\<close>

text \<open>The worker and the run that the repository's tests use; concrete inputs for witnesses.\<close>

definition e5_node :: Node where
  "e5_node =
     \<lparr>node_ID = ''e5'', node_Endpoint = ''https://e5:8090'', node_OS = OSLinux, node_Arch = ArchAMD64,
      node_Backends = [BackendDocker], node_Capabilities = [''container'', ''docker''],
      node_Labels = [],
      node_Capacity = \<lparr>TotalCPU = 12, FreeCPU = 12, TotalMemoryM = 32768, FreeMemoryM = 30000,
        RunningJobs = 0\<rparr>,
      node_Online = True, node_LastSeen = 1000\<rparr>"

definition pi_node :: Node where
  "pi_node = e5_node\<lparr>node_ID := ''pi'', node_Arch := ArchARM64\<rparr>"

definition trusted_push :: WorkflowRun where
  "trusted_push =
     \<lparr>run_ID = 10, run_Event = ''push'',
      run_Repository = \<lparr>rr_FullName = ''fangbm/CIFleet'', rr_Private = False\<rparr>,
      run_HeadRepository = Some \<lparr>rr_FullName = ''fangbm/CIFleet'', rr_Private = False\<rparr>\<rparr>"

definition fork_pull_run :: WorkflowRun where
  "fork_pull_run = trusted_push\<lparr>run_Event := ''pull_request'',
     run_HeadRepository := Some \<lparr>rr_FullName = ''someone/CIFleet'', rr_Private = False\<rparr>\<rparr>"

end
