(* ===== verification/Scheduler.thy ===== *)
theory Scheduler
  imports Model "HOL-Library.Product_Lexorder"
begin

text \<open>
  The capability scheduler of \<open>src/internal/scheduler/scheduler.go\<close>: eligibility of a node
  for a job, the choice of a backend for the requested isolation, and the choice of the least
  loaded candidate. The interface \<open>placement_interface\<close> is what the controller relies on; its
  interpretation on \<open>Place\<close> is at the end.
\<close>

section \<open>Definitions\<close>

definition ErrNoPlacement :: goerror where
  "ErrNoPlacement = Sentinel ''no eligible node found''"

record candidate =
  cand_placement :: Placement
  cand_freeCPU :: int
  cand_freeMemory :: int
  cand_running :: int

fun contains :: "string list \<Rightarrow> string \<Rightarrow> bool" where
  "contains [] wanted \<longleftrightarrow> False"
| "contains (v # vs) wanted \<longleftrightarrow> (if v = wanted then True else contains vs wanted)"

fun has_capabilities :: "string list \<Rightarrow> Node \<Rightarrow> bool" where
  "has_capabilities [] n \<longleftrightarrow> True"
| "has_capabilities (capability # rest) n \<longleftrightarrow>
     (if \<not> contains (node_Capabilities n) capability then False else has_capabilities rest n)"

definition eligible :: "JobRequirements \<Rightarrow> Node \<Rightarrow> bool" where
  "eligible req n \<longleftrightarrow>
     (if \<not> node_Online n \<or> req_OS req \<noteq> node_OS n \<or> req_Arch req \<noteq> node_Arch n then False
      else if req_CPU req > 0 \<and> FreeCPU (node_Capacity n) < req_CPU req then False
      else if req_MemoryM req > 0 \<and> FreeMemoryM (node_Capacity n) < req_MemoryM req then False
      else has_capabilities (req_Capabilities req) n)"

definition preferred :: "Isolation \<Rightarrow> BackendKind list" where
  "preferred isolation =
     (if isolation = IsolationContainer then [BackendDocker]
      else if isolation = IsolationVM then [BackendKVM, BackendHyperV]
      else if isolation = IsolationNative then [BackendNative]
      else [])"

fun first_offered :: "BackendKind list \<Rightarrow> BackendKind list \<Rightarrow> BackendKind option" where
  "first_offered [] backends = None"
| "first_offered (p # ps) backends =
     (if p \<in> set backends then Some p else first_offered ps backends)"

definition selectBackend :: "Isolation \<Rightarrow> BackendKind list \<Rightarrow> BackendKind option" where
  "selectBackend isolation backends = first_offered (preferred isolation) backends"

fun candidates :: "JobRequirements \<Rightarrow> Node list \<Rightarrow> candidate list" where
  "candidates req [] = []"
| "candidates req (n # nodes) =
     (if \<not> eligible req n then candidates req nodes
      else case selectBackend (req_Isolation req) (node_Backends n) of
        None \<Rightarrow> candidates req nodes
      | Some backend \<Rightarrow>
          \<lparr>cand_placement = \<lparr>pl_NodeID = node_ID n, pl_Backend = backend\<rparr>,
           cand_freeCPU = FreeCPU (node_Capacity n),
           cand_freeMemory = FreeMemoryM (node_Capacity n),
           cand_running = RunningJobs (node_Capacity n)\<rparr> # candidates req nodes)"

definition candidate_less :: "candidate \<Rightarrow> candidate \<Rightarrow> bool" where
  "candidate_less a b \<longleftrightarrow>
     (if cand_running a \<noteq> cand_running b then cand_running a < cand_running b
      else if cand_freeCPU a \<noteq> cand_freeCPU b then cand_freeCPU a > cand_freeCPU b
      else cand_freeMemory a > cand_freeMemory b)"

definition Place :: "JobRequirements \<Rightarrow> Node list \<Rightarrow> goerror + Placement" where
  "Place req nodes =
     (case SliceStable candidate_less (candidates req nodes) of
        [] \<Rightarrow> Inl ErrNoPlacement
      | c # _ \<Rightarrow> Inr (cand_placement c))"

section \<open>Specification\<close>

text \<open>
  What a placement promises, without the order in which the code checks it: a node that fits
  the job with a backend of the requested isolation, and the order of load between nodes.
\<close>

definition fits :: "JobRequirements \<Rightarrow> Node \<Rightarrow> bool" where
  "fits req n \<longleftrightarrow>
     node_Online n \<and> node_OS n = req_OS req \<and> node_Arch n = req_Arch req \<and>
     (0 < req_CPU req \<longrightarrow> req_CPU req \<le> FreeCPU (node_Capacity n)) \<and>
     (0 < req_MemoryM req \<longrightarrow> req_MemoryM req \<le> FreeMemoryM (node_Capacity n)) \<and>
     set (req_Capabilities req) \<subseteq> set (node_Capabilities n)"

definition hosts :: "JobRequirements \<Rightarrow> Node \<Rightarrow> BackendKind \<Rightarrow> bool" where
  "hosts req n b \<longleftrightarrow> fits req n \<and> selectBackend (req_Isolation req) (node_Backends n) = Some b"

definition load :: "Node \<Rightarrow> int \<times> int \<times> int" where
  "load n =
     (RunningJobs (node_Capacity n), - FreeCPU (node_Capacity n), - FreeMemoryM (node_Capacity n))"

section \<open>Lemmas\<close>

lemma contains_iff [simp]: "contains vs wanted \<longleftrightarrow> wanted \<in> set vs"
  by (induction vs) auto

lemma has_capabilities_iff [simp]:
  "has_capabilities cs n \<longleftrightarrow> set cs \<subseteq> set (node_Capabilities n)"
  by (induction cs) auto

lemma eligible_fits: "eligible req n \<longleftrightarrow> fits req n"
  by (auto simp: eligible_def fits_def)

lemma first_offered_find: "first_offered ps bs = find (\<lambda>p. p \<in> set bs) ps"
  by (induction ps) auto

lemma selectBackend_offered:
  "selectBackend isolation bs = Some b \<Longrightarrow> b \<in> set bs \<and> b \<in> set (preferred isolation)"
  by (auto simp: selectBackend_def first_offered_find find_Some_iff)

definition node_candidate :: "Node \<Rightarrow> BackendKind \<Rightarrow> candidate" where
  "node_candidate n b =
     \<lparr>cand_placement = \<lparr>pl_NodeID = node_ID n, pl_Backend = b\<rparr>,
      cand_freeCPU = FreeCPU (node_Capacity n),
      cand_freeMemory = FreeMemoryM (node_Capacity n),
      cand_running = RunningJobs (node_Capacity n)\<rparr>"

definition candidate_load :: "candidate \<Rightarrow> int \<times> int \<times> int" where
  "candidate_load c = (cand_running c, - cand_freeCPU c, - cand_freeMemory c)"

lemma candidate_load_node [simp]: "candidate_load (node_candidate n b) = load n"
  by (simp add: candidate_load_def node_candidate_def load_def)

lemma cand_placement_node [simp]:
  "cand_placement (node_candidate n b) = \<lparr>pl_NodeID = node_ID n, pl_Backend = b\<rparr>"
  by (simp add: node_candidate_def)

lemma candidate_less_load: "candidate_less a b \<longleftrightarrow> candidate_load a < candidate_load b"
  by (auto simp: candidate_less_def candidate_load_def less_prod_def' less_eq_prod_def)

lemma candidates_split:
  assumes "candidates req nodes = cpre @ c # cpost"
  shows "\<exists>pre n post b. nodes = pre @ n # post \<and> hosts req n b \<and> c = node_candidate n b
     \<and> candidates req pre = cpre \<and> candidates req post = cpost"
  using assms
proof (induction nodes arbitrary: cpre)
  case Nil
  then show ?case by simp
next
  case (Cons m nodes)
  show ?case
  proof (cases "\<exists>b. hosts req m b")
    case False
    then have "candidates req (m # nodes) = candidates req nodes"
      and skip: "candidates req (m # xs) = candidates req xs" for xs
      by (auto simp: hosts_def eligible_fits split: option.splits)
    with Cons obtain pre n post b where "nodes = pre @ n # post" "hosts req n b"
      "c = node_candidate n b" "candidates req pre = cpre" "candidates req post = cpost"
      by metis
    with skip show ?thesis by (metis append_Cons)
  next
    case True
    then obtain b where b: "hosts req m b" by blast
    then have step: "candidates req (m # xs) = node_candidate m b # candidates req xs" for xs
      by (auto simp: hosts_def eligible_fits node_candidate_def)
    show ?thesis
    proof (cases cpre)
      case Nil
      with Cons.prems step have "c = node_candidate m b" "candidates req nodes = cpost" by auto
      with b Nil show ?thesis by (metis append_Nil candidates.simps(1))
    next
      case (Cons c' cpre')
      with Cons.prems step have c': "c' = node_candidate m b"
        and "candidates req nodes = cpre' @ c # cpost" by auto
      with Cons.IH obtain pre n post b' where "nodes = pre @ n # post" "hosts req n b'"
        "c = node_candidate n b'" "candidates req pre = cpre'" "candidates req post = cpost"
        by metis
      with c' Cons step show ?thesis by (metis append_Cons)
    qed
  qed
qed

lemma candidate_in_candidates: "n \<in> set nodes \<Longrightarrow> hosts req n b \<Longrightarrow> node_candidate n b \<in> set (candidates req nodes)"
  by (induction nodes) (auto simp: hosts_def eligible_fits node_candidate_def split: option.splits)

lemma Place_sort: "Place req nodes =
     (case sort_key candidate_load (candidates req nodes) of
        [] \<Rightarrow> Inl ErrNoPlacement | c # _ \<Rightarrow> Inr (cand_placement c))"
  unfolding Place_def by (simp add: SliceStable_key [where key = candidate_load, OF candidate_less_load])

text \<open>The chosen node is the first of the least loaded nodes that can host the job.\<close>

lemma Place_first_least:
  assumes "Place req nodes = Inr p"
  shows "\<exists>pre n post b. nodes = pre @ n # post \<and> hosts req n b
     \<and> p = \<lparr>pl_NodeID = node_ID n, pl_Backend = b\<rparr>
     \<and> (\<forall>m \<in> set pre. \<forall>c. hosts req m c \<longrightarrow> load n < load m)
     \<and> (\<forall>m \<in> set post. \<forall>c. hosts req m c \<longrightarrow> load n \<le> load m)"
proof -
  from assms obtain c zs where srt: "sort_key candidate_load (candidates req nodes) = c # zs"
    and p: "p = cand_placement c"
    by (auto simp: Place_sort split: list.splits)
  from hd_sort_key [OF srt] obtain cpre cpost where
    split: "candidates req nodes = cpre @ c # cpost"
    and lt: "\<forall>d \<in> set cpre. candidate_load c < candidate_load d"
    and le: "\<forall>d \<in> set cpost. candidate_load c \<le> candidate_load d" by blast
  from candidates_split [OF split] obtain pre n post b where
    n: "nodes = pre @ n # post" "hosts req n b" "c = node_candidate n b"
    and pre: "candidates req pre = cpre" and post: "candidates req post = cpost" by blast
  have "load n < load m" if "m \<in> set pre" "hosts req m d" for m d
    using lt candidate_in_candidates [OF that] pre n(3) by fastforce
  moreover have "load n \<le> load m" if "m \<in> set post" "hosts req m d" for m d
    using le candidate_in_candidates [OF that] post n(3) by fastforce
  ultimately show ?thesis using n p
    by (intro exI [of _ pre] exI [of _ n] exI [of _ post] exI [of _ b]) auto
qed

lemma Place_error:
  assumes "Place req nodes = Inl e"
  shows "e = ErrNoPlacement \<and> (\<forall>n \<in> set nodes. \<forall>b. \<not> hosts req n b)"
proof -
  from assms have "candidates req nodes = []" and e: "e = ErrNoPlacement"
    by (auto simp: Place_sort split: list.splits) (metis length_0_conv length_sort)
  then show ?thesis using candidate_in_candidates by fastforce
qed

section \<open>The interface of the scheduler\<close>

text \<open>
  What the controller's handlers and the runner manager rely on: a placement names an offered
  node that hosts the job with the returned backend, and the only error is
  \<open>ErrNoPlacement\<close>, returned when no node can host the job.
\<close>

locale placement_interface =
  fixes place_fn :: "JobRequirements \<Rightarrow> Node list \<Rightarrow> goerror + Placement"
  assumes place_sound: "place_fn req nodes = Inr p \<Longrightarrow>
      \<exists>n \<in> set nodes. hosts req n (pl_Backend p) \<and> pl_NodeID p = node_ID n"
    and place_refuses: "place_fn req nodes = Inl e \<Longrightarrow>
      e = ErrNoPlacement \<and> (\<forall>n \<in> set nodes. \<forall>b. \<not> hosts req n b)"
begin

lemma place_succeeds_iff: "(\<exists>p. place_fn req nodes = Inr p) \<longleftrightarrow> (\<exists>n \<in> set nodes. \<exists>b. hosts req n b)"
proof (cases "place_fn req nodes")
  case (Inl e)
  with place_refuses show ?thesis by auto
next
  case (Inr p)
  with place_sound show ?thesis by blast
qed

lemma place_empty: "place_fn req [] = Inl ErrNoPlacement"
proof (cases "place_fn req []")
  case (Inl e)
  with place_refuses show ?thesis by auto
next
  case (Inr p)
  from place_sound [OF this] show ?thesis by simp
qed

text \<open>With distinct node identifiers the placement identifies the node, so its capacity is known.\<close>

lemma place_node:
  assumes "place_fn req nodes = Inr p" and "distinct (map node_ID nodes)"
    and "n \<in> set nodes" and "node_ID n = pl_NodeID p"
  shows "hosts req n (pl_Backend p)"
proof -
  from place_sound [OF assms(1)] obtain m where
    m: "m \<in> set nodes" "hosts req m (pl_Backend p)" "pl_NodeID p = node_ID m" by blast
  with assms(2-4) have "m = n" by (auto simp: distinct_map inj_on_def)
  with m(2) show ?thesis by simp
qed

lemma place_capacity:
  assumes "place_fn req nodes = Inr p" and "distinct (map node_ID nodes)"
    and "n \<in> set nodes" and "node_ID n = pl_NodeID p"
  shows "(0 < req_CPU req \<longrightarrow> req_CPU req \<le> FreeCPU (node_Capacity n))
    \<and> (0 < req_MemoryM req \<longrightarrow> req_MemoryM req \<le> FreeMemoryM (node_Capacity n))"
  using place_node [OF assms] by (simp add: hosts_def fits_def)

end

interpretation sched: placement_interface Place
proof unfold_locales
  fix req nodes p
  assume "Place req nodes = Inr p"
  from Place_first_least [OF this]
  show "\<exists>n \<in> set nodes. hosts req n (pl_Backend p) \<and> pl_NodeID p = node_ID n" by auto
next
  fix req nodes e
  assume "Place req nodes = Inl e"
  then show "e = ErrNoPlacement \<and> (\<forall>n \<in> set nodes. \<forall>b. \<not> hosts req n b)"
    by (rule Place_error)
qed

section \<open>Properties\<close>

text \<open>C12: A placement is the first, in the order of the given nodes, of the least loaded nodes that can
  host the job: online, of the requested platform, with the capabilities and the free CPUs and memory
  the job asks for, and with a backend of the requested isolation. Load is the number of running
  jobs, then the free CPUs, then the free memory.\<close>

theorem Place_chooses_least_loaded:
  assumes "Place req nodes = Inr p"
  shows "\<exists>pre n post b. nodes = pre @ n # post \<and> hosts req n b
     \<and> p = \<lparr>pl_NodeID = node_ID n, pl_Backend = b\<rparr>
     \<and> (\<forall>m \<in> set pre. \<forall>c. hosts req m c \<longrightarrow> load n < load m)
     \<and> (\<forall>m \<in> set post. \<forall>c. hosts req m c \<longrightarrow> load n \<le> load m)"
  by (rule Place_first_least [OF assms])

theorem Place_chooses_least_loaded_witness:
  "\<exists>n. n \<in> {e5_node, pi_node} \<and> hosts \<lparr>req_Repository = [], req_OS = OSLinux, req_Arch = ArchARM64,
     req_Isolation = IsolationContainer, req_Capabilities = [], req_CPU = 2, req_MemoryM = 512\<rparr> n BackendDocker
     \<and> node_ID n = ''pi''"
proof -
  let ?req = "\<lparr>req_Repository = [], req_OS = OSLinux, req_Arch = ArchARM64,
     req_Isolation = IsolationContainer, req_Capabilities = [], req_CPU = 2, req_MemoryM = 512\<rparr>"
  have "Place ?req [e5_node, pi_node] = Inr \<lparr>pl_NodeID = ''pi'', pl_Backend = BackendDocker\<rparr>"
    by code_simp
  from Place_chooses_least_loaded [OF this] obtain pre n post b where
    n: "[e5_node, pi_node] = pre @ n # post" "hosts ?req n b" "node_ID n = ''pi''" "b = BackendDocker"
    by auto
  then have "n \<in> set [e5_node, pi_node]" by (metis in_set_conv_decomp)
  with n(2-4) show ?thesis by (intro exI [of _ n]) simp
qed

text \<open>C13: The scheduler refuses a job exactly when no given node can host it, and then the error is
  \<open>ErrNoPlacement\<close>.\<close>

theorem Place_refuses_iff:
  "Place req nodes = Inl err \<longleftrightarrow>
     err = ErrNoPlacement \<and> \<not> (\<exists>n \<in> set nodes. \<exists>b. hosts req n b)"
proof (cases "Place req nodes")
  case (Inl e)
  with sched.place_refuses [OF Inl] show ?thesis by auto
next
  case (Inr p)
  with sched.place_succeeds_iff [of req nodes] show ?thesis by auto
qed

end
