(* ===== verification/Go_JSON.thy ===== *)
theory Go_JSON
  imports Go_Prelude Go_Crypto
begin

text \<open>
  The package \<open>encoding/json\<close> as far as the sources use it: the text that \<open>json.Marshal\<close> writes for a value,
  the value that \<open>json.Unmarshal\<close> and \<open>json.Decoder\<close> read from a text, and decoding into the fields of a struct.
  Texts are lists of bytes in valid UTF-8. The fuel of the parser is twice the length of the text, which is shown to be enough;
  what a value prints is what it is read from.
\<close>

section \<open>Values\<close>

text \<open>A number keeps its literal, and an object its members in order, duplicates included.\<close>

datatype json =
    JNull
  | JBool bool
  | JNum string
  | JStr string
  | JArr "json list"
  | JObj "(string \<times> json) list"

section \<open>Strings\<close>

definition dquote :: char where "dquote = CHR 0x22"
definition bslash :: char where "bslash = CHR 0x5C"

text \<open>\<open>utf8.EncodeRune\<close>.\<close>

definition EncodeRune :: "nat \<Rightarrow> string" where
  "EncodeRune r =
     (if r < 128 then [char_of r]
      else if r < 2048 then [char_of (192 + r div 64), char_of (128 + r mod 64)]
      else if r < 65536 then [char_of (224 + r div 4096), char_of (128 + r div 64 mod 64), char_of (128 + r mod 64)]
      else [char_of (240 + r div 262144), char_of (128 + r div 4096 mod 64), char_of (128 + r div 64 mod 64),
            char_of (128 + r mod 64)])"

text \<open>\<open>getu4\<close>: the number of an escape \<open>\uXXXX\<close> at the front.\<close>

definition getu4 :: "string \<Rightarrow> nat option" where
  "getu4 s =
     (case s of
        b # u # h1 # h2 # h3 # h4 # _ \<Rightarrow>
          if b = bslash \<and> u = CHR ''u'' then
            (case (hex_value h1, hex_value h2, hex_value h3, hex_value h4) of
               (Some x1, Some x2, Some x3, Some x4) \<Rightarrow> Some (4096 * x1 + 256 * x2 + 16 * x3 + x4)
             | _ \<Rightarrow> None)
          else None
      | _ \<Rightarrow> None)"

definition surrogate :: "nat \<Rightarrow> bool" where
  "surrogate r \<longleftrightarrow> 55296 \<le> r \<and> r < 57344"

text \<open>\<open>utf16.DecodeRune\<close>, with \<open>None\<close> for the replacement character.\<close>

definition DecodePair :: "nat \<Rightarrow> nat option \<Rightarrow> nat option" where
  "DecodePair r1 o2 =
     (case o2 of
        Some r2 \<Rightarrow>
          if 55296 \<le> r1 \<and> r1 < 56320 \<and> 56320 \<le> r2 \<and> r2 < 57344
          then Some ((r1 - 55296) * 1024 + (r2 - 56320) + 65536) else None
      | None \<Rightarrow> None)"

definition escape_char :: "char \<Rightarrow> char option" where
  "escape_char c =
     (if c = dquote \<or> c = bslash \<or> c = CHR ''/'' then Some c
      else if c = CHR ''b'' then Some (CHR 0x08)
      else if c = CHR ''f'' then Some (CHR 0x0C)
      else if c = CHR ''n'' then Some (CHR 0x0A)
      else if c = CHR ''r'' then Some (CHR 0x0D)
      else if c = CHR ''t'' then Some (CHR 0x09)
      else None)"

definition prepend :: "string \<Rightarrow> (string \<times> string) option \<Rightarrow> (string \<times> string) option" where
  "prepend p r = map_option (\<lambda>(s, rest). (p @ s, rest)) r"

text \<open>The rest of a string literal after its opening quote: its value, and what follows the closing quote.\<close>

function (sequential) str_body :: "string \<Rightarrow> (string \<times> string) option" where
  "str_body [] = None"
| "str_body (c # s) =
     (if c = dquote then Some ([], s)
      else if c = bslash then
        (case getu4 (c # s) of
           Some r \<Rightarrow>
             if surrogate r then
               (case DecodePair r (getu4 (drop 5 s)) of
                  Some dec \<Rightarrow> prepend (EncodeRune dec) (str_body (drop 11 s))
                | None \<Rightarrow> prepend (EncodeRune 65533) (str_body (drop 5 s)))
             else prepend (EncodeRune r) (str_body (drop 5 s))
         | None \<Rightarrow>
             (case s of
                e # t \<Rightarrow> (case escape_char e of Some x \<Rightarrow> prepend [x] (str_body t) | None \<Rightarrow> None)
              | [] \<Rightarrow> None))
      else if (of_char c :: nat) < 32 then None
      else prepend [c] (str_body s))"
  by pat_completeness auto
termination
  by (relation "measure length") auto

text \<open>The text of a string: \<open>appendString\<close> with the escaping of HTML, which \<open>Marshal\<close> does.\<close>

definition u4 :: "nat \<Rightarrow> string" where
  "u4 n = [bslash, CHR ''u'', hex_digit (n div 4096), hex_digit (n div 256 mod 16), hex_digit (n div 16 mod 16),
     hex_digit (n mod 16)]"

definition quote1 :: "char \<Rightarrow> string" where
  "quote1 c =
     (let n = of_char c :: nat in
      if c = dquote \<or> c = bslash then [bslash, c]
      else if n = 8 then [bslash, CHR ''b'']
      else if n = 12 then [bslash, CHR ''f'']
      else if n = 10 then [bslash, CHR ''n'']
      else if n = 13 then [bslash, CHR ''r'']
      else if n = 9 then [bslash, CHR ''t'']
      else if n < 32 \<or> c \<in> set ''<>&'' then u4 n
      else [c])"

text \<open>The line separators U+2028 and U+2029 are escaped too.\<close>

definition line_sep :: "string \<Rightarrow> nat option" where
  "line_sep s =
     (if take 3 s = [CHR 0xE2, CHR 0x80, CHR 0xA8] then Some 8232
      else if take 3 s = [CHR 0xE2, CHR 0x80, CHR 0xA9] then Some 8233
      else None)"

function (sequential) quote_body :: "string \<Rightarrow> string" where
  "quote_body [] = []"
| "quote_body (c # s) =
     (case line_sep (c # s) of
        Some n \<Rightarrow> u4 n @ quote_body (drop 2 s)
      | None \<Rightarrow> quote1 c @ quote_body s)"
  by pat_completeness auto
termination
  by (relation "measure length") auto

declare str_body.simps [simp del] quote_body.simps [simp del]

definition quoteJSON :: "string \<Rightarrow> string" where
  "quoteJSON s = [dquote] @ quote_body s @ [dquote]"

section \<open>Numbers\<close>

definition is_digit :: "char \<Rightarrow> bool" where
  "is_digit c \<longleftrightarrow> digit_value c \<noteq> None"

text \<open>The optional fraction and exponent, and a literal with what follows it.\<close>

definition num_frac :: "string \<Rightarrow> (string \<times> string) option" where
  "num_frac s =
     (case s of
        c # t \<Rightarrow>
          if c = CHR ''.'' then
            (if takeWhile is_digit t = [] then None else Some (c # takeWhile is_digit t, dropWhile is_digit t))
          else Some ([], s)
      | [] \<Rightarrow> Some ([], []))"

definition num_exp :: "string \<Rightarrow> (string \<times> string) option" where
  "num_exp s =
     (case s of
        c # t \<Rightarrow>
          if c = CHR ''e'' \<or> c = CHR ''E'' then
            (let sign = takeWhile (\<lambda>x. x = CHR ''+'' \<or> x = CHR ''-'') (take 1 t); u = drop (length sign) t in
             if takeWhile is_digit u = [] then None
             else Some (c # sign @ takeWhile is_digit u, dropWhile is_digit u))
          else Some ([], s)
      | [] \<Rightarrow> Some ([], []))"

definition num_int :: "string \<Rightarrow> (string \<times> string) option" where
  "num_int s =
     (let sign = takeWhile (\<lambda>x. x = CHR ''-'') (take 1 s); t = drop (length sign) s in
      case t of
        c # u \<Rightarrow>
          if c = CHR ''0'' then Some (sign @ [c], u)
          else if is_digit c then Some (sign @ takeWhile is_digit t, dropWhile is_digit t)
          else None
      | [] \<Rightarrow> None)"

definition num_lit :: "string \<Rightarrow> (string \<times> string) option" where
  "num_lit s =
     (case num_int s of
        None \<Rightarrow> None
      | Some (i, t) \<Rightarrow>
      case num_frac t of
        None \<Rightarrow> None
      | Some (f, u) \<Rightarrow>
      case num_exp u of
        None \<Rightarrow> None
      | Some (e, r) \<Rightarrow> Some (i @ f @ e, r))"

section \<open>Values: reading\<close>

definition json_space :: "char \<Rightarrow> bool" where
  "json_space c \<longleftrightarrow> (of_char c :: nat) \<in> {9, 10, 13, 32}"

definition skip :: "string \<Rightarrow> string" where
  "skip s = dropWhile json_space s"

definition literal :: "string \<Rightarrow> json \<Rightarrow> string \<Rightarrow> (json \<times> string) option" where
  "literal word v s = (if HasPrefix s word then Some (v, drop (length word) s) else None)"

definition scalar :: "string \<Rightarrow> (json \<times> string) option" where
  "scalar s =
     (case s of
        [] \<Rightarrow> None
      | c # t \<Rightarrow>
          if c = dquote then map_option (\<lambda>(x, r). (JStr x, r)) (str_body t)
          else if c = CHR ''t'' then literal ''true'' (JBool True) s
          else if c = CHR ''f'' then literal ''false'' (JBool False) s
          else if c = CHR ''n'' then literal ''null'' JNull s
          else map_option (\<lambda>(x, r). (JNum x, r)) (num_lit s))"

fun read_value :: "nat \<Rightarrow> string \<Rightarrow> (json \<times> string) option"
  and read_elems :: "nat \<Rightarrow> string \<Rightarrow> (json list \<times> string) option"
  and read_members :: "nat \<Rightarrow> string \<Rightarrow> ((string \<times> json) list \<times> string) option"
where
  "read_value 0 s = None"
| "read_value (Suc n) s =
     (case skip s of
        [] \<Rightarrow> None
      | c # t \<Rightarrow>
          if c = CHR ''['' then
            (if HasPrefix (skip t) '']'' then Some (JArr [], tl (skip t))
             else map_option (\<lambda>(xs, r). (JArr xs, r)) (read_elems n t))
          else if c = CHR 0x7B then
            (if HasPrefix (skip t) [CHR 0x7D] then Some (JObj [], tl (skip t))
             else map_option (\<lambda>(xs, r). (JObj xs, r)) (read_members n t))
          else scalar (c # t))"
| "read_elems 0 s = None"
| "read_elems (Suc n) s =
     (case read_value n s of
        None \<Rightarrow> None
      | Some (v, r) \<Rightarrow>
          (case skip r of
             [] \<Rightarrow> None
           | c # t \<Rightarrow>
               if c = CHR '']'' then Some ([v], t)
               else if c = CHR '','' then map_option (\<lambda>(xs, u). (v # xs, u)) (read_elems n t)
               else None))"
| "read_members 0 s = None"
| "read_members (Suc n) s =
     (case skip s of
        [] \<Rightarrow> None
      | q # t \<Rightarrow>
          if q \<noteq> dquote then None
          else case str_body t of
            None \<Rightarrow> None
          | Some (k, r) \<Rightarrow>
          case skip r of
            [] \<Rightarrow> None
          | c # u \<Rightarrow>
          if c \<noteq> CHR '':'' then None
          else case read_value n u of
            None \<Rightarrow> None
          | Some (v, r') \<Rightarrow>
          case skip r' of
            [] \<Rightarrow> None
          | d # w \<Rightarrow>
              if d = CHR 0x7D then Some ([(k, v)], w)
              else if d = CHR '','' then map_option (\<lambda>(xs, z). ((k, v) # xs, z)) (read_members n w)
              else None)"

text \<open>The decoder gives up on values nested more deeply than this.\<close>

definition maxNestingDepth :: int where
  "maxNestingDepth = 10000"

primrec nesting :: "json \<Rightarrow> nat" where
  "nesting JNull = 0"
| "nesting (JBool b) = 0"
| "nesting (JNum l) = 0"
| "nesting (JStr s) = 0"
| "nesting (JArr xs) = Suc (fold max (map nesting xs) 0)"
| "nesting (JObj ms) = Suc (fold max (map snd (map (map_prod id nesting) ms)) 0)"

text \<open>The first value of a text, as a \<open>Decoder\<close> reads it, and a text that is one value.\<close>

definition decode_first :: "string \<Rightarrow> (json \<times> string) option" where
  "decode_first s =
     (case read_value (Suc (2 * length s)) s of
        Some (v, r) \<Rightarrow> if int (nesting v) \<le> maxNestingDepth then Some (v, r) else None
      | None \<Rightarrow> None)"

definition parse_json :: "string \<Rightarrow> json option" where
  "parse_json s = (case decode_first s of Some (v, r) \<Rightarrow> if skip r = [] then Some v else None | None \<Rightarrow> None)"

section \<open>Values: writing\<close>

fun intersperse :: "char \<Rightarrow> string list \<Rightarrow> string" where
  "intersperse c [] = []"
| "intersperse c [s] = s"
| "intersperse c (s # t # ss) = s @ c # intersperse c (t # ss)"

primrec write_json :: "json \<Rightarrow> string" where
  "write_json JNull = ''null''"
| "write_json (JBool b) = (if b then ''true'' else ''false'')"
| "write_json (JNum l) = l"
| "write_json (JStr s) = quoteJSON s"
| "write_json (JArr xs) = ''['' @ intersperse CHR '','' (map write_json xs) @ '']''"
| "write_json (JObj ms) =
     [CHR 0x7B] @ intersperse CHR '','' (map (\<lambda>(k, t). quoteJSON k @ '':'' @ t) (map (map_prod id write_json) ms)) @ [CHR 0x7D]"

text \<open>\<open>json.MarshalIndent(v, "", "  ")\<close>, at a depth: a new line for every element and member, and a space after a colon.\<close>

definition newline :: "nat \<Rightarrow> string" where
  "newline depth = CHR 0x0A # replicate (2 * depth) (CHR '' '')"

primrec indent_json :: "json \<Rightarrow> nat \<Rightarrow> string" where
  "indent_json JNull = (\<lambda>d. ''null'')"
| "indent_json (JBool b) = (\<lambda>d. if b then ''true'' else ''false'')"
| "indent_json (JNum l) = (\<lambda>d. l)"
| "indent_json (JStr s) = (\<lambda>d. quoteJSON s)"
| "indent_json (JArr xs) = (\<lambda>d.
     if xs = [] then ''[]''
     else ''['' @ intersperse CHR '','' (map (\<lambda>f. newline (Suc d) @ f (Suc d)) (map indent_json xs)) @ newline d @ '']'')"
| "indent_json (JObj ms) = (\<lambda>d.
     if ms = [] then [CHR 0x7B, CHR 0x7D]
     else [CHR 0x7B] @
       intersperse CHR '','' (map (\<lambda>(k, f). newline (Suc d) @ quoteJSON k @ '': '' @ f (Suc d)) (map (map_prod id indent_json) ms)) @
       newline d @ [CHR 0x7D])"

section \<open>Strings are read as written\<close>

lemma getu4_other: "c \<noteq> CHR ''u'' \<Longrightarrow> getu4 (b # c # t) = None"
  by (auto simp: getu4_def split: list.splits)

lemma hex4_sum: "n < 65536 \<Longrightarrow> 4096 * (n div 4096) + 256 * (n div 256 mod 16) + 16 * (n div 16 mod 16) + n mod 16 = (n :: nat)"
proof -
  have "n = 16 * (n div 16) + n mod 16" "n div 16 = 16 * (n div 256) + n div 16 mod 16"
    "n div 256 = 16 * (n div 4096) + n div 256 mod 16"
    using div_mult2_eq [of n 16 16] div_mult2_eq [of n 256 16] by simp_all
  then show ?thesis by linarith
qed

lemma getu4_u4: "n < 65536 \<Longrightarrow> getu4 (u4 n @ t) = Some n"
proof -
  assume n: "n < 65536"
  then have "n div 4096 < 16" by linarith
  with hex4_sum [OF n] show ?thesis by (simp add: getu4_def u4_def)
qed

lemma drop_u4: "drop 6 (u4 n @ t) = t" "u4 n @ t = bslash # tl (u4 n @ t)"
  by (simp_all add: u4_def)

lemma str_body_u4:
  assumes "n < 65536" "\<not> surrogate n"
  shows "str_body (u4 n @ t) = prepend (EncodeRune n) (str_body t)"
proof -
  have "bslash \<noteq> dquote" by (simp add: bslash_def dquote_def)
  moreover have "getu4 (bslash # tl (u4 n @ t)) = Some n" using getu4_u4 [OF assms(1)] drop_u4(2) by metis
  moreover have "drop 5 (tl (u4 n @ t)) = t" by (simp add: u4_def)
  ultimately have "str_body (bslash # tl (u4 n @ t)) = prepend (EncodeRune n) (str_body t)"
    using assms(2) by (simp add: str_body.simps(2))
  then show ?thesis using drop_u4(2) by metis
qed

lemma str_body_escape: "escape_char e = Some x \<Longrightarrow> str_body (bslash # e # t) = prepend [x] (str_body t)"
proof -
  assume e: "escape_char e = Some x"
  then have "e \<noteq> CHR ''u''" by (auto simp: escape_char_def dquote_def bslash_def)
  with e show ?thesis by (simp add: str_body.simps(2) getu4_other bslash_def dquote_def)
qed

lemma str_body_plain:
  "c \<noteq> dquote \<Longrightarrow> c \<noteq> bslash \<Longrightarrow> 32 \<le> (of_char c :: nat) \<Longrightarrow> str_body (c # t) = prepend [c] (str_body t)"
  by (simp add: str_body.simps(2))

lemma short_escape:
  assumes "(of_char c :: nat) \<in> {8, 9, 10, 12, 13}"
  obtains e where "quote1 c = [bslash, e]" "escape_char e = Some c"
proof -
  have "list_all (\<lambda>(x, e). quote1 x = [bslash, e] \<and> escape_char e = Some x)
      [(CHR 0x08, CHR ''b''), (CHR 0x09, CHR ''t''), (CHR 0x0A, CHR ''n''), (CHR 0x0C, CHR ''f''), (CHR 0x0D, CHR ''r'')]"
    by (simp add: quote1_def escape_char_def dquote_def bslash_def)
  moreover have "c \<in> {CHR 0x08, CHR 0x09, CHR 0x0A, CHR 0x0C, CHR 0x0D}"
  proof -
    have "char_of (of_char c :: nat) = c" by simp
    then show ?thesis using assms by (auto simp: char_of_def bit_0)
  qed
  ultimately show thesis using that by auto
qed

lemma str_body_quote1: "str_body (quote1 c @ t) = prepend [c] (str_body t)"
proof -
  let ?n = "of_char c :: nat"
  consider (quote) "c = dquote \<or> c = bslash" | (short) "?n \<in> {8, 9, 10, 12, 13}" "c \<noteq> dquote" "c \<noteq> bslash"
    | (unicode) "?n < 32 \<or> c \<in> set ''<>&''" "?n \<notin> {8, 9, 10, 12, 13}" "c \<noteq> dquote" "c \<noteq> bslash"
    | (plain) "32 \<le> ?n" "c \<notin> set ''<>&''" "c \<noteq> dquote" "c \<noteq> bslash"
    by fastforce
  then show ?thesis
  proof cases
    case quote
    then show ?thesis by (auto simp: quote1_def escape_char_def intro!: str_body_escape)
  next
    case short
    obtain e where "quote1 c = [bslash, e]" "escape_char e = Some c" by (rule short_escape [OF short(1)])
    then show ?thesis by (auto simp: str_body_escape)
  next
    case unicode
    then have "?n < 128" by auto
    then have "\<not> surrogate ?n" "EncodeRune ?n = [c]" by (simp_all add: surrogate_def EncodeRune_def)
    moreover have "quote1 c = u4 ?n" using unicode by (simp add: quote1_def Let_def)
    ultimately show ?thesis using str_body_u4 [of ?n t] \<open>?n < 128\<close> by simp
  next
    case plain
    then show ?thesis by (simp add: quote1_def Let_def str_body_plain)
  qed
qed

lemma line_sep_runes:
  "EncodeRune 8232 = [CHR 0xE2, CHR 0x80, CHR 0xA8]" "EncodeRune 8233 = [CHR 0xE2, CHR 0x80, CHR 0xA9]"
  by (simp_all add: EncodeRune_def char_of_def bit_0)

lemma line_sep_Some:
  "line_sep s = Some n \<Longrightarrow> n < 65536 \<and> \<not> surrogate n \<and> EncodeRune n = take 3 s \<and> 3 \<le> length s"
  by (auto simp: line_sep_def surrogate_def line_sep_runes split: if_splits dest: arg_cong [of _ _ length])

lemma str_body_quote: "str_body (quote_body s @ dquote # r) = Some (s, r)"
proof (induction s rule: quote_body.induct)
  case 1
  then show ?case by (simp add: quote_body.simps str_body.simps prepend_def)
next
  case (2 c s)
  show ?case
  proof (cases "line_sep (c # s)")
    case None
    with 2 show ?thesis by (simp add: quote_body.simps str_body_quote1 prepend_def)
  next
    case (Some n)
    note l = line_sep_Some [OF Some]
    have "take 3 (c # s) @ drop 2 s = c # s" using append_take_drop_id [of 3 "c # s"] by (simp add: numeral_3_eq_3 numeral_2_eq_2)
    with 2 Some l show ?thesis by (simp add: quote_body.simps str_body_u4 prepend_def)
  qed
qed

section \<open>Values are read as written\<close>

text \<open>What may follow a value inside an array or an object, and nothing.\<close>

definition delimiter :: "string \<Rightarrow> bool" where
  "delimiter r \<longleftrightarrow> (case r of [] \<Rightarrow> True | c # _ \<Rightarrow> c \<in> {CHR '','', CHR '']'', CHR 0x7D} \<or> json_space c)"

lemma is_digit_digit: "d < 10 \<Longrightarrow> is_digit (digit d)"
  by (simp add: is_digit_def)

lemma delimiter_digit: "delimiter (c # r) \<Longrightarrow> \<not> is_digit c \<and> c \<noteq> CHR ''.'' \<and> c \<noteq> CHR ''e'' \<and> c \<noteq> CHR ''E''"
  by (auto simp: delimiter_def json_space_def is_digit_def digit_value_def)

lemma takeWhile_digits:
  "\<forall>c \<in> set s. is_digit c \<Longrightarrow> delimiter r \<Longrightarrow> takeWhile is_digit (s @ r) = s \<and> dropWhile is_digit (s @ r) = r"
  using delimiter_digit by (cases r) (auto simp: takeWhile_append2 dropWhile_append2 takeWhile_append dropWhile_append)

lemma nat_dec_is_digit: "c \<in> set (nat_dec n) \<Longrightarrow> is_digit c"
  using nat_dec_digits [of n] is_digit_digit by metis

lemma nat_dec_first: "0 < n \<Longrightarrow> hd (nat_dec n) \<noteq> CHR ''0''"
proof (induction n rule: nat_dec.induct)
  case (1 n)
  show ?case
  proof (cases "n < 10")
    case True
    then have "(of_char (digit n) :: nat) = 48 + n" by (simp add: digit_def)
    moreover have "(of_char (CHR ''0'') :: nat) = 48" by simp
    ultimately have "digit n \<noteq> CHR ''0''" using 1 by (metis add_cancel_right_right less_numeral_extra(3))
    with True show ?thesis by (simp add: nat_dec.simps [of n])
  next
    case False
    with 1 show ?thesis by (simp add: nat_dec.simps [of n])
  qed
qed

lemma num_int_nat:
  assumes "delimiter r"
  shows "num_int (nat_dec n @ r) = Some (nat_dec n, r)" and "num_int (CHR ''-'' # nat_dec n @ r) = Some (CHR ''-'' # nat_dec n, r)"
proof -
  have dig: "\<forall>c \<in> set (nat_dec n). is_digit c" by (simp add: nat_dec_is_digit)
  obtain c u where cu: "nat_dec n = c # u" by (cases "nat_dec n") auto
  have "c \<noteq> CHR ''-''" using minus_notin_nat_dec [of n] cu by auto
  moreover have "c = CHR ''0'' \<Longrightarrow> u = []"
    using nat_dec_first [of n] cu by (cases "n = 0") (auto simp: nat_dec.simps [of 0])
  moreover have "takeWhile is_digit (c # u @ r) = c # u \<and> dropWhile is_digit (c # u @ r) = r"
    using takeWhile_digits [OF dig assms] cu by simp
  ultimately show "num_int (nat_dec n @ r) = Some (nat_dec n, r)"
    and "num_int (CHR ''-'' # nat_dec n @ r) = Some (CHR ''-'' # nat_dec n, r)"
    using cu dig by (auto simp: num_int_def Let_def)
qed

lemma num_lit_FormatInt: "delimiter r \<Longrightarrow> num_lit (FormatInt n @ r) = Some (FormatInt n, r)"
proof -
  assume r: "delimiter r"
  then have "num_frac r = Some ([], r)" "num_exp r = Some ([], r)"
    using delimiter_digit by (cases r; auto simp: num_frac_def num_exp_def)+
  with num_int_nat [OF r] show ?thesis by (simp add: num_lit_def FormatInt_def)
qed

text \<open>A literal is read up to its end, whatever delimiter follows.\<close>

lemma digits_append:
  assumes "dropWhile is_digit u = [] \<Longrightarrow> delimiter r"
  shows "takeWhile is_digit (u @ r) = takeWhile is_digit u \<and> dropWhile is_digit (u @ r) = dropWhile is_digit u @ r"
proof (cases "dropWhile is_digit u")
  case Nil
  then have "\<forall>c \<in> set u. is_digit c" by (simp add: dropWhile_eq_Nil_conv)
  then have "takeWhile is_digit u = u" "takeWhile is_digit (u @ r) = u \<and> dropWhile is_digit (u @ r) = r"
    using takeWhile_digits [OF _ assms [OF Nil], of u] by (simp_all only: takeWhile_eq_all_conv)
  then show ?thesis using Nil by (simp only: append_Nil) 
next
  case (Cons c v)
  then obtain x where "x \<in> set u" "\<not> is_digit x" by (metis dropWhile_eq_Nil_conv list.distinct(1))
  then show ?thesis by (simp add: takeWhile_append1 dropWhile_append1)
qed

lemma num_int_append:
  assumes "num_int s = Some (i, t)" "t = [] \<Longrightarrow> delimiter r"
  shows "num_int (s @ r) = Some (i, t @ r)"
proof -
  define sign where "sign = takeWhile (\<lambda>x. x = CHR ''-'') (take 1 s)"
  have "s \<noteq> []" using assms(1) by (auto simp: num_int_def)
  then have sign: "takeWhile (\<lambda>x. x = CHR ''-'') (take 1 (s @ r)) = sign" by (cases s) (simp_all add: sign_def)
  from assms(1) obtain c u where cu: "drop (length sign) s = c # u" by (auto simp: num_int_def sign_def Let_def split: list.splits)
  then have rest: "drop (length sign) (s @ r) = c # u @ r"
    by (metis append_Cons drop_append drop_eq_Nil2 append_Nil list.distinct(1) diff_is_0_eq drop_0 nat_le_linear)
  show ?thesis
  proof (cases "c = CHR ''0''")
    case True
    with assms(1) cu rest sign show ?thesis by (simp add: num_int_def Let_def sign_def)
  next
    case False
    with assms(1) cu have "is_digit c" "i = sign @ takeWhile is_digit (c # u)" "t = dropWhile is_digit (c # u)"
      by (auto simp: num_int_def Let_def sign_def split: if_splits)
    with False rest sign digits_append [of "c # u" r] assms(2) show ?thesis by (simp add: num_int_def Let_def)
  qed
qed

lemma num_frac_append:
  assumes "num_frac s = Some (f, t)" "t = [] \<Longrightarrow> delimiter r"
  shows "num_frac (s @ r) = Some (f, t @ r)"
proof (cases s)
  case Nil
  with assms delimiter_digit show ?thesis by (cases r) (auto simp: num_frac_def)
next
  case (Cons c u)
  with assms digits_append [of u r] show ?thesis by (auto simp: num_frac_def split: if_splits)
qed

lemma num_exp_append:
  assumes "num_exp s = Some (f, t)" "t = [] \<Longrightarrow> delimiter r"
  shows "num_exp (s @ r) = Some (f, t @ r)"
proof (cases s)
  case Nil
  with assms delimiter_digit show ?thesis by (cases r) (auto simp: num_exp_def)
next
  case (Cons c v)
  show ?thesis
  proof (cases "c = CHR ''e'' \<or> c = CHR ''E''")
    case True
    define sign where "sign = takeWhile (\<lambda>x. x = CHR ''+'' \<or> x = CHR ''-'') (take 1 v)"
    have "v \<noteq> []" using assms(1) Cons True by (auto simp: num_exp_def)
    then have s: "takeWhile (\<lambda>x. x = CHR ''+'' \<or> x = CHR ''-'') (take 1 (v @ r)) = sign" by (cases v) (simp_all add: sign_def)
    have "length sign \<le> length v" unfolding sign_def by (cases v) simp_all
    then have d: "drop (length sign) (v @ r) = drop (length sign) v @ r" by simp
    from assms(1) Cons True have "f = c # sign @ takeWhile is_digit (drop (length sign) v)" "t = dropWhile is_digit (drop (length sign) v)"
      "takeWhile is_digit (drop (length sign) v) \<noteq> []"
      by (auto simp: num_exp_def Let_def sign_def split: if_splits)
    with Cons True s d digits_append [of "drop (length sign) v" r] assms(2) show ?thesis by (auto simp: num_exp_def Let_def)
  qed (use assms Cons in \<open>auto simp: num_exp_def\<close>)
qed

lemma num_lit_append:
  assumes "num_lit l = Some (l, [])" "delimiter r"
  shows "num_lit (l @ r) = Some (l, r)"
proof -
  from assms(1) obtain i t f u e where "num_int l = Some (i, t)" "num_frac t = Some (f, u)" "num_exp u = Some (e, [])" "l = i @ f @ e"
    by (auto simp: num_lit_def split: option.splits)
  with num_int_append [of l i t r] num_frac_append [of t f u r] num_exp_append [of u e "[]" r] assms(2) show ?thesis
    by (simp add: num_lit_def)
qed

lemma num_lit_first: "num_lit l = Some (l, []) \<Longrightarrow> \<exists>c t. l = c # t \<and> (c = CHR ''-'' \<or> is_digit c)"
  by (cases l) (auto simp: num_lit_def num_int_def is_digit_def digit_value_def Let_def split: option.splits if_splits list.splits)

lemma num_lit_int [simp]: "num_lit (FormatInt n) = Some (FormatInt n, [])"
  using num_lit_FormatInt [of "[]" n] by (simp add: delimiter_def)

text \<open>The values whose numbers are literals, as all that are read and all that the sources write.\<close>

primrec written :: "json \<Rightarrow> bool" where
  "written JNull = True"
| "written (JBool b) = True"
| "written (JNum l) = (num_lit l = Some (l, []))"
| "written (JStr s) = True"
| "written (JArr xs) = list_all (\<lambda>b. b) (map written xs)"
| "written (JObj ms) = list_all (\<lambda>b. b) (map snd (map (map_prod id written) ms))"

definition starts_value :: "char \<Rightarrow> bool" where
  "starts_value c \<longleftrightarrow> c \<in> {dquote, CHR ''t'', CHR ''f'', CHR ''n'', CHR ''['', CHR 0x7B, CHR ''-''} \<or> is_digit c"

lemma starts_value_plain: "starts_value c \<Longrightarrow> \<not> json_space c \<and> c \<noteq> CHR '']'' \<and> c \<noteq> CHR 0x7D"
  by (auto simp: starts_value_def json_space_def is_digit_def digit_value_def dquote_def split: if_splits)

subsection \<open>Renderings\<close>

text \<open>
  The texts of a value with any white space between its tokens: what \<open>Marshal\<close> and \<open>MarshalIndent\<close> write, and what other
  programs send. The texts of elements and members go on to the closing bracket.
\<close>

abbreviation blank :: "string \<Rightarrow> bool" where
  "blank w \<equiv> \<forall>c \<in> set w. json_space c"

inductive renders :: "json \<Rightarrow> string \<Rightarrow> bool"
  and renders_elems :: "json list \<Rightarrow> string \<Rightarrow> bool"
  and renders_members :: "(string \<times> json) list \<Rightarrow> string \<Rightarrow> bool"
where
  rnull: "renders JNull ''null''"
| rtrue: "renders (JBool True) ''true''"
| rfalse: "renders (JBool False) ''false''"
| rnum: "num_lit l = Some (l, []) \<Longrightarrow> renders (JNum l) l"
| rstr: "renders (JStr s) (quoteJSON s)"
| rarr0: "blank w \<Longrightarrow> renders (JArr []) (''['' @ w @ '']'')"
| rarr: "renders_elems xs t \<Longrightarrow> renders (JArr xs) (''['' @ t)"
| robj0: "blank w \<Longrightarrow> renders (JObj []) ([CHR 0x7B] @ w @ [CHR 0x7D])"
| robj: "renders_members ms t \<Longrightarrow> renders (JObj ms) ([CHR 0x7B] @ t)"
| relem: "blank w \<Longrightarrow> blank w' \<Longrightarrow> renders x s \<Longrightarrow> renders_elems [x] (w @ s @ w' @ '']'')"
| relems: "blank w \<Longrightarrow> blank w' \<Longrightarrow> renders x s \<Longrightarrow> renders_elems xs t \<Longrightarrow> renders_elems (x # xs) (w @ s @ w' @ '','' @ t)"
| rmember: "blank w \<Longrightarrow> blank w1 \<Longrightarrow> blank w2 \<Longrightarrow> blank w3 \<Longrightarrow> renders v s \<Longrightarrow>
    renders_members [(k, v)] (w @ quoteJSON k @ w1 @ '':'' @ w2 @ s @ w3 @ [CHR 0x7D])"
| rmembers: "blank w \<Longrightarrow> blank w1 \<Longrightarrow> blank w2 \<Longrightarrow> blank w3 \<Longrightarrow> renders v s \<Longrightarrow> renders_members ms t \<Longrightarrow>
    renders_members ((k, v) # ms) (w @ quoteJSON k @ w1 @ '':'' @ w2 @ s @ w3 @ '','' @ t)"

lemma renders_first:
  assumes "renders v s"
  shows "\<exists>c t. s = c # t \<and> starts_value c"
  using assms
proof (cases rule: renders.cases)
  case rnum
  then show ?thesis using num_lit_first [of s] by (auto simp: starts_value_def)
qed (auto simp: starts_value_def quoteJSON_def)

lemma closers_plain [simp]:
  "\<not> json_space CHR '']''" "\<not> json_space CHR '',''" "\<not> json_space CHR 0x7D" "\<not> json_space CHR '':''" "\<not> json_space dquote"
  "\<not> json_space CHR ''[''" "\<not> json_space CHR 0x7B" "dquote \<noteq> CHR 0x7D"
  by (simp_all add: json_space_def dquote_def)

lemma skip_blank [simp]: "blank w \<Longrightarrow> skip (w @ s) = skip s"
  by (simp add: skip_def dropWhile_append2)

lemma skip_plain [simp]: "\<not> json_space c \<Longrightarrow> skip (c # s) = c # s"
  by (simp add: skip_def)

lemma skip_renders: "renders v s \<Longrightarrow> skip (s @ r) = s @ r"
  using renders_first [of v s] starts_value_plain by auto

lemma read_blank: "blank w \<Longrightarrow> read_value n (w @ s) = read_value n s"
  by (cases n) simp_all

lemma delimiter_blank: "blank w \<Longrightarrow> delimiter (c # r) \<Longrightarrow> delimiter (w @ c # r)"
  by (cases w) (simp_all add: delimiter_def)

lemma delimiters [simp]: "delimiter (CHR '']'' # r)" "delimiter (CHR '','' # r)" "delimiter (CHR 0x7D # r)" "delimiter []"
  by (simp_all add: delimiter_def)

lemma renders_elems_first:
  assumes "renders_elems xs t"
  shows "\<not> HasPrefix (skip (t @ r)) '']''"
proof -
  from assms obtain w s u where "t = w @ s @ u" "blank w" "\<exists>x. renders x s" by (cases rule: renders_elems.cases) blast+
  moreover from this obtain c s' where "s = c # s'" "starts_value c" using renders_first by blast
  ultimately show ?thesis using starts_value_plain [of c] by (simp add: HasPrefix_def)
qed

lemma renders_members_first: "renders_members ms t \<Longrightarrow> \<not> HasPrefix (skip (t @ r)) [CHR 0x7D]"
  by (cases rule: renders_members.cases) (auto simp: quoteJSON_def HasPrefix_def)

lemma read_number: "num_lit l = Some (l, []) \<Longrightarrow> delimiter r \<Longrightarrow> scalar (l @ r) = Some (JNum l, r)"
proof -
  assume l: "num_lit l = Some (l, [])" and r: "delimiter r"
  obtain c t where ct: "l = c # t" "c = CHR ''-'' \<or> is_digit c" using num_lit_first [OF l] by blast
  then have "c \<notin> {dquote, CHR ''t'', CHR ''f'', CHR ''n''}"
    by (auto simp: is_digit_def digit_value_def dquote_def)
  with ct num_lit_append [OF l r] show ?thesis by (simp add: scalar_def)
qed

lemma read_string: "scalar (quoteJSON s @ r) = Some (JStr s, r)"
  using str_body_quote [of s r] by (simp add: scalar_def quoteJSON_def)

lemma read_scalar:
  assumes "renders v s" "s = c # t" "c \<noteq> CHR ''[''" "c \<noteq> CHR 0x7B" "scalar (s @ r) = Some (v, r)" "0 < n"
  shows "read_value n (s @ r) = Some (v, r)"
  using assms skip_renders [OF assms(1), of r] by (cases n) simp_all

lemma read_member:
  assumes "blank w" "blank w1"
  shows "read_members (Suc m) (w @ quoteJSON k @ w1 @ '':'' @ t) =
      (case read_value m t of
         None \<Rightarrow> None
       | Some (v, r') \<Rightarrow>
           case skip r' of
             [] \<Rightarrow> None
           | d # u \<Rightarrow>
               if d = CHR 0x7D then Some ([(k, v)], u)
               else if d = CHR '','' then map_option (\<lambda>(xs, z). ((k, v) # xs, z)) (read_members m u)
               else None)"
  using str_body_quote [of k "w1 @ CHR '':'' # t"] assms by (simp add: quoteJSON_def)

text \<open>Every rendering is read, whatever follows it.\<close>

lemma read_renders:
  "renders v s \<Longrightarrow> delimiter r \<Longrightarrow> length s < n \<Longrightarrow> read_value n (s @ r) = Some (v, r)"
  "renders_elems xs t \<Longrightarrow> length t < n \<Longrightarrow> read_elems n (t @ r) = Some (xs, r)"
  "renders_members ms u \<Longrightarrow> length u < n \<Longrightarrow> read_members n (u @ r) = Some (ms, r)"
proof (induction arbitrary: n r and n r and n r rule: renders_renders_elems_renders_members.inducts)
  case rnull
  then show ?case by (intro read_scalar) (auto intro: renders_renders_elems_renders_members.intros simp: scalar_def dquote_def literal_def HasPrefix_def)
next
  case rtrue
  then show ?case by (intro read_scalar) (auto intro: renders_renders_elems_renders_members.intros simp: scalar_def dquote_def literal_def HasPrefix_def)
next
  case rfalse
  then show ?case by (intro read_scalar) (auto intro: renders_renders_elems_renders_members.intros simp: scalar_def dquote_def literal_def HasPrefix_def)
next
  case (rnum l)
  obtain c t where c: "l = c # t" "c = CHR ''-'' \<or> is_digit c" using num_lit_first [OF rnum.hyps] by blast
  then have "c \<noteq> CHR ''[''" "c \<noteq> CHR 0x7B" by (auto simp: is_digit_def digit_value_def)
  with rnum c show ?case
    by (intro read_scalar [OF renders_renders_elems_renders_members.rnum c(1)] read_number) auto
next
  case (rstr s)
  then show ?case
    by (intro read_scalar [OF renders_renders_elems_renders_members.rstr] read_string) (auto simp: quoteJSON_def dquote_def)
next
  case (rarr0 w)
  then show ?case by (cases n) (simp_all add: HasPrefix_def)
next
  case (rarr xs t)
  then show ?case using renders_elems_first [OF rarr.hyps, of r] by (cases n) simp_all
next
  case (robj0 w)
  then show ?case by (cases n) (simp_all add: HasPrefix_def)
next
  case (robj ms t)
  then show ?case using renders_members_first [OF robj.hyps, of r] by (cases n) simp_all
next
  case (relem w w' x s)
  then obtain m where n: "n = Suc m" by (cases n) auto
  have "read_value m (s @ w' @ CHR '']'' # r) = Some (x, w' @ CHR '']'' # r)"
    using relem n by (intro relem.IH) (auto intro: delimiter_blank)
  with relem n show ?case by (simp add: read_blank)
next
  case (relems w w' x s xs t)
  then obtain m where n: "n = Suc m" by (cases n) auto
  have "s \<noteq> []" using renders_first [OF relems.hyps(3)] by auto
  have "read_value m (s @ w' @ CHR '','' # t @ r) = Some (x, w' @ CHR '','' # t @ r)"
    using relems n by (intro relems.IH(1)) (auto intro: delimiter_blank)
  moreover have "read_elems m (t @ r) = Some (xs, r)" using relems.prems n \<open>s \<noteq> []\<close> by (intro relems.IH(2)) (cases s; simp)
  ultimately show ?case using relems n by (simp add: read_blank)
next
  case (rmember w w1 w2 w3 v s k)
  then obtain m where n: "n = Suc m" by (cases n) auto
  have "read_value m (s @ w3 @ CHR 0x7D # r) = Some (v, w3 @ CHR 0x7D # r)"
    using rmember n by (intro rmember.IH) (auto intro: delimiter_blank)
  then show ?case using rmember n read_member [of w w1 m k "w2 @ s @ w3 @ CHR 0x7D # r"] by (simp add: read_blank)
next
  case (rmembers w w1 w2 w3 v s ms t k)
  then obtain m where n: "n = Suc m" by (cases n) auto
  have "read_value m (s @ w3 @ CHR '','' # t @ r) = Some (v, w3 @ CHR '','' # t @ r)"
    using rmembers n by (intro rmembers.IH(1)) (auto intro: delimiter_blank)
  moreover have "read_members m (t @ r) = Some (ms, r)" using rmembers.prems n by (intro rmembers.IH(2)) simp
  ultimately show ?case using rmembers n read_member [of w w1 m k "w2 @ s @ w3 @ CHR '','' # t @ r"] by (simp add: read_blank)
qed

subsection \<open>What \<open>Marshal\<close> writes\<close>

lemma intersperse_Cons: "xs \<noteq> [] \<Longrightarrow> intersperse c (x # xs) = x @ c # intersperse c xs"
  by (cases xs) simp_all

lemmas render_intros = renders_renders_elems_renders_members.intros

lemma renders_interspersed:
  assumes "xs \<noteq> []" "\<forall>x \<in> set xs. renders x (f x)" "blank w" "blank w'"
  shows "renders_elems xs (intersperse CHR '','' (map (\<lambda>x. w @ f x) xs) @ w' @ '']'')"
  using assms(1,2)
proof (induction xs)
  case (Cons x xs)
  show ?case
  proof (cases "xs = []")
    case True
    with Cons.prems relem [OF assms(3,4), of x "f x"] show ?thesis by simp
  next
    case False
    with Cons relems [OF assms(3), of "[]" x "f x" xs "intersperse CHR '','' (map (\<lambda>x. w @ f x) xs) @ w' @ '']''"]
    show ?thesis by (simp add: intersperse_Cons)
  qed
qed simp

lemma renders_interspersed_members:
  assumes "ms \<noteq> []" "\<forall>kv \<in> set ms. renders (snd kv) (f (snd kv))" "blank w" "blank w2" "blank w'"
  shows "renders_members ms
     (intersperse CHR '','' (map (\<lambda>kv. w @ quoteJSON (fst kv) @ CHR '':'' # w2 @ f (snd kv)) ms) @ w' @ [CHR 0x7D])"
  using assms(1,2)
proof (induction ms)
  case (Cons kv ms)
  obtain k v where kv: "kv = (k, v)" by fastforce
  show ?case
  proof (cases "ms = []")
    case True
    with Cons.prems kv rmember [OF assms(3) _ assms(4,5), of "[]" v "f v" k] show ?thesis by simp
  next
    case False
    let ?t = "intersperse CHR '','' (map (\<lambda>kv. w @ quoteJSON (fst kv) @ CHR '':'' # w2 @ f (snd kv)) ms) @ w' @ [CHR 0x7D]"
    have "renders_members ms ?t" using Cons False by simp
    with Cons.prems kv False rmembers [OF assms(3) _ assms(4), of "[]" "[]" v "f v" ms ?t k] show ?thesis
      by (simp add: intersperse_Cons)
  qed
qed simp

lemma renders_written: "written v \<Longrightarrow> renders v (write_json v)"
proof (induction v)
  case (JArr xs)
  then have "\<forall>x \<in> set xs. renders x (write_json x)" by (auto simp: list_all_iff)
  then show ?case using rarr [OF renders_interspersed [of xs write_json "[]" "[]"]] rarr0 [of "[]"]
    by (cases "xs = []") simp_all
next
  case (JObj ms)
  then have "\<forall>kv \<in> set ms. renders (snd kv) (write_json (snd kv))" by (force simp: list_all_iff)
  then show ?case using robj [OF renders_interspersed_members [of ms write_json "[]" "[]" "[]"]] robj0 [of "[]"]
    by (cases "ms = []") (simp_all add: comp_def case_prod_unfold)
qed (auto intro: render_intros)

lemma blank_newline [simp]: "blank (newline d)" "blank '' ''"
  by (auto simp: newline_def json_space_def)

lemma renders_indented: "written v \<Longrightarrow> renders v (indent_json v d)"
proof (induction v arbitrary: d)
  case (JArr xs)
  then have "\<forall>x \<in> set xs. renders x (indent_json x (Suc d))" by (auto simp: list_all_iff)
  then show ?case
    using rarr [OF renders_interspersed [of xs "\<lambda>x. indent_json x (Suc d)" "newline (Suc d)" "newline d"]] rarr0 [of "[]"]
    by (cases "xs = []") (simp_all add: comp_def)
next
  case (JObj ms)
  then have "\<forall>kv \<in> set ms. renders (snd kv) (indent_json (snd kv) (Suc d))" by (force simp: list_all_iff)
  then show ?case
    using robj [OF renders_interspersed_members [of ms "\<lambda>v. indent_json v (Suc d)" "newline (Suc d)" "'' ''" "newline d"]]
      robj0 [of "[]"]
    by (cases "ms = []") (simp_all add: comp_def case_prod_unfold)
qed (auto intro: render_intros)

lemma read_value_written:
  "written v \<Longrightarrow> delimiter r \<Longrightarrow> length (write_json v) < n \<Longrightarrow> read_value n (write_json v @ r) = Some (v, r)"
  by (rule read_renders(1) [OF renders_written])

section \<open>Enough fuel\<close>

lemma str_body_shorter: "str_body s = Some (x, r) \<Longrightarrow> length r < length s"
proof (induction s arbitrary: x r rule: str_body.induct)
  case (2 c s)
  have p: "prepend a b = Some (x, r) \<Longrightarrow> \<exists>y. b = Some (y, r)" for a b by (auto simp: prepend_def)
  from "2.prems" "2.IH" show ?case
    by (fastforce simp: str_body.simps(2) dest!: p split: if_splits option.splits list.splits)
qed (simp add: str_body.simps)

lemma dropWhile_shorter: "takeWhile P s \<noteq> [] \<Longrightarrow> length (dropWhile P s) < length s"
  by (cases s) (auto simp: less_Suc_eq_le length_dropWhile_le split: if_splits)

lemma num_lit_shorter: "num_lit s = Some (x, r) \<Longrightarrow> length r < length s"
proof -
  assume "num_lit s = Some (x, r)"
  then obtain i t f u where p: "num_int s = Some (i, t)" "num_frac t = Some (f, u)" "num_exp u = Some (drop (length i + length f) x, r)"
    by (auto simp: num_lit_def split: option.splits)
  have "length t < length s"
  proof -
    let ?n = "length (takeWhile (\<lambda>x. x = CHR ''-'') (take (Suc 0) s))"
    obtain c w where cw: "drop ?n s = c # w" "t = w \<or> t = dropWhile is_digit w"
      using p(1) by (auto simp: num_int_def Let_def split: list.splits if_splits)
    then have "length w < length s" using length_drop [of ?n s] by simp
    moreover have "length t \<le> length w" using cw(2) length_dropWhile_le by auto
    ultimately show ?thesis by simp
  qed
  moreover have "length u \<le> length t" using p(2)
    by (auto simp: num_frac_def split: list.splits if_splits intro: le_SucI length_dropWhile_le)
  moreover have "length r \<le> length u" using p(3) length_dropWhile_le
    by (fastforce simp: num_exp_def Let_def split: list.splits if_splits intro: le_trans)
  ultimately show ?thesis by linarith
qed

lemma skip_shorter: "length (skip s) \<le> length s"
  by (simp add: skip_def length_dropWhile_le)

lemma scalar_shorter: "scalar s = Some (v, r) \<Longrightarrow> length r < length s"
  using str_body_shorter num_lit_shorter [of s]
  by (fastforce simp: scalar_def literal_def HasPrefix_def split: list.splits if_splits)

lemma skip_ConsD: "skip s = c # t \<Longrightarrow> length t < length s"
  using skip_shorter [of s] by simp

lemma skip_tl_shorter: "length (tl (skip s)) \<le> length s"
  using skip_shorter [of s] by (simp add: le_diff_conv)

lemma read_shorter:
  "read_value n s = Some (v, r) \<Longrightarrow> length r < length s"
  "read_elems n s = Some (xs, r) \<Longrightarrow> length r < length s"
  "read_members n s = Some (ms, r) \<Longrightarrow> length r < length s"
proof (induction n s and n s and n s arbitrary: v r and xs r and ms r rule: read_value_read_elems_read_members.induct)
  case (2 n s)
  then obtain c t where ct: "skip s = c # t" by (auto split: list.splits)
  note t = skip_ConsD [OF ct]
  consider (shut) "r = tl (skip t)" | (elems) xs where "read_elems n t = Some (xs, r)" "c = CHR ''[''" "\<not> HasPrefix (skip t) '']''"
    | (members) ms where "read_members n t = Some (ms, r)" "c = CHR 0x7B" "\<not> HasPrefix (skip t) [CHR 0x7D]"
    | (scalar) "scalar (c # t) = Some (v, r)"
    using "2.prems" ct by (auto split: if_splits)
  then show ?case
  proof cases
    case shut
    with t skip_tl_shorter [of t] show ?thesis by simp
  next
    case elems
    with "2.IH"(1) [OF ct] t show ?thesis by fastforce
  next
    case members
    with "2.IH"(2) [OF ct] t show ?thesis by fastforce
  next
    case scalar
    with scalar_shorter [OF scalar] skip_shorter [of s] ct show ?thesis by simp
  qed
next
  case (4 n s)
  then obtain v q where v: "read_value n s = Some (v, q)" by (auto split: option.splits)
  with "4.prems" obtain c t where ct: "skip q = c # t" by (auto split: list.splits)
  note len = "4.IH"(1) [OF v] skip_ConsD [OF ct]
  from "4.prems" v ct consider "r = t" | xs where "read_elems n t = Some (xs, r)" "c = CHR '',''" by (auto split: if_splits)
  then show ?case using len "4.IH"(2) [OF v refl ct] by cases fastforce+
next
  case (6 n s)
  then obtain q t where qt: "skip s = q # t" "q = dquote" by (auto split: list.splits if_splits)
  with "6.prems" obtain k a where k: "str_body t = Some (k, a)" by (auto split: option.splits)
  with "6.prems" qt obtain c u where cu: "skip a = c # u" "c = CHR '':''" by (auto split: list.splits if_splits)
  with "6.prems" qt k obtain v b where v: "read_value n u = Some (v, b)" by (auto split: option.splits)
  with "6.prems" qt k cu obtain d w where dw: "skip b = d # w" by (auto split: list.splits)
  have "length b < length u" using "6.IH"(1) [OF qt(1) _ k refl cu(1) _ v] qt(2) cu(2) by simp
  then have len: "length w < length s"
    using skip_ConsD [OF qt(1)] str_body_shorter [OF k] skip_ConsD [OF cu(1)] skip_ConsD [OF dw] by linarith
  from "6.prems" qt k cu v dw consider "r = w" | ms where "read_members n w = Some (ms, r)" "d = CHR '',''" "d \<noteq> CHR 0x7D"
    by (auto split: if_splits)
  then show ?case
  proof cases
    case 2
    have "length r < length w" using "6.IH"(2) [OF qt(1) _ k refl cu(1) _ v refl dw] qt(2) cu(2) 2 by simp
    with len show ?thesis by simp
  qed (use len in simp)
qed simp_all

text \<open>With twice the length of the text, more fuel makes no difference.\<close>

lemma read_fuel:
  "2 * length s < n \<Longrightarrow> 2 * length s < m \<Longrightarrow> read_value n s = read_value m s"
  "2 * length s + 1 < n \<Longrightarrow> 2 * length s + 1 < m \<Longrightarrow> read_elems n s = read_elems m s"
  "2 * length s + 1 < n \<Longrightarrow> 2 * length s + 1 < m \<Longrightarrow> read_members n s = read_members m s"
proof (induction n s and n s and n s arbitrary: m and m and m rule: read_value_read_elems_read_members.induct)
  case (2 n s)
  obtain m' where m: "m = Suc m'" using "2.prems"(2) by (cases m) auto
  show ?case
  proof (cases "skip s")
    case (Cons c t)
    note len = skip_ConsD [OF Cons]
    have "read_elems n t = read_elems m' t" if "c = CHR ''[''" "\<not> HasPrefix (skip t) '']''"
      using "2.IH"(1) [OF Cons that, of m'] "2.prems" len m by simp
    moreover have "read_members n t = read_members m' t" if "c = CHR 0x7B" "c \<noteq> CHR ''[''" "\<not> HasPrefix (skip t) [CHR 0x7D]"
      using "2.IH"(2) [OF Cons that(2,1,3), of m'] "2.prems" len m by simp
    ultimately show ?thesis using Cons m by simp
  qed (simp add: m)
next
  case (4 n s)
  obtain m' where m: "m = Suc m'" using "4.prems"(2) by (cases m) auto
  have v: "read_value n s = read_value m' s" using "4.IH"(1) [of m'] "4.prems" m by simp
  have "read_elems n t = read_elems m' t" if "read_value n s = Some (x, q)" "skip q = c # t" "c \<noteq> CHR '']''" "c = CHR '',''" for x q c t
  proof -
    have "length t < length s" using read_shorter(1) [OF that(1)] skip_ConsD [OF that(2)] by simp
    then show ?thesis using "4.IH"(2) [OF that(1) refl that(2,3,4), of m'] "4.prems" m by simp
  qed
  note e = this
  show ?case
  proof (cases "read_value n s")
    case (Some p)
    obtain x q where p: "p = (x, q)" by fastforce
    show ?thesis using Some v m p e [of x q] by (cases "skip q") simp_all
  qed (use v m in simp)
next
  case (6 n s)
  obtain m' where m: "m = Suc m'" using "6.prems"(2) by (cases m) auto
  have v: "read_value n u = read_value m' u"
    if "skip s = q # t" "\<not> q \<noteq> dquote" "str_body t = Some (k, a)" "skip a = c # u" "\<not> c \<noteq> CHR '':''" for q t k a c u
  proof -
    have "length u < length s"
      using skip_ConsD [OF that(1)] str_body_shorter [OF that(3)] skip_ConsD [OF that(4)] by linarith
    then show ?thesis using "6.IH"(1) [OF that(1,2,3) refl that(4,5), of m'] "6.prems" m by simp
  qed
  have e: "read_members n w = read_members m' w"
    if "skip s = q # t" "\<not> q \<noteq> dquote" "str_body t = Some (k, a)" "skip a = c # u" "\<not> c \<noteq> CHR '':''"
      "read_value n u = Some (x, b)" "skip b = d # w" "d \<noteq> CHR 0x7D" "d = CHR '',''" for q t k a c u x b d w
  proof -
    have "length w < length s"
      using skip_ConsD [OF that(1)] str_body_shorter [OF that(3)] skip_ConsD [OF that(4)] read_shorter(1) [OF that(6)]
        skip_ConsD [OF that(7)] by linarith
    then show ?thesis using "6.IH"(2) [OF that(1,2,3) refl that(4,5,6) refl that(7,8,9), of m'] "6.prems" m by simp
  qed
  show ?case
  proof (cases "\<exists>q t k a c u x b. skip s = q # t \<and> q = dquote \<and> str_body t = Some (k, a) \<and> skip a = c # u \<and> c = CHR '':'' \<and>
      read_value n u = Some (x, b)")
    case True
    then obtain q t k a c u x b where p: "skip s = q # t" "q = dquote" "str_body t = Some (k, a)" "skip a = c # u" "c = CHR '':''"
      "read_value n u = Some (x, b)" by blast
    then show ?thesis using m v [of q t k a c u] e [of q t k a c u x b] by (cases "skip b") simp_all
  next
    case False
    then show ?thesis unfolding m read_members.simps using v by (auto split: list.split option.split)
  qed
qed simp_all

lemma decode_first_any_fuel:
  "2 * length s < n \<Longrightarrow> decode_first s =
     (case read_value n s of
        Some (v, r) \<Rightarrow> if int (nesting v) \<le> maxNestingDepth then Some (v, r) else None
      | None \<Rightarrow> None)"
  using read_fuel(1) [of s "Suc (2 * length s)" n] by (simp add: decode_first_def)

lemma decode_first_renders:
  assumes "renders v s" "int (nesting v) \<le> maxNestingDepth" "blank w" "delimiter r"
  shows "decode_first (w @ s @ r) = Some (v, r)"
  using read_renders(1) [OF assms(1,4), of "Suc (2 * length (w @ s @ r))"] assms(2,3)
  by (simp add: decode_first_def read_blank)

text \<open>A text that is one value, with white space around it.\<close>

lemma parse_json_renders:
  assumes "renders v s" "int (nesting v) \<le> maxNestingDepth" "blank w" "blank w'"
  shows "parse_json (w @ s @ w') = Some v"
proof -
  have "delimiter w'" using assms(4) by (cases w') (simp_all add: delimiter_def)
  moreover have "skip w' = []" using skip_blank [OF assms(4), of "[]"] by (simp add: skip_def)
  ultimately show ?thesis using decode_first_renders [OF assms(1-3)] by (simp add: parse_json_def)
qed

lemma decode_first_written:
  "written v \<Longrightarrow> int (nesting v) \<le> maxNestingDepth \<Longrightarrow> decode_first (write_json v) = Some (v, [])"
  using decode_first_renders [OF renders_written, of v "[]" "[]"] by simp

lemma parse_json_written:
  "written v \<Longrightarrow> int (nesting v) \<le> maxNestingDepth \<Longrightarrow> parse_json (write_json v) = Some v"
  using parse_json_renders [OF renders_written, of v "[]" "[]"] by simp

lemma parse_json_indented:
  "written v \<Longrightarrow> int (nesting v) \<le> maxNestingDepth \<Longrightarrow> parse_json (indent_json v 0) = Some v"
  using parse_json_renders [OF renders_indented, of v "[]" "[]"] by simp

lemma fold_max_le: "fold max xs a \<le> d \<longleftrightarrow> a \<le> d \<and> (\<forall>x \<in> set xs. x \<le> (d :: nat))"
  by (induction xs arbitrary: a) auto

lemma nesting_JObj: "nesting (JObj ms) \<le> Suc d \<longleftrightarrow> (\<forall>kv \<in> set ms. nesting (snd kv) \<le> d)"
  by (auto simp: fold_max_le)

lemma nesting_JArr: "nesting (JArr xs) \<le> Suc d \<longleftrightarrow> (\<forall>x \<in> set xs. nesting x \<le> d)"
  by (auto simp: fold_max_le)

lemma written_JObj: "written (JObj ms) \<longleftrightarrow> (\<forall>kv \<in> set ms. written (snd kv))"
  by (auto simp: list_all_iff)

lemma maxNestingDepth_Suc: "int n \<le> maxNestingDepth \<longleftrightarrow> n \<le> Suc 9999"
  by (simp add: maxNestingDepth_def)

section \<open>Decoding into Go values\<close>

text \<open>
  A field of a struct is set from a value, or the value has the wrong type. \<open>null\<close> leaves everything but
  slices and maps as it is. Decoding goes on after a type error and returns it at the end, so that an error anywhere is an
  error of the whole.
\<close>

type_synonym 'r setter = "json \<Rightarrow> 'r \<Rightarrow> 'r option"

definition set_string :: "(string \<Rightarrow> 'r \<Rightarrow> 'r) \<Rightarrow> 'r setter" where
  "set_string upd v r = (case v of JNull \<Rightarrow> Some r | JStr s \<Rightarrow> Some (upd s r) | _ \<Rightarrow> None)"

definition set_int :: "(int \<Rightarrow> 'r \<Rightarrow> 'r) \<Rightarrow> 'r setter" where
  "set_int upd v r =
     (case v of
        JNull \<Rightarrow> Some r
      | JNum l \<Rightarrow> (case ParseInt l of Some n \<Rightarrow> Some (upd n r) | None \<Rightarrow> None)
      | _ \<Rightarrow> None)"

definition set_bool :: "(bool \<Rightarrow> 'r \<Rightarrow> 'r) \<Rightarrow> 'r setter" where
  "set_bool upd v r = (case v of JNull \<Rightarrow> Some r | JBool b \<Rightarrow> Some (upd b r) | _ \<Rightarrow> None)"

text \<open>A slice: the elements are decoded over those the slice has, and over zero values beyond.\<close>

fun decode_slice :: "'a setter \<Rightarrow> 'a \<Rightarrow> json list \<Rightarrow> 'a list \<Rightarrow> 'a list option" where
  "decode_slice elem zero [] old = Some []"
| "decode_slice elem zero (v # vs) old =
     (case elem v (case old of [] \<Rightarrow> zero | x # _ \<Rightarrow> x) of
        None \<Rightarrow> None
      | Some x \<Rightarrow> map_option (Cons x) (decode_slice elem zero vs (tl old)))"

definition set_slice :: "'a setter \<Rightarrow> 'a \<Rightarrow> ('r \<Rightarrow> 'a list) \<Rightarrow> ('a list \<Rightarrow> 'r \<Rightarrow> 'r) \<Rightarrow> 'r setter" where
  "set_slice elem zero get upd v r =
     (case v of
        JNull \<Rightarrow> Some (upd [] r)
      | JArr vs \<Rightarrow> map_option (\<lambda>xs. upd xs r) (decode_slice elem zero vs (get r))
      | _ \<Rightarrow> None)"

text \<open>A map from strings to strings.\<close>

fun decode_map :: "(string \<times> json) list \<Rightarrow> (string, string) fmap \<Rightarrow> (string, string) fmap option" where
  "decode_map [] m = Some m"
| "decode_map ((k, v) # ms) m =
     (case v of
        JNull \<Rightarrow> decode_map ms (fmupd k [] m)
      | JStr s \<Rightarrow> decode_map ms (fmupd k s m)
      | _ \<Rightarrow> None)"

definition set_map ::
  "('r \<Rightarrow> (string, string) fmap) \<Rightarrow> ((string, string) fmap \<Rightarrow> 'r \<Rightarrow> 'r) \<Rightarrow> 'r setter" where
  "set_map get upd v r =
     (case v of
        JNull \<Rightarrow> Some (upd fmempty r)
      | JObj ms \<Rightarrow> map_option (\<lambda>m. upd m r) (decode_map ms (get r))
      | _ \<Rightarrow> None)"

text \<open>
  A struct: a member goes to the field of its name, or else of its name in any case; other members are
  ignored, or refused after \<open>DisallowUnknownFields\<close>.
\<close>

definition find_field :: "(string \<times> 'r setter) list \<Rightarrow> string \<Rightarrow> 'r setter option" where
  "find_field fields k =
     (case map_of fields k of
        Some f \<Rightarrow> Some f
      | None \<Rightarrow> map_option snd (find (\<lambda>(name, _). EqualFold name k) fields))"

fun decode_fields :: "bool \<Rightarrow> (string \<times> 'r setter) list \<Rightarrow> (string \<times> json) list \<Rightarrow> 'r \<Rightarrow> 'r option" where
  "decode_fields strict fields [] r = Some r"
| "decode_fields strict fields ((k, v) # ms) r =
     (case find_field fields k of
        None \<Rightarrow> if strict then None else decode_fields strict fields ms r
      | Some f \<Rightarrow>
      case f v r of
        None \<Rightarrow> None
      | Some r' \<Rightarrow> decode_fields strict fields ms r')"

definition decode_struct :: "bool \<Rightarrow> (string \<times> 'r setter) list \<Rightarrow> 'r setter" where
  "decode_struct strict fields v r =
     (case v of JNull \<Rightarrow> Some r | JObj ms \<Rightarrow> decode_fields strict fields ms r | _ \<Rightarrow> None)"

text \<open>A field that is itself a struct, and a pointer: \<open>null\<close> makes it \<open>nil\<close>, anything else is decoded over what it
  points to, or over a new zero value.\<close>

definition set_inner :: "'a setter \<Rightarrow> ('r \<Rightarrow> 'a) \<Rightarrow> ('a \<Rightarrow> 'r \<Rightarrow> 'r) \<Rightarrow> 'r setter" where
  "set_inner inner get upd v r = map_option (\<lambda>x. upd x r) (inner v (get r))"

definition set_pointer :: "'a setter \<Rightarrow> 'a \<Rightarrow> ('r \<Rightarrow> 'a option) \<Rightarrow> ('a option \<Rightarrow> 'r \<Rightarrow> 'r) \<Rightarrow> 'r setter" where
  "set_pointer inner zero get upd v r =
     (if v = JNull then Some (upd None r)
      else map_option (\<lambda>x. upd (Some x) r) (inner v (case get r of None \<Rightarrow> zero | Some x \<Rightarrow> x)))"

lemma decode_slice_zero:
  assumes "\<And>x. x \<in> set xs \<Longrightarrow> elem (enc x) zero = Some x"
  shows "decode_slice elem zero (map enc xs) [] = Some xs"
  using assms by (induction xs) simp_all

lemma set_simps [simp]:
  "set_string upd (JStr s) r = Some (upd s r)"
  "in_int64 n \<Longrightarrow> set_int upd' (JNum (FormatInt n)) r = Some (upd' n r)"
  "set_bool upd'' (JBool b) r = Some (upd'' b r)"
  by (simp_all add: set_string_def set_int_def set_bool_def ParseInt_FormatInt)

lemma set_slice_zero:
  assumes "\<And>x. x \<in> set xs \<Longrightarrow> elem (enc x) zero = Some x" "get r = []"
  shows "set_slice elem zero get upd (JArr (map enc xs)) r = Some (upd xs r)"
  using decode_slice_zero [of xs elem enc zero] assms by (simp add: set_slice_def)

lemma decode_unknown:
  "\<forall>(k, v) \<in> set extra. find_field fs k = None \<Longrightarrow>
     decode_fields False fs (extra @ ms) r = decode_fields False fs ms r"
  by (induction extra) auto

lemma fold_fmupd_lookup:
  "distinct ks \<Longrightarrow> fmlookup (fold (\<lambda>(k, v). fmupd k v) (map (\<lambda>k. (k, f k)) ks) m) x =
     (if x \<in> set ks then Some (f x) else fmlookup m x)"
  by (induction ks arbitrary: m) auto

lemma decode_map_list:
  "distinct (map fst kvs) \<Longrightarrow> decode_map (map (\<lambda>(k, v). (k, JStr v)) kvs) m = Some (fold (\<lambda>(k, v). fmupd k v) kvs m)"
  by (induction kvs arbitrary: m) auto

text \<open>A member with \<open>omitempty\<close>.\<close>

definition member_unless :: "bool \<Rightarrow> string \<Rightarrow> json \<Rightarrow> (string \<times> json) list" where
  "member_unless omit k v = (if omit then [] else [(k, v)])"

section \<open>Request bodies\<close>

text \<open>\<open>http.MaxBytesReader\<close>: the decoder sees no more than \<open>n\<close> bytes of the body.\<close>

definition limited :: "int \<Rightarrow> string \<Rightarrow> string" where
  "limited n s = (if int (length s) \<le> n then s else take (nat n) s)"

text \<open>A decoder with \<open>DisallowUnknownFields\<close> on such a body: the first value, into a struct.\<close>

definition strictBody :: "int \<Rightarrow> (string \<times> 'r setter) list \<Rightarrow> 'r \<Rightarrow> string \<Rightarrow> 'r option" where
  "strictBody n fields zero body =
     (case decode_first (limited n body) of
        None \<Rightarrow> None
      | Some (v, _) \<Rightarrow> decode_struct True fields v zero)"

lemma decode_fields_append:
  "decode_fields strict fs (a @ b) r = Option.bind (decode_fields strict fs a r) (decode_fields strict fs b)"
  by (induction a arbitrary: r) (auto split: option.split)

lemma decode_member_unless:
  assumes "find_field fs k = Some f" "\<not> omit \<Longrightarrow> f v r = Some r'" "omit \<Longrightarrow> r' = r"
  shows "decode_fields strict fs (member_unless omit k v) r = Some r'"
  using assms by (simp add: member_unless_def)

lemma members_written:
  "\<forall>kv \<in> set ms. written (snd kv) \<and> nesting (snd kv) \<le> 9999 \<Longrightarrow>
     written (JObj ms) \<and> int (nesting (JObj ms)) \<le> maxNestingDepth"
  unfolding maxNestingDepth_Suc nesting_JObj written_JObj by blast

lemma strictBody_written:
  assumes "decode_fields True fs ms zero = Some r"
    and "\<And>kv. kv \<in> set ms \<Longrightarrow> written (snd kv) \<and> nesting (snd kv) \<le> 9999"
    and "int (length (write_json (JObj ms))) \<le> n"
  shows "strictBody n fs zero (write_json (JObj ms)) = Some r"
proof -
  have "decode_first (write_json (JObj ms)) = Some (JObj ms, [])"
    using members_written [of ms] assms(2) by (intro decode_first_written) blast+
  with assms(1,3) show ?thesis by (simp add: strictBody_def limited_def decode_struct_def del: write_json.simps)
qed

text \<open>Values that never need more nesting: those of flat structs.\<close>

lemma strings_written: "written (JArr (map JStr xs))" "nesting (JArr (map JStr xs)) \<le> Suc 0"
  unfolding nesting_JArr by (auto simp: list_all_iff)

section \<open>Decoding keeps types\<close>

text \<open>A setter that keeps a predicate of the value it is applied to; numbers that it sets are 64-bit numbers.\<close>

definition keeps :: "('r \<Rightarrow> bool) \<Rightarrow> 'r setter \<Rightarrow> bool" where
  "keeps P f \<longleftrightarrow> (\<forall>v r r'. P r \<longrightarrow> f v r = Some r' \<longrightarrow> P r')"

named_theorems keeps_intros "setters that keep a predicate"

lemma ParseInt_int64: "ParseInt s = Some n \<Longrightarrow> in_int64 n"
  by (auto simp: ParseInt_def in_int64_def split: list.splits if_splits option.splits)

lemma keeps_scalars [keeps_intros]:
  "(\<And>s r. P r \<Longrightarrow> P (upd s r)) \<Longrightarrow> keeps P (set_string upd)"
  "(\<And>n r. in_int64 n \<Longrightarrow> P r \<Longrightarrow> P (upd' n r)) \<Longrightarrow> keeps P (set_int upd')"
  "(\<And>b r. P r \<Longrightarrow> P (upd'' b r)) \<Longrightarrow> keeps P (set_bool upd'')"
  by (auto simp: keeps_def set_string_def set_int_def set_bool_def dest: ParseInt_int64 split: json.splits option.splits)

lemma keeps_containers [keeps_intros]:
  "(\<And>xs r. P r \<Longrightarrow> P (upd xs r)) \<Longrightarrow> keeps P (set_slice elem zero get upd)"
  "(\<And>m r. P r \<Longrightarrow> P (upd' m r)) \<Longrightarrow> keeps P (set_map get' upd')"
  by (auto simp: keeps_def set_slice_def set_map_def split: json.splits)

lemma keeps_inner [keeps_intros]:
  assumes "keeps Q inner" "\<And>r. P r \<Longrightarrow> Q (get r)" "\<And>x r. Q x \<Longrightarrow> P r \<Longrightarrow> P (upd x r)"
  shows "keeps P (set_inner inner get upd)"
  using assms by (auto simp: keeps_def set_inner_def) blast

lemma keeps_pointer [keeps_intros]: "(\<And>x r. P r \<Longrightarrow> P (upd x r)) \<Longrightarrow> keeps P (set_pointer inner zero get upd)"
  by (auto simp: keeps_def set_pointer_def split: if_splits)

lemma find_field_set: "find_field fs k = Some f \<Longrightarrow> \<exists>k'. (k', f) \<in> set fs"
  by (auto simp: find_field_def find_Some_iff split: option.splits dest: map_of_SomeD) (metis nth_mem)

lemma decode_fields_keeps:
  assumes "list_all (\<lambda>kf. keeps P (snd kf)) fs" "P r" "decode_fields strict fs ms r = Some r'"
  shows "P r'"
  using assms(2,3)
proof (induction ms arbitrary: r)
  case (Cons kv ms)
  obtain k v where kv: "kv = (k, v)" by fastforce
  show ?case
  proof (cases "find_field fs k")
    case None
    with Cons kv show ?thesis by (auto split: if_splits)
  next
    case (Some f)
    with Cons.prems kv obtain r1 where r1: "f v r = Some r1" "decode_fields strict fs ms r1 = Some r'"
      by (auto split: option.splits)
    from find_field_set [OF Some] assms(1) have "keeps P f" by (force simp: list_all_iff)
    with r1(1) Cons.prems(1) have "P r1" by (auto simp: keeps_def)
    with Cons.IH r1(2) show ?thesis by blast
  qed
qed simp

lemma keeps_struct [keeps_intros]: "list_all (\<lambda>kf. keeps P (snd kf)) fs \<Longrightarrow> keeps P (decode_struct strict fs)"
  unfolding keeps_def [of _ "decode_struct strict fs"]
  by (auto simp: decode_struct_def split: json.splits dest: decode_fields_keeps)

lemma strictBody_keeps:
  "list_all (\<lambda>kf. keeps P (snd kf)) fs \<Longrightarrow> P zero \<Longrightarrow> strictBody n fs zero body = Some r \<Longrightarrow> P r"
  using keeps_struct [of P fs True] by (auto simp: strictBody_def keeps_def split: option.splits)

section \<open>Formats that are read as written\<close>

locale wire_format =
  fixes enc :: "'a \<Rightarrow> string" and dec :: "string \<Rightarrow> 'a option" and ok :: "'a \<Rightarrow> bool"
  assumes round_trip: "ok x \<Longrightarrow> dec (enc x) = Some x"
begin

lemma enc_inject: "ok x \<Longrightarrow> ok y \<Longrightarrow> enc x = enc y \<longleftrightarrow> x = y"
  using round_trip by (metis option.inject)

lemma through_wire: "ok x \<Longrightarrow> map_option f (dec (enc x)) = Some (f x)"
  by (simp add: round_trip)

end

interpretation json: wire_format write_json parse_json "\<lambda>v. written v \<and> int (nesting v) \<le> maxNestingDepth"
  by unfold_locales (simp add: parse_json_written)

end
