(* ===== verification/Go_Time.thy ===== *)
theory Go_Time
  imports Go_JSON
begin

text \<open>
  Times in JSON texts: the RFC 3339 format that \<open>time.Time\<close> reads and writes, and that every time from the
  year 0 to the year 9999 is read as it was written. A \<open>time\<close> is the number of nanoseconds since the
  zero time, the first day of the year 1 in UTC.
\<close>

definition isLeap :: "int \<Rightarrow> bool" where
  "isLeap y \<longleftrightarrow> y mod 4 = 0 \<and> (y mod 100 \<noteq> 0 \<or> y mod 400 = 0)"

definition monthDays :: "int \<Rightarrow> int list" where
  "monthDays y = [31, if isLeap y then 29 else 28, 31, 30, 31, 30, 31, 31, 30, 31, 30, 31]"

text \<open>Days from the zero time to the given day; months and days count from 1.\<close>

definition daysBefore :: "int \<Rightarrow> int \<Rightarrow> int \<Rightarrow> int" where
  "daysBefore y m d =
     (let p = y - 1 in
      365 * p + p div 4 - p div 100 + p div 400 + sum_list (take (nat (m - 1)) (monthDays y)) + d - 1)"

text \<open>A number of the given digits within bounds, and the rest of the text.\<close>

fun dec_value :: "int \<Rightarrow> string \<Rightarrow> int option" where
  "dec_value n [] = Some n"
| "dec_value n (c # s) = (case digit_value c of None \<Rightarrow> None | Some d \<Rightarrow> dec_value (10 * n + int d) s)"

definition number_in :: "nat \<Rightarrow> int \<Rightarrow> int \<Rightarrow> string \<Rightarrow> (int \<times> string) option" where
  "number_in width lo hi s =
     (if length s < width then None
      else case dec_value 0 (take width s) of
        Some n \<Rightarrow> if lo \<le> n \<and> n \<le> hi then Some (n, drop width s) else None
      | None \<Rightarrow> None)"

definition expect :: "char \<Rightarrow> string \<Rightarrow> string option" where
  "expect c s = (case s of x # t \<Rightarrow> if x = c then Some t else None | [] \<Rightarrow> None)"

text \<open>An hour may have one digit only.\<close>

definition hour_in :: "string \<Rightarrow> (int \<times> string) option" where
  "hour_in s =
     (case s of
        c # d # t \<Rightarrow> number_in (if is_digit d then 2 else 1) 0 23 s
      | _ \<Rightarrow> number_in 1 0 23 s)"

text \<open>The fraction of a second: digits beyond the ninth are ignored.\<close>

definition fraction :: "string \<Rightarrow> int \<times> string" where
  "fraction s =
     (case s of
        c # d # t \<Rightarrow>
          if c \<in> set ''.,'' \<and> is_digit d then
            (let ds = takeWhile is_digit (d # t); nine = take 9 (ds @ replicate 9 CHR ''0'') in
             ((case dec_value 0 nine of Some n \<Rightarrow> n | None \<Rightarrow> 0), dropWhile is_digit (d # t)))
          else (0, s)
      | _ \<Rightarrow> (0, s))"

definition zone :: "string \<Rightarrow> int option" where
  "zone s =
     (if s = ''Z'' then Some 0
      else case s of
        c # t \<Rightarrow>
          if c = CHR ''+'' \<or> c = CHR ''-'' then
            Option.bind (number_in 2 0 24 t) (\<lambda>(h, t1).
            Option.bind (expect CHR '':'' t1) (\<lambda>t2.
            Option.bind (number_in 2 0 60 t2) (\<lambda>(m, t3).
            if t3 = [] then Some ((if c = CHR ''-'' then -1 else 1) * (h * 60 + m) * Minute) else None)))
          else None
      | [] \<Rightarrow> None)"

definition parseRFC3339 :: "string \<Rightarrow> time option" where
  "parseRFC3339 s0 =
     Option.bind (number_in 4 0 9999 s0) (\<lambda>(year, s1).
     Option.bind (expect CHR ''-'' s1) (\<lambda>s2.
     Option.bind (number_in 2 1 12 s2) (\<lambda>(month, s3).
     Option.bind (expect CHR ''-'' s3) (\<lambda>s4.
     Option.bind (number_in 2 1 (monthDays year ! nat (month - 1)) s4) (\<lambda>(day, s5).
     Option.bind (expect CHR ''T'' s5) (\<lambda>s6.
     Option.bind (hour_in s6) (\<lambda>(hour, s7).
     Option.bind (expect CHR '':'' s7) (\<lambda>s8.
     Option.bind (number_in 2 0 59 s8) (\<lambda>(minute, s9).
     Option.bind (expect CHR '':'' s9) (\<lambda>s10.
     Option.bind (number_in 2 0 59 s10) (\<lambda>(sec, s11).
     (let (nsec, s12) = fraction s11 in
      map_option (\<lambda>offset. daysBefore year month day * (24 * Hour) + hour * Hour + minute * Minute +
          sec * Second + nsec - offset) (zone s12)))))))))))))"

text \<open>A field of type \<open>time.Time\<close>; the texts have no escapes.\<close>

definition set_time :: "(time \<Rightarrow> 'r \<Rightarrow> 'r) \<Rightarrow> 'r setter" where
  "set_time upd v r =
     (case v of
        JNull \<Rightarrow> Some r
      | JStr s \<Rightarrow> (case parseRFC3339 s of Some t \<Rightarrow> Some (upd t r) | None \<Rightarrow> None)
      | _ \<Rightarrow> None)"

section \<open>Writing\<close>

text \<open>The date of a day, counted from the zero time: cycles of 400, 100, 4 and 1 years, then the month.\<close>

definition yearOf :: "int \<Rightarrow> int \<times> int" where
  "yearOf days =
     (let n400 = days div 146097; d400 = days mod 146097;
          n100 = min 3 (d400 div 36524); d100 = d400 - 36524 * n100;
          n4 = d100 div 1461; d4 = d100 mod 1461;
          n1 = min 3 (d4 div 365)
      in (400 * n400 + 100 * n100 + 4 * n4 + n1 + 1, d4 - 365 * n1))"

fun monthOf :: "int list \<Rightarrow> int \<Rightarrow> int \<Rightarrow> int \<times> int" where
  "monthOf [] m yday = (m, yday + 1)"
| "monthOf (x # xs) m yday = (if yday < x then (m, yday + 1) else monthOf xs (m + 1) (yday - x))"

fun padded :: "nat \<Rightarrow> int \<Rightarrow> string" where
  "padded 0 n = []"
| "padded (Suc w) n = padded w (n div 10) @ [digit (nat (n mod 10))]"

definition fractionText :: "int \<Rightarrow> string" where
  "fractionText nsec =
     (if nsec = 0 then [] else CHR ''.'' # rev (dropWhile (\<lambda>c. c = CHR ''0'') (rev (padded 9 nsec))))"

text \<open>\<open>t.Format(time.RFC3339Nano)\<close> of a time in UTC.\<close>

definition formatRFC3339 :: "time \<Rightarrow> string" where
  "formatRFC3339 t =
     (let days = t div (24 * Hour); clock = t mod (24 * Hour);
          (year, yday) = yearOf days; (month, day) = monthOf (monthDays year) 1 yday
      in padded 4 year @ ''-'' @ padded 2 month @ ''-'' @ padded 2 day @ ''T'' @ padded 2 (clock div Hour) @ '':'' @
         padded 2 (clock div Minute mod 60) @ '':'' @ padded 2 (clock div Second mod 60) @
         fractionText (clock mod Second) @ ''Z'')"

text \<open>\<open>MarshalJSON\<close> refuses other years.\<close>

definition json_year :: "time \<Rightarrow> bool" where
  "json_year t \<longleftrightarrow> 0 \<le> fst (yearOf (t div (24 * Hour))) \<and> fst (yearOf (t div (24 * Hour))) \<le> 9999"

lemma keeps_time [keeps_intros]: "(\<And>t r. P r \<Longrightarrow> P (upd t r)) \<Longrightarrow> keeps P (set_time upd)"
  by (auto simp: keeps_def set_time_def split: json.splits option.splits)

text \<open>The zero time and the Unix epoch, in different zones.\<close>

lemma parseRFC3339_samples:
  "parseRFC3339 ''0001-01-01T00:00:00Z'' = Some 0"
  "parseRFC3339 ''1970-01-01T00:00:00Z'' = Some (unix_epoch_seconds * Second)"
  "parseRFC3339 ''1970-01-01T01:30:00.25+01:30'' = Some (unix_epoch_seconds * Second + 250000000)"
  "parseRFC3339 ''2023-02-29T00:00:00Z'' = None"
  by code_simp+

section \<open>Times are read as written\<close>

text \<open>The last of four parts takes the day that is left over.\<close>

lemma capped_div:
  assumes "0 \<le> d" "d \<le> 4 * k" "0 < (k :: int)"
  shows "0 \<le> min 3 (d div k) \<and> min 3 (d div k) \<le> 3 \<and> 0 \<le> d - k * min 3 (d div k) \<and> d - k * min 3 (d div k) \<le> k \<and>
    (min 3 (d div k) < 3 \<longrightarrow> d - k * min 3 (d div k) < k)"
proof (cases "d div k \<le> 3")
  case True
  then have "min 3 (d div k) = d div k" by simp
  moreover have "d - k * (d div k) = d mod k" by (rule minus_mult_div_eq_mod)
  ultimately show ?thesis using assms True by (simp add: pos_imp_zdiv_nonneg_iff less_imp_le)
next
  case False
  then have "4 * k \<le> d div k * k" using assms(3) by (intro mult_right_mono) auto
  also have "\<dots> \<le> d" using assms by (simp add: minus_mod_eq_div_mult [symmetric])
  finally show ?thesis using False assms by simp
qed

lemma yearOf_correct:
  assumes "yearOf days = (year, yday)"
  shows "daysBefore year 1 1 + yday = days" "0 \<le> yday" "yday < sum_list (monthDays year)"
proof -
  define n400 where "n400 = days div 146097"
  define d400 where "d400 = days mod 146097"
  define n100 where "n100 = min 3 (d400 div 36524)"
  define d100 where "d100 = d400 - 36524 * n100"
  define n4 where "n4 = d100 div 1461"
  define d4 where "d4 = d100 mod 1461"
  define n1 where "n1 = min 3 (d4 div 365)"
  have y: "year = 400 * n400 + 100 * n100 + 4 * n4 + n1 + 1" "yday = d4 - 365 * n1"
  proof -
    have "yearOf days = (400 * n400 + 100 * n100 + 4 * n4 + n1 + 1, d4 - 365 * n1)"
      unfolding yearOf_def Let_def n400_def d400_def n100_def d100_def n4_def d4_def n1_def by (rule refl)
    with assms show "year = 400 * n400 + 100 * n100 + 4 * n4 + n1 + 1" "yday = d4 - 365 * n1" by simp_all
  qed
  have 1: "days = 146097 * n400 + d400" "0 \<le> d400" "d400 < 146097" by (simp_all add: n400_def d400_def)
  have 2: "d400 = 36524 * n100 + d100" by (simp add: d100_def)
  have 3: "0 \<le> n100" "n100 \<le> 3" "0 \<le> d100" "d100 \<le> 36524" "n100 < 3 \<longrightarrow> d100 < 36524"
    using capped_div [of d400 36524] 1(2,3) unfolding d100_def n100_def by simp_all
  have 4: "d100 = 1461 * n4 + d4" "0 \<le> d4" "d4 < 1461" by (simp_all add: n4_def d4_def)
  then have 5: "0 \<le> n4" "n4 \<le> 24" using 3 by linarith+
  have 6: "0 \<le> n1" "n1 \<le> 3" "0 \<le> d4 - 365 * n1" "d4 - 365 * n1 \<le> 365" "n1 < 3 \<longrightarrow> d4 - 365 * n1 < 365"
    using capped_div [of d4 365] 4(2,3) unfolding n1_def by simp_all
  have p: "year - 1 = 400 * n400 + (100 * n100 + 4 * n4 + n1)" "100 * n100 + 4 * n4 + n1 < 400" "0 \<le> 100 * n100 + 4 * n4 + n1"
    using y(1) 3 5 6 by linarith+
  have div: "(year - 1) div 400 = n400" "(year - 1) div 100 = 4 * n400 + n100" "(year - 1) div 4 = 100 * n400 + 25 * n100 + n4"
    using p(1) 3(1,2) 5 6(1,2)
    by (auto intro: int_div_pos_eq [where r = "100 * n100 + 4 * n4 + n1"] int_div_pos_eq [where r = "4 * n4 + n1"]
        int_div_pos_eq [where r = n1])
  show "daysBefore year 1 1 + yday = days"
    unfolding daysBefore_def Let_def div using y 1 2 4 by simp
  show "0 \<le> yday" using 6 y by simp
  have "isLeap year" if "yday = 365"
  proof -
    from that 6 y have "n1 = 3" by linarith
    with that y have "d4 = 1460" by linarith
    with 4 3 have "n4 < 24 \<or> n100 = 3" by linarith
    have year: "year = 400 * n400 + 100 * n100 + 4 * n4 + 4" using y(1) \<open>n1 = 3\<close> by simp
    then have "year = 4 * (100 * n400 + 25 * n100 + n4 + 1)" by simp
    then have "year mod 4 = 0" by simp
    moreover have "year mod 100 \<noteq> 0 \<or> year mod 400 = 0"
    proof (cases "n4 < 24")
      case True
      then have "0 < 4 * n4 + 4" "4 * n4 + 4 < 100" using 5 by simp_all
      moreover have "year = (4 * n4 + 4) + (4 * n400 + n100) * 100" using year by simp
      ultimately have "year mod 100 = 4 * n4 + 4" by (simp only: mod_mult_self1 mod_pos_pos_trivial less_imp_le)
      with 5 show ?thesis by simp
    next
      case False
      with \<open>n4 < 24 \<or> n100 = 3\<close> 5 year have "year = 400 * (n400 + 1)" by simp
      then show ?thesis by simp
    qed
    ultimately show ?thesis by (simp add: isLeap_def)
  qed
  then show "yday < sum_list (monthDays year)" using 6 y(2) by (cases "yday = 365") (auto simp: monthDays_def)
qed

lemma monthOf_correct:
  assumes "monthOf xs m0 yday = (m, d)" "0 \<le> yday" "yday < sum_list xs"
  shows "m0 \<le> m \<and> m < m0 + int (length xs) \<and> sum_list (take (nat (m - m0)) xs) + d - 1 = yday \<and>
    1 \<le> d \<and> d \<le> xs ! nat (m - m0)"
  using assms
proof (induction xs arbitrary: m0 yday)
  case (Cons x xs)
  show ?case
  proof (cases "yday < x")
    case False
    with Cons have ih: "m0 + 1 \<le> m \<and> m < m0 + 1 + int (length xs) \<and>
        sum_list (take (nat (m - (m0 + 1))) xs) + d - 1 = yday - x \<and> 1 \<le> d \<and> d \<le> xs ! nat (m - (m0 + 1))"
      by simp
    then have "nat (m - m0) = Suc (nat (m - (m0 + 1)))" by linarith
    with ih show ?thesis by simp
  qed (use Cons.prems in auto)
qed simp

lemma dec_value_append: "dec_value n (s @ t) = Option.bind (dec_value n s) (\<lambda>m. dec_value m t)"
  by (induction s arbitrary: n) (auto split: option.split)

lemma length_padded [simp]: "length (padded w n) = w"
  by (induction w arbitrary: n) simp_all

lemma digit_int: "digit_value (digit (nat (n mod 10))) = Some (nat (n mod 10))"
  by (rule digit_value_digit) linarith

lemma dec_value_padded: "dec_value 0 (padded w n) = Some (n mod 10 ^ w)"
proof (induction w arbitrary: n)
  case (Suc w)
  have "n mod (10 * 10 ^ w) = 10 * (n div 10 mod 10 ^ w) + n mod 10"
    by (simp add: zmod_zmult2_eq)
  then show ?case by (simp add: Suc.IH dec_value_append digit_int)
qed simp

lemma padded_is_digit: "c \<in> set (padded w n) \<Longrightarrow> is_digit c"
  by (induction w arbitrary: n) (auto simp: is_digit_def digit_int)

lemma number_in_padded:
  "0 \<le> n \<Longrightarrow> n < 10 ^ w \<Longrightarrow> lo \<le> n \<Longrightarrow> n \<le> hi \<Longrightarrow> number_in w lo hi (padded w n @ s) = Some (n, s)"
  by (simp add: number_in_def dec_value_padded)

lemma hour_in_padded: "0 \<le> n \<Longrightarrow> n \<le> 23 \<Longrightarrow> hour_in (padded 2 n @ s) = Some (n, s)"
proof -
  assume n: "0 \<le> n" "n \<le> 23"
  obtain c d where cd: "padded 2 n = [c, d]" by (simp add: numeral_2_eq_2)
  have "is_digit d" using padded_is_digit [of d 2 n] cd by simp
  then have "hour_in (padded 2 n @ s) = number_in 2 0 23 (padded 2 n @ s)" by (simp add: hour_in_def cd)
  then show ?thesis using n by (simp add: number_in_padded)
qed

lemma expect_Cons [simp]: "expect c (c # s) = Some s"
  by (simp add: expect_def)

lemma stripped: "rev (dropWhile (\<lambda>c. c = x) (rev xs)) @ replicate (length (takeWhile (\<lambda>c. c = x) (rev xs))) x = xs"
proof -
  have "replicate (length (takeWhile (\<lambda>c. c = x) (rev xs))) x = takeWhile (\<lambda>c. c = x) (rev xs)"
    by (rule replicate_length_same) (auto dest: set_takeWhileD)
  then have "rev (takeWhile (\<lambda>c. c = x) (rev xs)) = replicate (length (takeWhile (\<lambda>c. c = x) (rev xs))) x"
    by (metis rev_replicate)
  then show ?thesis by (metis rev_append rev_rev_ident takeWhile_dropWhile_id)
qed

lemma stripped_take:
  assumes "length xs = n"
  shows "take n (rev (dropWhile (\<lambda>c. c = x) (rev xs)) @ replicate n x) = xs"
proof -
  let ?ds = "rev (dropWhile (\<lambda>c. c = x) (rev xs))"
  let ?k = "length (takeWhile (\<lambda>c. c = x) (rev xs))"
  have k: "?k \<le> n" using assms length_takeWhile_le [of "\<lambda>c. c = x" "rev xs"] by simp
  have "length ?ds + ?k = n" using stripped [of x xs] assms by (metis length_append length_replicate)
  moreover have "replicate n x = replicate ?k x @ replicate (n - ?k) x" using k by (simp add: replicate_add [symmetric])
  ultimately have "take n (?ds @ replicate n x) = ?ds @ replicate ?k x" by simp
  then show ?thesis by (simp only: stripped)
qed

lemma fraction_digits:
  "is_digit d \<Longrightarrow> fraction (CHR ''.'' # d # t) =
     ((case dec_value 0 (take 9 (takeWhile is_digit (d # t) @ replicate 9 CHR ''0'')) of Some n \<Rightarrow> n | None \<Rightarrow> 0),
      dropWhile is_digit (d # t))"
  by (simp add: fraction_def Let_def)

lemma fraction_text:
  assumes "0 \<le> n" "n < Second"
  shows "fraction (fractionText n @ ''Z'') = (n, ''Z'')"
proof (cases "n = 0")
  case False
  define ds where "ds = rev (dropWhile (\<lambda>c. c = CHR ''0'') (rev (padded 9 n)))"
  have digits: "\<forall>c \<in> set ds. is_digit c"
    using padded_is_digit [of _ 9 n] by (auto simp: ds_def dest: set_dropWhileD)
  have pad: "take 9 (ds @ replicate 9 CHR ''0'') = padded 9 n" unfolding ds_def by (rule stripped_take) simp
  have ninth: "dec_value 0 (padded 9 n) = Some n" using assms by (simp add: dec_value_padded Second_def)
  have "ds \<noteq> []"
  proof
    assume "ds = []"
    with pad have "padded 9 n = replicate 9 CHR ''0''" by simp
    moreover have "dec_value 0 (replicate 9 CHR ''0'') = Some 0" by code_simp
    ultimately show False using ninth False by simp
  qed
  then obtain d t where dt: "ds = d # t" by (cases ds) auto
  have "\<not> is_digit CHR ''Z''" by code_simp
  then have "takeWhile is_digit (ds @ ''Z'') = ds" "dropWhile is_digit (ds @ ''Z'') = ''Z''"
    using digits by (simp_all add: takeWhile_append2 dropWhile_append2)
  then have tw: "takeWhile is_digit (d # t @ ''Z'') = d # t" "dropWhile is_digit (d # t @ ''Z'') = ''Z''" by (simp_all only: dt append.simps)
  have "fractionText n @ ''Z'' = CHR ''.'' # d # t @ ''Z''" using False dt by (simp add: fractionText_def ds_def)
  moreover have "is_digit d" using digits dt by simp
  moreover have "dec_value 0 (take 9 ((d # t) @ replicate 9 CHR ''0'')) = Some n" using pad ninth dt by (simp only:)
  ultimately show ?thesis by (simp only: fraction_digits tw) simp
qed (simp add: fractionText_def fraction_def)

lemma clock_parts:
  assumes "0 \<le> c" "c < 24 * Hour"
  shows "c div Hour \<le> 23" "0 \<le> c div Hour" "c div Hour * Hour + c div Minute mod 60 * Minute + c div Second mod 60 * Second + c mod Second = c"
    "0 \<le> c mod Second" "c mod Second < Second"
proof -
  have h: "Hour = 3600 * Second" "Minute = 60 * Second" "0 < Second" by (simp_all add: duration_defs)
  have "c div Hour < 24" using assms(2) unfolding duration_defs by linarith
  then show "c div Hour \<le> 23" by simp
  show "0 \<le> c div Hour" using assms h by (simp add: pos_imp_zdiv_nonneg_iff)
  have m: "c div Minute = c div Second div 60" "c div Hour = c div Second div 3600"
    by (simp_all add: duration_defs zdiv_zmult2_eq [symmetric])
  have "s = 3600 * (s div 3600) + 60 * (s div 60 mod 60) + s mod 60" for s :: int
  proof -
    have "s div 3600 = s div 60 div 60" using zdiv_zmult2_eq [of 60 s 60] by simp
    moreover have "s = 60 * (s div 60) + s mod 60" "s div 60 = 60 * (s div 60 div 60) + s div 60 mod 60" by simp_all
    ultimately show ?thesis by linarith
  qed
  from arg_cong [OF this [of "c div Second"], of "\<lambda>x. x * Second"]
  have "c div Second * Second = c div Hour * Hour + c div Minute mod 60 * Minute + c div Second mod 60 * Second"
    unfolding m by (simp add: h(1,2) algebra_simps)
  then show "c div Hour * Hour + c div Minute mod 60 * Minute + c div Second mod 60 * Second + c mod Second = c"
    using div_mult_mod_eq [of c Second] by linarith
  show "0 \<le> c mod Second" "c mod Second < Second" using h by simp_all
qed

lemma daysBefore_split: "daysBefore y m d = daysBefore y 1 1 + sum_list (take (nat (m - 1)) (monthDays y)) + d - 1"
  by (simp add: daysBefore_def Let_def)

lemma monthDays_le: "i < 12 \<Longrightarrow> monthDays y ! i \<le> 31"
proof -
  assume "i < 12"
  moreover have "list_all (\<lambda>x. x \<le> 31) (monthDays y)" by (simp add: monthDays_def)
  ultimately show ?thesis by (simp add: list_all_length monthDays_def)
qed

lemma parse_formatRFC3339:
  assumes "json_year t"
  shows "parseRFC3339 (formatRFC3339 t) = Some t"
proof -
  let ?days = "t div (24 * Hour)" and ?c = "t mod (24 * Hour)"
  obtain year yday where y: "yearOf ?days = (year, yday)" by fastforce
  obtain month day where m: "monthOf (monthDays year) 1 yday = (month, day)" by fastforce
  note Y = yearOf_correct [OF y] 
  note M = monthOf_correct [OF m Y(2,3)]
  have len: "length (monthDays year) = 12" by (simp add: monthDays_def)
  have year: "0 \<le> year" "year \<le> 9999" using assms y by (simp_all add: json_year_def)
  have month: "1 \<le> month" "month \<le> 12" using M len by simp_all
  have day: "1 \<le> day" "day \<le> monthDays year ! nat (month - 1)" using M by simp_all
  then have "day \<le> 31" using monthDays_le [of "nat (month - 1)" year] month by linarith
  have days: "daysBefore year month day = ?days" using M Y(1) daysBefore_split [of year month day] by simp
  have c: "0 \<le> ?c" "?c < 24 * Hour" by (simp_all add: duration_defs)
  note C = clock_parts [OF c]
  have fmt: "formatRFC3339 t = padded 4 year @ CHR ''-'' # padded 2 month @ CHR ''-'' # padded 2 day @ CHR ''T'' #
     padded 2 (?c div Hour) @ CHR '':'' # padded 2 (?c div Minute mod 60) @ CHR '':'' # padded 2 (?c div Second mod 60) @
     fractionText (?c mod Second) @ ''Z''"
    by (simp add: formatRFC3339_def y m Let_def)
  have steps: "number_in 4 0 9999 (padded 4 year @ s) = Some (year, s)" "number_in 2 1 12 (padded 2 month @ s) = Some (month, s)"
    "number_in 2 1 (monthDays year ! nat (month - 1)) (padded 2 day @ s) = Some (day, s)"
    "hour_in (padded 2 (?c div Hour) @ s) = Some (?c div Hour, s)"
    "number_in 2 0 59 (padded 2 (x mod 60) @ s) = Some (x mod 60, s)" for s x
    using year month day \<open>day \<le> 31\<close> C(1,2) by (auto intro!: number_in_padded hour_in_padded)
  have zone: "zone ''Z'' = Some 0" by code_simp
  have "parseRFC3339 (formatRFC3339 t) = Some (?days * (24 * Hour) + ?c div Hour * Hour + ?c div Minute mod 60 * Minute +
      ?c div Second mod 60 * Second + ?c mod Second - 0)"
    unfolding fmt parseRFC3339_def steps Option.bind.bind_lunit prod.case expect_Cons days
    by (simp only: fraction_text [OF C(4,5)] Let_def prod.case zone option.map)
  also have "\<dots> = Some t" using C(3) div_mult_mod_eq [of t "24 * Hour"] by (simp only: option.inject)
  finally show ?thesis .
qed

text \<open>Every time from the zero time to the end of the year 9999 can be written.\<close>

lemma json_yearI:
  assumes "0 \<le> t" "t < 3652059 * (24 * Hour)"
  shows "json_year t"
proof -
  let ?days = "t div (24 * Hour)"
  have day: "24 * Hour = 86400000000000" by (simp add: duration_defs)
  have d: "0 \<le> ?days" "?days < 3652059" using assms unfolding day by linarith+
  obtain year yday where y: "yearOf ?days = (year, yday)" by fastforce
  note Y = yearOf_correct [OF y]
  have sum: "sum_list (monthDays year) \<le> 366" by (simp add: monthDays_def)
  have before: "daysBefore year 1 1 = 365 * (year - 1) + (year - 1) div 4 - (year - 1) div 100 + (year - 1) div 400"
    by (simp add: daysBefore_def Let_def)
  have "0 \<le> year"
  proof (rule ccontr)
    assume "\<not> 0 \<le> year"
    then have p: "year - 1 \<le> - 2" by simp
    then have "(year - 1) div 4 \<le> 0" "year - 1 \<le> (year - 1) div 100" "(year - 1) div 400 \<le> 0" by linarith+
    moreover have "365 * p + a - b + c \<le> - 366" if "p \<le> - 2" "a \<le> 0" "p \<le> b" "c \<le> 0" for p a b c :: int
      using that by linarith
    ultimately have "daysBefore year 1 1 \<le> - 366" unfolding before using p by blast
    with Y d sum show False by linarith
  qed
  moreover have "year \<le> 9999"
  proof (rule ccontr)
    assume "\<not> year \<le> 9999"
    then have p: "9999 \<le> year - 1" by simp
    then have "2499 \<le> (year - 1) div 4" "(year - 1) div 100 \<le> 99 + (year - 1 - 9999)" "24 \<le> (year - 1) div 400"
      by linarith+
    moreover have "3652059 \<le> 365 * p + a - b + c" if "9999 \<le> p" "2499 \<le> a" "b \<le> 99 + (p - 9999)" "24 \<le> c" for p a b c :: int
      using that by linarith
    ultimately have "3652059 \<le> daysBefore year 1 1" unfolding before using p by blast
    with Y d show False by linarith
  qed
  ultimately show ?thesis by (simp add: json_year_def y)
qed

lemma set_time_text [simp]: "json_year t \<Longrightarrow> set_time upd (JStr (formatRFC3339 t)) r = Some (upd t r)"
  by (simp add: set_time_def parse_formatRFC3339)

interpretation rfc3339: wire_format formatRFC3339 parseRFC3339 json_year
  by unfold_locales (rule parse_formatRFC3339)

end
