(* ===== verification/Node_JSON.thy ===== *)
theory Node_JSON
  imports Model Go_Time
begin

text \<open>
  The JSON texts of nodes, job requirements and instances, as the tags in \<open>src/internal/model/model.go\<close> and
  \<open>src/internal/backend/backend.go\<close> lay them out: what a worker writes in a heartbeat and in its answer to a creation, and
  what the controller reads. Nodes and instances are read as they were written.
\<close>

section \<open>Writing\<close>

text \<open>A slice that is \<open>nil\<close> when it is empty.\<close>

definition stringsJSON :: "string list \<Rightarrow> json" where
  "stringsJSON xs = (if xs = [] then JNull else JArr (map JStr xs))"

definition intJSON :: "int \<Rightarrow> json" where
  "intJSON n = JNum (FormatInt n)"

definition capacityJSON :: "Capacity \<Rightarrow> json" where
  "capacityJSON c =
     JObj [(''total_cpu'', intJSON (TotalCPU c)), (''free_cpu'', intJSON (FreeCPU c)),
           (''total_memory_mb'', intJSON (TotalMemoryM c)), (''free_memory_mb'', intJSON (FreeMemoryM c)),
           (''running_jobs'', intJSON (RunningJobs c))]"

definition nodeMembers :: "Node \<Rightarrow> (string \<times> json) list" where
  "nodeMembers n =
     [(''id'', JStr (node_ID n))] @
     member_unless (node_Endpoint n = []) ''endpoint'' (JStr (node_Endpoint n)) @
     [(''os'', JStr (node_OS n)), (''arch'', JStr (node_Arch n)), (''backends'', stringsJSON (node_Backends n)),
      (''capabilities'', stringsJSON (node_Capabilities n))] @
     member_unless (node_Labels n = []) ''labels'' (stringsJSON (node_Labels n)) @
     [(''capacity'', capacityJSON (node_Capacity n)), (''online'', JBool (node_Online n)),
      (''last_seen'', JStr (formatRFC3339 (node_LastSeen n)))]"

definition nodeText :: "Node \<Rightarrow> string" where
  "nodeText n = write_json (JObj (nodeMembers n))"

text \<open>\<open>omitempty\<close> has no effect on a struct such as \<open>time.Time\<close>.\<close>

definition instanceMembers :: "Instance \<Rightarrow> (string \<times> json) list" where
  "instanceMembers i =
     [(''id'', JStr (inst_ID i)), (''backend'', JStr (inst_Backend i)), (''node_id'', JStr (inst_NodeID i)),
      (''deadline'', JStr (formatRFC3339 (inst_Deadline i)))]"

text \<open>An \<open>Encoder\<close> ends a value with a newline.\<close>

definition encoded :: "json \<Rightarrow> string" where
  "encoded v = write_json v @ [CHR 0x0A]"

definition instanceText :: "Instance \<Rightarrow> string" where
  "instanceText i = encoded (JObj (instanceMembers i))"

section \<open>Reading\<close>

abbreviation set_strings :: "('r \<Rightarrow> string list) \<Rightarrow> (string list \<Rightarrow> 'r \<Rightarrow> 'r) \<Rightarrow> 'r setter" where
  "set_strings \<equiv> set_slice (set_string (\<lambda>x _. x)) []"

definition capacityFields :: "(string \<times> Capacity setter) list" where
  "capacityFields =
     [(''total_cpu'', set_int (\<lambda>x c. c\<lparr>TotalCPU := x\<rparr>)), (''free_cpu'', set_int (\<lambda>x c. c\<lparr>FreeCPU := x\<rparr>)),
      (''total_memory_mb'', set_int (\<lambda>x c. c\<lparr>TotalMemoryM := x\<rparr>)),
      (''free_memory_mb'', set_int (\<lambda>x c. c\<lparr>FreeMemoryM := x\<rparr>)),
      (''running_jobs'', set_int (\<lambda>x c. c\<lparr>RunningJobs := x\<rparr>))]"

definition nodeFields :: "(string \<times> Node setter) list" where
  "nodeFields =
     [(''id'', set_string (\<lambda>x n. n\<lparr>node_ID := x\<rparr>)),
      (''endpoint'', set_string (\<lambda>x n. n\<lparr>node_Endpoint := x\<rparr>)),
      (''os'', set_string (\<lambda>x n. n\<lparr>node_OS := x\<rparr>)),
      (''arch'', set_string (\<lambda>x n. n\<lparr>node_Arch := x\<rparr>)),
      (''backends'', set_strings node_Backends (\<lambda>x n. n\<lparr>node_Backends := x\<rparr>)),
      (''capabilities'', set_strings node_Capabilities (\<lambda>x n. n\<lparr>node_Capabilities := x\<rparr>)),
      (''labels'', set_strings node_Labels (\<lambda>x n. n\<lparr>node_Labels := x\<rparr>)),
      (''capacity'', set_inner (decode_struct True capacityFields) node_Capacity (\<lambda>x n. n\<lparr>node_Capacity := x\<rparr>)),
      (''online'', set_bool (\<lambda>x n. n\<lparr>node_Online := x\<rparr>)),
      (''last_seen'', set_time (\<lambda>x n. n\<lparr>node_LastSeen := x\<rparr>))]"

definition zero_Node :: Node where
  "zero_Node = \<lparr>node_ID = [], node_Endpoint = [], node_OS = [], node_Arch = [], node_Backends = [], node_Capabilities = [],
     node_Labels = [], node_Capacity = zero_Capacity, node_Online = False, node_LastSeen = 0\<rparr>"

definition maxNodeBody :: int where
  "maxNodeBody = 2 ^ 20"

definition decodeNode :: "string \<Rightarrow> Node option" where
  "decodeNode body = strictBody maxNodeBody nodeFields zero_Node body"

definition reqFields :: "(string \<times> JobRequirements setter) list" where
  "reqFields =
     [(''repository'', set_string (\<lambda>x r. r\<lparr>req_Repository := x\<rparr>)),
      (''os'', set_string (\<lambda>x r. r\<lparr>req_OS := x\<rparr>)),
      (''arch'', set_string (\<lambda>x r. r\<lparr>req_Arch := x\<rparr>)),
      (''isolation'', set_string (\<lambda>x r. r\<lparr>req_Isolation := x\<rparr>)),
      (''capabilities'', set_strings req_Capabilities (\<lambda>x r. r\<lparr>req_Capabilities := x\<rparr>)),
      (''cpu'', set_int (\<lambda>x r. r\<lparr>req_CPU := x\<rparr>)),
      (''memory_mb'', set_int (\<lambda>x r. r\<lparr>req_MemoryM := x\<rparr>))]"

definition zero_JobRequirements :: JobRequirements where
  "zero_JobRequirements = \<lparr>req_Repository = [], req_OS = [], req_Arch = [], req_Isolation = [], req_Capabilities = [],
     req_CPU = 0, req_MemoryM = 0\<rparr>"

definition maxRequirementsBody :: int where
  "maxRequirementsBody = 2 ^ 20"

definition decodeRequirements :: "string \<Rightarrow> JobRequirements option" where
  "decodeRequirements body = strictBody maxRequirementsBody reqFields zero_JobRequirements body"

definition instanceFields :: "(string \<times> Instance setter) list" where
  "instanceFields =
     [(''id'', set_string (\<lambda>x i. i\<lparr>inst_ID := x\<rparr>)),
      (''backend'', set_string (\<lambda>x i. i\<lparr>inst_Backend := x\<rparr>)),
      (''node_id'', set_string (\<lambda>x i. i\<lparr>inst_NodeID := x\<rparr>)),
      (''deadline'', set_time (\<lambda>x i. i\<lparr>inst_Deadline := x\<rparr>))]"

definition zero_Instance :: Instance where
  "zero_Instance = \<lparr>inst_ID = [], inst_Backend = [], inst_NodeID = [], inst_Deadline = 0\<rparr>"

definition decodeInstance :: "string \<Rightarrow> Instance option" where
  "decodeInstance body =
     (case decode_first body of None \<Rightarrow> None | Some (v, _) \<Rightarrow> decode_struct False instanceFields v zero_Instance)"

section \<open>Round trips\<close>

definition capacity_ok :: "Capacity \<Rightarrow> bool" where
  "capacity_ok c \<longleftrightarrow> in_int64 (TotalCPU c) \<and> in_int64 (FreeCPU c) \<and> in_int64 (TotalMemoryM c) \<and> in_int64 (FreeMemoryM c) \<and>
     in_int64 (RunningJobs c)"

definition node_ok :: "Node \<Rightarrow> bool" where
  "node_ok n \<longleftrightarrow> capacity_ok (node_Capacity n) \<and> json_year (node_LastSeen n)"

lemma set_intJSON [simp]: "in_int64 n \<Longrightarrow> set_int upd (intJSON n) r = Some (upd n r)"
  by (simp add: intJSON_def)

lemma written_intJSON [simp]: "written (intJSON n)" "nesting (intJSON n) = 0"
  by (auto simp: intJSON_def)

lemma set_stringsJSON: "get r = [] \<Longrightarrow> set_strings get upd (stringsJSON xs) r = Some (upd xs r)"
  using set_slice_zero [of xs "set_string (\<lambda>x _. x)" JStr "[]" get r upd] by (simp add: stringsJSON_def set_slice_def)

lemma decode_capacity:
  "capacity_ok c \<Longrightarrow> decode_struct True capacityFields (capacityJSON c) r = Some c"
  by (simp add: capacity_ok_def decode_struct_def capacityJSON_def capacityFields_def find_field_def)

lemma decode_nodeMembers:
  assumes "node_ok n"
  shows "decode_fields True nodeFields (nodeMembers n) zero_Node = Some n"
  using assms
  by (auto simp: node_ok_def nodeMembers_def nodeFields_def zero_Node_def find_field_def member_unless_def set_stringsJSON
      set_inner_def decode_capacity)

lemma stringsJSON_written: "written (stringsJSON xs)" "nesting (stringsJSON xs) \<le> Suc 0"
  using strings_written [of xs] by (simp_all add: stringsJSON_def)

lemma nodeMembers_written: "kv \<in> set (nodeMembers n) \<Longrightarrow> written (snd kv) \<and> nesting (snd kv) \<le> 1"
  using stringsJSON_written
  by (auto simp: nodeMembers_def member_unless_def capacityJSON_def split: if_splits)

lemma decodeNode_nodeText:
  assumes "node_ok n" "int (length (nodeText n)) \<le> maxNodeBody"
  shows "decodeNode (nodeText n) = Some n"
  unfolding decodeNode_def nodeText_def using assms
  by (intro strictBody_written decode_nodeMembers) (auto simp: nodeText_def dest: nodeMembers_written)

text \<open>Whatever is read, its numbers are 64-bit numbers.\<close>

lemma decodeNode_typed: "decodeNode body = Some n \<Longrightarrow> capacity_ok (node_Capacity n)"
proof -
  let ?P = "\<lambda>n. capacity_ok (node_Capacity n)"
  have "keeps capacity_ok (decode_struct True capacityFields)"
    by (auto simp: capacityFields_def capacity_ok_def intro!: keeps_intros)
  then have "list_all (\<lambda>kf. keeps ?P (snd kf)) nodeFields"
    by (auto simp: nodeFields_def intro!: keeps_scalars keeps_containers keeps_time keeps_inner)
  moreover have "?P zero_Node" by (simp add: capacity_ok_def zero_Node_def zero_Capacity_def in_int64_def)
  ultimately show "decodeNode body = Some n \<Longrightarrow> ?thesis" unfolding decodeNode_def by (rule strictBody_keeps)
qed

definition requirements_ok :: "JobRequirements \<Rightarrow> bool" where
  "requirements_ok r \<longleftrightarrow> in_int64 (req_CPU r) \<and> in_int64 (req_MemoryM r)"

lemma decodeRequirements_typed: "decodeRequirements body = Some r \<Longrightarrow> requirements_ok r"
proof -
  have "list_all (\<lambda>kf. keeps requirements_ok (snd kf)) reqFields"
    by (auto simp: reqFields_def requirements_ok_def intro!: keeps_intros)
  moreover have "requirements_ok zero_JobRequirements" by (simp add: requirements_ok_def zero_JobRequirements_def in_int64_def)
  ultimately show "decodeRequirements body = Some r \<Longrightarrow> ?thesis" unfolding decodeRequirements_def by (rule strictBody_keeps)
qed

interpretation node: wire_format nodeText decodeNode
  "\<lambda>n. node_ok n \<and> int (length (nodeText n)) \<le> maxNodeBody"
  by unfold_locales (simp add: decodeNode_nodeText)

lemma decode_first_encoded:
  assumes "written v" "int (nesting v) \<le> maxNestingDepth"
  shows "decode_first (encoded v) = Some (v, [CHR 0x0A])"
proof -
  have "delimiter [CHR 0x0A]" by code_simp
  with decode_first_renders [OF renders_written, of v "[]" "[CHR 0x0A]"] assms show ?thesis by (simp add: encoded_def)
qed

lemma decodeInstance_instanceText:
  assumes "json_year (inst_Deadline i)"
  shows "decodeInstance (instanceText i) = Some i"
proof -
  have "decode_first (instanceText i) = Some (JObj (instanceMembers i), [CHR 0x0A])"
    unfolding instanceText_def using members_written [of "instanceMembers i"]
    by (intro decode_first_encoded) (auto simp: instanceMembers_def)
  with assms show ?thesis
    by (simp add: decodeInstance_def decode_struct_def instanceMembers_def instanceFields_def zero_Instance_def find_field_def)
qed

lemma decodeInstance_empty: "decodeInstance [] = None"
  by code_simp

interpretation inst: wire_format instanceText decodeInstance "\<lambda>i. json_year (inst_Deadline i)"
  by unfold_locales (rule decodeInstance_instanceText)

end
