(* ===== verification/Go_URL.thy ===== *)
theory Go_URL
  imports Go_Prelude Go_Crypto
begin

text \<open>
  The package \<open>net/url\<close> as far as the sources use it (\<open>Parse\<close>, \<open>ParseRequestURI\<close>, \<open>PathEscape\<close>), after
  the library of Go 1.23, the version the module names, and the part of \<open>http.NewRequestWithContext\<close> that can
  fail: parsing the URL. The lemmas show that escaping is undone by unescaping, that an escaped segment has no
  slash, and what scheme and host a parsed URL has.
\<close>

section \<open>Escaping\<close>

text \<open>\<open>url.PathEscape\<close>: unreserved bytes and \<open>$ & + = : @\<close> are kept, every other byte is escaped.\<close>

definition alnum :: "char \<Rightarrow> bool" where
  "alnum c \<longleftrightarrow>
     (let n = of_char c :: nat in 65 \<le> n \<and> n \<le> 90 \<or> 97 \<le> n \<and> n \<le> 122 \<or> 48 \<le> n \<and> n \<le> 57)"

definition path_byte :: "char \<Rightarrow> bool" where
  "path_byte c \<longleftrightarrow> alnum c \<or> c \<in> set ''-_.~$&+=:@''"

definition upper_hex :: "nat \<Rightarrow> char" where
  "upper_hex d = (if d < 10 then char_of (48 + d) else char_of (55 + d))"

definition escape_byte :: "char \<Rightarrow> string" where
  "escape_byte c =
     (if path_byte c then [c]
      else let n = of_char c :: nat in [CHR 0x25, upper_hex (n div 16), upper_hex (n mod 16)])"

definition PathEscape :: "string \<Rightarrow> string" where
  "PathEscape s = concat (map escape_byte s)"

text \<open>
  \<open>unescape\<close> for the modes that occur: \<open>encodePath\<close> stands for all the modes that accept every byte and every
  escape (paths, path segments, fragments, user names); hosts accept only some.
\<close>

datatype url_mode = encodePath | encodeHost | encodeZone

definition host_byte :: "char \<Rightarrow> bool" where
  "host_byte c \<longleftrightarrow> alnum c \<or> c \<in> set ''-_.~!$&()*+,;=:[]<>'' \<or> c = CHR 0x27 \<or> c = CHR 0x22"

definition EscapeError :: "string \<Rightarrow> goerror" where
  "EscapeError s = Errorf (''invalid URL escape '' @ Quote s)"

definition InvalidHostError :: "string \<Rightarrow> goerror" where
  "InvalidHostError s = Errorf (''invalid character '' @ Quote s @ '' in host name'')"

definition bad_escape :: "url_mode \<Rightarrow> nat \<Rightarrow> nat \<Rightarrow> bool" where
  "bad_escape m x y \<longleftrightarrow>
     (case m of
        encodePath \<Rightarrow> False
      | encodeHost \<Rightarrow> x < 8 \<and> (x, y) \<noteq> (2, 5)
      | encodeZone \<Rightarrow> (x, y) \<noteq> (2, 5) \<and> 16 * x + y \<noteq> 32 \<and> \<not> host_byte (char_of (16 * x + y)))"

fun unescape :: "url_mode \<Rightarrow> string \<Rightarrow> goerror + string" where
  "unescape m [] = Inr []"
| "unescape m (c # s) =
     (if c = CHR 0x25 then
        (case s of
           a # b # r \<Rightarrow>
             (case (hex_value a, hex_value b) of
                (Some x, Some y) \<Rightarrow>
                  if bad_escape m x y then Inl (EscapeError [c, a, b])
                  else map_sum id (Cons (char_of (16 * x + y))) (unescape m r)
              | _ \<Rightarrow> Inl (EscapeError [c, a, b]))
         | _ \<Rightarrow> Inl (EscapeError (c # s)))
      else if m \<noteq> encodePath \<and> (of_char c :: nat) < 128 \<and> \<not> host_byte c then Inl (InvalidHostError [c])
      else map_sum id (Cons c) (unescape m s))"

section \<open>Parsing\<close>

record URL =
  url_Scheme :: string
  url_Opaque :: string
  url_User :: "string option"
  url_Host :: string
  url_Path :: string
  url_RawQuery :: string
  url_Fragment :: string

definition zero_URL :: URL where
  "zero_URL = \<lparr>url_Scheme = [], url_Opaque = [], url_User = None, url_Host = [], url_Path = [], url_RawQuery = [],
     url_Fragment = []\<rparr>"

text \<open>\<open>strings.Cut(s, sep)\<close> for a separator of one byte, and the part before and from the last one.\<close>

definition Cut :: "string \<Rightarrow> char \<Rightarrow> string \<times> string" where
  "Cut s sep = (takeWhile (\<lambda>c. c \<noteq> sep) s, drop 1 (dropWhile (\<lambda>c. c \<noteq> sep) s))"

definition before_last :: "string \<Rightarrow> char \<Rightarrow> string" where
  "before_last s sep = rev (drop 1 (dropWhile (\<lambda>c. c \<noteq> sep) (rev s)))"

definition after_last :: "string \<Rightarrow> char \<Rightarrow> string" where
  "after_last s sep = rev (takeWhile (\<lambda>c. c \<noteq> sep) (rev s))"

definition scheme_byte :: "char \<Rightarrow> bool" where
  "scheme_byte c \<longleftrightarrow> alnum c \<or> c \<in> set ''+-.''"

definition getScheme :: "string \<Rightarrow> goerror + string \<times> string" where
  "getScheme raw =
     (case dropWhile scheme_byte raw of
        c # rest \<Rightarrow>
          if c = CHR '':'' then
            if takeWhile scheme_byte raw = [] then Inl (Errorf ''missing protocol scheme'')
            else if alnum (hd raw) \<and> digit_value (hd raw) = None then Inr (takeWhile scheme_byte raw, rest)
            else Inr ([], raw)
          else Inr ([], raw)
      | [] \<Rightarrow> Inr ([], raw))"

definition validOptionalPort :: "string \<Rightarrow> bool" where
  "validOptionalPort port \<longleftrightarrow>
     (case port of [] \<Rightarrow> True | c # ds \<Rightarrow> c = CHR '':'' \<and> list_all (\<lambda>d. digit_value d \<noteq> None) ds)"

definition validUserinfo :: "string \<Rightarrow> bool" where
  "validUserinfo s \<longleftrightarrow> list_all (\<lambda>c. alnum c \<or> c \<in> set ''-._:~!$&()*+,;=@'' \<or> c = CHR 0x27 \<or> c = CHR 0x25) s"

text \<open>The text before the first \<open>%25\<close>, if there is one.\<close>

fun before_zone :: "string \<Rightarrow> string option" where
  "before_zone [] = None"
| "before_zone (c # s) =
     (if HasPrefix (c # s) [CHR 0x25, CHR ''2'', CHR ''5''] then Some []
      else map_option (Cons c) (before_zone s))"

definition bindr :: "goerror + 'a \<Rightarrow> ('a \<Rightarrow> goerror + 'b) \<Rightarrow> goerror + 'b" where
  "bindr r f = (case r of Inl e \<Rightarrow> Inl e | Inr x \<Rightarrow> f x)"

definition parseHost :: "string \<Rightarrow> goerror + string" where
  "parseHost host =
     (if HasPrefix host ''['' then
        if CHR '']'' \<notin> set host then Inl (Errorf (''missing '' @ [CHR 0x27, CHR '']'', CHR 0x27] @ '' in host''))
        else let inside = before_last host CHR '']''; colonPort = after_last host CHR '']'' in
          if \<not> validOptionalPort colonPort
          then Inl (Errorf (''invalid port '' @ Quote colonPort @ '' after host''))
          else case before_zone inside of
            Some h \<Rightarrow>
              bindr (unescape encodeHost h) (\<lambda>host1.
              bindr (unescape encodeZone (drop (length h) inside)) (\<lambda>host2.
              bindr (unescape encodeHost ('']'' @ colonPort)) (\<lambda>host3. Inr (host1 @ host2 @ host3))))
          | None \<Rightarrow> unescape encodeHost host
      else if CHR '':'' \<in> set host \<and> \<not> validOptionalPort ('':'' @ after_last host CHR '':'')
      then Inl (Errorf (''invalid port '' @ Quote ('':'' @ after_last host CHR '':'') @ '' after host''))
      else unescape encodeHost host)"

definition parseAuthority :: "string \<Rightarrow> goerror + string option \<times> string" where
  "parseAuthority authority =
     (if CHR ''@'' \<notin> set authority then bindr (parseHost authority) (\<lambda>host. Inr (None, host))
      else bindr (parseHost (after_last authority CHR ''@'')) (\<lambda>host.
        let userinfo = before_last authority CHR ''@'' in
        if \<not> validUserinfo userinfo then Inl (Errorf ''net/url: invalid userinfo'')
        else if CHR '':'' \<notin> set userinfo
        then bindr (unescape encodePath userinfo) (\<lambda>user. Inr (Some user, host))
        else let (username, password) = Cut userinfo CHR '':'' in
          bindr (unescape encodePath username) (\<lambda>user.
          bindr (unescape encodePath password) (\<lambda>_. Inr (Some user, host)))))"

definition parse_hier :: "URL \<Rightarrow> string \<Rightarrow> bool \<Rightarrow> goerror + URL" where
  "parse_hier u rest viaRequest =
     (if (url_Scheme u \<noteq> [] \<or> \<not> viaRequest \<and> \<not> HasPrefix rest ''///'') \<and> HasPrefix rest ''//''
      then let authority = takeWhile (\<lambda>c. c \<noteq> CHR ''/'') (drop 2 rest);
               path = dropWhile (\<lambda>c. c \<noteq> CHR ''/'') (drop 2 rest) in
        bindr (parseAuthority authority) (\<lambda>(user, host).
        bindr (unescape encodePath path) (\<lambda>p. Inr (u\<lparr>url_User := user, url_Host := host, url_Path := p\<rparr>)))
      else bindr (unescape encodePath rest) (\<lambda>p. Inr (u\<lparr>url_Path := p\<rparr>)))"

definition parse_rest :: "string \<Rightarrow> string \<Rightarrow> bool \<Rightarrow> goerror + URL" where
  "parse_rest scheme after viaRequest =
     (let (rest, query) = Cut after CHR ''?'';
          u = zero_URL\<lparr>url_Scheme := ToLower scheme, url_RawQuery := query\<rparr> in
      if \<not> HasPrefix rest ''/'' \<and> scheme \<noteq> [] then Inr (u\<lparr>url_Opaque := rest\<rparr>)
      else if \<not> HasPrefix rest ''/'' \<and> viaRequest then Inl (Errorf ''invalid URI for request'')
      else if \<not> HasPrefix rest ''/'' \<and> CHR '':'' \<in> set (fst (Cut rest CHR ''/''))
      then Inl (Errorf ''first path segment in URL cannot contain colon'')
      else parse_hier u rest viaRequest)"

text \<open>\<open>parse\<close>: the first argument is the text before the fragment.\<close>

definition url_parse :: "string \<Rightarrow> bool \<Rightarrow> goerror + URL" where
  "url_parse raw viaRequest =
     (if list_ex (\<lambda>c. (of_char c :: nat) < 32 \<or> (of_char c :: nat) = 127) raw
      then Inl (Errorf ''net/url: invalid control character in URL'')
      else if raw = [] \<and> viaRequest then Inl (Errorf ''empty url'')
      else if raw = ''*'' then Inr (zero_URL\<lparr>url_Path := ''*''\<rparr>)
      else bindr (getScheme raw) (\<lambda>(scheme, after). parse_rest scheme after viaRequest))"

definition url_error :: "string \<Rightarrow> goerror \<Rightarrow> goerror" where
  "url_error raw err = Wrapf (''parse '' @ Quote raw @ '': '') err []"

definition url_Parse :: "string \<Rightarrow> goerror + URL" where
  "url_Parse raw =
     (let (before, frag) = Cut raw CHR ''#'' in
      case url_parse before False of
        Inl err \<Rightarrow> Inl (url_error before err)
      | Inr u \<Rightarrow>
      case unescape encodePath frag of
        Inl err \<Rightarrow> Inl (url_error raw err)
      | Inr f \<Rightarrow> Inr (u\<lparr>url_Fragment := f\<rparr>))"

definition ParseRequestURI :: "string \<Rightarrow> goerror + URL" where
  "ParseRequestURI raw =
     (case url_parse raw True of Inl err \<Rightarrow> Inl (url_error raw err) | Inr u \<Rightarrow> Inr u)"

text \<open>\<open>http.NewRequestWithContext\<close> with one of the methods of \<open>net/http\<close>: the error, if the URL has one.\<close>

definition NewRequest_error :: "string \<Rightarrow> goerror option" where
  "NewRequest_error url = (case url_Parse url of Inl err \<Rightarrow> Some err | Inr _ \<Rightarrow> None)"

section \<open>Lemmas\<close>

lemma hex_value_upper: "d < 16 \<Longrightarrow> hex_value (upper_hex d) = Some d"
  by (auto simp: hex_value_def upper_hex_def Let_def)

lemma path_byte_not_percent: "path_byte c \<Longrightarrow> c \<noteq> CHR 0x25"
  by (auto simp: path_byte_def alnum_def)

lemma unescape_byte: "unescape encodePath (escape_byte c @ s) = map_sum id (Cons c) (unescape encodePath s)"
proof (cases "path_byte c")
  case True
  then show ?thesis by (simp add: escape_byte_def path_byte_not_percent)
next
  case False
  have "(of_char c :: nat) div 16 < 16" using nat_of_char_less_256 [of c] by linarith
  with False show ?thesis by (simp add: escape_byte_def Let_def hex_value_upper bad_escape_def)
qed

lemma unescape_PathEscape [simp]: "unescape encodePath (PathEscape s) = Inr s"
  by (induction s) (simp_all add: PathEscape_def unescape_byte)

lemma PathEscape_inject [simp]: "PathEscape s = PathEscape t \<longleftrightarrow> s = t"
  using unescape_PathEscape by (metis sum.inject(2))

lemma path_byte_upper_hex: "d < 16 \<Longrightarrow> path_byte (upper_hex d)"
  by (auto simp: path_byte_def alnum_def upper_hex_def Let_def)

lemma PathEscape_bytes: "c \<in> set (PathEscape s) \<Longrightarrow> path_byte c \<or> c = CHR 0x25"
proof -
  have "path_byte (upper_hex (of_char x div 16))" "path_byte (upper_hex (of_char x mod 16))" for x
    using nat_of_char_less_256 [of x] by (intro path_byte_upper_hex, linarith)+
  then have "c \<in> set (escape_byte x) \<Longrightarrow> path_byte c \<or> c = CHR 0x25" for x
    unfolding escape_byte_def Let_def by (metis empty_iff insert_iff list.set(1,2))
  then show "c \<in> set (PathEscape s) \<Longrightarrow> ?thesis" by (auto simp: PathEscape_def)
qed

lemma slash_notin_PathEscape [simp]: "CHR ''/'' \<notin> set (PathEscape s)"
proof -
  have "\<not> path_byte CHR ''/''" by code_simp
  then show ?thesis using PathEscape_bytes by force
qed

lemma unescape_plain:
  "CHR 0x25 \<notin> set a \<Longrightarrow> unescape encodePath (a @ s) = map_sum id ((@) a) (unescape encodePath s)"
  by (induction a; cases "unescape encodePath s") auto

lemma bindr_Inr: "bindr r f = Inr y \<longleftrightarrow> (\<exists>x. r = Inr x \<and> f x = Inr y)"
  by (cases r) (simp_all add: bindr_def)

lemma getScheme_Inr:
  "getScheme raw = Inr (scheme, rest) \<Longrightarrow> scheme \<noteq> [] \<Longrightarrow> raw = scheme @ '':'' @ rest"
  by (auto simp: getScheme_def split: list.splits if_splits) (metis takeWhile_dropWhile_id)

lemma parse_hier_host:
  "parse_hier u rest v = Inr u' \<Longrightarrow>
     url_Scheme u' = url_Scheme u \<and> (url_Host u' \<noteq> url_Host u \<longrightarrow> HasPrefix rest ''//'')"
  by (auto simp: parse_hier_def bindr_Inr Let_def split: if_splits)

lemma HasPrefix_longer: "HasPrefix s p \<Longrightarrow> HasPrefix (s @ t) p"
  by (auto simp: HasPrefix_iff)

lemma HasPrefix_Cut: "HasPrefix (fst (Cut s c)) p \<Longrightarrow> HasPrefix s p"
  using HasPrefix_longer [of "fst (Cut s c)" p "dropWhile (\<lambda>x. x \<noteq> c) s"] by (simp add: Cut_def)

lemma parse_rest_host:
  assumes "parse_rest scheme after v = Inr u"
  shows "url_Scheme u = ToLower scheme \<and> (url_Host u \<noteq> [] \<longrightarrow> HasPrefix after ''//'')"
proof -
  obtain rest query where c: "Cut after CHR ''?'' = (rest, query)" by fastforce
  have "HasPrefix rest ''//'' \<Longrightarrow> HasPrefix after ''//''" using HasPrefix_Cut [of after "CHR ''?''" "''//''"] c by simp
  then show ?thesis using assms c parse_hier_host [of _ rest v u]
    by (auto simp: parse_rest_def Let_def zero_URL_def split: if_splits)
qed

text \<open>A parsed URL starts with its scheme, up to case, and has a host only after two slashes.\<close>

lemma url_Parse_host:
  assumes "url_Parse raw = Inr u" and "url_Scheme u \<noteq> []"
  shows "\<exists>scheme rest. raw = scheme @ '':'' @ rest \<and> ToLower scheme = url_Scheme u \<and>
     (url_Host u \<noteq> [] \<longrightarrow> HasPrefix rest ''//'')"
proof -
  obtain before frag where c: "Cut raw CHR ''#'' = (before, frag)" by fastforce
  with assms obtain u0 where u0: "url_parse before False = Inr u0" "url_Scheme u0 = url_Scheme u" "url_Host u0 = url_Host u"
    by (auto simp: url_Parse_def split: sum.splits)
  with assms(2) obtain scheme after where g: "getScheme before = Inr (scheme, after)" "parse_rest scheme after False = Inr u0"
    by (auto simp: url_parse_def bindr_Inr zero_URL_def split: if_splits)
  note r = parse_rest_host [OF g(2)]
  with u0 assms(2) have "scheme \<noteq> []" by (auto simp: ToLower_def)
  with g have b: "before = scheme @ '':'' @ after" by (intro getScheme_Inr)
  obtain tail where "raw = before @ tail"
    using c takeWhile_dropWhile_id by (metis Cut_def prod.inject)
  moreover have "HasPrefix after ''//'' \<Longrightarrow> HasPrefix (after @ tail) ''//''" by (rule HasPrefix_longer)
  ultimately show ?thesis using b r u0
    by (intro exI [of _ scheme] exI [of _ "after @ tail"]) auto
qed

section \<open>The shape of a URL with a host\<close>

definition ctl_byte :: "char \<Rightarrow> bool" where
  "ctl_byte c \<longleftrightarrow> (of_char c :: nat) < 32 \<or> (of_char c :: nat) = 127"

text \<open>Scheme and authority of a URL that can be parsed, and the bytes of a path that cannot spoil it.\<close>

definition url_shape :: "string \<Rightarrow> string \<Rightarrow> bool" where
  "url_shape scheme auth \<longleftrightarrow>
     scheme \<noteq> [] \<and> list_all scheme_byte scheme \<and> alnum (hd scheme) \<and> digit_value (hd scheme) = None \<and>
     list_all (\<lambda>c. c \<noteq> CHR ''/'' \<and> c \<noteq> CHR ''?'' \<and> c \<noteq> CHR ''#'' \<and> \<not> ctl_byte c) auth \<and> \<not> isl (parseAuthority auth)"

definition url_path :: "string \<Rightarrow> bool" where
  "url_path path \<longleftrightarrow>
     list_all (\<lambda>c. c \<noteq> CHR ''?'' \<and> c \<noteq> CHR ''#'' \<and> \<not> ctl_byte c) path \<and>
     (path = [] \<or> hd path = CHR ''/'') \<and> \<not> isl (unescape encodePath path)"

lemma scheme_byte_plain: "scheme_byte c \<Longrightarrow> c \<noteq> CHR '':'' \<and> c \<noteq> CHR ''?'' \<and> c \<noteq> CHR ''#'' \<and> \<not> ctl_byte c"
  by (auto simp: scheme_byte_def alnum_def ctl_byte_def Let_def)

lemma Cut_none: "c \<notin> set s \<Longrightarrow> Cut s c = (s, [])"
  by (induction s) (auto simp: Cut_def)

lemma Cut_first: "c \<notin> set a \<Longrightarrow> Cut (a @ c # b) c = (a, b)"
  by (auto simp: Cut_def takeWhile_append dropWhile_append)

lemma getScheme_build:
  "url_shape scheme auth \<Longrightarrow> getScheme (scheme @ CHR '':'' # rest) = Inr (scheme, rest)"
proof -
  assume "url_shape scheme auth"
  moreover have "\<not> scheme_byte CHR '':''" by code_simp
  ultimately show ?thesis
    by (auto simp: url_shape_def getScheme_def list_all_iff takeWhile_append dropWhile_append split: list.splits)
qed

lemma url_Parse_build:
  assumes "url_shape scheme auth" and "url_path path"
  shows "\<exists>u. url_Parse (scheme @ ''://'' @ auth @ path) = Inr u"
proof -
  let ?raw = "scheme @ ''://'' @ auth @ path"
  have bytes: "c \<noteq> CHR ''#'' \<and> \<not> ctl_byte c" if "c \<in> set ?raw" for c
  proof -
    have "list_all (\<lambda>c. c \<noteq> CHR ''#'' \<and> \<not> ctl_byte c) ''://''" by code_simp
    with that assms show ?thesis using scheme_byte_plain by (fastforce simp: url_shape_def url_path_def list_all_iff)
  qed
  have q: "CHR ''?'' \<notin> set (''//'' @ auth @ path)" using assms by (auto simp: url_shape_def url_path_def list_all_iff)
  have a: "takeWhile (\<lambda>c. c \<noteq> CHR ''/'') (auth @ path) = auth \<and> dropWhile (\<lambda>c. c \<noteq> CHR ''/'') (auth @ path) = path"
    using assms by (cases path) (auto simp: url_shape_def url_path_def list_all_iff takeWhile_append dropWhile_append)
  obtain user host where pa: "parseAuthority auth = Inr (user, host)"
    using assms(1) by (cases "parseAuthority auth") (auto simp: url_shape_def)
  obtain p where pp: "unescape encodePath path = Inr p"
    using assms(2) by (cases "unescape encodePath path") (auto simp: url_path_def)
  have "\<exists>u. parse_rest scheme (''//'' @ auth @ path) False = Inr u"
    using assms(1) a pa pp Cut_none [OF q]
    by (simp add: parse_rest_def parse_hier_def HasPrefix_def bindr_def zero_URL_def url_shape_def ToLower_def)
  moreover have "\<not> list_ex ctl_byte ?raw" using bytes by (auto simp: list_ex_iff)
  moreover have "CHR ''#'' \<notin> set ?raw" using bytes by blast
  moreover have "?raw \<noteq> ''*''" using assms(1) by (cases scheme) (auto simp: url_shape_def)
  ultimately show ?thesis using getScheme_build [OF assms(1), of "''//'' @ auth @ path"]
    by (auto simp: url_Parse_def url_parse_def Cut_none bindr_def ctl_byte_def [abs_def])
qed

lemma url_Parse_split:
  assumes "url_Parse raw = Inr u" "CHR ''?'' \<notin> set raw" "CHR ''#'' \<notin> set raw" "url_Scheme u \<noteq> []" "url_Host u \<noteq> []"
  obtains scheme auth path where "raw = scheme @ ''://'' @ auth @ path" "url_shape scheme auth" "url_path path"
    "ToLower scheme = url_Scheme u"
proof -
  from assms obtain u0 where u0: "url_parse raw False = Inr u0" "url_Scheme u0 = url_Scheme u" "url_Host u0 = url_Host u"
    by (auto simp: url_Parse_def Cut_none split: sum.splits)
  with assms obtain scheme after where g: "getScheme raw = Inr (scheme, after)" "parse_rest scheme after False = Inr u0"
    and ctl: "\<not> list_ex ctl_byte raw"
    by (auto simp: url_parse_def bindr_Inr zero_URL_def ctl_byte_def [abs_def] split: if_splits)
  note r = parse_rest_host [OF g(2)]
  with u0 assms have s: "scheme \<noteq> []" by (auto simp: ToLower_def)
  with g have raw: "raw = scheme @ '':'' @ after" by (intro getScheme_Inr)
  from r u0 assms obtain rest where after: "after = ''//'' @ rest" by (auto simp: HasPrefix_iff)
  let ?a = "takeWhile (\<lambda>c. c \<noteq> CHR ''/'') rest" and ?p = "dropWhile (\<lambda>c. c \<noteq> CHR ''/'') rest"
  have "CHR ''?'' \<notin> set after" using raw assms(2) by auto
  with g(2) after s have ok: "\<not> isl (parseAuthority ?a)" "\<not> isl (unescape encodePath ?p)"
    by (auto simp: parse_rest_def Cut_none parse_hier_def HasPrefix_def bindr_Inr Let_def zero_URL_def ToLower_def)
  have sch: "list_all scheme_byte scheme \<and> alnum (hd scheme) \<and> digit_value (hd scheme) = None"
    using g(1) s by (cases raw) (auto simp: getScheme_def list_all_iff dest: set_takeWhileD split: list.splits if_splits)
  have parts: "set ?a \<subseteq> set raw" "set ?p \<subseteq> set raw" using raw after by (auto dest: set_takeWhileD set_dropWhileD)
  have "url_shape scheme ?a" using s sch ok(1) parts(1) assms(2,3) ctl
    by (auto simp: url_shape_def list_all_iff list_ex_iff dest: set_takeWhileD)
  moreover have "url_path ?p" using ok(2) parts(2) assms(2,3) ctl hd_dropWhile [of "\<lambda>c. c \<noteq> CHR ''/''" rest]
    by (auto simp: url_path_def list_all_iff list_ex_iff dropWhile_eq_Nil_conv)
  ultimately show thesis using that [of scheme ?a ?p] raw after r u0 by simp
qed

lemma path_byte_harmless: "path_byte c \<Longrightarrow> c \<noteq> CHR ''?'' \<and> c \<noteq> CHR ''#'' \<and> \<not> ctl_byte c"
  by (auto simp: path_byte_def alnum_def ctl_byte_def Let_def)

lemma url_path_segment:
  assumes "list_all (\<lambda>c. path_byte c \<or> c = CHR ''/'') dir" "dir \<noteq> []" "hd dir = CHR ''/''"
  shows "url_path (dir @ PathEscape s)"
proof -
  have other: "\<not> ctl_byte CHR ''/''" "\<not> ctl_byte CHR 0x25" by code_simp+
  have "\<not> isl (unescape encodePath (dir @ PathEscape s))"
    using assms(1) path_byte_not_percent by (subst unescape_plain) (auto simp: list_all_iff)
  moreover have "c \<noteq> CHR ''?'' \<and> c \<noteq> CHR ''#'' \<and> \<not> ctl_byte c" if "c \<in> set (dir @ PathEscape s)" for c
    using that assms(1) PathEscape_bytes [of c s] path_byte_harmless [of c] other by (auto simp: list_all_iff)
  ultimately show ?thesis using assms(2,3) by (auto simp: url_path_def list_all_iff)
qed

end
