(* ===== verification/Go_Paths.thy ===== *)
theory Go_Paths
  imports Go_Prelude
begin

text \<open>
  Strings joined by a separator (\<open>strings.Join\<close>) and slash-separated paths (\<open>path/filepath\<close> on a Unix
  system): \<open>IsAbs\<close>, \<open>Clean\<close> and \<open>Join\<close>. \<open>Clean\<close> follows its documentation: empty and \<open>.\<close> elements are
  dropped, an inner \<open>..\<close> removes the element before it, and a leading \<open>..\<close> of a rooted path is
  dropped. The lemmas compute the clean form of a path that is extended below a directory.
\<close>

fun strings_Join :: "string \<Rightarrow> string list \<Rightarrow> string" where
  "strings_Join sep [] = []"
| "strings_Join sep [s] = s"
| "strings_Join sep (s # ss) = s @ sep @ strings_Join sep ss"

definition IsAbs :: "string \<Rightarrow> bool" where
  "IsAbs path \<longleftrightarrow> HasPrefix path ''/''"

fun clean_step :: "bool \<Rightarrow> string list \<Rightarrow> string \<Rightarrow> string list" where
  "clean_step rooted stack e =
     (if e = [] \<or> e = ''.'' then stack
      else if e = ''..'' then
        (case stack of
           [] \<Rightarrow> if rooted then [] else [''..'']
         | prev # below \<Rightarrow> if prev = ''..'' then ''..'' # stack else below)
      else e # stack)"

definition clean_elems :: "string \<Rightarrow> string list" where
  "clean_elems path = rev (foldl (clean_step (IsAbs path)) [] (Split path CHR ''/''))"

definition Clean :: "string \<Rightarrow> string" where
  "Clean path =
     (if IsAbs path then ''/'' @ strings_Join ''/'' (clean_elems path)
      else if clean_elems path = [] then ''.''
      else strings_Join ''/'' (clean_elems path))"

definition filepath_Join :: "string list \<Rightarrow> string" where
  "filepath_Join elems =
     (case dropWhile (\<lambda>e. e = []) elems of
        [] \<Rightarrow> []
      | es \<Rightarrow> Clean (strings_Join ''/'' es))"

section \<open>Lemmas\<close>

text \<open>An element that \<open>Clean\<close> keeps as it is.\<close>

definition plain_elem :: "string \<Rightarrow> bool" where
  "plain_elem e \<longleftrightarrow> e \<noteq> [] \<and> e \<noteq> ''.'' \<and> e \<noteq> ''..'' \<and> CHR ''/'' \<notin> set e"

lemma Split_not_Nil [simp]: "Split s sep \<noteq> []"
  by (induction s) (auto split: list.splits)

lemma Split_append: "Split (s @ sep # t) sep = Split s sep @ Split t sep"
  by (induction s) (auto split: list.splits)

lemma Split_none: "sep \<notin> set s \<Longrightarrow> Split s sep = [s]"
  by (induction s) auto

lemma IsAbs_append: "root \<noteq> [] \<Longrightarrow> IsAbs (root @ t) = IsAbs root"
  by (cases root) (auto simp: IsAbs_def HasPrefix_def)

lemma clean_elems_below:
  assumes "root \<noteq> []" "plain_elem a" "plain_elem b"
  shows "clean_elems (root @ ''/'' @ a @ ''/'' @ b) = clean_elems root @ [a, b]"
proof -
  have "Split (root @ ''/'' @ a @ ''/'' @ b) CHR ''/'' = Split root CHR ''/'' @ [a, b]"
    using assms by (simp add: Split_append Split_none plain_elem_def)
  moreover have "IsAbs (root @ ''/'' @ a @ ''/'' @ b) = IsAbs root"
    using IsAbs_append [OF assms(1)] by simp
  ultimately show ?thesis using assms(2,3) by (simp add: clean_elems_def plain_elem_def)
qed

lemma strings_Join_append:
  "xs \<noteq> [] \<Longrightarrow> ys \<noteq> [] \<Longrightarrow> strings_Join sep (xs @ ys) = strings_Join sep xs @ sep @ strings_Join sep ys"
proof (induction sep xs rule: strings_Join.induct)
  case (2 sep s)
  then show ?case by (cases ys) simp_all
qed auto

text \<open>A path joined from an absolute directory and two plain elements is below the directory.\<close>

lemma Join_below:
  assumes "IsAbs root" "Clean root \<noteq> ''/''" "plain_elem a" "plain_elem b"
  shows "filepath_Join [root, a, b] = Clean root @ ''/'' @ a @ ''/'' @ b"
proof -
  have root: "root \<noteq> []" using assms(1) by (auto simp: IsAbs_def HasPrefix_def)
  have es: "clean_elems root \<noteq> []" using assms(1,2) by (auto simp: Clean_def)
  have "IsAbs (root @ ''/'' @ a @ ''/'' @ b)" using assms(1) IsAbs_append [OF root] by blast
  then have "Clean (root @ ''/'' @ a @ ''/'' @ b) = ''/'' @ strings_Join ''/'' (clean_elems root @ [a, b])"
    by (simp add: Clean_def clean_elems_below [OF root assms(3,4)] del: append_Cons append_Nil)
  also have "\<dots> = Clean root @ ''/'' @ a @ ''/'' @ b"
    using assms(1) es by (simp add: strings_Join_append Clean_def)
  finally show ?thesis using root by (simp add: filepath_Join_def)
qed

end
