(* ===== verification/Go_Mux.thy ===== *)
theory Go_Mux
  imports Go_URL Go_Paths
begin

text \<open>
  Requests to a server with the \<open>ServeMux\<close> of \<open>net/http\<close>, as far as the patterns of the sources need it: the path of a
  request, its segments, and which patterns match. A path with an empty, \<open>.\<close> or \<open>..\<close> segment matches none of the
  patterns and is mostly redirected: its segments are \<open>None\<close>.
\<close>

record http_req =
  hr_method :: string
  hr_url :: string
  hr_contentType :: string
  hr_body :: string

text \<open>The escaped path of a URL with a scheme and a host.\<close>

definition request_path :: "string \<Rightarrow> string" where
  "request_path url =
     dropWhile (\<lambda>c. c \<noteq> CHR ''/'') (drop 2 (snd (Cut (fst (Cut (fst (Cut url CHR ''#'')) CHR ''?'')) CHR '':'')))"

definition mux_segments :: "string \<Rightarrow> string list option" where
  "mux_segments p =
     (if p = [] \<or> p = ''/'' then Some []
      else let es = tl (Split p CHR ''/'') in
      if list_all plain_elem es
      then Some (map (\<lambda>e. case unescape encodePath e of Inr x \<Rightarrow> x | Inl _ \<Rightarrow> e) es)
      else None)"

text \<open>The answer of the mux: a handler, or one of its own. A pattern for GET is one for HEAD too.\<close>

datatype 'r mux_route = Route 'r | MethodNotAllowed | NotFound

definition on_method :: "string list \<Rightarrow> string \<Rightarrow> 'r \<Rightarrow> 'r mux_route" where
  "on_method methods m r = (if m \<in> set methods then Route r else MethodNotAllowed)"

definition GET :: "string list" where "GET = [''GET'', ''HEAD'']"
definition POST :: "string list" where "POST = [''POST'']"
definition DELETE :: "string list" where "DELETE = [''DELETE'']"

lemmas method_defs = on_method_def GET_def POST_def DELETE_def

section \<open>Paths\<close>

lemma plain_PathEscape: "plain_elem i \<Longrightarrow> plain_elem (PathEscape i)"
proof -
  have "PathEscape [] = []" "PathEscape ''.'' = ''.''" "PathEscape ''..'' = ''..''" by code_simp+
  then show "plain_elem i \<Longrightarrow> ?thesis"
    using PathEscape_inject [of i "[]"] PathEscape_inject [of i "''.''"] PathEscape_inject [of i "''..''"]
    by (auto simp: plain_elem_def)
qed

text \<open>A fixed path followed by one escaped segment.\<close>

lemma mux_segments_escaped:
  assumes "Split p CHR ''/'' = [] # es" "list_all plain_elem es" "plain_elem i"
  shows "mux_segments (p @ CHR ''/'' # PathEscape i) =
     Some (map (\<lambda>e. case unescape encodePath e of Inr x \<Rightarrow> x | Inl _ \<Rightarrow> e) es @ [i])"
proof -
  have "Split (p @ CHR ''/'' # PathEscape i) CHR ''/'' = [] # es @ [PathEscape i]"
    using assms(1) Split_none [of "CHR ''/''" "PathEscape i"] by (simp add: Split_append)
  moreover have "p @ CHR ''/'' # PathEscape i \<noteq> ''/''" using plain_PathEscape [OF assms(3)]
    by (auto simp: plain_elem_def Cons_eq_append_conv append_eq_Cons_conv)
  ultimately show ?thesis using assms(2) plain_PathEscape [OF assms(3)] by (simp add: mux_segments_def)
qed

section \<open>Base URLs\<close>

text \<open>The base URL of a server, such as \<open>https://e5:8090\<close>: no path, query or fragment.\<close>

definition base_endpoint :: "string \<Rightarrow> bool" where
  "base_endpoint ep \<longleftrightarrow> CHR ''?'' \<notin> set ep \<and> CHR ''#'' \<notin> set ep \<and> request_path ep = []"

lemma request_path_build:
  assumes "url_shape scheme auth" "url_path path"
  shows "request_path (scheme @ ''://'' @ auth @ path) = path"
proof -
  have s: "CHR ''?'' \<notin> set scheme" "CHR ''#'' \<notin> set scheme" "CHR '':'' \<notin> set scheme"
    using assms(1) scheme_byte_plain by (auto simp: url_shape_def list_all_iff)
  have "CHR ''#'' \<notin> set (scheme @ ''://'' @ auth @ path)" "CHR ''?'' \<notin> set (scheme @ ''://'' @ auth @ path)"
    using s assms by (auto simp: url_shape_def url_path_def list_all_iff)
  moreover have "dropWhile (\<lambda>c. c \<noteq> CHR ''/'') (auth @ path) = path"
    using assms by (cases path) (auto simp: url_shape_def url_path_def list_all_iff dropWhile_append)
  ultimately show ?thesis using s(3) Cut_first [of "CHR '':''" scheme "''//'' @ auth @ path"]
    by (simp add: request_path_def Cut_none)
qed

lemma base_url_request:
  assumes "url_Parse ep = Inr u" "url_Host u \<noteq> []" "url_Scheme u \<noteq> []" "base_endpoint ep" "url_path path"
  shows "NewRequest_error (ep @ path) = None \<and> request_path (ep @ path) = path"
proof -
  have q: "CHR ''?'' \<notin> set ep" "CHR ''#'' \<notin> set ep" using assms(4) by (simp_all add: base_endpoint_def)
  obtain scheme auth p where ep: "ep = scheme @ ''://'' @ auth @ p" "url_shape scheme auth" "url_path p"
    by (rule url_Parse_split [OF assms(1) q assms(3,2)])
  with request_path_build assms(4) have "p = []" by (simp add: base_endpoint_def)
  with ep request_path_build [OF ep(2) assms(5)] url_Parse_build [OF ep(2) assms(5)] show ?thesis
    by (auto simp: NewRequest_error_def)
qed

end
