(* ===== verification/Node_Server.thy ===== *)
theory Node_Server
  imports Scheduler Node_JSON Go_Mux
begin

text \<open>
  The control-plane server of \<open>src/internal/controller/server.go\<close>: the node table, the
  heartbeat handler with its certificate check, the snapshot of the nodes with their liveness,
  the schedule handler, and the routes. A handler gets the value that the body of the request decodes to (\<open>None\<close> when
  decoding fails) and, on a TLS connection, the common names of the peer certificates; the server as a whole gets the text.
  A response is its status and the value that is encoded in its body.
\<close>

section \<open>Definitions\<close>

record Server =
  srv_nodeTTL :: duration
  srv_nodes :: "(string, Node) fmap"

definition NewServer :: "duration list \<Rightarrow> Server" where
  "NewServer nodeTTL =
     \<lparr>srv_nodeTTL = (case nodeTTL of [] \<Rightarrow> 45 * Second
                     | ttl # _ \<Rightarrow> if ttl > 0 then ttl else 45 * Second),
      srv_nodes = fmempty\<rparr>"

datatype srv_body =
    ErrorBody string
  | OkBody
  | NodeBody Node
  | NodesBody "Node list"
  | PlacementBody Placement

type_synonym 'b response = "int \<times> 'b"

definition storeNode :: "time \<Rightarrow> Node \<Rightarrow> Server \<Rightarrow> Server" where
  "storeNode now n s =
     s\<lparr>srv_nodes := fmupd (node_ID n) (n\<lparr>node_LastSeen := now, node_Online := True\<rparr>) (srv_nodes s)\<rparr>"

definition heartbeat ::
  "Node option \<Rightarrow> string list option \<Rightarrow> time \<Rightarrow> Server \<Rightarrow> srv_body response \<times> Server" where
  "heartbeat body tls now s =
     (case body of
        None \<Rightarrow> ((400, ErrorBody ''invalid node heartbeat''), s)
      | Some n \<Rightarrow>
          if node_ID n = [] then ((400, ErrorBody ''invalid node heartbeat''), s)
          else if (case tls of Some (peerCN # _) \<Rightarrow> peerCN = [] \<or> peerCN \<noteq> node_ID n | _ \<Rightarrow> False)
          then ((403, ErrorBody ''client certificate identity does not match node id''), s)
          else ((202, NodeBody (n\<lparr>node_LastSeen := now, node_Online := True\<rparr>)), storeNode now n s))"

definition liveNode :: "Server \<Rightarrow> time \<Rightarrow> Node \<Rightarrow> Node" where
  "liveNode s now stored =
     stored\<lparr>node_Online :=
       \<not> IsZero (node_LastSeen stored) \<and> time_Sub now (node_LastSeen stored) \<le> srv_nodeTTL s\<rparr>"

definition snapshotNodes :: "(string \<Rightarrow> nat) \<Rightarrow> Server \<Rightarrow> time \<Rightarrow> Node list" where
  "snapshotNodes rank s now =
     SliceStable (\<lambda>a b. node_ID a < node_ID b)
       (map (\<lambda>k. liveNode s now (the (fmlookup (srv_nodes s) k))) (range_keys rank (srv_nodes s)))"

definition listNodes :: "(string \<Rightarrow> nat) \<Rightarrow> time \<Rightarrow> Server \<Rightarrow> srv_body response" where
  "listNodes rank now s = (200, NodesBody (snapshotNodes rank s now))"

definition schedule ::
  "(string \<Rightarrow> nat) \<Rightarrow> JobRequirements option \<Rightarrow> time \<Rightarrow> Server \<Rightarrow> srv_body response" where
  "schedule rank body now s =
     (case body of
        None \<Rightarrow> (400, ErrorBody ''invalid requirements'')
      | Some req \<Rightarrow>
          (case Place req (snapshotNodes rank s now) of
             Inl err \<Rightarrow> (503, ErrorBody (Error err))
           | Inr placement \<Rightarrow> (200, PlacementBody placement)))"

definition healthOK :: "srv_body response" where
  "healthOK = (200, OkBody)"

text \<open>The routes, and the server: a request with its body as it arrives. \<open>None\<close> is an answer of the mux itself.\<close>

datatype control_request = CtlHealth | CtlListNodes | CtlHeartbeat | CtlSchedule

definition controlRoute :: "http_req \<Rightarrow> control_request mux_route option" where
  "controlRoute req =
     (case mux_segments (request_path (hr_url req)) of
        None \<Rightarrow> None
      | Some segs \<Rightarrow>
          Some (if segs = [''healthz''] then on_method GET (hr_method req) CtlHealth
                else if segs = [''v1'', ''nodes''] then on_method GET (hr_method req) CtlListNodes
                else if segs = [''v1'', ''nodes'', ''heartbeat''] then on_method POST (hr_method req) CtlHeartbeat
                else if segs = [''v1'', ''schedule''] then on_method POST (hr_method req) CtlSchedule
                else NotFound))"

definition serveControl ::
  "(string \<Rightarrow> nat) \<Rightarrow> time \<Rightarrow> string list option \<Rightarrow> http_req \<Rightarrow> Server \<Rightarrow> srv_body response option \<times> Server" where
  "serveControl rank now tls req s =
     (case controlRoute req of
        Some (Route CtlHealth) \<Rightarrow> (Some healthOK, s)
      | Some (Route CtlListNodes) \<Rightarrow> (Some (listNodes rank now s), s)
      | Some (Route CtlHeartbeat) \<Rightarrow>
          (let (resp, s') = heartbeat (decodeNode (hr_body req)) tls now s in (Some resp, s'))
      | Some (Route CtlSchedule) \<Rightarrow> (Some (schedule rank (decodeRequirements (hr_body req)) now s), s)
      | _ \<Rightarrow> (None, s))"

section \<open>The registry invariant\<close>

text \<open>Every entry is stored under its own identifier, which is not empty.\<close>

definition registry_ok :: "Server \<Rightarrow> bool" where
  "registry_ok s \<longleftrightarrow> (\<forall>k n. fmlookup (srv_nodes s) k = Some n \<longrightarrow> node_ID n = k \<and> k \<noteq> [])"

lemma registry_ok_New [simp, intro]: "registry_ok (NewServer ttl)"
  by (simp add: registry_ok_def NewServer_def)

lemma registry_ok_storeNode [intro]:
  "registry_ok s \<Longrightarrow> node_ID n \<noteq> [] \<Longrightarrow> registry_ok (storeNode now n s)"
  by (auto simp: registry_ok_def storeNode_def)

lemma registry_ok_heartbeat: "registry_ok s \<Longrightarrow> registry_ok (snd (heartbeat body tls now s))"
  by (auto simp: heartbeat_def split: option.splits list.splits)

lemma registry_ok_lookup: "registry_ok s \<Longrightarrow> fmlookup (srv_nodes s) k = Some n \<Longrightarrow> node_ID n = k"
  by (simp add: registry_ok_def)

lemma registry_ok_key: "registry_ok s \<Longrightarrow> fmlookup (srv_nodes s) k = Some n \<Longrightarrow> k \<noteq> []"
  by (auto simp: registry_ok_def)

section \<open>Snapshots\<close>

lemma node_ID_liveNode [simp]: "node_ID (liveNode s now n) = node_ID n"
  by (simp add: liveNode_def)

lemma node_Capacity_liveNode [simp]: "node_Capacity (liveNode s now n) = node_Capacity n"
  by (simp add: liveNode_def)

lemma snapshotNodes_sort_key:
  "snapshotNodes rank s now =
     sort_key node_ID
       (map (\<lambda>k. liveNode s now (the (fmlookup (srv_nodes s) k))) (range_keys rank (srv_nodes s)))"
  unfolding snapshotNodes_def by (rule SliceStable_key) simp

lemma set_snapshotNodes:
  "set (snapshotNodes rank s now) = {liveNode s now n | k n. fmlookup (srv_nodes s) k = Some n}"
  by (force simp: snapshotNodes_sort_key fmlookup_dom_iff)

lemma map_ID_range:
  assumes "registry_ok s"
  shows "map node_ID (map (\<lambda>k. liveNode s now (the (fmlookup (srv_nodes s) k)))
     (range_keys rank (srv_nodes s))) = range_keys rank (srv_nodes s)"
proof (rule nth_equalityI)
  fix i
  assume "i < length (map node_ID (map (\<lambda>k. liveNode s now (the (fmlookup (srv_nodes s) k)))
     (range_keys rank (srv_nodes s))))"
  then have i: "i < length (range_keys rank (srv_nodes s))" by simp
  then have "range_keys rank (srv_nodes s) ! i \<in> fset (fmdom (srv_nodes s))"
    using set_range_keys nth_mem by metis
  then obtain n where "fmlookup (srv_nodes s) (range_keys rank (srv_nodes s) ! i) = Some n"
    by (auto simp: fmlookup_dom_iff)
  with assms i show "map node_ID (map (\<lambda>k. liveNode s now (the (fmlookup (srv_nodes s) k)))
     (range_keys rank (srv_nodes s))) ! i = range_keys rank (srv_nodes s) ! i"
    by (simp add: registry_ok_lookup)
qed simp

lemma distinct_snapshot_IDs:
  assumes "registry_ok s"
  shows "distinct (map node_ID (snapshotNodes rank s now))"
proof -
  let ?xs = "map (\<lambda>k. liveNode s now (the (fmlookup (srv_nodes s) k))) (range_keys rank (srv_nodes s))"
  have "distinct (map node_ID ?xs)" by (simp only: map_ID_range [OF assms] distinct_range_keys)
  moreover have "mset (map node_ID (sort_key node_ID ?xs)) = mset (map node_ID ?xs)"
    by (simp only: mset_map mset_sort)
  ultimately show ?thesis
    unfolding snapshotNodes_sort_key using mset_eq_imp_distinct_iff by blast
qed

lemma sorted_snapshot_IDs: "sorted (map node_ID (snapshotNodes rank s now))"
  by (simp add: snapshotNodes_sort_key)

text \<open>The snapshot does not depend on the order in which the table is visited.\<close>

lemma snapshotNodes_rank:
  assumes "registry_ok s"
  shows "snapshotNodes rank s now = snapshotNodes rank' s now"
proof -
  let ?xs = "\<lambda>r. map (\<lambda>k. liveNode s now (the (fmlookup (srv_nodes s) k))) (range_keys r (srv_nodes s))"
  have inj: "inj_on node_ID (set (?xs rank))"
  proof -
    have "distinct (map node_ID (?xs rank))"
      by (simp only: map_ID_range [OF assms] distinct_range_keys)
    then show ?thesis by (rule distinct_map [THEN iffD1, THEN conjunct2])
  qed
  have "mset (?xs rank) = mset (?xs rank')"
    by (simp add: range_keys_def)
  then have "sort_key node_ID (?xs rank) = sort_key node_ID (?xs rank')"
    using inj by (intro sort_key_inj_key_eq) simp_all
  then show ?thesis by (simp only: snapshotNodes_sort_key)
qed

section \<open>Properties\<close>

lemma heartbeat_changes:
  "heartbeat body tls now s = (resp, s') \<Longrightarrow> s' \<noteq> s \<Longrightarrow>
     \<exists>n. body = Some n \<and> node_ID n \<noteq> [] \<and> (\<forall>cn chain. tls = Some (cn # chain) \<longrightarrow> cn = node_ID n) \<and>
       s' = storeNode now n s \<and> fst resp = 202"
  by (auto simp: heartbeat_def split: option.splits if_splits list.splits)

lemma serveControl_heartbeat:
  assumes "serveControl rank now tls req s = (resp, s')" "s' \<noteq> s"
  shows "hr_method req = ''POST'' \<and> mux_segments (request_path (hr_url req)) = Some [''v1'', ''nodes'', ''heartbeat''] \<and>
    (\<exists>r. resp = Some r \<and> heartbeat (decodeNode (hr_body req)) tls now s = (r, s'))"
  using assms by (auto simp: serveControl_def controlRoute_def method_defs Let_def
      split: option.splits if_splits prod.splits)

text \<open>C21: With mutual TLS a worker can only change its own entry. Whatever request a client with a certificate sends to the
  control plane, the node table stays as it is, unless the request is a heartbeat whose body is a node with exactly
  the common name of the certificate as its identifier; then the answer is 202, the table has this node under this
  name, seen now and online, and every other entry is as before.\<close>

theorem heartbeat_identity:
  assumes "serveControl rank now (Some (peerCN # chain)) req s = (resp, s')" and "s' \<noteq> s"
  shows "\<exists>n body. decodeNode (hr_body req) = Some n \<and> node_ID n = peerCN \<and> peerCN \<noteq> [] \<and> resp = Some (202, body) \<and>
     hr_method req = ''POST'' \<and>
     srv_nodes s' = fmupd peerCN (n\<lparr>node_LastSeen := now, node_Online := True\<rparr>) (srv_nodes s) \<and>
     (\<forall>k. k \<noteq> peerCN \<longrightarrow> fmlookup (srv_nodes s') k = fmlookup (srv_nodes s) k)"
proof -
  from serveControl_heartbeat [OF assms] obtain r where r: "hr_method req = ''POST''" "resp = Some r"
    "heartbeat (decodeNode (hr_body req)) (Some (peerCN # chain)) now s = (r, s')" by blast
  from heartbeat_changes [OF r(3) assms(2)] obtain n where "decodeNode (hr_body req) = Some n" "node_ID n \<noteq> []"
    "peerCN = node_ID n" "s' = storeNode now n s" "fst r = 202" by blast
  moreover obtain body where "r = (fst r, body)" by (cases r) simp
  ultimately show ?thesis using r by (auto simp: storeNode_def)
qed

definition heartbeat_request :: "Node \<Rightarrow> http_req" where
  "heartbeat_request n = \<lparr>hr_method = ''POST'', hr_url = ''https://c:8080/v1/nodes/heartbeat'',
     hr_contentType = ''application/json'', hr_body = nodeText n\<rparr>"

lemma heartbeat_request_served:
  "decodeNode (nodeText n) = Some n \<Longrightarrow> serveControl rank now tls (heartbeat_request n) s =
     (let (resp, s') = heartbeat (Some n) tls now s in (Some resp, s'))"
proof -
  have "mux_segments (request_path ''https://c:8080/v1/nodes/heartbeat'') = Some [''v1'', ''nodes'', ''heartbeat'']" by code_simp
  then show "decodeNode (nodeText n) = Some n \<Longrightarrow> ?thesis"
    by (simp add: serveControl_def controlRoute_def heartbeat_request_def method_defs)
qed

lemma e5_text: "decodeNode (nodeText e5_node) = Some e5_node"
proof (rule decodeNode_nodeText)
  show "node_ok e5_node" by (simp add: node_ok_def capacity_ok_def e5_node_def in_int64_def json_yearI duration_defs)
  have "FormatInt 32768 = ''32768''" "FormatInt 30000 = ''30000''"
    by (simp_all add: FormatInt_def nat_dec.simps digit_def char_of_def bit_0)
  then have txt_eq: "nodeText e5_node = write_json (JObj ((nodeMembers (e5_node\<lparr>node_Capacity := zero_Capacity\<rparr>))[6 :=
      (''capacity'', JObj [(''total_cpu'', intJSON 12), (''free_cpu'', intJSON 12), (''total_memory_mb'', JNum ''32768''),
        (''free_memory_mb'', JNum ''30000''), (''running_jobs'', intJSON 0)])]))"
    by (simp add: nodeText_def nodeMembers_def capacityJSON_def intJSON_def e5_node_def member_unless_def del: write_json.simps)
  show "int (length (nodeText e5_node)) \<le> maxNodeBody" unfolding txt_eq by code_simp
qed

theorem heartbeat_identity_witness:
  "\<exists>resp s'. serveControl (\<lambda>_. 0) 1000 (Some [''e5'']) (heartbeat_request e5_node) (NewServer []) = (resp, s') \<and>
     fmlookup (srv_nodes s') ''e5'' \<noteq> None \<and> (\<forall>k. k \<noteq> ''e5'' \<longrightarrow> fmlookup (srv_nodes s') k = None)"
proof -
  let ?s = "NewServer []"
  obtain resp s' where run: "serveControl (\<lambda>_. 0) 1000 (Some [''e5'']) (heartbeat_request e5_node) ?s = (resp, s')" by fastforce
  moreover have "node_ID e5_node = ''e5''" by (simp add: e5_node_def)
  ultimately have "s' = storeNode 1000 e5_node ?s"
    by (simp add: heartbeat_request_served [OF e5_text] heartbeat_def)
  then have "fmlookup (srv_nodes s') ''e5'' \<noteq> None" by (simp add: storeNode_def e5_node_def)
  then have "s' \<noteq> ?s" by (auto simp: NewServer_def)
  from heartbeat_identity [OF run this] show ?thesis
    using run by (auto simp: NewServer_def)
qed

text \<open>The list of nodes that the control plane reports and schedules on is deterministic: it holds
  every stored node once, with its online flag computed from the age of its last heartbeat, strictly
  sorted by identifier, and does not depend on the order in which the table is visited.\<close>

lemma snapshot_deterministic:
  assumes "registry_ok s"
  shows "set (snapshotNodes rank s now) = {liveNode s now n | k n. fmlookup (srv_nodes s) k = Some n}
     \<and> sorted_wrt (<) (map node_ID (snapshotNodes rank s now))
     \<and> snapshotNodes rank s now = snapshotNodes rank' s now"
  using set_snapshotNodes snapshotNodes_rank [OF assms] distinct_snapshot_IDs [OF assms] sorted_snapshot_IDs
  by (simp add: strict_sorted_iff)

definition two_nodes :: Server where
  "two_nodes = storeNode 1000 pi_node (storeNode 1000 e5_node (NewServer []))"

lemma registry_two_nodes: "registry_ok two_nodes"
  unfolding two_nodes_def by (intro registry_ok_storeNode registry_ok_New) (simp_all add: pi_node_def e5_node_def)

lemma snapshot_deterministic_witness:
  "snapshotNodes (\<lambda>k. length k) two_nodes 2000 = snapshotNodes (\<lambda>_. 0) two_nodes 2000 \<and>
     map node_ID (snapshotNodes (\<lambda>_. 0) two_nodes 2000) = [''e5'', ''pi'']"
proof
  show "snapshotNodes (\<lambda>k. length k) two_nodes 2000 = snapshotNodes (\<lambda>_. 0) two_nodes 2000"
    using snapshot_deterministic [OF registry_two_nodes] by blast
  show "map node_ID (snapshotNodes (\<lambda>_. 0) two_nodes 2000) = [''e5'', ''pi'']" by code_simp
qed

text \<open>The schedule endpoint answers 200 only with a placement on a stored node whose last heartbeat
  is within the time to live and that can host the job, with the backend it names; otherwise it answers
  503 when no stored node can host the job.\<close>

lemma schedule_response:
  assumes "registry_ok s"
  shows "(\<exists>k n b. schedule rank (Some req) now s = (200, PlacementBody \<lparr>pl_NodeID = k, pl_Backend = b\<rparr>) \<and>
       fmlookup (srv_nodes s) k = Some n \<and> time_Sub now (node_LastSeen n) \<le> srv_nodeTTL s \<and>
       hosts req (liveNode s now n) b)
   \<or> schedule rank (Some req) now s = (503, ErrorBody ''no eligible node found'') \<and>
       \<not> (\<exists>k n b. fmlookup (srv_nodes s) k = Some n \<and> hosts req (liveNode s now n) b)"
proof (cases "Place req (snapshotNodes rank s now)")
  case (Inl err)
  with sched.place_refuses [OF Inl] show ?thesis
    by (auto simp: schedule_def ErrNoPlacement_def set_snapshotNodes)
next
  case (Inr p)
  from sched.place_sound [OF Inr] obtain k n where n: "fmlookup (srv_nodes s) k = Some n"
    "hosts req (liveNode s now n) (pl_Backend p)" "pl_NodeID p = node_ID n"
    by (auto simp: set_snapshotNodes)
  moreover have "time_Sub now (node_LastSeen n) \<le> srv_nodeTTL s"
    using n(2) by (simp add: hosts_def fits_def liveNode_def)
  moreover have "node_ID n = k" using registry_ok_lookup [OF assms n(1)] .
  ultimately show ?thesis using Inr
    by (intro disjI1 exI [of _ k] exI [of _ n] exI [of _ "pl_Backend p"]) (simp add: schedule_def)
qed

lemma schedule_response_witness:
  "schedule (\<lambda>_. 0) (Some \<lparr>req_Repository = [], req_OS = OSLinux, req_Arch = ArchARM64,
     req_Isolation = IsolationContainer, req_Capabilities = [], req_CPU = 2, req_MemoryM = 512\<rparr>)
     (2000 + 45 * Second) two_nodes = (503, ErrorBody ''no eligible node found'')"
proof -
  let ?req = "\<lparr>req_Repository = [], req_OS = OSLinux, req_Arch = ArchARM64,
     req_Isolation = IsolationContainer, req_Capabilities = [], req_CPU = 2, req_MemoryM = 512\<rparr>"
  have "\<not> time_Sub (2000 + 45 * Second) (node_LastSeen n) \<le> srv_nodeTTL two_nodes"
    if "fmlookup (srv_nodes two_nodes) k = Some n" for k n
    using that by (auto simp: two_nodes_def storeNode_def NewServer_def time_Sub_def Second_def
      pi_node_def e5_node_def split: if_splits)
  with schedule_response [OF registry_two_nodes, of "\<lambda>_. 0" ?req "2000 + 45 * Second"] show ?thesis by blast
qed

end
