(* ===== verification/Policy.thy ===== *)
theory Policy
  imports Model
begin

text \<open>
  \<open>src/internal/controller/github_policy.go\<close>: the trust policy for workflow runs, the
  translation of job labels into requirements, repository names, and the names of runners and
  containers. The order in which \<open>range lower\<close> visits the label set is the argument
  \<open>rank\<close> of \<open>requirementsFromLabels\<close>.
\<close>

section \<open>Definitions\<close>

record RepositoryInfo =
  repo_FullName :: string
  repo_Owner :: string
  repo_Name :: string
  repo_Private :: bool

definition trustedWorkflowRun :: "WorkflowRun \<Rightarrow> string \<Rightarrow> bool \<times> string" where
  "trustedWorkflowRun run expectedRepository =
     (if rr_FullName (run_Repository run) \<noteq> [] \<and>
         \<not> EqualFold (rr_FullName (run_Repository run)) expectedRepository
      then (False, ''workflow run repository does not match webhook repository'')
      else if rr_Private (run_Repository run) then (True, ''private repository'')
      else if run_Event run = ''pull_request_target''
      then (False, ''pull_request_target is denied on public repositories'')
      else if run_Event run = ''pull_request'' \<and>
         (case run_HeadRepository run of None \<Rightarrow> True
          | Some head \<Rightarrow> \<not> EqualFold (rr_FullName head) expectedRepository)
      then (False, ''fork pull request is denied on public repositories'')
      else (True, ''trusted event''))"

fun lowerLabels :: "string list \<Rightarrow> (string, bool) fmap \<Rightarrow> (string, bool) fmap" where
  "lowerLabels [] lower = lower"
| "lowerLabels (label # labels) lower =
     lowerLabels labels (fmupd (ToLower (TrimSpace label)) True lower)"

definition platformOf :: "(string \<Rightarrow> bool) \<Rightarrow> (OS \<times> Arch \<times> Isolation) option" where
  "platformOf lower =
     (if lower ''linux-x64'' \<or> lower ''linux'' \<and> lower ''x64''
      then Some (OSLinux, ArchAMD64, IsolationContainer)
      else if lower ''linux-arm64'' \<or> lower ''linux'' \<and> lower ''arm64''
      then Some (OSLinux, ArchARM64, IsolationContainer)
      else if lower ''windows-x64'' \<or> lower ''windows'' \<and> lower ''x64''
      then Some (OSWindows, ArchAMD64, IsolationVM)
      else if lower ''macos-arm64'' \<or> lower ''macos'' \<and> lower ''arm64''
      then Some (OSMacOS, ArchARM64, IsolationVM)
      else None)"

fun capabilityLabels :: "string list \<Rightarrow> string list" where
  "capabilityLabels [] = []"
| "capabilityLabels (label # labels) =
     (if HasPrefix label ''cifleet-cap-'' then
        (let capability = TrimPrefix label ''cifleet-cap-'' in
         if capability \<noteq> [] then capability # capabilityLabels labels
         else capabilityLabels labels)
      else capabilityLabels labels)"

definition requirementsFromLabels ::
  "(string \<Rightarrow> nat) \<Rightarrow> string \<Rightarrow> string list \<Rightarrow> int \<Rightarrow> int \<Rightarrow> goerror + JobRequirements" where
  "requirementsFromLabels rank repository labels cpu memory =
     (let lower = lowerLabels labels fmempty in
      case platformOf (index0 False lower) of
        None \<Rightarrow> Inl (Errorf ''CIFleet job needs a supported platform label such as linux-x64'')
      | Some (os, arch, isolation) \<Rightarrow>
          Inr \<lparr>req_Repository = repository, req_OS = os, req_Arch = arch,
               req_Isolation =
                 (if index0 False lower ''cifleet-vm'' then IsolationVM else isolation),
               req_Capabilities = capabilityLabels (range_keys rank lower),
               req_CPU = cpu, req_MemoryM = memory\<rparr>)"

definition repoParts :: "RepositoryInfo \<Rightarrow> goerror + (string \<times> string)" where
  "repoParts repo =
     (let owner = TrimSpace (repo_Owner repo); name = TrimSpace (repo_Name repo) in
      if owner \<noteq> [] \<and> name \<noteq> [] then Inr (owner, name)
      else case SplitN2 (repo_FullName repo) CHR ''/'' of
        [p0, p1] \<Rightarrow>
          if p0 = [] \<or> p1 = []
          then Inl (Errorf (''invalid repository name '' @ Quote (repo_FullName repo)))
          else Inr (p0, p1)
      | _ \<Rightarrow> Inl (Errorf (''invalid repository name '' @ Quote (repo_FullName repo))))"

fun hasLabel :: "string list \<Rightarrow> string \<Rightarrow> bool" where
  "hasLabel [] wanted \<longleftrightarrow> False"
| "hasLabel (label # labels) wanted \<longleftrightarrow>
     (if EqualFold (TrimSpace label) (TrimSpace wanted) then True else hasLabel labels wanted)"

definition name_byte :: "char \<Rightarrow> bool" where
  "name_byte c \<longleftrightarrow>
     (let n = of_char c :: nat in
      97 \<le> n \<and> n \<le> 122 \<or> 48 \<le> n \<and> n \<le> 57 \<or> c = CHR ''-'' \<or> c = CHR ''_'' \<or> c = CHR ''.'')"

definition safeName :: "string \<Rightarrow> string" where
  "safeName value =
     Trim (map (\<lambda>c. if name_byte c then c else CHR ''-'') (ToLower value)) ''-._''"

definition runnerName :: "string \<Rightarrow> int \<Rightarrow> int \<Rightarrow> string" where
  "runnerName nodeID jobID attempt =
     ''cifleet-'' @ safeName nodeID @ ''-'' @ FormatInt jobID @ ''-a'' @ FormatInt attempt"

definition containerJobID :: "int \<Rightarrow> string" where
  "containerJobID jobID = ''gh-'' @ FormatInt jobID"

definition containerName :: "int \<Rightarrow> string" where
  "containerName jobID = ''cifleet-'' @ containerJobID jobID"

definition minInt :: "int \<Rightarrow> int \<Rightarrow> int" where
  "minInt a b = (if a < b then a else b)"

definition maxInt :: "int \<Rightarrow> int \<Rightarrow> int" where
  "maxInt a b = (if a > b then a else b)"

section \<open>Specification\<close>

text \<open>The trust policy as the documentation states it, without the order of the checks.\<close>

definition fork_pull_request :: "WorkflowRun \<Rightarrow> string \<Rightarrow> bool" where
  "fork_pull_request run repository \<longleftrightarrow>
     run_Event run = ''pull_request'' \<and>
     \<not> (\<exists>head. run_HeadRepository run = Some head \<and> EqualFold (rr_FullName head) repository)"

definition trust_policy :: "WorkflowRun \<Rightarrow> string \<Rightarrow> bool" where
  "trust_policy run repository \<longleftrightarrow>
     (rr_FullName (run_Repository run) = [] \<or> EqualFold (rr_FullName (run_Repository run)) repository) \<and>
     (rr_Private (run_Repository run) \<or>
      run_Event run \<noteq> ''pull_request_target'' \<and> \<not> fork_pull_request run repository)"

section \<open>Lemmas\<close>

lemma trustedWorkflowRun_policy: "fst (trustedWorkflowRun run repository) \<longleftrightarrow> trust_policy run repository"
  by (auto simp: trustedWorkflowRun_def trust_policy_def fork_pull_request_def split: option.splits)

lemma minInt_min [simp]: "minInt a b = min a b"
  by (simp add: minInt_def min_def)

lemma maxInt_max [simp]: "maxInt a b = max a b"
  by (simp add: maxInt_def max_def)

lemma hasLabel_iff:
  "hasLabel labels wanted \<longleftrightarrow> (\<exists>l \<in> set labels. EqualFold (TrimSpace l) (TrimSpace wanted))"
  by (induction labels) auto

lemma lowerLabels_lookup:
  "index0 False (lowerLabels labels m) l \<longleftrightarrow>
     l \<in> (\<lambda>x. ToLower (TrimSpace x)) ` set labels \<or> index0 False m l"
  by (induction labels m rule: lowerLabels.induct) auto

lemma lowerLabels_dom:
  "fset (fmdom (lowerLabels labels m)) = (\<lambda>x. ToLower (TrimSpace x)) ` set labels \<union> fset (fmdom m)"
  by (induction labels m rule: lowerLabels.induct) auto

lemma set_capabilityLabels:
  "set (capabilityLabels ls) = {c. c \<noteq> [] \<and> ''cifleet-cap-'' @ c \<in> set ls}"
proof (induction ls)
  case Nil
  show ?case by simp
next
  case (Cons l ls)
  show ?case
  proof (cases "\<exists>c. l = ''cifleet-cap-'' @ c")
    case True
    then obtain c where l: "l = ''cifleet-cap-'' @ c" by blast
    then have "HasPrefix l ''cifleet-cap-''" "TrimPrefix l ''cifleet-cap-'' = c"
      using HasPrefix_append TrimPrefix_append by metis+
    with l Cons show ?thesis by (auto simp: Let_def)
  next
    case False
    then have "\<not> HasPrefix l ''cifleet-cap-''" by (metis HasPrefix_iff)
    with False Cons show ?thesis by auto
  qed
qed

lemma distinct_capabilityLabels: "distinct ls \<Longrightarrow> distinct (capabilityLabels ls)"
proof (induction ls)
  case (Cons l ls)
  have "TrimPrefix l ''cifleet-cap-'' \<notin> set (capabilityLabels ls)"
    if "HasPrefix l ''cifleet-cap-''"
  proof -
    from that obtain c where "l = ''cifleet-cap-'' @ c" by (metis HasPrefix_iff)
    with Cons.prems show ?thesis
      using TrimPrefix_append [of "''cifleet-cap-''" c] by (auto simp: set_capabilityLabels)
  qed
  with Cons show ?case by (auto simp: Let_def)
qed simp

lemma safeName_bytes: "set (safeName x) \<subseteq> {c. name_byte c}"
proof -
  have "name_byte CHR ''-''" by (simp add: name_byte_def)
  then have "set (map (\<lambda>c. if name_byte c then c else CHR ''-'') (ToLower x)) \<subseteq> {c. name_byte c}" by auto
  then show ?thesis unfolding safeName_def using set_Trim_subset by blast
qed

lemma lower_name_byte: "name_byte c \<Longrightarrow> lower_byte c = c"
  by (auto simp: name_byte_def lower_byte_def Let_def)

lemma Trim_clean:
  assumes "s \<noteq> [] \<Longrightarrow> hd s \<notin> set cs \<and> last s \<notin> set cs"
  shows "Trim s cs = s"
proof (cases s)
  case Nil
  then show ?thesis by (simp add: Trim_def TrimRight_def)
next
  case (Cons c r)
  with assms have "dropWhile (\<lambda>c. c \<in> set cs) s = s" by simp
  moreover obtain ys y where "s = ys @ [y]" using Cons by (metis list.distinct(1) rev_exhaust)
  then have "dropWhile (\<lambda>c. c \<in> set cs) (rev s) = rev s" using assms by simp
  ultimately show ?thesis by (simp add: Trim_def TrimRight_def)
qed

lemma safeName_idem: "safeName (safeName x) = safeName x"
proof -
  have "map (\<lambda>c. if name_byte c then c else CHR ''-'') (ToLower (safeName x)) = safeName x"
    using safeName_bytes [of x] by (auto simp: ToLower_def lower_name_byte intro!: map_idI)
  moreover have "Trim (safeName x) ''-._'' = safeName x"
    unfolding safeName_def by (rule Trim_clean) (intro conjI Trim_ends)
  ultimately show ?thesis by (simp add: safeName_def [of "safeName x"])
qed

section \<open>Properties\<close>

text \<open>The trust decision is the documented policy: a run is trusted exactly when its repository is the
  one of the webhook (or is not named) and it is private, or its event is neither
  \<open>pull_request_target\<close> nor a pull request from another repository.\<close>

lemma trusted_iff_policy:
  "fst (trustedWorkflowRun run repository) \<longleftrightarrow>
     (rr_FullName (run_Repository run) = [] \<or> EqualFold (rr_FullName (run_Repository run)) repository) \<and>
     (rr_Private (run_Repository run) \<or>
      run_Event run \<noteq> ''pull_request_target'' \<and>
      \<not> (run_Event run = ''pull_request'' \<and>
         \<not> (\<exists>head. run_HeadRepository run = Some head \<and> EqualFold (rr_FullName head) repository)))"
  by (simp add: trustedWorkflowRun_policy trust_policy_def fork_pull_request_def)



text \<open>Names do not clash: containers of different jobs have different names, and the attempts of a job
  on a node have different runner names.\<close>

lemma names_injective:
  "(containerName j = containerName k \<longleftrightarrow> j = k) \<and>
   (runnerName nodeID j a = runnerName nodeID j b \<longleftrightarrow> a = b)"
  by (simp add: containerName_def containerJobID_def runnerName_def)

text \<open>A safe name contains only lower case letters, digits, \<open>-\<close>, \<open>_\<close> and \<open>.\<close>, neither starts nor ends
  with one of the three signs, and is its own safe name.\<close>

lemma safeName_safe:
  "set (safeName x) \<subseteq> {c. name_byte c} \<and> safeName (safeName x) = safeName x \<and>
   (safeName x = [] \<or> hd (safeName x) \<notin> set ''-._'' \<and> last (safeName x) \<notin> set ''-._'')"
proof (intro conjI safeName_bytes safeName_idem)
  show "safeName x = [] \<or> hd (safeName x) \<notin> set ''-._'' \<and> last (safeName x) \<notin> set ''-._''"
  proof (cases "safeName x = []")
    case False
    then show ?thesis unfolding safeName_def by (intro disjI2 conjI Trim_ends)
  qed simp
qed

end
