(* ===== verification/Job_Store.thy ===== *)
theory Job_Store
  imports Node_Server Policy
begin

text \<open>
  The state of the runner manager (\<open>src/internal/controller/github_jobs.go\<close>), the world it
  acts on, and its persistence (\<open>src/internal/controller/github_state.go\<close>).

  The world answers through an \<open>Env\<close>: GitHub, the agents, the clock, the file system and the
  order of \<open>range\<close> over a map. Every answer may depend on everything that happened before
  (the list of effects so far), so a theorem over all environments covers every behaviour of
  the world. Every interaction is recorded as an \<open>effect\<close>, with its answer, in the order in
  which the code performs it. While the manager waits for an answer, nodes may send
  heartbeats (\<open>env_heartbeats\<close>).

  The state file and its temporary file hold a \<open>document\<close>, the job table or a malformed text; \<open>State_File\<close> has the bytes
  that stand for it and shows that they are read as they were written.
\<close>

section \<open>Events, configuration and job records\<close>

definition jobPending :: string where "jobPending = ''pending''"
definition jobProvisioning :: string where "jobProvisioning = ''provisioning''"
definition jobRunning :: string where "jobRunning = ''running''"
definition jobCleanupPending :: string where "jobCleanupPending = ''cleanup_pending''"
definition jobCompleted :: string where "jobCompleted = ''completed''"
definition jobRejected :: string where "jobRejected = ''rejected''"

lemmas status_consts [go_simps] =
  jobPending_def jobProvisioning_def jobRunning_def jobCleanupPending_def
  jobCompleted_def jobRejected_def

lemma status_distinct [simp]:
  "jobPending \<noteq> jobProvisioning" "jobProvisioning \<noteq> jobPending"
  "jobPending \<noteq> jobRunning" "jobRunning \<noteq> jobPending"
  "jobPending \<noteq> jobCleanupPending" "jobCleanupPending \<noteq> jobPending"
  "jobPending \<noteq> jobCompleted" "jobCompleted \<noteq> jobPending"
  "jobPending \<noteq> jobRejected" "jobRejected \<noteq> jobPending"
  "jobProvisioning \<noteq> jobRunning" "jobRunning \<noteq> jobProvisioning"
  "jobProvisioning \<noteq> jobCleanupPending" "jobCleanupPending \<noteq> jobProvisioning"
  "jobProvisioning \<noteq> jobCompleted" "jobCompleted \<noteq> jobProvisioning"
  "jobProvisioning \<noteq> jobRejected" "jobRejected \<noteq> jobProvisioning"
  "jobRunning \<noteq> jobCleanupPending" "jobCleanupPending \<noteq> jobRunning"
  "jobRunning \<noteq> jobCompleted" "jobCompleted \<noteq> jobRunning"
  "jobRunning \<noteq> jobRejected" "jobRejected \<noteq> jobRunning"
  "jobCleanupPending \<noteq> jobCompleted" "jobCompleted \<noteq> jobCleanupPending"
  "jobCleanupPending \<noteq> jobRejected" "jobRejected \<noteq> jobCleanupPending"
  "jobCompleted \<noteq> jobRejected" "jobRejected \<noteq> jobCompleted"
  by (simp_all add: status_consts)

definition ErrEventQueueFull :: goerror where
  "ErrEventQueueFull = Sentinel ''GitHub event queue is full''"

record WorkflowJobInfo =
  wj_ID :: int
  wj_RunID :: int
  wj_Name :: string
  wj_Labels :: "string list"
  wj_RunnerName :: string

record WorkflowJobEvent =
  ev_DeliveryID :: string
  ev_Action :: string
  ev_InstallationID :: int
  ev_Repository :: RepositoryInfo
  ev_Job :: WorkflowJobInfo

record RunnerManagerConfig =
  cfg_MarkerLabel :: string
  cfg_RunnerGroupID :: int
  cfg_RunnerImage :: string
  cfg_RunnerCPU :: int
  cfg_RunnerMemoryM :: int
  cfg_RunnerTimeout :: duration
  cfg_StateFile :: string
  cfg_RetryInterval :: duration
  cfg_TombstoneTTL :: duration
  cfg_QueueSize :: int

record JobRecord =
  rec_JobID :: int
  rec_RunID :: int
  rec_InstallationID :: int
  rec_Repository :: string
  rec_Owner :: string
  rec_Repo :: string
  rec_Labels :: "string list"
  rec_Status :: string
  rec_NodeID :: string
  rec_InstanceID :: string
  rec_RunnerName :: string
  rec_RunnerID :: int
  rec_CPU :: int
  rec_MemoryM :: int
  rec_Attempt :: int
  rec_Deadline :: time
  rec_UpdatedAt :: time

definition zero_JobRecord :: JobRecord where
  "zero_JobRecord =
     \<lparr>rec_JobID = 0, rec_RunID = 0, rec_InstallationID = 0, rec_Repository = [], rec_Owner = [],
      rec_Repo = [], rec_Labels = [], rec_Status = [], rec_NodeID = [], rec_InstanceID = [],
      rec_RunnerName = [], rec_RunnerID = 0, rec_CPU = 0, rec_MemoryM = 0, rec_Attempt = 0,
      rec_Deadline = 0, rec_UpdatedAt = 0\<rparr>"

type_synonym jobs = "(int, JobRecord) fmap"

section \<open>The world\<close>

datatype effect =
    EGetRun int string string int "goerror + WorkflowRun"
  | EJIT int string string string int "string list" "goerror + JITConfig"
  | EDeleteRunner int string string int "goerror option"
  | ECreate Node JobSpec "goerror + Instance"
  | EDestroy Node string "goerror option"
  | EClock time
  | EMkdir "goerror option"
  | EWriteTmp jobs "goerror option"
  | ERename "goerror option"

record Env =
  env_getRun :: "effect list \<Rightarrow> int \<Rightarrow> string \<Rightarrow> string \<Rightarrow> int \<Rightarrow> goerror + WorkflowRun"
  env_jit :: "effect list \<Rightarrow> int \<Rightarrow> string \<Rightarrow> string \<Rightarrow> string \<Rightarrow> int \<Rightarrow> string list \<Rightarrow> goerror + JITConfig"
  env_deleteRunner :: "effect list \<Rightarrow> int \<Rightarrow> string \<Rightarrow> string \<Rightarrow> int \<Rightarrow> goerror option"
  env_create :: "effect list \<Rightarrow> Node \<Rightarrow> JobSpec \<Rightarrow> goerror + Instance"
  env_destroy :: "effect list \<Rightarrow> Node \<Rightarrow> string \<Rightarrow> goerror option"
  env_clock :: "effect list \<Rightarrow> time"
  env_mkdir :: "effect list \<Rightarrow> goerror option"
  env_marshal :: "effect list \<Rightarrow> jobs \<Rightarrow> goerror option"
  env_write :: "effect list \<Rightarrow> goerror option"
  env_rename :: "effect list \<Rightarrow> goerror option"
  env_read :: "effect list \<Rightarrow> goerror option"
  env_rankJobs :: "effect list \<Rightarrow> int \<Rightarrow> nat"
  env_rankNames :: "effect list \<Rightarrow> string \<Rightarrow> nat"
  env_heartbeats :: "effect list \<Rightarrow> (time \<times> Node) list"

datatype document = JobsDoc "jobs option" | Malformed goerror

record Disk =
  dsk_state :: "document option"
  dsk_tmp :: "document option"

text \<open>
  A failed write may leave a truncated temporary file; a failed rename leaves both files as
  they were.
\<close>

fun disk_step :: "effect \<Rightarrow> Disk \<Rightarrow> Disk" where
  "disk_step (EWriteTmp js None) d = d\<lparr>dsk_tmp := Some (JobsDoc (Some js))\<rparr>"
| "disk_step (EWriteTmp js (Some err)) d = d\<lparr>dsk_tmp := Some (Malformed (Errorf ''unexpected end of JSON input''))\<rparr>"
| "disk_step (ERename None) d = d\<lparr>dsk_state := dsk_tmp d, dsk_tmp := None\<rparr>"
| "disk_step e d = d"

record Manager =
  mgr_cfg :: RunnerManagerConfig
  mgr_jobs :: jobs
  mgr_queue :: "WorkflowJobEvent list"
  mgr_server :: Server
  mgr_disk :: Disk
  mgr_trace :: "effect list"

text \<open>A heartbeat that the control plane accepts while the manager waits.\<close>

definition acceptHeartbeat :: "time \<times> Node \<Rightarrow> Server \<Rightarrow> Server" where
  "acceptHeartbeat tn s = (if node_ID (snd tn) = [] then s else storeNode (fst tn) (snd tn) s)"

definition perform :: "Env \<Rightarrow> effect \<Rightarrow> Manager \<Rightarrow> Manager" where
  "perform E e m =
     m\<lparr>mgr_trace := mgr_trace m @ [e],
       mgr_disk := disk_step e (mgr_disk m),
       mgr_server := fold acceptHeartbeat (env_heartbeats E (mgr_trace m @ [e])) (mgr_server m)\<rparr>"

definition GetWorkflowRun ::
  "Env \<Rightarrow> int \<Rightarrow> string \<Rightarrow> string \<Rightarrow> int \<Rightarrow> Manager \<Rightarrow> (goerror + WorkflowRun) \<times> Manager" where
  "GetWorkflowRun E inst owner repo runID m =
     (let r = env_getRun E (mgr_trace m) inst owner repo runID in
      (r, perform E (EGetRun inst owner repo runID r) m))"

definition GenerateJITConfig ::
  "Env \<Rightarrow> int \<Rightarrow> string \<Rightarrow> string \<Rightarrow> string \<Rightarrow> int \<Rightarrow> string list \<Rightarrow> Manager
     \<Rightarrow> (goerror + JITConfig) \<times> Manager" where
  "GenerateJITConfig E inst owner repo name groupID labels m =
     (let r = env_jit E (mgr_trace m) inst owner repo name groupID labels in
      (r, perform E (EJIT inst owner repo name groupID labels r) m))"

definition DeleteRunner ::
  "Env \<Rightarrow> int \<Rightarrow> string \<Rightarrow> string \<Rightarrow> int \<Rightarrow> Manager \<Rightarrow> goerror option \<times> Manager" where
  "DeleteRunner E inst owner repo runnerID m =
     (let r = env_deleteRunner E (mgr_trace m) inst owner repo runnerID in
      (r, perform E (EDeleteRunner inst owner repo runnerID r) m))"

definition CreateInstance ::
  "Env \<Rightarrow> Node \<Rightarrow> JobSpec \<Rightarrow> Manager \<Rightarrow> (goerror + Instance) \<times> Manager" where
  "CreateInstance E node spec m =
     (let r = env_create E (mgr_trace m) node spec in (r, perform E (ECreate node spec r) m))"

definition DestroyInstance ::
  "Env \<Rightarrow> Node \<Rightarrow> string \<Rightarrow> Manager \<Rightarrow> goerror option \<times> Manager" where
  "DestroyInstance E node instanceID m =
     (let r = env_destroy E (mgr_trace m) node instanceID in
      (r, perform E (EDestroy node instanceID r) m))"

definition Now :: "Env \<Rightarrow> Manager \<Rightarrow> time \<times> Manager" where
  "Now E m = (let t = env_clock E (mgr_trace m) in (t, perform E (EClock t) m))"

section \<open>Jobs and their persistence\<close>

definition job :: "Manager \<Rightarrow> int \<Rightarrow> JobRecord" where
  "job m jobID = index0 zero_JobRecord (mgr_jobs m) jobID"

definition setJob :: "int \<Rightarrow> JobRecord \<Rightarrow> Manager \<Rightarrow> Manager" where
  "setJob jobID r m = m\<lparr>mgr_jobs := fmupd jobID r (mgr_jobs m)\<rparr>"

definition saveLocked :: "Env \<Rightarrow> Manager \<Rightarrow> goerror option \<times> Manager" where
  "saveLocked E m =
     (if cfg_StateFile (mgr_cfg m) = [] then (None, m)
      else let r1 = env_mkdir E (mgr_trace m); m1 = perform E (EMkdir r1) m in
      case r1 of
        Some err \<Rightarrow> (Some (Wrapf ''create controller state directory: '' err []), m1)
      | None \<Rightarrow>
      case env_marshal E (mgr_trace m1) (mgr_jobs m1) of
        Some err \<Rightarrow> (Some err, m1)
      | None \<Rightarrow>
      let r2 = env_write E (mgr_trace m1); m2 = perform E (EWriteTmp (mgr_jobs m1) r2) m1 in
      case r2 of
        Some err \<Rightarrow> (Some (Wrapf ''write controller state: '' err []), m2)
      | None \<Rightarrow>
      let r3 = env_rename E (mgr_trace m2); m3 = perform E (ERename r3) m2 in
      case r3 of
        Some err \<Rightarrow> (Some (Wrapf ''replace controller state: '' err []), m3)
      | None \<Rightarrow> (None, m3))"

definition loadState :: "Env \<Rightarrow> Manager \<Rightarrow> goerror option \<times> Manager" where
  "loadState E m =
     (if cfg_StateFile (mgr_cfg m) = [] then (None, m)
      else case dsk_state (mgr_disk m) of
        None \<Rightarrow> (None, m)
      | Some doc \<Rightarrow>
      case env_read E (mgr_trace m) of
        Some err \<Rightarrow> (Some (Wrapf ''read controller state: '' err []), m)
      | None \<Rightarrow>
      case doc of
        Malformed err \<Rightarrow> (Some (Wrapf ''decode controller state: '' err []), m)
      | JobsDoc None \<Rightarrow> (None, m)
      | JobsDoc (Some js) \<Rightarrow> (None, m\<lparr>mgr_jobs := js\<rparr>))"

definition defaultConfig :: "RunnerManagerConfig \<Rightarrow> RunnerManagerConfig" where
  "defaultConfig cfg =
     cfg\<lparr>cfg_MarkerLabel :=
           (if TrimSpace (cfg_MarkerLabel cfg) = [] then ''cifleet'' else cfg_MarkerLabel cfg),
         cfg_RunnerGroupID := (if cfg_RunnerGroupID cfg \<le> 0 then 1 else cfg_RunnerGroupID cfg),
         cfg_RunnerImage :=
           (if cfg_RunnerImage cfg = [] then ''ghcr.io/actions/actions-runner:latest''
            else cfg_RunnerImage cfg),
         cfg_RunnerCPU := (if cfg_RunnerCPU cfg \<le> 0 then 2 else cfg_RunnerCPU cfg),
         cfg_RunnerMemoryM := (if cfg_RunnerMemoryM cfg \<le> 0 then 4096 else cfg_RunnerMemoryM cfg),
         cfg_RunnerTimeout := (if cfg_RunnerTimeout cfg \<le> 0 then 2 * Hour else cfg_RunnerTimeout cfg),
         cfg_RetryInterval := (if cfg_RetryInterval cfg \<le> 0 then 15 * Second else cfg_RetryInterval cfg),
         cfg_TombstoneTTL := (if cfg_TombstoneTTL cfg \<le> 0 then 24 * Hour else cfg_TombstoneTTL cfg),
         cfg_QueueSize := (if cfg_QueueSize cfg \<le> 0 then 256 else cfg_QueueSize cfg)\<rparr>"

text \<open>
  The constructor takes the control-plane server and whether a GitHub client and an agent
  client were given (the interface values are only compared with \<open>nil\<close>), and the disk it
  finds.
\<close>

definition NewRunnerManager ::
  "Env \<Rightarrow> RunnerManagerConfig \<Rightarrow> Server option \<Rightarrow> bool \<Rightarrow> bool \<Rightarrow> Disk \<Rightarrow> effect list
     \<Rightarrow> goerror + Manager" where
  "NewRunnerManager E cfg server hasGithub hasAgents disk before =
     (case server of
        None \<Rightarrow> Inl (Errorf ''controller, GitHub client and agent client are required'')
      | Some srv \<Rightarrow>
          if \<not> hasGithub \<or> \<not> hasAgents
          then Inl (Errorf ''controller, GitHub client and agent client are required'')
          else (case loadState E \<lparr>mgr_cfg = defaultConfig cfg, mgr_jobs = fmempty, mgr_queue = [],
                   mgr_server = srv, mgr_disk = disk, mgr_trace = before\<rparr> of
                  (Some err, m) \<Rightarrow> Inl err
                | (None, m) \<Rightarrow> Inr m))"

end
