(* ===== verification/Runner_Manager.thy ===== *)
theory Runner_Manager
  imports Job_Store
begin

text \<open>
  The operations of the runner manager: placement with reservations, provisioning of a JIT
  runner (\<open>src/internal/controller/github_provision.go\<close>), completion, reconciliation and
  cleanup (\<open>src/internal/controller/github_lifecycle.go\<close>), and the event entry points
  (\<open>src/internal/controller/github_jobs.go\<close>). Each operation takes the environment and the
  manager and returns the Go \<open>error\<close> (\<open>None\<close> for \<open>nil\<close>) and the manager after it.
\<close>

section \<open>Placement\<close>

definition reserves :: "JobRecord \<Rightarrow> bool" where
  "reserves record \<longleftrightarrow>
     \<not> (rec_NodeID record = [] \<or>
        rec_Status record \<noteq> jobProvisioning \<and> rec_Status record \<noteq> jobRunning \<and>
        rec_Status record \<noteq> jobCleanupPending)"

definition addReservation :: "JobRecord \<Rightarrow> (string, Capacity) fmap \<Rightarrow> (string, Capacity) fmap" where
  "addReservation record out =
     (let r = index0 zero_Capacity out (rec_NodeID record) in
      fmupd (rec_NodeID record)
        (r\<lparr>TotalCPU := wrap64 (TotalCPU r + rec_CPU record),
           TotalMemoryM := wrap64 (TotalMemoryM r + rec_MemoryM record),
           RunningJobs := wrap64 (RunningJobs r + 1)\<rparr>) out)"

fun reserveAll :: "JobRecord list \<Rightarrow> (string, Capacity) fmap \<Rightarrow> (string, Capacity) fmap" where
  "reserveAll [] out = out"
| "reserveAll (record # rest) out =
     (if \<not> reserves record then reserveAll rest out else reserveAll rest (addReservation record out))"

definition reservations :: "(int \<Rightarrow> nat) \<Rightarrow> jobs \<Rightarrow> (string, Capacity) fmap" where
  "reservations rank js = reserveAll (map (\<lambda>k. the (fmlookup js k)) (range_keys rank js)) fmempty"

definition applyReservation :: "(string, Capacity) fmap \<Rightarrow> Node \<Rightarrow> Node" where
  "applyReservation res n =
     (let r = index0 zero_Capacity res (node_ID n); c = node_Capacity n in
      n\<lparr>node_Capacity :=
        c\<lparr>FreeCPU :=
            (if TotalCPU c > 0
             then minInt (FreeCPU c) (maxInt 0 (wrap64 (TotalCPU c - TotalCPU r))) else FreeCPU c),
          FreeMemoryM :=
            (if TotalMemoryM c > 0
             then minInt (FreeMemoryM c) (maxInt 0 (wrap64 (TotalMemoryM c - TotalMemoryM r)))
             else FreeMemoryM c),
          RunningJobs := maxInt (RunningJobs c) (RunningJobs r)\<rparr>\<rparr>)"

definition place ::
  "Env \<Rightarrow> JobRequirements \<Rightarrow> Manager \<Rightarrow> (goerror + (Placement \<times> Node)) \<times> Manager" where
  "place E req m =
     (let (now, m1) = Now E m;
          nodes = map (applyReservation (reservations (env_rankJobs E (mgr_trace m1)) (mgr_jobs m1)))
                    (snapshotNodes (env_rankNames E (mgr_trace m1)) (mgr_server m1) now)
      in (case Place req nodes of
            Inl err \<Rightarrow> Inl err
          | Inr pl \<Rightarrow>
              (case find (\<lambda>n. node_ID n = pl_NodeID pl) nodes of
                 Some node \<Rightarrow> Inr (pl, node)
               | None \<Rightarrow> Inl ErrNoPlacement), m1))"

definition rawNode :: "Manager \<Rightarrow> string \<Rightarrow> Node option" where
  "rawNode m nodeID = fmlookup (srv_nodes (mgr_server m)) nodeID"

definition nodeFromRunnerName :: "Env \<Rightarrow> string \<Rightarrow> int \<Rightarrow> Manager \<Rightarrow> Node option" where
  "nodeFromRunnerName E name jobID m =
     (if name = [] then None
      else
        (let suffix = ''-'' @ FormatInt jobID; nodes = srv_nodes (mgr_server m) in
         find (\<lambda>node. HasPrefix name (''cifleet-'' @ safeName (node_ID node) @ ''-'') \<and>
                       Contains name suffix)
           (map (\<lambda>k. the (fmlookup nodes k)) (range_keys (env_rankNames E (mgr_trace m)) nodes))))"

section \<open>Provisioning\<close>

definition runnerSpec :: "RunnerManagerConfig \<Rightarrow> int \<Rightarrow> JobRecord \<Rightarrow> JITConfig \<Rightarrow> JobSpec" where
  "runnerSpec cfg jobID record jit =
     \<lparr>spec_ID = containerJobID jobID, spec_Repository = rec_Repository record,
      spec_RunnerConfig = [], spec_Image = cfg_RunnerImage cfg,
      spec_Command = [''/home/runner/run.sh''], spec_CPU = rec_CPU record,
      spec_MemoryM = rec_MemoryM record,
      spec_Environment =
        fmupd ''ACTIONS_RUNNER_PRINT_LOG_TO_STDOUT'' ''1''
          (fmupd ''ACTIONS_RUNNER_INPUT_JITCONFIG'' (jit_EncodedConfig jit) fmempty),
      spec_CacheMounts = [], spec_Timeout = 0,
      spec_TimeoutSeconds = go_div (cfg_RunnerTimeout cfg) Second\<rparr>"

text \<open>Lines 27-33 and 40-46: the job is marked rejected.\<close>

definition rejectJob :: "Env \<Rightarrow> int \<Rightarrow> Manager \<Rightarrow> goerror option \<times> Manager" where
  "rejectJob E jobID m =
     (let (now, m1) = Now E m in
      saveLocked E (setJob jobID ((job m1 jobID)\<lparr>rec_Status := jobRejected, rec_UpdatedAt := now\<rparr>) m1))"

text \<open>The record goes back to pending and forgets its node, instance and runner.\<close>

definition pendingAgain :: "time \<Rightarrow> JobRecord \<Rightarrow> JobRecord" where
  "pendingAgain now current =
     current\<lparr>rec_Status := jobPending, rec_NodeID := [], rec_InstanceID := [], rec_RunnerName := [],
             rec_RunnerID := 0, rec_Deadline := 0, rec_UpdatedAt := now\<rparr>"

text \<open>Lines 93-129: the instance is created on the node, or everything is rolled back.\<close>

definition launchRunner ::
  "Env \<Rightarrow> int \<Rightarrow> Node \<Rightarrow> JobRecord \<Rightarrow> JITConfig \<Rightarrow> Manager \<Rightarrow> goerror option \<times> Manager" where
  "launchRunner E jobID node record jit m =
     (let (created, m1) = CreateInstance E node (runnerSpec (mgr_cfg m) jobID record jit) m in
      case created of
        Inl err \<Rightarrow>
          (let (_, m2) = DestroyInstance E node (containerName jobID) m1;
               (_, m3) = DeleteRunner E (rec_InstallationID record) (rec_Owner record)
                           (rec_Repo record) (jit_RunnerID jit) m2;
               (now, m4) = Now E m3;
               (saveErr, m5) = saveLocked E (setJob jobID (pendingAgain now (job m4 jobID)) m4)
           in (case saveErr of Some e \<Rightarrow> Some e
               | None \<Rightarrow> Some (Wrapf ''create runner instance: '' err []), m5))
      | Inr inst \<Rightarrow>
          (let (now, m2) = Now E m1; current = job m2 jobID;
               running = current\<lparr>rec_Status := jobRunning, rec_InstanceID := inst_ID inst,
                 rec_Deadline :=
                   (if \<not> IsZero (inst_Deadline inst) then inst_Deadline inst else rec_Deadline current),
                 rec_UpdatedAt := now\<rparr>
           in saveLocked E (setJob jobID running m2)))"

text \<open>Lines 64-91: a JIT configuration is generated and the job is persisted as provisioning.\<close>

definition provisionOn :: "Env \<Rightarrow> int \<Rightarrow> Node \<Rightarrow> Manager \<Rightarrow> goerror option \<times> Manager" where
  "provisionOn E jobID node m =
     (let record = job m jobID;
          attempt = wrap64 (rec_Attempt record + 1);
          name = runnerName (node_ID node) jobID attempt;
          (generated, m1) = GenerateJITConfig E (rec_InstallationID record) (rec_Owner record)
                              (rec_Repo record) name (cfg_RunnerGroupID (mgr_cfg m))
                              (rec_Labels record) m in
      case generated of
        Inl err \<Rightarrow> (Some (Wrapf ''generate JIT runner config: '' err []), m1)
      | Inr jit \<Rightarrow>
          (let (now, m2) = Now E m1;
               record = (job m2 jobID)\<lparr>rec_Status := jobProvisioning, rec_NodeID := node_ID node,
                 rec_RunnerName := name, rec_RunnerID := jit_RunnerID jit, rec_Attempt := attempt,
                 rec_Deadline := time_Add now (cfg_RunnerTimeout (mgr_cfg m2)), rec_UpdatedAt := now\<rparr>;
               (saveErr, m3) = saveLocked E (setJob jobID record m2) in
           case saveErr of
             Some err \<Rightarrow>
               (let (_, m4) = DeleteRunner E (rec_InstallationID record) (rec_Owner record)
                                (rec_Repo record) (jit_RunnerID jit) m3
                in (Some err, m4))
           | None \<Rightarrow> launchRunner E jobID node record jit m3))"

definition tryProvision :: "Env \<Rightarrow> int \<Rightarrow> Manager \<Rightarrow> goerror option \<times> Manager" where
  "tryProvision E jobID m =
     (case fmlookup (mgr_jobs m) jobID of
        None \<Rightarrow> (None, m)
      | Some record \<Rightarrow>
      if rec_Status record \<noteq> jobPending then (None, m)
      else
      let (got, m1) = GetWorkflowRun E (rec_InstallationID record) (rec_Owner record)
                        (rec_Repo record) (rec_RunID record) m in
      case got of
        Inl err \<Rightarrow> (Some (Wrapf ''get workflow run trust context: '' err []), m1)
      | Inr run \<Rightarrow>
      if \<not> fst (trustedWorkflowRun run (rec_Repository record)) then rejectJob E jobID m1
      else
      case requirementsFromLabels (env_rankNames E (mgr_trace m1)) (rec_Repository record)
             (rec_Labels record) (rec_CPU record) (rec_MemoryM record) of
        Inl err \<Rightarrow>
          (let (saveErr, m2) = rejectJob E jobID m1
           in (case saveErr of Some e \<Rightarrow> Some e | None \<Rightarrow> Some err, m2))
      | Inr req \<Rightarrow>
      let (placed, m2) = place E req m1 in
      case placed of
        Inl err \<Rightarrow> (if errors_Is err ErrNoPlacement then None else Some err, m2)
      | Inr (pl, node) \<Rightarrow>
      if pl_Backend pl \<noteq> BackendDocker
      then (Some (Errorf (''runner launcher for backend '' @ Quote (pl_Backend pl) @
                          '' is not implemented in M2'')), m2)
      else provisionOn E jobID node m2)"

section \<open>Completion, cleanup and reconciliation\<close>

definition instanceOf :: "int \<Rightarrow> JobRecord \<Rightarrow> string" where
  "instanceOf jobID record =
     (if rec_InstanceID record = [] then containerName jobID else rec_InstanceID record)"

text \<open>The GitHub runner of a record is deleted if it has one; the answer is ignored.\<close>

definition deleteRunnerOf :: "Env \<Rightarrow> JobRecord \<Rightarrow> Manager \<Rightarrow> Manager" where
  "deleteRunnerOf E record m =
     (if rec_RunnerID record > 0
      then snd (DeleteRunner E (rec_InstallationID record) (rec_Owner record) (rec_Repo record)
                  (rec_RunnerID record) m)
      else m)"

definition completeJob :: "Env \<Rightarrow> int \<Rightarrow> Manager \<Rightarrow> goerror option \<times> Manager" where
  "completeJob E jobID m =
     (let (now, m1) = Now E m in
      saveLocked E (setJob jobID
        ((job m1 jobID)\<lparr>rec_Status := jobCompleted, rec_InstanceID := [], rec_UpdatedAt := now\<rparr>) m1))"

text \<open>The agent destroys the instance of a record if the record has a known node.\<close>

definition destroyInstanceOf ::
  "Env \<Rightarrow> int \<Rightarrow> JobRecord \<Rightarrow> Manager \<Rightarrow> goerror option \<times> Manager" where
  "destroyInstanceOf E jobID record m =
     (if rec_NodeID record \<noteq> [] then
        (case rawNode m (rec_NodeID record) of
           Some node \<Rightarrow> DestroyInstance E node (instanceOf jobID record) m
         | None \<Rightarrow> (None, m))
      else (None, m))"

definition handleCompleted :: "Env \<Rightarrow> WorkflowJobEvent \<Rightarrow> Manager \<Rightarrow> goerror option \<times> Manager" where
  "handleCompleted E event m =
     (let jobID = wj_ID (ev_Job event) in
      if jobID \<le> 0 then (None, m)
      else case fmlookup (mgr_jobs m) jobID of
        None \<Rightarrow>
          (let m1 = (case nodeFromRunnerName E (wj_RunnerName (ev_Job event)) jobID m of
                       Some node \<Rightarrow> snd (DestroyInstance E node (containerName jobID) m)
                     | None \<Rightarrow> m);
               (now, m2) = Now E m1
           in saveLocked E (setJob jobID
                (zero_JobRecord\<lparr>rec_JobID := jobID, rec_RunID := wj_RunID (ev_Job event),
                   rec_InstallationID := ev_InstallationID event,
                   rec_Repository := repo_FullName (ev_Repository event),
                   rec_Status := jobCompleted, rec_UpdatedAt := now\<rparr>) m2))
      | Some record \<Rightarrow>
          if rec_Status record = jobCompleted then (None, m)
          else
          let (destroyErr, m1) = destroyInstanceOf E jobID record m in
          case destroyErr of
            Some err \<Rightarrow>
              (let (now, m2) = Now E m1;
                   (saveErr, m3) = saveLocked E (setJob jobID
                     ((job m2 jobID)\<lparr>rec_Status := jobCleanupPending, rec_UpdatedAt := now\<rparr>) m2)
               in (case saveErr of Some e \<Rightarrow> Some e | None \<Rightarrow> Some err, m3))
          | None \<Rightarrow> completeJob E jobID (deleteRunnerOf E record m1))"

definition cleanupRecord :: "Env \<Rightarrow> JobRecord \<Rightarrow> Manager \<Rightarrow> goerror option \<times> Manager" where
  "cleanupRecord E record m =
     (let (destroyErr, m1) = destroyInstanceOf E (rec_JobID record) record m in
      case destroyErr of
        Some err \<Rightarrow> (Some err, m1)
      | None \<Rightarrow> completeJob E (rec_JobID record) (deleteRunnerOf E record m1))"

text \<open>Lines 118-125: both sides of an interrupted provisioning are torn down, errors ignored.\<close>

definition tearDown :: "Env \<Rightarrow> JobRecord \<Rightarrow> Manager \<Rightarrow> Manager" where
  "tearDown E record m =
     deleteRunnerOf E record
       (if rec_NodeID record \<noteq> [] then
          (case rawNode m (rec_NodeID record) of
             Some node \<Rightarrow> snd (DestroyInstance E node (containerName (rec_JobID record)) m)
           | None \<Rightarrow> m)
        else m)"

definition recoverProvisioning :: "Env \<Rightarrow> JobRecord \<Rightarrow> Manager \<Rightarrow> goerror option \<times> Manager" where
  "recoverProvisioning E record m =
     (let jobID = rec_JobID record; m1 = tearDown E record m in
      case fmlookup (mgr_jobs m1) jobID of
        None \<Rightarrow> (None, m1)
      | Some current \<Rightarrow>
          if rec_Status current \<noteq> jobProvisioning then (None, m1)
          else
          let (now, m2) = Now E m1;
              (saveErr, m3) = saveLocked E (setJob jobID (pendingAgain now current) m2) in
          case saveErr of
            Some err \<Rightarrow> (Some err, m3)
          | None \<Rightarrow> tryProvision E jobID m3)"

definition tombstoneExpired :: "RunnerManagerConfig \<Rightarrow> time \<Rightarrow> JobRecord \<Rightarrow> bool" where
  "tombstoneExpired cfg now record \<longleftrightarrow>
     (rec_Status record = jobCompleted \<or> rec_Status record = jobRejected) \<and>
     time_Sub now (rec_UpdatedAt record) > cfg_TombstoneTTL cfg"

fun pruneTombstones :: "RunnerManagerConfig \<Rightarrow> time \<Rightarrow> int list \<Rightarrow> jobs \<Rightarrow> int list \<times> bool \<times> jobs" where
  "pruneTombstones cfg now [] js = ([], False, js)"
| "pruneTombstones cfg now (k # ks) js =
     (if tombstoneExpired cfg now (index0 zero_JobRecord js k)
      then (case pruneTombstones cfg now ks (fmdrop k js) of (ids, _, js') \<Rightarrow> (ids, True, js'))
      else (case pruneTombstones cfg now ks js of (ids, pruned, js') \<Rightarrow> (k # ids, pruned, js')))"

definition reconcileJob :: "Env \<Rightarrow> time \<Rightarrow> int \<Rightarrow> Manager \<Rightarrow> Manager" where
  "reconcileJob E now jobID m =
     (case fmlookup (mgr_jobs m) jobID of
        None \<Rightarrow> m
      | Some record \<Rightarrow>
          if rec_Status record = jobPending then snd (tryProvision E jobID m)
          else if rec_Status record = jobProvisioning then snd (recoverProvisioning E record m)
          else if rec_Status record = jobCleanupPending then snd (cleanupRecord E record m)
          else if rec_Status record = jobRunning \<and> \<not> IsZero (rec_Deadline record) \<and>
                  time_After now (time_Add (rec_Deadline record) (2 * Minute))
          then snd (cleanupRecord E record m)
          else m)"

definition reconcile :: "Env \<Rightarrow> time \<Rightarrow> Manager \<Rightarrow> Manager" where
  "reconcile E now m =
     (let (ids, pruned, js) = pruneTombstones (mgr_cfg m) now
            (range_keys (env_rankJobs E (mgr_trace m)) (mgr_jobs m)) (mgr_jobs m);
          m1 = m\<lparr>mgr_jobs := js\<rparr>;
          m2 = (if pruned then snd (saveLocked E m1) else m1)
      in fold (reconcileJob E now) ids m2)"

section \<open>Events\<close>

definition Submit :: "WorkflowJobEvent \<Rightarrow> Manager \<Rightarrow> goerror option \<times> Manager" where
  "Submit event m =
     (if int (length (mgr_queue m)) < cfg_QueueSize (mgr_cfg m)
      then (None, m\<lparr>mgr_queue := mgr_queue m @ [event]\<rparr>)
      else (Some ErrEventQueueFull, m))"

definition handleQueued :: "Env \<Rightarrow> WorkflowJobEvent \<Rightarrow> Manager \<Rightarrow> goerror option \<times> Manager" where
  "handleQueued E event m =
     (let j = ev_Job event; jobID = wj_ID j in
      if jobID \<le> 0 \<or> wj_RunID j \<le> 0 \<or> ev_InstallationID event \<le> 0
      then (Some (Errorf ''workflow job event is missing job, run or installation id''), m)
      else if \<not> hasLabel (wj_Labels j) (cfg_MarkerLabel (mgr_cfg m)) then (None, m)
      else case repoParts (ev_Repository event) of
        Inl err \<Rightarrow> (Some err, m)
      | Inr (owner, repo) \<Rightarrow>
      if fmlookup (mgr_jobs m) jobID \<noteq> None then (None, m)
      else
      let (now, m1) = Now E m;
          record = zero_JobRecord\<lparr>rec_JobID := jobID, rec_RunID := wj_RunID j,
            rec_InstallationID := ev_InstallationID event,
            rec_Repository := repo_FullName (ev_Repository event), rec_Owner := owner,
            rec_Repo := repo, rec_Labels := wj_Labels j, rec_Status := jobPending,
            rec_CPU := cfg_RunnerCPU (mgr_cfg m1), rec_MemoryM := cfg_RunnerMemoryM (mgr_cfg m1),
            rec_UpdatedAt := now\<rparr>;
          (saveErr, m2) = saveLocked E (setJob jobID record m1) in
      case saveErr of
        Some err \<Rightarrow> (Some err, m2\<lparr>mgr_jobs := fmdrop jobID (mgr_jobs m2)\<rparr>)
      | None \<Rightarrow> tryProvision E jobID m2)"

definition Process :: "Env \<Rightarrow> WorkflowJobEvent \<Rightarrow> Manager \<Rightarrow> goerror option \<times> Manager" where
  "Process E event m =
     (if ev_Action event = ''queued'' then handleQueued E event m
      else if ev_Action event = ''completed'' then handleCompleted E event m
      else (None, m))"

end
