(* ===== verification/Manager_Frame.thy ===== *)
theory Manager_Frame
  imports Runner_Manager
begin

text \<open>
  What the world-facing calls of the runner manager leave unchanged, how they extend the trace,
  and what a successful save leaves on disk. These lemmas carry the proofs about the
  operations, which are unfolded only down to these calls.
\<close>

section \<open>Frame\<close>

lemma perform_frame [simp, job_frame]:
  "mgr_jobs (perform E e m) = mgr_jobs m" "mgr_cfg (perform E e m) = mgr_cfg m"
  "mgr_queue (perform E e m) = mgr_queue m"
  by (simp_all add: perform_def)

lemma perform_trace [simp, trace_simps]: "mgr_trace (perform E e m) = mgr_trace m @ [e]"
  by (simp add: perform_def)

lemma perform_disk [simp]: "mgr_disk (perform E e m) = disk_step e (mgr_disk m)"
  by (simp add: perform_def)

lemmas call_defs =
  GetWorkflowRun_def GenerateJITConfig_def DeleteRunner_def CreateInstance_def
  DestroyInstance_def Now_def

lemma call_results [simp]:
  "fst (GetWorkflowRun E i ow rp rid m) = env_getRun E (mgr_trace m) i ow rp rid"
  "fst (GenerateJITConfig E i ow rp nm g ls m) = env_jit E (mgr_trace m) i ow rp nm g ls"
  "fst (DeleteRunner E i ow rp x m) = env_deleteRunner E (mgr_trace m) i ow rp x"
  "fst (CreateInstance E nd sp m) = env_create E (mgr_trace m) nd sp"
  "fst (DestroyInstance E nd iid m) = env_destroy E (mgr_trace m) nd iid"
  "fst (Now E m) = env_clock E (mgr_trace m)"
  by (simp_all add: call_defs Let_def)

lemma call_states:
  "snd (GetWorkflowRun E i ow rp rid m) =
     perform E (EGetRun i ow rp rid (env_getRun E (mgr_trace m) i ow rp rid)) m"
  "snd (GenerateJITConfig E i ow rp nm g ls m) =
     perform E (EJIT i ow rp nm g ls (env_jit E (mgr_trace m) i ow rp nm g ls)) m"
  "snd (DeleteRunner E i ow rp x m) =
     perform E (EDeleteRunner i ow rp x (env_deleteRunner E (mgr_trace m) i ow rp x)) m"
  "snd (CreateInstance E nd sp m) = perform E (ECreate nd sp (env_create E (mgr_trace m) nd sp)) m"
  "snd (DestroyInstance E nd iid m) = perform E (EDestroy nd iid (env_destroy E (mgr_trace m) nd iid)) m"
  "snd (Now E m) = perform E (EClock (env_clock E (mgr_trace m))) m"
  by (simp_all add: call_defs Let_def)

lemma setJob_simps [simp, job_frame]:
  "mgr_jobs (setJob jobID r m) = fmupd jobID r (mgr_jobs m)"
  "mgr_cfg (setJob jobID r m) = mgr_cfg m" "mgr_queue (setJob jobID r m) = mgr_queue m"
  "mgr_server (setJob jobID r m) = mgr_server m" "mgr_disk (setJob jobID r m) = mgr_disk m"
  "mgr_trace (setJob jobID r m) = mgr_trace m"
  by (simp_all add: setJob_def)

lemma job_setJob [simp]: "job (setJob jobID r m) k = (if jobID = k then r else job m k)"
  by (simp add: job_def)

lemma job_perform [simp]: "job (perform E e m) k = job m k"
  by (simp add: job_def)

lemma job_Some [simp]: "fmlookup (mgr_jobs m) k = Some r \<Longrightarrow> job m k = r"
  by (simp add: job_def)

section \<open>Saving\<close>

text \<open>The effects of a save, and the possible outcomes of it.\<close>

lemma saveLocked_cases:
  obtains (off) "cfg_StateFile (mgr_cfg m) = []" "saveLocked E m = (None, m)"
  | (no_dir) err where "cfg_StateFile (mgr_cfg m) \<noteq> []" "fst (saveLocked E m) \<noteq> None"
      "snd (saveLocked E m) = perform E (EMkdir (Some err)) m"
  | (unencoded) "cfg_StateFile (mgr_cfg m) \<noteq> []" "fst (saveLocked E m) \<noteq> None"
      "snd (saveLocked E m) = perform E (EMkdir None) m"
  | (unwritten) err where "cfg_StateFile (mgr_cfg m) \<noteq> []" "fst (saveLocked E m) \<noteq> None"
      "snd (saveLocked E m) =
         perform E (EWriteTmp (mgr_jobs m) (Some err)) (perform E (EMkdir None) m)"
  | (unrenamed) err where "cfg_StateFile (mgr_cfg m) \<noteq> []" "fst (saveLocked E m) \<noteq> None"
      "snd (saveLocked E m) = perform E (ERename (Some err))
         (perform E (EWriteTmp (mgr_jobs m) None) (perform E (EMkdir None) m))"
  | (saved) "cfg_StateFile (mgr_cfg m) \<noteq> []" "fst (saveLocked E m) = None"
      "snd (saveLocked E m) = perform E (ERename None)
         (perform E (EWriteTmp (mgr_jobs m) None) (perform E (EMkdir None) m))"
proof (cases "cfg_StateFile (mgr_cfg m) = []")
  case True
  then show thesis by (intro off) (simp_all add: saveLocked_def)
next
  case on: False
  let ?m1 = "perform E (EMkdir None) m"
  let ?m2 = "perform E (EWriteTmp (mgr_jobs m) None) ?m1"
  show thesis
  proof (cases "env_mkdir E (mgr_trace m)")
    case (Some err)
    with on show thesis by (intro no_dir) (simp_all add: saveLocked_def)
  next
    case dir: None
    show thesis
    proof (cases "env_marshal E (mgr_trace ?m1) (mgr_jobs m)")
      case (Some err)
      with on dir show thesis by (intro unencoded) (simp_all add: saveLocked_def)
    next
      case enc: None
      show thesis
      proof (cases "env_write E (mgr_trace ?m1)")
        case (Some err)
        with on dir enc show thesis by (intro unwritten) (simp_all add: saveLocked_def)
      next
        case wrote: None
        show thesis
        proof (cases "env_rename E (mgr_trace ?m2)")
          case (Some err)
          with on dir enc wrote show thesis by (intro unrenamed) (simp_all add: saveLocked_def)
        next
          case None
          with on dir enc wrote show thesis by (intro saved) (simp_all add: saveLocked_def)
        qed
      qed
    qed
  qed
qed

lemma saveLocked_frame [simp, job_frame]:
  "mgr_jobs (snd (saveLocked E m)) = mgr_jobs m" "mgr_cfg (snd (saveLocked E m)) = mgr_cfg m"
  "mgr_queue (snd (saveLocked E m)) = mgr_queue m"
  by (rule saveLocked_cases [of m E]; simp)+

lemma job_saveLocked [simp]: "job (snd (saveLocked E m)) k = job m k"
  by (simp add: job_def)

lemma saveLocked_off: "cfg_StateFile (mgr_cfg m) = [] \<Longrightarrow> saveLocked E m = (None, m)"
  by (simp add: saveLocked_def)

lemma saveLocked_disk:
  assumes "fst (saveLocked E m) = None" and "cfg_StateFile (mgr_cfg m) \<noteq> []"
  shows "dsk_state (mgr_disk (snd (saveLocked E m))) = Some (JobsDoc (Some (mgr_jobs m)))"
  by (rule saveLocked_cases [of m E]) (use assms in simp_all)

text \<open>A failed save leaves the state file as it was: the replacement is atomic.\<close>

lemma saveLocked_failed_disk:
  assumes "fst (saveLocked E m) \<noteq> None"
  shows "dsk_state (mgr_disk (snd (saveLocked E m))) = dsk_state (mgr_disk m)"
  by (rule saveLocked_cases [of m E]) (use assms in simp_all)

section \<open>Extension of the trace\<close>

definition extends :: "Manager \<Rightarrow> Manager \<Rightarrow> bool" where
  "extends m m' \<longleftrightarrow>
     (\<exists>es. mgr_trace m' = mgr_trace m @ es \<and> mgr_disk m' = fold disk_step es (mgr_disk m))"

lemma extends_refl [simp, intro]: "extends m m"
  by (auto simp: extends_def)

lemma extends_trans [trans]: "extends a b \<Longrightarrow> extends b c \<Longrightarrow> extends a c"
  unfolding extends_def by (metis append.assoc comp_apply fold_append)

lemma extends_perform:
  assumes "extends a b"
  shows "extends a (perform E e b)"
proof -
  from assms obtain es where "mgr_trace b = mgr_trace a @ es"
    and "mgr_disk b = fold disk_step es (mgr_disk a)" by (auto simp: extends_def)
  then have "mgr_trace (perform E e b) = mgr_trace a @ (es @ [e])"
    and "mgr_disk (perform E e b) = fold disk_step (es @ [e]) (mgr_disk a)" by simp_all
  then show ?thesis unfolding extends_def by blast
qed

lemma extends_jobs [simp]: "extends m (setJob k r m)" "extends m (m\<lparr>mgr_jobs := js\<rparr>)"
  by (auto simp: extends_def)

lemma extends_saveLocked: "extends m (snd (saveLocked E m))"
  by (rule saveLocked_cases [of m E]) (auto intro!: extends_perform)

end
