(* ===== verification/Lifecycle.thy ===== *)
theory Lifecycle
  imports Manager_Frame
begin

text \<open>
  The abstract specification of the runner manager: the life cycle of a job as a step relation
  on the job table (\<open>job_step\<close>), and the protocol that the manager follows with the world as
  a step relation on the manager (\<open>lstep\<close>): a JIT runner is generated only for a pending job
  whose workflow run has just been checked, and an instance is created only for a job that is
  provisioning on that node with that runner, after this has been saved. Each abstract step is
  one action of the code, so a crash is possible between any two of them.

  The parameter \<open>K\<close> is what is known of the capacity a node reports under its identifier.
\<close>

section \<open>Reserved resources\<close>

definition active_on :: "jobs \<Rightarrow> string \<Rightarrow> int set" where
  "active_on js nodeID =
     {k. \<exists>r. fmlookup js k = Some r \<and> reserves r \<and> rec_NodeID r = nodeID}"

definition reservedCPU :: "jobs \<Rightarrow> string \<Rightarrow> int" where
  "reservedCPU js nodeID = (\<Sum>k \<in> active_on js nodeID. rec_CPU (index0 zero_JobRecord js k))"

definition reservedMemory :: "jobs \<Rightarrow> string \<Rightarrow> int" where
  "reservedMemory js nodeID = (\<Sum>k \<in> active_on js nodeID. rec_MemoryM (index0 zero_JobRecord js k))"

text \<open>There is room for a job on a node whose total is known, in 64-bit arithmetic.\<close>

definition room :: "jobs \<Rightarrow> string \<Rightarrow> Capacity \<Rightarrow> JobRecord \<Rightarrow> bool" where
  "room js nodeID cap r \<longleftrightarrow>
     (0 < TotalCPU cap \<longrightarrow> 0 < rec_CPU r \<longrightarrow>
        rec_CPU r \<le> wrap64 (TotalCPU cap - reservedCPU js nodeID)) \<and>
     (0 < TotalMemoryM cap \<longrightarrow> 0 < rec_MemoryM r \<longrightarrow>
        rec_MemoryM r \<le> wrap64 (TotalMemoryM cap - reservedMemory js nodeID))"

section \<open>The life cycle of a job\<close>

definition new_record :: "RunnerManagerConfig \<Rightarrow> int \<Rightarrow> JobRecord \<Rightarrow> bool" where
  "new_record cfg k r \<longleftrightarrow>
     rec_JobID r = k \<and> rec_Status r = jobPending \<and> rec_NodeID r = [] \<and> rec_InstanceID r = [] \<and>
     rec_RunnerName r = [] \<and> rec_RunnerID r = 0 \<and> rec_Attempt r = 0 \<and> rec_Deadline r = 0 \<and>
     rec_CPU r = cfg_RunnerCPU cfg \<and> rec_MemoryM r = cfg_RunnerMemoryM cfg"

definition tombstone :: "int \<Rightarrow> JobRecord \<Rightarrow> bool" where
  "tombstone k r \<longleftrightarrow>
     rec_JobID r = k \<and> rec_Status r = jobCompleted \<and> rec_NodeID r = [] \<and> rec_InstanceID r = []"

inductive job_step ::
  "(string \<Rightarrow> Capacity \<Rightarrow> bool) \<Rightarrow> RunnerManagerConfig \<Rightarrow> jobs \<Rightarrow> jobs \<Rightarrow> bool"
  for K cfg where
  enqueue: "job_step K cfg js (fmupd k r js)"
    if "fmlookup js k = None" "0 < k" "new_record cfg k r"
| withdraw: "job_step K cfg js (fmdrop k js)"
    if "fmlookup js k = Some r" "rec_Status r = jobPending"
| reject: "job_step K cfg js (fmupd k (r\<lparr>rec_Status := jobRejected, rec_UpdatedAt := t\<rparr>) js)"
    if "fmlookup js k = Some r" "rec_Status r = jobPending"
| provision: "job_step K cfg js
      (fmupd k (r\<lparr>rec_Status := jobProvisioning, rec_NodeID := nodeID,
         rec_RunnerName := runnerName nodeID k (wrap64 (rec_Attempt r + 1)), rec_RunnerID := x,
         rec_Attempt := wrap64 (rec_Attempt r + 1), rec_Deadline := d, rec_UpdatedAt := t\<rparr>) js)"
    if "fmlookup js k = Some r" "rec_Status r = jobPending" "nodeID \<noteq> []" "K nodeID cap"
      "room js nodeID cap r"
| start: "job_step K cfg js
      (fmupd k (r\<lparr>rec_Status := jobRunning, rec_InstanceID := i, rec_Deadline := d,
         rec_UpdatedAt := t\<rparr>) js)"
    if "fmlookup js k = Some r" "rec_Status r = jobProvisioning"
| retry: "job_step K cfg js (fmupd k (pendingAgain t r) js)"
    if "fmlookup js k = Some r" "rec_Status r = jobProvisioning"
| defer_cleanup: "job_step K cfg js
      (fmupd k (r\<lparr>rec_Status := jobCleanupPending, rec_UpdatedAt := t\<rparr>) js)"
    if "fmlookup js k = Some r" "rec_Status r \<noteq> jobCompleted" "rec_NodeID r \<noteq> []"
| complete: "job_step K cfg js
      (fmupd k (r\<lparr>rec_Status := jobCompleted, rec_InstanceID := [], rec_UpdatedAt := t\<rparr>) js)"
    if "fmlookup js k = Some r" "rec_Status r \<noteq> jobCompleted"
| bury: "job_step K cfg js (fmupd k r js)"
    if "fmlookup js k = None" "0 < k" "tombstone k r"
| prune: "job_step K cfg js (fmdrop k js)"
    if "fmlookup js k = Some r" "rec_Status r = jobCompleted \<or> rec_Status r = jobRejected"

section \<open>The protocol with the world\<close>

fun file_effect :: "effect \<Rightarrow> bool" where
  "file_effect (EMkdir r) = True"
| "file_effect (EWriteTmp js r) = True"
| "file_effect (ERename r) = True"
| "file_effect e = False"

text \<open>Effects that need no authorisation; what is written to the file is the job table.\<close>

fun quiet :: "jobs \<Rightarrow> effect \<Rightarrow> bool" where
  "quiet js (EJIT i ow rp nm g ls r) = False"
| "quiet js (ECreate nd sp r) = False"
| "quiet js (EWriteTmp js' r) = (js' = js)"
| "quiet js e = True"

text \<open>The last thing that happened is a successful trust check of the job's workflow run.\<close>

definition just_checked :: "effect list \<Rightarrow> JobRecord \<Rightarrow> bool" where
  "just_checked tr r \<longleftrightarrow>
     (\<exists>pre run t. tr = pre @ [EGetRun (rec_InstallationID r) (rec_Owner r) (rec_Repo r)
        (rec_RunID r) (Inr run), EClock t] \<and> trust_policy run (rec_Repository r))"

text \<open>
  The last things that happened are a successful trust check, the generation of a JIT runner
  under the record's runner name, and attempts to save the state.
\<close>

definition authorised :: "effect list \<Rightarrow> JobRecord \<Rightarrow> JITConfig \<Rightarrow> bool" where
  "authorised tr r jit \<longleftrightarrow>
     (\<exists>pre run t g t' saves.
        tr = pre @ [EGetRun (rec_InstallationID r) (rec_Owner r) (rec_Repo r) (rec_RunID r) (Inr run),
               EClock t,
               EJIT (rec_InstallationID r) (rec_Owner r) (rec_Repo r) (rec_RunnerName r) g
                 (rec_Labels r) (Inr jit),
               EClock t'] @ saves \<and>
        trust_policy run (rec_Repository r) \<and> (\<forall>e \<in> set saves. file_effect e))"

inductive lstep ::
  "Env \<Rightarrow> (string \<Rightarrow> Capacity \<Rightarrow> bool) \<Rightarrow> Manager \<Rightarrow> Manager \<Rightarrow> bool"
  for E K where
  jobs: "lstep E K m (m\<lparr>mgr_jobs := js\<rparr>)"
    if "job_step K (mgr_cfg m) (mgr_jobs m) js"
| world: "lstep E K m (perform E e m)"
    if "quiet (mgr_jobs m) e"
| jit: "lstep E K m (perform E (EJIT (rec_InstallationID r) (rec_Owner r) (rec_Repo r)
      (runnerName nodeID k (wrap64 (rec_Attempt r + 1))) g (rec_Labels r) res) m)"
    if "fmlookup (mgr_jobs m) k = Some r" "rec_Status r = jobPending"
      "just_checked (mgr_trace m) r"
| create: "lstep E K m (perform E (ECreate node (runnerSpec (mgr_cfg m) k r jit) res) m)"
    if "fmlookup (mgr_jobs m) k = Some r" "rec_Status r = jobProvisioning"
      "rec_NodeID r = node_ID node" "rec_RunnerID r = jit_RunnerID jit"
      "authorised (mgr_trace m) r jit"
      "cfg_StateFile (mgr_cfg m) \<noteq> [] \<Longrightarrow> dsk_state (mgr_disk m) = Some (JobsDoc (Some (mgr_jobs m)))"

abbreviation lsteps :: "Env \<Rightarrow> (string \<Rightarrow> Capacity \<Rightarrow> bool) \<Rightarrow> Manager \<Rightarrow> Manager \<Rightarrow> bool" where
  "lsteps E K \<equiv> (lstep E K)\<^sup>*\<^sup>*"

text \<open>What the manager assumes of the node table: every entry satisfies \<open>K\<close>.\<close>

definition known_nodes :: "(string \<Rightarrow> Capacity \<Rightarrow> bool) \<Rightarrow> Server \<Rightarrow> bool" where
  "known_nodes K s \<longleftrightarrow>
     registry_ok s \<and> (\<forall>k n. fmlookup (srv_nodes s) k = Some n \<longrightarrow> K k (node_Capacity n))"

definition known_heartbeats :: "Env \<Rightarrow> (string \<Rightarrow> Capacity \<Rightarrow> bool) \<Rightarrow> bool" where
  "known_heartbeats E K \<longleftrightarrow>
     (\<forall>tr. \<forall>(t, n) \<in> set (env_heartbeats E tr). node_ID n \<noteq> [] \<longrightarrow> K (node_ID n) (node_Capacity n))"

section \<open>Well-formed job tables\<close>

definition wf_record :: "int \<Rightarrow> JobRecord \<Rightarrow> bool" where
  "wf_record k r \<longleftrightarrow>
     rec_JobID r = k \<and> 0 < k \<and>
     rec_Status r \<in> {jobPending, jobProvisioning, jobRunning, jobCleanupPending, jobCompleted, jobRejected} \<and>
     (rec_Status r = jobPending \<longrightarrow>
        rec_NodeID r = [] \<and> rec_InstanceID r = [] \<and> rec_RunnerName r = [] \<and> rec_RunnerID r = 0 \<and>
        rec_Deadline r = 0) \<and>
     (rec_Status r = jobRejected \<longrightarrow> rec_NodeID r = [] \<and> rec_InstanceID r = []) \<and>
     (rec_Status r \<in> {jobProvisioning, jobRunning, jobCleanupPending} \<longrightarrow>
        rec_NodeID r \<noteq> [] \<and> rec_RunnerName r = runnerName (rec_NodeID r) k (rec_Attempt r)) \<and>
     (rec_Status r = jobCompleted \<longrightarrow> rec_InstanceID r = []) \<and>
     (rec_Status r \<noteq> jobCompleted \<longrightarrow> 0 < rec_CPU r \<and> 0 < rec_MemoryM r)"

definition wf_jobs :: "jobs \<Rightarrow> bool" where
  "wf_jobs js \<longleftrightarrow> (\<forall>k r. fmlookup js k = Some r \<longrightarrow> wf_record k r)"

definition wf_config :: "RunnerManagerConfig \<Rightarrow> bool" where
  "wf_config cfg \<longleftrightarrow> 0 < cfg_RunnerCPU cfg \<and> 0 < cfg_RunnerMemoryM cfg \<and> 0 < cfg_RunnerGroupID cfg \<and>
     0 < cfg_RunnerTimeout cfg \<and> 0 < cfg_TombstoneTTL cfg \<and> 0 < cfg_RetryInterval cfg \<and>
     0 < cfg_QueueSize cfg"

lemma wf_config_default [simp]: "wf_config (defaultConfig cfg)"
  by (simp add: wf_config_def defaultConfig_def duration_defs)

lemma wf_jobs_empty [simp]: "wf_jobs fmempty"
  by (simp add: wf_jobs_def)

lemma wf_jobs_update: "wf_jobs js \<Longrightarrow> wf_record k r \<Longrightarrow> wf_jobs (fmupd k r js)"
  by (simp add: wf_jobs_def)

lemma wf_jobs_drop: "wf_jobs js \<Longrightarrow> wf_jobs (fmdrop k js)"
  by (auto simp: wf_jobs_def)

lemma wf_jobs_lookup: "wf_jobs js \<Longrightarrow> fmlookup js k = Some r \<Longrightarrow> wf_record k r"
  by (simp add: wf_jobs_def)

lemma wf_jobs_change:
  "wf_jobs js \<Longrightarrow> fmlookup js k = Some r \<Longrightarrow> (wf_record k r \<Longrightarrow> wf_record k r') \<Longrightarrow> wf_jobs (fmupd k r' js)"
  by (simp add: wf_jobs_update wf_jobs_lookup)

lemma job_step_wf: "job_step K cfg js js' \<Longrightarrow> wf_config cfg \<Longrightarrow> wf_jobs js \<Longrightarrow> wf_jobs js'"
proof (induction rule: job_step.induct)
  case (enqueue js k r)
  then show ?case by (auto intro!: wf_jobs_update simp: new_record_def wf_record_def wf_config_def)
next
  case (bury js k r)
  then show ?case by (auto intro!: wf_jobs_update simp: tombstone_def wf_record_def)
next
  case (withdraw js k r)
  then show ?case by (simp add: wf_jobs_drop)
next
  case (prune js k r)
  then show ?case by (simp add: wf_jobs_drop)
qed (erule wf_jobs_change, assumption, force simp: wf_record_def pendingAgain_def)+

end
