(* ===== verification/Runner_Refinement.thy ===== *)
theory Runner_Refinement
  imports Lifecycle
begin

text \<open>
  The operations of the runner manager refine the abstract protocol: every operation is a
  sequence of abstract steps (\<open>lsteps\<close>). Also here: the reservations computed by the code are
  the sums over the active jobs, in 64-bit arithmetic and in any order of the map.
\<close>

section \<open>Reservations\<close>

definition charged :: "string \<Rightarrow> JobRecord \<Rightarrow> bool" where
  "charged nodeID r \<longleftrightarrow> reserves r \<and> rec_NodeID r = nodeID"

lemma reserveAll_totals:
  assumes "in_int64 (TotalCPU (index0 zero_Capacity out nodeID))"
    and "in_int64 (TotalMemoryM (index0 zero_Capacity out nodeID))"
  shows "TotalCPU (index0 zero_Capacity (reserveAll rs out) nodeID) =
      wrap64 (TotalCPU (index0 zero_Capacity out nodeID) + sum_list (map rec_CPU (filter (charged nodeID) rs)))
    \<and> TotalMemoryM (index0 zero_Capacity (reserveAll rs out) nodeID) =
      wrap64 (TotalMemoryM (index0 zero_Capacity out nodeID) + sum_list (map rec_MemoryM (filter (charged nodeID) rs)))"
  using assms
proof (induction rs out rule: reserveAll.induct)
  case (1 out)
  then show ?case by simp
next
  case (2 r rs out)
  show ?case
  proof (cases "reserves r")
    case False
    with "2.IH"(1) "2.prems" show ?thesis by (simp add: charged_def)
  next
    case True
    with "2.IH"(2) "2.prems" show ?thesis
      by (cases "rec_NodeID r = nodeID")
         (simp_all add: charged_def addReservation_def Let_def add.assoc)
  qed
qed

lemma filter_charged_range:
  "map f (filter (charged nodeID) (map (\<lambda>k. the (fmlookup js k)) ks)) =
     map (\<lambda>k. f (the (fmlookup js k))) (filter (\<lambda>k. charged nodeID (the (fmlookup js k))) ks)"
  by (induction ks) auto

lemma active_on_range:
  "active_on js nodeID = {k \<in> set (range_keys rank js). charged nodeID (the (fmlookup js k))}"
  by (auto simp: active_on_def charged_def fmlookup_dom_iff)

lemma finite_active_on [simp]: "finite (active_on js nodeID)"
  by (simp add: active_on_range [of _ _ "\<lambda>_. 0"])

lemma sum_charged:
  "sum_list (map f (filter (charged nodeID) (map (\<lambda>k. the (fmlookup js k)) (range_keys rank js)))) =
     (\<Sum>k \<in> active_on js nodeID. f (index0 zero_JobRecord js k))"
proof -
  have "sum_list (map (\<lambda>k. f (the (fmlookup js k)))
      (filter (\<lambda>k. charged nodeID (the (fmlookup js k))) (range_keys rank js))) =
    (\<Sum>k \<in> active_on js nodeID. f (the (fmlookup js k)))"
    by (simp add: sum_list_distinct_conv_sum_set active_on_range [of _ _ rank])
  also have "\<dots> = (\<Sum>k \<in> active_on js nodeID. f (index0 zero_JobRecord js k))"
    by (rule sum.cong) (auto simp: active_on_def)
  finally show ?thesis by (simp only: filter_charged_range)
qed

lemma reservations_totals:
  "TotalCPU (index0 zero_Capacity (reservations rank js) nodeID) = wrap64 (reservedCPU js nodeID)"
  "TotalMemoryM (index0 zero_Capacity (reservations rank js) nodeID) = wrap64 (reservedMemory js nodeID)"
  using reserveAll_totals [of fmempty nodeID "map (\<lambda>k. the (fmlookup js k)) (range_keys rank js)"]
  by (simp_all add: reservations_def reservedCPU_def reservedMemory_def sum_charged zero_Capacity_def
      in_int64_def)

section \<open>Placement\<close>

lemma node_ID_applyReservation [simp]: "node_ID (applyReservation res n) = node_ID n"
  by (simp add: applyReservation_def Let_def)

lemma applyReservation_caps:
  "TotalCPU (node_Capacity (applyReservation res n)) = TotalCPU (node_Capacity n)"
  "TotalMemoryM (node_Capacity (applyReservation res n)) = TotalMemoryM (node_Capacity n)"
  by (simp_all add: applyReservation_def Let_def)

lemma place_state [simp]: "snd (place E req m) = snd (Now E m)"
  by (simp add: place_def split_beta Let_def)

text \<open>
  A placement is on a node of the table, hosted by it after the reservations of the active jobs,
  so there is room for the job.
\<close>

lemma place_result:
  assumes "fst (place E req m) = Inr (pl, node)" and "registry_ok (mgr_server (snd (Now E m)))"
  shows "\<exists>n. fmlookup (srv_nodes (mgr_server (snd (Now E m)))) (node_ID node) = Some n
      \<and> node_ID node = pl_NodeID pl
      \<and> hosts req node (pl_Backend pl)
      \<and> node = applyReservation (reservations (env_rankJobs E (mgr_trace (snd (Now E m)))) (mgr_jobs m))
                 (liveNode (mgr_server (snd (Now E m))) (fst (Now E m)) n)"
proof -
  let ?m = "snd (Now E m)" and ?t = "fst (Now E m)"
  let ?res = "reservations (env_rankJobs E (mgr_trace ?m)) (mgr_jobs m)"
  let ?snap = "snapshotNodes (env_rankNames E (mgr_trace ?m)) (mgr_server ?m) ?t"
  let ?nodes = "map (applyReservation ?res) ?snap"
  have jobs: "mgr_jobs ?m = mgr_jobs m" by (simp add: call_states)
  from assms(1) have P: "Place req ?nodes = Inr pl"
    and F: "find (\<lambda>n. node_ID n = pl_NodeID pl) ?nodes = Some node"
    by (auto simp: place_def split_beta Let_def jobs split: sum.splits option.splits)
  have node: "node \<in> set ?nodes" "node_ID node = pl_NodeID pl"
    using find_SomeD [OF F] by simp_all
  have "map node_ID ?nodes = map node_ID ?snap" by simp
  then have "distinct (map node_ID ?nodes)" using distinct_snapshot_IDs [OF assms(2)] by metis
  from sched.place_node [OF P this node] have "hosts req node (pl_Backend pl)" .
  moreover from node(1) obtain k n where "fmlookup (srv_nodes (mgr_server ?m)) k = Some n"
    and "node = applyReservation ?res (liveNode (mgr_server ?m) ?t n)"
    by (auto simp: set_snapshotNodes)
  ultimately show ?thesis using node(2) registry_ok_lookup [OF assms(2)] by force
qed

lemma place_room:
  assumes "node = applyReservation (reservations rank js) (liveNode s now n)"
    and "hosts req node b" and "req_CPU req = rec_CPU r" and "req_MemoryM req = rec_MemoryM r"
  shows "room js (node_ID n) (node_Capacity n) r"
  using assms
  by (auto simp: room_def hosts_def fits_def applyReservation_def Let_def reservations_totals
      max_def min_def split: if_splits)

section \<open>Simulation\<close>

lemma known_nodes_storeNode:
  "known_nodes K s \<Longrightarrow> node_ID n \<noteq> [] \<Longrightarrow> K (node_ID n) (node_Capacity n) \<Longrightarrow> known_nodes K (storeNode t n s)"
  by (auto simp: known_nodes_def intro: registry_ok_storeNode) (auto simp: storeNode_def split: if_splits)

lemma known_nodes_accept:
  assumes "known_nodes K s" and "\<forall>(t, n) \<in> set hs. node_ID n \<noteq> [] \<longrightarrow> K (node_ID n) (node_Capacity n)"
  shows "known_nodes K (fold acceptHeartbeat hs s)"
  using assms
proof (induction hs arbitrary: s)
  case (Cons h hs)
  then have "known_nodes K (acceptHeartbeat h s)"
    by (cases h) (auto simp: acceptHeartbeat_def intro: known_nodes_storeNode)
  with Cons show ?case by simp
qed simp

lemma known_nodes_perform:
  "known_heartbeats E K \<Longrightarrow> known_nodes K (mgr_server m) \<Longrightarrow> known_nodes K (mgr_server (perform E e m))"
  by (auto simp: perform_def known_heartbeats_def intro!: known_nodes_accept)

lemma known_nodes_jobs [simp]: "known_nodes K (mgr_server (m\<lparr>mgr_jobs := js\<rparr>)) = known_nodes K (mgr_server m)"
  by simp

lemma lstep_known_nodes:
  "lstep E K m m' \<Longrightarrow> known_heartbeats E K \<Longrightarrow> known_nodes K (mgr_server m) \<Longrightarrow> known_nodes K (mgr_server m')"
  by (induction rule: lstep.induct) (auto intro: known_nodes_perform)

lemma lsteps_known_nodes:
  "lsteps E K m m' \<Longrightarrow> known_heartbeats E K \<Longrightarrow> known_nodes K (mgr_server m) \<Longrightarrow> known_nodes K (mgr_server m')"
  by (induction rule: rtranclp_induct) (auto intro: lstep_known_nodes)

lemma lstep_cfg: "lstep E K m m' \<Longrightarrow> mgr_cfg m' = mgr_cfg m \<and> mgr_queue m' = mgr_queue m"
  by (induction rule: lstep.induct) auto

lemma lsteps_cfg: "lsteps E K m m' \<Longrightarrow> mgr_cfg m' = mgr_cfg m \<and> mgr_queue m' = mgr_queue m"
  by (induction rule: rtranclp_induct) (auto dest: lstep_cfg)

lemma lsteps_step: "lsteps E K a b \<Longrightarrow> lstep E K b c \<Longrightarrow> lsteps E K a c"
  by (rule rtranclp.rtrancl_into_rtrancl)

lemma lsteps_world: "quiet (mgr_jobs b) e \<Longrightarrow> lsteps E K a b \<Longrightarrow> lsteps E K a (perform E e b)"
  by (blast intro: lsteps_step lstep.world)

lemma lsteps_setJob:
  "job_step K (mgr_cfg b) (mgr_jobs b) (fmupd k r (mgr_jobs b)) \<Longrightarrow> lsteps E K a b \<Longrightarrow> lsteps E K a (setJob k r b)"
  unfolding setJob_def by (blast intro: lsteps_step lstep.jobs)

lemma lsteps_calls [intro]:
  assumes "lsteps E K a b"
  shows "lsteps E K a (snd (GetWorkflowRun E i ow rp rid b))"
    and "lsteps E K a (snd (DeleteRunner E i ow rp x b))"
    and "lsteps E K a (snd (DestroyInstance E nd iid b))"
    and "lsteps E K a (snd (Now E b))"
  by (auto simp: call_states intro!: lsteps_world assms)

lemma lsteps_saveLocked [intro]:
  assumes "lsteps E K a b"
  shows "lsteps E K a (snd (saveLocked E b))"
  by (rule saveLocked_cases [of b E]) (auto intro!: lsteps_world simp: assms)

lemma lsteps_deleteRunnerOf [intro]: "lsteps E K a b \<Longrightarrow> lsteps E K a (deleteRunnerOf E r b)"
  by (auto simp: deleteRunnerOf_def)

lemma lsteps_destroyInstanceOf [intro]:
  "lsteps E K a b \<Longrightarrow> lsteps E K a (snd (destroyInstanceOf E k r b))"
  by (auto simp: destroyInstanceOf_def split: option.splits)

lemma helper_frame [simp]:
  "mgr_jobs (deleteRunnerOf E r m) = mgr_jobs m" "mgr_cfg (deleteRunnerOf E r m) = mgr_cfg m"
  "mgr_jobs (snd (destroyInstanceOf E k r m)) = mgr_jobs m"
  "mgr_cfg (snd (destroyInstanceOf E k r m)) = mgr_cfg m"
  by (auto simp: deleteRunnerOf_def destroyInstanceOf_def call_states split: option.splits)

lemma Now_frame [simp]:
  "mgr_jobs (snd (Now E m)) = mgr_jobs m" "mgr_cfg (snd (Now E m)) = mgr_cfg m"
  "mgr_disk (snd (Now E m)) = mgr_disk m"
  "mgr_trace (snd (Now E m)) = mgr_trace m @ [EClock (env_clock E (mgr_trace m))]"
  by (simp_all add: call_states)

lemma job_Now [simp]: "job (snd (Now E m)) k = job m k"
  by (simp add: job_def)

lemma lsteps_rejectJob:
  assumes "lsteps E K a m" and "fmlookup (mgr_jobs m) k = Some r" and "rec_Status r = jobPending"
  shows "lsteps E K a (snd (rejectJob E k m))"
  unfolding rejectJob_def split_beta Let_def
  by (intro lsteps_saveLocked lsteps_setJob lsteps_calls assms(1))
     (use assms(2,3) in \<open>auto intro: job_step.reject\<close>)

lemma lsteps_completeJob:
  assumes "lsteps E K a m" and "fmlookup (mgr_jobs m) k = Some r" and "rec_Status r \<noteq> jobCompleted"
  shows "lsteps E K a (snd (completeJob E k m))"
  unfolding completeJob_def split_beta Let_def
  by (intro lsteps_saveLocked lsteps_setJob lsteps_calls assms(1))
     (use assms(2,3) in \<open>auto intro: job_step.complete\<close>)

lemma lsteps_launchRunner:
  assumes "lsteps E K a m" and "fmlookup (mgr_jobs m) k = Some r"
    and "rec_Status r = jobProvisioning" and "rec_NodeID r = node_ID node"
    and "rec_RunnerID r = jit_RunnerID jit" and "authorised (mgr_trace m) r jit"
    and "cfg_StateFile (mgr_cfg m) \<noteq> [] \<Longrightarrow> dsk_state (mgr_disk m) = Some (JobsDoc (Some (mgr_jobs m)))"
  shows "lsteps E K a (snd (launchRunner E k node r jit m))"
proof -
  let ?c = "snd (CreateInstance E node (runnerSpec (mgr_cfg m) k r jit) m)"
  have c: "lsteps E K a ?c"
    unfolding call_states by (rule lsteps_step [OF assms(1)], rule lstep.create) (use assms in simp_all)
  have look: "fmlookup (mgr_jobs ?c) k = Some r" using assms(2) by (simp add: call_states)
  show ?thesis
  proof (cases "env_create E (mgr_trace m) node (runnerSpec (mgr_cfg m) k r jit)")
    case (Inl err)
    have "lsteps E K a (snd (saveLocked E (setJob k (pendingAgain t r)
        (snd (Now E (snd (DeleteRunner E i ow rp x (snd (DestroyInstance E node iid ?c)))))))))" for t i ow rp x iid
      by (intro lsteps_saveLocked lsteps_setJob lsteps_calls c)
         (use look assms(3) in \<open>auto simp: call_states intro: job_step.retry\<close>)
    with Inl look show ?thesis
      by (simp add: launchRunner_def split_beta Let_def job_def call_states)
  next
    case (Inr inst)
    have "lsteps E K a (snd (saveLocked E (setJob k (r\<lparr>rec_Status := jobRunning, rec_InstanceID := i,
        rec_Deadline := d, rec_UpdatedAt := t\<rparr>) (snd (Now E ?c)))))" for i d t
      by (intro lsteps_saveLocked lsteps_setJob lsteps_calls c)
         (use look assms(3) in \<open>auto simp: call_states intro: job_step.start\<close>)
    with Inr look show ?thesis
      by (simp add: launchRunner_def split_beta Let_def job_def call_states)
  qed
qed

lemma saveLocked_trace:
  "\<exists>saves. mgr_trace (snd (saveLocked E m)) = mgr_trace m @ saves \<and> (\<forall>e \<in> set saves. file_effect e)"
  by (rule saveLocked_cases [of m E]) auto

lemma lsteps_provisionOn:
  assumes "lsteps E K a m" and "fmlookup (mgr_jobs m) k = Some r" and "rec_Status r = jobPending"
    and "just_checked (mgr_trace m) r" and "node_ID node \<noteq> []" and "K (node_ID node) cap"
    and "room (mgr_jobs m) (node_ID node) cap r"
  shows "lsteps E K a (snd (provisionOn E k node m))"
proof -
  let ?att = "wrap64 (rec_Attempt r + 1)"
  let ?name = "runnerName (node_ID node) k ?att"
  let ?j = "GenerateJITConfig E (rec_InstallationID r) (rec_Owner r) (rec_Repo r) ?name
    (cfg_RunnerGroupID (mgr_cfg m)) (rec_Labels r) m"
  have j: "lsteps E K a (snd ?j)"
    unfolding call_states by (rule lsteps_step [OF assms(1)], rule lstep.jit) (use assms in simp_all)
  have look: "fmlookup (mgr_jobs (snd ?j)) k = Some r" "mgr_jobs (snd ?j) = mgr_jobs m"
    "mgr_cfg (snd ?j) = mgr_cfg m"
    using assms(2) by (simp_all add: call_states)
  show ?thesis
  proof (cases "fst ?j")
    case (Inl err)
    with j assms(2) show ?thesis by (simp add: provisionOn_def split_beta Let_def)
  next
    case (Inr jit)
    let ?n = "snd (Now E (snd ?j))" and ?t = "fst (Now E (snd ?j))"
    let ?r = "r\<lparr>rec_Status := jobProvisioning, rec_NodeID := node_ID node, rec_RunnerName := ?name,
      rec_RunnerID := jit_RunnerID jit, rec_Attempt := ?att,
      rec_Deadline := time_Add ?t (cfg_RunnerTimeout (mgr_cfg m)), rec_UpdatedAt := ?t\<rparr>"
    let ?s = "saveLocked E (setJob k ?r ?n)"
    have s: "lsteps E K a (snd ?s)"
      by (intro lsteps_saveLocked lsteps_setJob lsteps_calls j)
         (use look assms in \<open>auto intro: job_step.provision\<close>)
    have eq: "snd (provisionOn E k node m) =
      (case fst ?s of Some err \<Rightarrow> snd (DeleteRunner E (rec_InstallationID r) (rec_Owner r) (rec_Repo r)
          (jit_RunnerID jit) (snd ?s)) | None \<Rightarrow> snd (launchRunner E k node ?r jit (snd ?s)))"
      using Inr look assms(2)
      by (simp add: provisionOn_def split_beta Let_def job_def split: option.splits)
    show ?thesis
    proof (cases "fst ?s")
      case (Some err)
      with s show ?thesis unfolding eq by auto
    next
      case None
      have auth: "authorised (mgr_trace (snd ?s)) ?r jit"
      proof -
        from assms(4) obtain pre run t where tr: "mgr_trace m = pre @ [EGetRun (rec_InstallationID r)
            (rec_Owner r) (rec_Repo r) (rec_RunID r) (Inr run), EClock t]"
          and trust: "trust_policy run (rec_Repository r)" by (auto simp: just_checked_def)
        obtain saves where sv: "mgr_trace (snd ?s) = mgr_trace (setJob k ?r ?n) @ saves"
          "\<forall>e \<in> set saves. file_effect e" using saveLocked_trace by blast
        have "mgr_trace (setJob k ?r ?n) = mgr_trace m @ [EJIT (rec_InstallationID r) (rec_Owner r)
            (rec_Repo r) ?name (cfg_RunnerGroupID (mgr_cfg m)) (rec_Labels r) (Inr jit), EClock ?t]"
          using Inr by (simp add: call_states)
        with sv tr trust show ?thesis
          unfolding authorised_def
          by (intro exI [of _ pre] exI [of _ run] exI [of _ t] exI [of _ "cfg_RunnerGroupID (mgr_cfg m)"]
              exI [of _ ?t] exI [of _ saves]) simp
      qed
      have "lsteps E K a (snd (launchRunner E k node ?r jit (snd ?s)))"
        by (rule lsteps_launchRunner [OF s]) (use auth None look saveLocked_disk [OF None] in simp_all)
      with None show ?thesis unfolding eq by simp
    qed
  qed
qed

lemma requirements_resources:
  "requirementsFromLabels rank repo labels cpu memory = Inr req \<Longrightarrow> req_CPU req = cpu \<and> req_MemoryM req = memory"
  by (auto simp: requirementsFromLabels_def Let_def split: option.splits)

text \<open>
  The exits of \<open>tryProvision\<close>, in the order of the code: the job is not pending, GitHub does not
  answer, the run is not trusted, the labels name no platform, no node has room, the backend
  has no launcher, or provisioning goes on on the chosen node.
\<close>

abbreviation afterRun :: "Env \<Rightarrow> JobRecord \<Rightarrow> Manager \<Rightarrow> Manager" where
  "afterRun E r m \<equiv>
     snd (GetWorkflowRun E (rec_InstallationID r) (rec_Owner r) (rec_Repo r) (rec_RunID r) m)"

abbreviation gotRun :: "Env \<Rightarrow> JobRecord \<Rightarrow> Manager \<Rightarrow> goerror + WorkflowRun" where
  "gotRun E r m \<equiv>
     env_getRun E (mgr_trace m) (rec_InstallationID r) (rec_Owner r) (rec_Repo r) (rec_RunID r)"

abbreviation reqOf :: "Env \<Rightarrow> JobRecord \<Rightarrow> Manager \<Rightarrow> goerror + JobRequirements" where
  "reqOf E r m \<equiv>
     requirementsFromLabels (env_rankNames E (mgr_trace (afterRun E r m))) (rec_Repository r)
       (rec_Labels r) (rec_CPU r) (rec_MemoryM r)"

lemma tryProvision_cases:
  obtains (skip) "tryProvision E k m = (None, m)"
      "\<And>r. fmlookup (mgr_jobs m) k = Some r \<Longrightarrow> rec_Status r \<noteq> jobPending"
  | (no_run) r err where "fmlookup (mgr_jobs m) k = Some r" "rec_Status r = jobPending"
      "gotRun E r m = Inl err"
      "tryProvision E k m = (Some (Wrapf ''get workflow run trust context: '' err []), afterRun E r m)"
  | (untrusted) r run where "fmlookup (mgr_jobs m) k = Some r" "rec_Status r = jobPending"
      "gotRun E r m = Inr run" "\<not> trust_policy run (rec_Repository r)"
      "tryProvision E k m = rejectJob E k (afterRun E r m)"
  | (no_platform) r run err where "fmlookup (mgr_jobs m) k = Some r" "rec_Status r = jobPending"
      "gotRun E r m = Inr run" "trust_policy run (rec_Repository r)" "reqOf E r m = Inl err"
      "tryProvision E k m =
         (case fst (rejectJob E k (afterRun E r m)) of Some e \<Rightarrow> Some e | None \<Rightarrow> Some err,
          snd (rejectJob E k (afterRun E r m)))"
  | (no_place) r run req err where "fmlookup (mgr_jobs m) k = Some r" "rec_Status r = jobPending"
      "gotRun E r m = Inr run" "trust_policy run (rec_Repository r)" "reqOf E r m = Inr req"
      "fst (place E req (afterRun E r m)) = Inl err"
      "tryProvision E k m =
         (if errors_Is err ErrNoPlacement then None else Some err, snd (Now E (afterRun E r m)))"
  | (no_launcher) r run req pl node where "fmlookup (mgr_jobs m) k = Some r"
      "rec_Status r = jobPending" "gotRun E r m = Inr run" "trust_policy run (rec_Repository r)"
      "reqOf E r m = Inr req" "fst (place E req (afterRun E r m)) = Inr (pl, node)"
      "pl_Backend pl \<noteq> BackendDocker"
      "fst (tryProvision E k m) \<noteq> None" "snd (tryProvision E k m) = snd (Now E (afterRun E r m))"
  | (go) r run req pl node where "fmlookup (mgr_jobs m) k = Some r" "rec_Status r = jobPending"
      "gotRun E r m = Inr run" "trust_policy run (rec_Repository r)" "reqOf E r m = Inr req"
      "fst (place E req (afterRun E r m)) = Inr (pl, node)" "pl_Backend pl = BackendDocker"
      "tryProvision E k m = provisionOn E k node (snd (Now E (afterRun E r m)))"
proof (cases "\<exists>r. fmlookup (mgr_jobs m) k = Some r \<and> rec_Status r = jobPending")
  case False
  then show thesis by (intro skip) (auto simp: tryProvision_def split: option.splits)
next
  case True
  then obtain r where r: "fmlookup (mgr_jobs m) k = Some r" "rec_Status r = jobPending" by blast
  note unf = tryProvision_def split_beta Let_def trustedWorkflowRun_policy
  show thesis
  proof (cases "gotRun E r m")
    case (Inl err)
    with r show thesis by (intro no_run [OF r]) (simp_all add: unf)
  next
    case got: (Inr run)
    show thesis
    proof (cases "trust_policy run (rec_Repository r)")
      case False
      with r got show thesis by (intro untrusted [OF r]) (simp_all add: unf)
    next
      case ok: True
      show thesis
      proof (cases "reqOf E r m")
        case (Inl err)
        with r got ok show thesis by (intro no_platform [OF r]) (simp_all add: unf)
      next
        case req: (Inr req)
        show thesis
        proof (cases "fst (place E req (afterRun E r m))")
          case (Inl err)
          with r got ok req show thesis by (intro no_place [OF r]) (simp_all add: unf)
        next
          case (Inr pn)
          then obtain pl node where "fst (place E req (afterRun E r m)) = Inr (pl, node)"
            by (cases pn) simp
          with r got ok req show thesis
            by (cases "pl_Backend pl = BackendDocker")
               (intro go [OF r] no_launcher [OF r]; simp add: unf)+
        qed
      qed
    qed
  qed
qed

lemma afterRun_jobs [simp]: "mgr_jobs (afterRun E r m) = mgr_jobs m" "mgr_cfg (afterRun E r m) = mgr_cfg m"
  by (simp_all add: call_states)

text \<open>The chosen node has room for the job, so the job may start provisioning there.\<close>

lemma lsteps_go:
  assumes a: "lsteps E K a m" and H: "known_heartbeats E K" and S: "known_nodes K (mgr_server m)"
    and r: "fmlookup (mgr_jobs m) k = Some r" "rec_Status r = jobPending"
    and run: "gotRun E r m = Inr run" "trust_policy run (rec_Repository r)"
    and req: "reqOf E r m = Inr req" and placed: "fst (place E req (afterRun E r m)) = Inr (pl, node)"
  shows "lsteps E K a (snd (provisionOn E k node (snd (Now E (afterRun E r m)))))"
proof -
  let ?m1 = "afterRun E r m"
  let ?m2 = "snd (Now E ?m1)"
  have "lsteps E K m ?m2" by (intro lsteps_calls rtranclp.rtrancl_refl)
  then have K2: "known_nodes K (mgr_server ?m2)" by (rule lsteps_known_nodes [OF _ H S])
  then have reg: "registry_ok (mgr_server ?m2)" by (simp add: known_nodes_def)
  from place_result [OF placed reg] obtain n where
    n: "fmlookup (srv_nodes (mgr_server ?m2)) (node_ID node) = Some n"
    and hosts: "hosts req node (pl_Backend pl)"
    and node: "node = applyReservation (reservations (env_rankJobs E (mgr_trace ?m2)) (mgr_jobs ?m1))
         (liveNode (mgr_server ?m2) (fst (Now E ?m1)) n)" by blast
  have room: "room (mgr_jobs ?m2) (node_ID node) (node_Capacity n) r"
    using place_room [OF node hosts] requirements_resources [OF req] registry_ok_lookup [OF reg n] by simp
  have chk: "just_checked (mgr_trace ?m2) r"
    using run by (auto simp: just_checked_def call_states)
  show ?thesis
  proof (rule lsteps_provisionOn [OF _ _ r(2) chk _ _ room])
    show "lsteps E K a ?m2" using a by (intro lsteps_calls)
  qed (use r K2 n registry_ok_key [OF reg n] in \<open>auto simp: known_nodes_def\<close>)
qed

lemma lsteps_tryProvision:
  assumes a: "lsteps E K a m" and H: "known_heartbeats E K" and S: "known_nodes K (mgr_server m)"
  shows "lsteps E K a (snd (tryProvision E k m))"
proof (rule tryProvision_cases [of E k m])
  fix r run req pl node
  assume r: "fmlookup (mgr_jobs m) k = Some r" "rec_Status r = jobPending"
    and "gotRun E r m = Inr run" "trust_policy run (rec_Repository r)" "reqOf E r m = Inr req"
      "fst (place E req (afterRun E r m)) = Inr (pl, node)"
      "tryProvision E k m = provisionOn E k node (snd (Now E (afterRun E r m)))"
  with lsteps_go [OF a H S r] show ?thesis by simp
qed (use a in \<open>auto intro!: lsteps_rejectJob\<close>)

lemma lsteps_handleQueued:
  assumes a: "lsteps E K a m" and H: "known_heartbeats E K" and S: "known_nodes K (mgr_server m)"
  shows "lsteps E K a (snd (handleQueued E ev m))"
proof -
  let ?k = "wj_ID (ev_Job ev)"
  show ?thesis
  proof (cases "snd (handleQueued E ev m) = m")
    case True
    with a show ?thesis by simp
  next
    case False
    then obtain owner repo where new: "0 < ?k" "fmlookup (mgr_jobs m) ?k = None"
      "repoParts (ev_Repository ev) = Inr (owner, repo)"
      "0 < wj_RunID (ev_Job ev)" "0 < ev_InstallationID ev"
      "hasLabel (wj_Labels (ev_Job ev)) (cfg_MarkerLabel (mgr_cfg m))"
      by (auto simp: handleQueued_def Let_def split: sum.splits if_splits)
    define r where "r = zero_JobRecord\<lparr>rec_JobID := ?k, rec_RunID := wj_RunID (ev_Job ev),
            rec_InstallationID := ev_InstallationID ev,
            rec_Repository := repo_FullName (ev_Repository ev), rec_Owner := owner,
            rec_Repo := repo, rec_Labels := wj_Labels (ev_Job ev), rec_Status := jobPending,
            rec_CPU := cfg_RunnerCPU (mgr_cfg m), rec_MemoryM := cfg_RunnerMemoryM (mgr_cfg m),
            rec_UpdatedAt := fst (Now E m)\<rparr>"
    let ?s = "saveLocked E (setJob ?k r (snd (Now E m)))"
    have rec: "new_record (mgr_cfg m) ?k r" by (simp add: r_def new_record_def zero_JobRecord_def)
    have s: "lsteps E K b (snd ?s)" if "lsteps E K b m" for b
      by (intro lsteps_saveLocked lsteps_setJob lsteps_calls that)
         (use new rec in \<open>auto intro: job_step.enqueue\<close>)
    have eq: "snd (handleQueued E ev m) = (case fst ?s of
        Some err \<Rightarrow> (snd ?s)\<lparr>mgr_jobs := fmdrop ?k (mgr_jobs (snd ?s))\<rparr>
      | None \<Rightarrow> snd (tryProvision E ?k (snd ?s)))"
      using new by (simp add: handleQueued_def Let_def split_beta r_def split: option.splits)
    show ?thesis
    proof (cases "fst ?s")
      case (Some err)
      have "lstep E K (snd ?s) ((snd ?s)\<lparr>mgr_jobs := fmdrop ?k (mgr_jobs (snd ?s))\<rparr>)"
        by (intro lstep.jobs job_step.withdraw [of _ _ r]) (simp_all add: r_def)
      with s [OF a] Some show ?thesis unfolding eq by (auto intro: lsteps_step)
    next
      case None
      have "known_nodes K (mgr_server (snd ?s))"
        by (rule lsteps_known_nodes [OF s [OF rtranclp.rtrancl_refl] H S])
      with None show ?thesis unfolding eq by (simp add: lsteps_tryProvision s [OF a] H)
    qed
  qed
qed

lemma destroyInstanceOf_error:
  "fst (destroyInstanceOf E k r m) = Some err \<Longrightarrow> rec_NodeID r \<noteq> []"
  by (auto simp: destroyInstanceOf_def split: if_splits)

lemma lsteps_handleCompleted:
  assumes a: "lsteps E K a m"
  shows "lsteps E K a (snd (handleCompleted E ev m))"
proof (cases "0 < wj_ID (ev_Job ev)")
  case False
  with a show ?thesis by (simp add: handleCompleted_def Let_def)
next
  case pos: True
  let ?k = "wj_ID (ev_Job ev)"
  show ?thesis
  proof (cases "fmlookup (mgr_jobs m) ?k")
    case None
    let ?m1 = "case nodeFromRunnerName E (wj_RunnerName (ev_Job ev)) ?k m of
      Some node \<Rightarrow> snd (DestroyInstance E node (containerName ?k) m) | None \<Rightarrow> m"
    have m1: "lsteps E K a ?m1" "mgr_jobs ?m1 = mgr_jobs m" "mgr_cfg ?m1 = mgr_cfg m"
      using a by (auto simp: call_states intro!: lsteps_world split: option.splits)
    have "lsteps E K a (snd (saveLocked E (setJob ?k r (snd (Now E ?m1)))))" if "tombstone ?k r" for r
      by (intro lsteps_saveLocked lsteps_setJob lsteps_calls m1(1))
         (use that None pos m1 in \<open>auto intro: job_step.bury\<close>)
    moreover have "tombstone ?k (zero_JobRecord\<lparr>rec_JobID := ?k, rec_RunID := i,
        rec_InstallationID := j, rec_Repository := s, rec_Status := jobCompleted, rec_UpdatedAt := t\<rparr>)"
      for i j s t by (simp add: tombstone_def zero_JobRecord_def)
    ultimately show ?thesis using None pos
      by (simp add: handleCompleted_def Let_def split_beta)
  next
    case (Some r)
    let ?d = "destroyInstanceOf E ?k r m"
    have d: "lsteps E K a (snd ?d)" using a by blast
    show ?thesis
    proof (cases "rec_Status r = jobCompleted")
      case True
      with a Some pos show ?thesis by (simp add: handleCompleted_def Let_def)
    next
      case live: False
      show ?thesis
      proof (cases "fst ?d")
        case None
        have "lsteps E K a (snd (completeJob E ?k (deleteRunnerOf E r (snd ?d))))"
          by (rule lsteps_completeJob [OF lsteps_deleteRunnerOf [OF d] _ live]) (use Some in simp)
        with None Some live pos show ?thesis by (simp add: handleCompleted_def Let_def split_beta)
      next
        case (Some err)
        have "lsteps E K a (snd (saveLocked E (setJob ?k
            (r\<lparr>rec_Status := jobCleanupPending, rec_UpdatedAt := t\<rparr>) (snd (Now E (snd ?d))))))" for t
          by (intro lsteps_saveLocked lsteps_setJob lsteps_calls d)
             (use \<open>fmlookup (mgr_jobs m) ?k = Some r\<close> live destroyInstanceOf_error [OF Some]
              in \<open>auto intro: job_step.defer_cleanup\<close>)
        with Some \<open>fmlookup (mgr_jobs m) ?k = Some r\<close> live pos show ?thesis
          by (simp add: handleCompleted_def Let_def split_beta job_def)
      qed
    qed
  qed
qed

lemma lsteps_cleanupRecord:
  assumes a: "lsteps E K a m" and "fmlookup (mgr_jobs m) (rec_JobID r) = Some r"
    and "rec_Status r \<noteq> jobCompleted"
  shows "lsteps E K a (snd (cleanupRecord E r m))"
proof -
  have "lsteps E K a (snd (completeJob E (rec_JobID r)
      (deleteRunnerOf E r (snd (destroyInstanceOf E (rec_JobID r) r m)))))"
    by (rule lsteps_completeJob [OF _ _ assms(3)]) (use a assms(2) in auto)
  with a show ?thesis
    by (auto simp: cleanupRecord_def Let_def split_beta split: option.splits)
qed

lemma tearDown_frame [simp]:
  "mgr_jobs (tearDown E r m) = mgr_jobs m" "mgr_cfg (tearDown E r m) = mgr_cfg m"
  by (auto simp: tearDown_def call_states split: option.splits)

lemma lsteps_tearDown [intro]: "lsteps E K a m \<Longrightarrow> lsteps E K a (tearDown E r m)"
  by (auto simp: tearDown_def split: option.splits)

lemma lsteps_recoverProvisioning:
  assumes a: "lsteps E K a m" and H: "known_heartbeats E K" and S: "known_nodes K (mgr_server m)"
    and r: "fmlookup (mgr_jobs m) (rec_JobID r) = Some r" "rec_Status r = jobProvisioning"
  shows "lsteps E K a (snd (recoverProvisioning E r m))"
proof -
  let ?k = "rec_JobID r"
  let ?m2 = "tearDown E r m"
  let ?s = "saveLocked E (setJob ?k (pendingAgain (fst (Now E ?m2)) r) (snd (Now E ?m2)))"
  have s: "lsteps E K b (snd ?s)" if "lsteps E K b m" for b
    by (intro lsteps_saveLocked lsteps_setJob lsteps_calls lsteps_tearDown that)
       (use r in \<open>auto intro: job_step.retry\<close>)
  have "known_nodes K (mgr_server (snd ?s))"
    by (rule lsteps_known_nodes [OF s [OF rtranclp.rtrancl_refl] H S])
  then have "lsteps E K a (snd (tryProvision E ?k (snd ?s)))"
    by (rule lsteps_tryProvision [OF s [OF a] H])
  moreover have "snd (recoverProvisioning E r m) =
      (case fst ?s of Some err \<Rightarrow> snd ?s | None \<Rightarrow> snd (tryProvision E ?k (snd ?s)))"
    using r by (simp add: recoverProvisioning_def Let_def split_beta split: option.splits)
  ultimately show ?thesis using s [OF a] by (simp split: option.splits)
qed

lemma lstep_wf:
  "lstep E K m m' \<Longrightarrow> wf_config (mgr_cfg m) \<Longrightarrow> wf_jobs (mgr_jobs m) \<Longrightarrow> wf_jobs (mgr_jobs m')"
  by (induction rule: lstep.induct) (auto dest: job_step_wf)

lemma lsteps_wf:
  "lsteps E K m m' \<Longrightarrow> wf_config (mgr_cfg m) \<Longrightarrow> wf_jobs (mgr_jobs m) \<Longrightarrow> wf_jobs (mgr_jobs m')"
proof (induction rule: rtranclp_induct)
  case (step y z)
  then show ?case using lstep_wf [OF step.hyps(2)] lsteps_cfg [OF step.hyps(1)] by simp
qed

lemma lsteps_reconcileJob:
  assumes a: "lsteps E K a m" and H: "known_heartbeats E K" and S: "known_nodes K (mgr_server m)"
    and wf: "wf_jobs (mgr_jobs m)"
  shows "lsteps E K a (reconcileJob E now k m)"
proof (cases "fmlookup (mgr_jobs m) k")
  case None
  with a show ?thesis by (simp add: reconcileJob_def)
next
  case (Some r)
  with wf have "rec_JobID r = k" by (auto dest: wf_jobs_lookup simp: wf_record_def)
  with Some have r: "fmlookup (mgr_jobs m) (rec_JobID r) = Some r" by simp
  from Some show ?thesis
    by (auto simp: reconcileJob_def intro!: lsteps_tryProvision [OF a H S]
        lsteps_recoverProvisioning [OF a H S r] lsteps_cleanupRecord [OF a r] a)
qed

lemma pruneTombstones_steps:
  assumes "pruneTombstones cfg now ks js = (ids, pruned, js')" and "\<forall>k \<in> set ks. fmlookup js k \<noteq> None"
    and "distinct ks"
  shows "(job_step K cfg)\<^sup>*\<^sup>* js js'"
  using assms
proof (induction ks arbitrary: js ids pruned)
  case Nil
  then show ?case by simp
next
  case (Cons k ks)
  then obtain r where r: "fmlookup js k = Some r" by auto
  show ?case
  proof (cases "tombstoneExpired cfg now r")
    case True
    with Cons.prems r obtain ids' p' where
      "pruneTombstones cfg now ks (fmdrop k js) = (ids', p', js')"
      by (auto split: prod.splits)
    moreover from Cons.prems have "\<forall>j \<in> set ks. fmlookup (fmdrop k js) j \<noteq> None" by auto
    ultimately have "(job_step K cfg)\<^sup>*\<^sup>* (fmdrop k js) js'"
      using Cons.IH Cons.prems(3) by auto
    moreover from r True have "job_step K cfg js (fmdrop k js)"
      by (auto intro: job_step.prune simp: tombstoneExpired_def)
    ultimately show ?thesis by (rule converse_rtranclp_into_rtranclp [rotated])
  next
    case False
    with Cons.prems r obtain ids' where "pruneTombstones cfg now ks js = (ids', pruned, js')"
      by (auto split: prod.splits)
    with Cons show ?thesis by auto
  qed
qed

lemma lsteps_job_steps:
  assumes "(job_step K (mgr_cfg m))\<^sup>*\<^sup>* (mgr_jobs m) js"
  shows "lsteps E K m (m\<lparr>mgr_jobs := js\<rparr>)"
  using assms
proof (induction rule: rtranclp_induct)
  case base
  show ?case by simp
next
  case (step js js')
  from step.hyps(2) have "lstep E K (m\<lparr>mgr_jobs := js\<rparr>) (m\<lparr>mgr_jobs := js\<rparr>\<lparr>mgr_jobs := js'\<rparr>)"
    by (intro lstep.jobs) simp
  with step.IH show ?case by (auto intro: lsteps_step)
qed

lemma lsteps_fold_reconcileJob:
  assumes "lsteps E K a m" and "known_heartbeats E K" and "known_nodes K (mgr_server m)"
    and "wf_jobs (mgr_jobs m)" and "wf_config (mgr_cfg m)"
  shows "lsteps E K a (fold (reconcileJob E now) ids m)"
  using assms
proof (induction ids arbitrary: m)
  case Nil
  then show ?case by simp
next
  case (Cons k ids)
  have step: "lsteps E K b (reconcileJob E now k m)" if "lsteps E K b m" for b
    by (rule lsteps_reconcileJob [OF that Cons.prems(2-4)])
  note s = step [OF rtranclp.rtrancl_refl]
  show ?case
    using Cons.IH [OF step [OF Cons.prems(1)] Cons.prems(2)] lsteps_known_nodes [OF s] lsteps_wf [OF s]
      lsteps_cfg [OF s] Cons.prems by simp
qed

lemma lsteps_reconcile:
  assumes a: "lsteps E K a m" and H: "known_heartbeats E K" and S: "known_nodes K (mgr_server m)"
    and wf: "wf_jobs (mgr_jobs m)" and cfg: "wf_config (mgr_cfg m)"
  shows "lsteps E K a (reconcile E now m)"
proof -
  obtain ids pruned js where p: "pruneTombstones (mgr_cfg m) now
      (range_keys (env_rankJobs E (mgr_trace m)) (mgr_jobs m)) (mgr_jobs m) = (ids, pruned, js)"
    by (metis prod_cases3)
  let ?m1 = "m\<lparr>mgr_jobs := js\<rparr>"
  let ?m2 = "if pruned then snd (saveLocked E ?m1) else ?m1"
  have "(job_step K (mgr_cfg m))\<^sup>*\<^sup>* (mgr_jobs m) js"
    by (rule pruneTombstones_steps [OF p]) (auto simp: fmlookup_dom_iff)
  then have m1: "lsteps E K m ?m1" by (rule lsteps_job_steps)
  then have m2: "lsteps E K m ?m2" by auto
  have "lsteps E K a (fold (reconcileJob E now) ids ?m2)"
    by (rule lsteps_fold_reconcileJob [OF rtranclp_trans [OF a m2] H])
       (use lsteps_known_nodes [OF m2 H S] lsteps_wf [OF m2 cfg wf] lsteps_cfg [OF m2] cfg in simp_all)
  then show ?thesis by (simp only: reconcile_def p Let_def prod.case)
qed

lemma lsteps_Process:
  assumes "lsteps E K a m" and "known_heartbeats E K" and "known_nodes K (mgr_server m)"
  shows "lsteps E K a (snd (Process E ev m))"
  using assms by (auto simp: Process_def intro: lsteps_handleQueued lsteps_handleCompleted)

end
