(* ===== verification/Runner_System.thy ===== *)
theory Runner_System
  imports Runner_Refinement
begin

text \<open>
  The controller as a system: the loop \<open>Run\<close> of \<open>src/internal/controller/github_jobs.go\<close> takes
  events from the queue and timer ticks, the webhook handler submits events, nodes send
  heartbeats, and the process may die at any effect and be started again from the state file.
  \<open>reach\<close> is the set of states this system can be in. Two interfaces carry the proofs:
  \<open>jobs_invariant\<close>, for what holds of the job table in memory and on disk, and
  \<open>effect_guard\<close>, for what holds at each effect; both are proved once from the abstract
  protocol.
\<close>

section \<open>The system\<close>

definition emptyDisk :: Disk where
  "emptyDisk = \<lparr>dsk_state = None, dsk_tmp = None\<rparr>"

text \<open>
  The steps of a running controller. \<open>deliver\<close> and \<open>tick\<close> are the two productive branches of the
  \<open>select\<close> in \<open>Run\<close>; the reconciliation at the start of \<open>Run\<close> is a tick.
\<close>

inductive sys_step ::
  "Env \<Rightarrow> (string \<Rightarrow> Capacity \<Rightarrow> bool) \<Rightarrow> Manager \<Rightarrow> Manager \<Rightarrow> bool" for E K where
  beat: "sys_step E K m (m\<lparr>mgr_server := snd (heartbeat (Some n) tls now (mgr_server m))\<rparr>)"
    if "K (node_ID n) (node_Capacity n)"
| submit: "sys_step E K m (snd (Submit ev m))"
| deliver: "sys_step E K m (snd (Process E ev (m\<lparr>mgr_queue := q\<rparr>)))"
    if "mgr_queue m = ev # q"
| tick: "sys_step E K m (reconcile E now m)"

definition bootManager ::
  "Env \<Rightarrow> RunnerManagerConfig \<Rightarrow> duration list \<Rightarrow> Disk \<Rightarrow> effect list \<Rightarrow> goerror + Manager" where
  "bootManager E cfg ttl disk before =
     NewRunnerManager E cfg (Some (NewServer ttl)) True True disk before"

inductive reach ::
  "Env \<Rightarrow> (string \<Rightarrow> Capacity \<Rightarrow> bool) \<Rightarrow> RunnerManagerConfig \<Rightarrow> duration list \<Rightarrow> Manager \<Rightarrow> bool"
  for E K cfg ttl where
  boot: "reach E K cfg ttl m"
    if "bootManager E cfg ttl emptyDisk [] = Inr m"
| run: "reach E K cfg ttl m'"
    if "reach E K cfg ttl m" "sys_step E K m m'"
| crash: "reach E K cfg ttl m''"
    if "reach E K cfg ttl m" "sys_step E K m m'" "mgr_trace m' = mgr_trace m @ es @ lost"
      "bootManager E cfg ttl (fold disk_step es (mgr_disk m)) (mgr_trace m @ es) = Inr m''"

section \<open>Effects and crashes\<close>

lemma lstep_trace:
  assumes "lstep E K m m'"
  shows "(\<exists>js. m' = m\<lparr>mgr_jobs := js\<rparr>) \<or> (\<exists>e. m' = perform E e m)"
  using assms by (cases rule: lstep.cases) auto

lemma lsteps_extends: "lsteps E K m m' \<Longrightarrow> extends m m'"
proof (induction rule: rtranclp_induct)
  case (step y z)
  from lstep_trace [OF step.hyps(2)] step.IH show ?case
    by (auto intro: extends_perform extends_trans)
qed simp

lemma extends_disk:
  assumes "extends m m'" and "mgr_trace m' = mgr_trace m @ es"
  shows "mgr_disk m' = fold disk_step es (mgr_disk m)"
  using assms by (auto simp: extends_def)

text \<open>Every prefix of the effects of a run is the trace of an intermediate state.\<close>

lemma lsteps_prefix:
  assumes "lsteps E K m m'" and "mgr_trace m' = mgr_trace m @ es @ lost"
  shows "\<exists>mid. lsteps E K m mid \<and> mgr_trace mid = mgr_trace m @ es"
  using assms
proof (induction arbitrary: lost rule: rtranclp_induct)
  case base
  then show ?case by auto
next
  case (step y z)
  show ?case
  proof (cases lost rule: rev_cases)
    case Nil
    with step show ?thesis by (metis append.right_neutral rtranclp.rtrancl_into_rtrancl)
  next
    case (snoc lost' e)
    from lstep_trace [OF step.hyps(2)] show ?thesis
    proof (elim disjE exE)
      fix js
      assume "z = y\<lparr>mgr_jobs := js\<rparr>"
      with step show ?thesis by simp
    next
      fix e'
      assume "z = perform E e' y"
      with step.prems snoc have "mgr_trace y = mgr_trace m @ es @ lost'" by simp
      with step.IH show ?thesis by blast
    qed
  qed
qed

section \<open>What holds in every state\<close>

definition disk_jobs :: "(jobs \<Rightarrow> bool) \<Rightarrow> Disk \<Rightarrow> bool" where
  "disk_jobs J d \<longleftrightarrow>
     (\<forall>js. dsk_state d = Some (JobsDoc (Some js)) \<longrightarrow> J js) \<and>
     (\<forall>js. dsk_tmp d = Some (JobsDoc (Some js)) \<longrightarrow> J js)"

definition everywhere :: "(jobs \<Rightarrow> bool) \<Rightarrow> Manager \<Rightarrow> bool" where
  "everywhere J m \<longleftrightarrow> J (mgr_jobs m) \<and> disk_jobs J (mgr_disk m)"

lemma disk_jobs_step:
  "quiet js e \<or> (\<forall>js' r. e \<noteq> EWriteTmp js' r) \<Longrightarrow> J js \<Longrightarrow> disk_jobs J d \<Longrightarrow> disk_jobs J (disk_step e d)"
  by (cases "(e, d)" rule: disk_step.cases) (auto simp: disk_jobs_def)

lemma everywhere_lstep:
  assumes "lstep E K m m'" and "everywhere J m"
    and "\<And>js'. job_step K (mgr_cfg m) (mgr_jobs m) js' \<Longrightarrow> J js'"
  shows "everywhere J m'"
  using assms
  by (cases rule: lstep.cases)
     (auto simp: everywhere_def intro!: disk_jobs_step [where js = "mgr_jobs m"])

definition sys_ok ::
  "(string \<Rightarrow> Capacity \<Rightarrow> bool) \<Rightarrow> RunnerManagerConfig \<Rightarrow> Manager \<Rightarrow> bool" where
  "sys_ok K cfg m \<longleftrightarrow>
     mgr_cfg m = defaultConfig cfg \<and> known_nodes K (mgr_server m) \<and> everywhere wf_jobs m \<and>
     mgr_disk m = fold disk_step (mgr_trace m) emptyDisk"

lemma sys_ok_lstep:
  assumes "lstep E K m m'" and "known_heartbeats E K" and "sys_ok K cfg m"
  shows "sys_ok K cfg m'"
proof -
  have "everywhere wf_jobs m'"
    using assms(3) by (intro everywhere_lstep [OF assms(1)]) (auto simp: sys_ok_def everywhere_def dest: job_step_wf)
  moreover have "mgr_disk m' = fold disk_step (mgr_trace m') emptyDisk"
    using lstep_trace [OF assms(1)] assms(3) by (auto simp: sys_ok_def)
  ultimately show ?thesis
    using assms lstep_cfg [OF assms(1)] lstep_known_nodes [OF assms(1)] by (simp add: sys_ok_def)
qed

lemma sys_ok_lsteps: "lsteps E K m m' \<Longrightarrow> known_heartbeats E K \<Longrightarrow> sys_ok K cfg m \<Longrightarrow> sys_ok K cfg m'"
  by (induction rule: rtranclp_induct) (auto intro: sys_ok_lstep)

lemma boot_manager:
  assumes "bootManager E cfg ttl d tr = Inr m"
  shows "mgr_cfg m = defaultConfig cfg" "mgr_server m = NewServer ttl" "mgr_disk m = d" "mgr_trace m = tr"
    "mgr_queue m = []" "mgr_jobs m = fmempty \<or> dsk_state d = Some (JobsDoc (Some (mgr_jobs m)))"
  using assms
  by (auto simp: bootManager_def NewRunnerManager_def loadState_def
      split: prod.splits option.splits if_splits document.splits)

lemma boot_everywhere:
  "bootManager E cfg ttl d tr = Inr m \<Longrightarrow> J fmempty \<Longrightarrow> disk_jobs J d \<Longrightarrow> everywhere J m"
  using boot_manager [of E cfg ttl d tr m] by (auto simp: everywhere_def disk_jobs_def)

lemma boot_ok:
  assumes "bootManager E cfg ttl d tr = Inr m" and "disk_jobs wf_jobs d"
    and "d = fold disk_step tr emptyDisk"
  shows "sys_ok K cfg m"
  using boot_manager [OF assms(1)] boot_everywhere [OF assms(1) _ assms(2)] assms(3)
  by (simp add: sys_ok_def known_nodes_def) (simp add: NewServer_def)

text \<open>
  A step of the system is a sequence of abstract steps, or it only changes the node table or the
  queue.
\<close>

lemma sys_step_lsteps:
  assumes "sys_step E K m m'" and "known_heartbeats E K" and "sys_ok K cfg m"
  shows "\<exists>m0. lsteps E K m0 m' \<and> mgr_jobs m0 = mgr_jobs m \<and> mgr_disk m0 = mgr_disk m
     \<and> mgr_trace m0 = mgr_trace m \<and> sys_ok K cfg m0"
  using assms(1)
proof (cases rule: sys_step.cases)
  case (beat n tls now)
  have "known_nodes K (snd (heartbeat (Some n) tls now (mgr_server m)))"
    using assms(3) beat(2) by (auto simp: heartbeat_def sys_ok_def intro: known_nodes_storeNode split: option.splits list.splits)
  with assms(3) beat(1) show ?thesis by (intro exI [of _ m']) (auto simp: sys_ok_def everywhere_def)
next
  case (submit ev)
  with assms(3) show ?thesis
    by (intro exI [of _ m']) (auto simp: Submit_def sys_ok_def everywhere_def)
next
  case (deliver ev q)
  with assms show ?thesis
    by (intro exI [of _ "m\<lparr>mgr_queue := q\<rparr>"]) (auto simp: sys_ok_def everywhere_def intro!: lsteps_Process)
next
  case (tick now)
  with assms show ?thesis
    by (intro exI [of _ m]) (auto simp: sys_ok_def everywhere_def intro!: lsteps_reconcile)
qed

lemma crash_mid:
  assumes "sys_step E K m m'" and "known_heartbeats E K" and "sys_ok K cfg m"
    and "mgr_trace m' = mgr_trace m @ es @ lost"
  shows "\<exists>m0 mid. lsteps E K m0 mid \<and> mgr_jobs m0 = mgr_jobs m \<and> mgr_disk m0 = mgr_disk m
     \<and> mgr_trace m0 = mgr_trace m \<and> sys_ok K cfg m0
     \<and> mgr_trace mid = mgr_trace m @ es \<and> mgr_disk mid = fold disk_step es (mgr_disk m)"
proof -
  from sys_step_lsteps [OF assms(1-3)] obtain m0 where m0: "lsteps E K m0 m'" "mgr_jobs m0 = mgr_jobs m"
    "mgr_disk m0 = mgr_disk m" "mgr_trace m0 = mgr_trace m" "sys_ok K cfg m0" by blast
  from lsteps_prefix [OF m0(1)] assms(4) m0(4) obtain mid where
    mid: "lsteps E K m0 mid" "mgr_trace mid = mgr_trace m0 @ es" by metis
  from extends_disk [OF lsteps_extends [OF mid(1)] mid(2)] mid m0 show ?thesis by auto
qed

lemma reach_ok: "reach E K cfg ttl m \<Longrightarrow> known_heartbeats E K \<Longrightarrow> sys_ok K cfg m"
proof (induction rule: reach.induct)
  case (boot m)
  then show ?case by (intro boot_ok [OF boot.hyps]) (simp_all add: disk_jobs_def emptyDisk_def)
next
  case (run m m')
  then show ?case using sys_step_lsteps [OF run.hyps(2)] sys_ok_lsteps by blast
next
  case (crash m m' es lost m'')
  with crash_mid [OF crash.hyps(2)] obtain m0 mid where
    mid: "lsteps E K m0 mid" "sys_ok K cfg m0" "mgr_trace mid = mgr_trace m @ es"
      "mgr_disk mid = fold disk_step es (mgr_disk m)" by blast
  have "sys_ok K cfg mid" by (rule sys_ok_lsteps [OF mid(1) crash.prems mid(2)])
  then show ?case
    using mid by (intro boot_ok [OF crash.hyps(4)]) (auto simp: sys_ok_def everywhere_def)
qed

lemma queue_step:
  assumes "sys_step E K m m'" and "known_heartbeats E K" and "sys_ok K cfg m"
    and "int (length (mgr_queue m)) \<le> cfg_QueueSize (mgr_cfg m)"
  shows "mgr_cfg m' = mgr_cfg m \<and> int (length (mgr_queue m')) \<le> cfg_QueueSize (mgr_cfg m)"
  using assms(1)
proof (cases rule: sys_step.cases)
  case (deliver ev q)
  have "lsteps E K (m\<lparr>mgr_queue := q\<rparr>) m'"
    using deliver assms(2,3) by (auto intro!: lsteps_Process simp: sys_ok_def)
  from lsteps_cfg [OF this] deliver assms(4) show ?thesis by simp
next
  case (tick now)
  have "lsteps E K m m'"
    using tick assms(2,3) by (auto intro!: lsteps_reconcile simp: sys_ok_def everywhere_def)
  from lsteps_cfg [OF this] assms(4) show ?thesis by simp
qed (use assms(4) in \<open>auto simp: Submit_def\<close>)

section \<open>Interfaces for invariants\<close>

text \<open>An invariant of the job table that every step of the life cycle keeps.\<close>

locale jobs_invariant =
  fixes K :: "string \<Rightarrow> Capacity \<Rightarrow> bool" and cfg :: RunnerManagerConfig and J :: "jobs \<Rightarrow> bool"
  assumes J_empty: "J fmempty"
    and J_step: "job_step K (defaultConfig cfg) js js' \<Longrightarrow> wf_jobs js \<Longrightarrow> J js \<Longrightarrow> J js'"
begin

lemma J_lsteps:
  "lsteps E K m m' \<Longrightarrow> known_heartbeats E K \<Longrightarrow> sys_ok K cfg m \<Longrightarrow> everywhere J m \<Longrightarrow> everywhere J m'"
proof (induction rule: rtranclp_induct)
  case (step y z)
  then have y: "sys_ok K cfg y" "everywhere J y" using sys_ok_lsteps by blast+
  then show ?case
    by (intro everywhere_lstep [OF step.hyps(2)]) (auto simp: sys_ok_def everywhere_def dest: J_step)
qed simp

theorem J_reach: "reach E K cfg ttl m \<Longrightarrow> known_heartbeats E K \<Longrightarrow> everywhere J m"
proof (induction rule: reach.induct)
  case (boot m)
  then show ?case
    by (intro boot_everywhere [where J = J, OF boot.hyps J_empty]) (simp add: disk_jobs_def emptyDisk_def)
next
  case (run m m')
  then have "sys_ok K cfg m" using reach_ok by blast
  with sys_step_lsteps [OF run.hyps(2) run.prems] obtain m0 where "lsteps E K m0 m'"
    "mgr_jobs m0 = mgr_jobs m" "mgr_disk m0 = mgr_disk m" "sys_ok K cfg m0" by blast
  moreover from this run have "everywhere J m0" by (simp add: everywhere_def)
  ultimately show ?case using J_lsteps run.prems by blast
next
  case (crash m m' es lost m'')
  then have "sys_ok K cfg m" using reach_ok by blast
  with crash_mid [OF crash.hyps(2) crash.prems] crash.hyps(3) obtain m0 mid where
    mid: "lsteps E K m0 mid" "mgr_jobs m0 = mgr_jobs m" "mgr_disk m0 = mgr_disk m" "sys_ok K cfg m0"
      "mgr_disk mid = fold disk_step es (mgr_disk m)" by blast
  from mid crash have "everywhere J m0" by (simp add: everywhere_def)
  then have "everywhere J mid" using J_lsteps [OF mid(1) crash.prems mid(4)] by blast
  with mid(5) show ?case
    by (intro boot_everywhere [where J = J, OF crash.hyps(4) J_empty]) (simp add: everywhere_def)
qed

end

text \<open>
  A guard on effects: whenever the protocol performs an effect, the guard holds of what
  happened before and of the effect. Then it holds at every effect of every run.
\<close>

locale effect_guard =
  fixes E :: Env and K :: "string \<Rightarrow> Capacity \<Rightarrow> bool" and cfg :: RunnerManagerConfig
    and Q :: "effect list \<Rightarrow> effect \<Rightarrow> bool"
  assumes guard: "lstep E K m (perform E e m) \<Longrightarrow> sys_ok K cfg m \<Longrightarrow> Q (mgr_trace m) e"
begin

definition guarded :: "effect list \<Rightarrow> bool" where
  "guarded tr \<longleftrightarrow> (\<forall>pre e post. tr = pre @ e # post \<longrightarrow> Q pre e)"

lemma guarded_Nil: "guarded []"
  by (simp add: guarded_def)

lemma guarded_snoc: "guarded tr \<Longrightarrow> Q tr e \<Longrightarrow> guarded (tr @ [e])"
  by (auto simp: guarded_def append_eq_append_conv2 append_eq_Cons_conv Cons_eq_append_conv)

lemma guarded_prefix: "guarded (tr @ tr') \<Longrightarrow> guarded tr"
  by (auto simp: guarded_def)

lemma guarded_lsteps:
  "lsteps E K m m' \<Longrightarrow> known_heartbeats E K \<Longrightarrow> sys_ok K cfg m \<Longrightarrow> guarded (mgr_trace m)
     \<Longrightarrow> guarded (mgr_trace m')"
proof (induction rule: rtranclp_induct)
  case (step y z)
  then have y: "sys_ok K cfg y" "guarded (mgr_trace y)" using sys_ok_lsteps by blast+
  from lstep_trace [OF step.hyps(2)] show ?case
  proof (elim disjE exE)
    fix e
    assume e: "z = perform E e y"
    with guard step.hyps(2) y(1) have "Q (mgr_trace y) e" by blast
    with y(2) e show ?case by (simp add: guarded_snoc)
  qed (use y in simp)
qed simp

theorem guarded_reach: "reach E K cfg ttl m \<Longrightarrow> known_heartbeats E K \<Longrightarrow> guarded (mgr_trace m)"
proof (induction rule: reach.induct)
  case (boot m)
  then show ?case using boot_manager(4) guarded_Nil by metis
next
  case (run m m')
  then have "sys_ok K cfg m" using reach_ok by blast
  with sys_step_lsteps [OF run.hyps(2) run.prems] obtain m0 where "lsteps E K m0 m'"
    "mgr_trace m0 = mgr_trace m" "sys_ok K cfg m0" by blast
  with run show ?case by (auto intro: guarded_lsteps)
next
  case (crash m m' es lost m'')
  then have "sys_ok K cfg m" using reach_ok by blast
  with sys_step_lsteps [OF crash.hyps(2) crash.prems] obtain m0 where m0: "lsteps E K m0 m'"
    "mgr_trace m0 = mgr_trace m" "sys_ok K cfg m0" by blast
  have "guarded (mgr_trace m')"
    by (rule guarded_lsteps [OF m0(1) crash.prems m0(3)]) (use m0(2) crash in simp)
  with crash.hyps(3) have "guarded ((mgr_trace m @ es) @ lost)" by simp
  then have "guarded (mgr_trace m @ es)" by (rule guarded_prefix)
  with boot_manager(4) [OF crash.hyps(4)] show ?case by simp
qed

end

end
