(* ===== verification/Runner_Safety.thy ===== *)
theory Runner_Safety
  imports Runner_System
begin

text \<open>
  The safety properties of the runner manager, for every environment and every run of the
  system, crashes included: job tables are well formed in memory and on disk, no node is
  overcommitted, no runner is generated and no container is created without a trust check, and
  a container is created only after the state file says where and for which runner.
\<close>

section \<open>Capacity\<close>

definition reserved :: "(JobRecord \<Rightarrow> int) \<Rightarrow> jobs \<Rightarrow> string \<Rightarrow> int" where
  "reserved f js nodeID = (\<Sum>k \<in> active_on js nodeID. f (index0 zero_JobRecord js k))"

lemma reserved_eq: "reservedCPU = reserved rec_CPU" "reservedMemory = reserved rec_MemoryM"
  by (simp_all add: fun_eq_iff reserved_def reservedCPU_def reservedMemory_def)

definition charge :: "(JobRecord \<Rightarrow> int) \<Rightarrow> string \<Rightarrow> JobRecord option \<Rightarrow> int" where
  "charge f nodeID ro = (case ro of None \<Rightarrow> 0 | Some r \<Rightarrow> if charged nodeID r then f r else 0)"

lemma reserved_charges:
  assumes "finite S" and "fset (fmdom js) \<subseteq> S"
  shows "reserved f js nodeID = (\<Sum>k \<in> S. charge f nodeID (fmlookup js k))"
proof -
  have "(\<Sum>k \<in> S. charge f nodeID (fmlookup js k)) =
      (\<Sum>k \<in> active_on js nodeID. charge f nodeID (fmlookup js k))"
    by (rule sum.mono_neutral_right)
       (use assms in \<open>auto simp: active_on_def charge_def charged_def fmlookup_dom_iff split: option.splits\<close>)
  also have "\<dots> = reserved f js nodeID"
    unfolding reserved_def by (rule sum.cong) (auto simp: active_on_def charge_def charged_def)
  finally show ?thesis by simp
qed

lemma reserved_change:
  assumes "\<And>j. j \<noteq> k \<Longrightarrow> fmlookup js' j = fmlookup js j"
  shows "reserved f js' nodeID =
    reserved f js nodeID - charge f nodeID (fmlookup js k) + charge f nodeID (fmlookup js' k)"
proof -
  let ?S = "insert k (fset (fmdom js) \<union> fset (fmdom js'))"
  have "(\<Sum>j \<in> ?S - {k}. charge f nodeID (fmlookup js' j)) =
      (\<Sum>j \<in> ?S - {k}. charge f nodeID (fmlookup js j))"
    by (rule sum.cong) (auto simp: assms)
  moreover have "reserved f js nodeID = (\<Sum>j \<in> ?S. charge f nodeID (fmlookup js j))"
    and "reserved f js' nodeID = (\<Sum>j \<in> ?S. charge f nodeID (fmlookup js' j))"
    by (rule reserved_charges; auto)+
  ultimately show ?thesis by (simp add: sum.remove [of ?S k])
qed

lemma reserved_upd:
  "reserved f (fmupd k r js) nodeID =
     reserved f js nodeID - charge f nodeID (fmlookup js k) + charge f nodeID (Some r)"
  using reserved_change [of k "fmupd k r js" js] by simp

lemma reserved_drop:
  "reserved f (fmdrop k js) nodeID = reserved f js nodeID - charge f nodeID (fmlookup js k)"
  using reserved_change [of k "fmdrop k js" js] by (simp add: charge_def)

text \<open>A resource of a record: the quantity every job that is not completed needs.\<close>

definition resource :: "(JobRecord \<Rightarrow> int) \<Rightarrow> bool" where
  "resource f \<longleftrightarrow> f = rec_CPU \<or> f = rec_MemoryM"

lemma reserves_status:
  "reserves r \<longleftrightarrow> rec_NodeID r \<noteq> [] \<and>
     rec_Status r \<in> {jobProvisioning, jobRunning, jobCleanupPending}"
  by (auto simp: reserves_def)

lemma charge_nonneg: "resource f \<Longrightarrow> wf_jobs js \<Longrightarrow> 0 \<le> charge f nodeID (fmlookup js k)"
  by (force simp: charge_def charged_def reserves_status resource_def wf_record_def
      dest: wf_jobs_lookup split: option.splits)

lemma reserved_nonneg: "resource f \<Longrightarrow> wf_jobs js \<Longrightarrow> 0 \<le> reserved f js nodeID"
  by (simp add: reserved_charges [of "fset (fmdom js)"] sum_nonneg charge_nonneg)

lemma reserved_uncharged:
  "resource f \<Longrightarrow> wf_jobs js \<Longrightarrow> \<not> reserves r \<Longrightarrow> reserved f (fmupd k r js) nodeID \<le> reserved f js nodeID"
  using charge_nonneg [of f js nodeID k] by (simp add: reserved_upd) (simp add: charge_def charged_def)

lemma reserved_drop_le:
  "resource f \<Longrightarrow> wf_jobs js \<Longrightarrow> reserved f (fmdrop k js) nodeID \<le> reserved f js nodeID"
  by (simp add: reserved_drop charge_nonneg)

text \<open>Only the provisioning step charges a node; every other step keeps or lowers the sum.\<close>

lemma job_step_reserved:
  assumes "job_step K cfg js js'" and "wf_jobs js" and "resource f"
  shows "reserved f js' nodeID \<le> reserved f js nodeID \<or>
    (\<exists>r cap. K nodeID cap \<and> room js nodeID cap r \<and> 0 < f r \<and>
       reserved f js' nodeID = reserved f js nodeID + f r)"
  using assms(1)
proof (cases rule: job_step.cases)
  case (provision k r nodeID' cap x d t)
  then have "wf_record k r" using assms(2) wf_jobs_lookup by blast
  with provision assms(3) have "0 < f r" "charge f nodeID (Some r) = 0"
    by (auto simp: wf_record_def resource_def charge_def charged_def reserves_status)
  with provision assms(3) show ?thesis
    by (auto simp: reserved_upd charge_def charged_def reserves_status resource_def) blast+
next
  case (start k r i d t)
  then have "wf_record k r" using assms(2) wf_jobs_lookup by blast
  with start assms(3) show ?thesis
    by (auto simp: reserved_upd charge_def charged_def reserves_status resource_def)
next
  case (defer_cleanup k r t)
  then have "wf_record k r" using assms(2) wf_jobs_lookup by blast
  with defer_cleanup assms(3) show ?thesis
    by (auto simp: reserved_upd charge_def charged_def reserves_status resource_def wf_record_def)
qed (auto intro!: disjI1 reserved_uncharged [OF assms(3,2)] reserved_drop_le [OF assms(3,2)]
      simp: reserves_status new_record_def tombstone_def pendingAgain_def)

definition total_is :: "(string \<Rightarrow> int) \<Rightarrow> (string \<Rightarrow> int) \<Rightarrow> string \<Rightarrow> Capacity \<Rightarrow> bool" where
  "total_is C M nodeID cap \<longleftrightarrow>
     TotalCPU cap = C nodeID \<and> TotalMemoryM cap = M nodeID \<and>
     in_int64 (TotalCPU cap) \<and> in_int64 (TotalMemoryM cap)"

definition within :: "(string \<Rightarrow> int) \<Rightarrow> (string \<Rightarrow> int) \<Rightarrow> jobs \<Rightarrow> bool" where
  "within C M js \<longleftrightarrow>
     (\<forall>nodeID. (0 < C nodeID \<longrightarrow> reservedCPU js nodeID \<le> C nodeID) \<and>
               (0 < M nodeID \<longrightarrow> reservedMemory js nodeID \<le> M nodeID))"

lemma room_bound:
  assumes "0 < (t::int)" "in_int64 t" "0 \<le> s" "s \<le> t" "c \<le> wrap64 (t - s)"
  shows "s + c \<le> t"
proof -
  from assms have "in_int64 (t - s)" by (auto simp: in_int64_def)
  with assms(5) show ?thesis by simp
qed

lemma job_step_within:
  assumes step: "job_step (total_is C M) cfg js js'" and wf: "wf_jobs js" and w: "within C M js"
  shows "within C M js'"
proof -
  have cpu: "reservedCPU js' n \<le> C n" if "0 < C n" for n
  proof -
    have "0 \<le> reservedCPU js n" "reservedCPU js n \<le> C n"
      using reserved_nonneg [OF _ wf, of rec_CPU] w that by (auto simp: reserved_eq resource_def within_def)
    with job_step_reserved [OF step wf, of rec_CPU n] that show ?thesis
      by (auto simp: reserved_eq [symmetric] resource_def total_is_def room_def intro: room_bound)
  qed
  have mem: "reservedMemory js' n \<le> M n" if "0 < M n" for n
  proof -
    have "0 \<le> reservedMemory js n" "reservedMemory js n \<le> M n"
      using reserved_nonneg [OF _ wf, of rec_MemoryM] w that by (auto simp: reserved_eq resource_def within_def)
    with job_step_reserved [OF step wf, of rec_MemoryM n] that show ?thesis
      by (auto simp: reserved_eq [symmetric] resource_def total_is_def room_def intro: room_bound)
  qed
  from cpu mem show ?thesis by (simp add: within_def)
qed

lemma within_empty: "within C M fmempty"
  by (simp add: within_def reservedCPU_def reservedMemory_def active_on_def)

interpretation capacity: jobs_invariant "total_is C M" cfg "within C M" for C M cfg
  by unfold_locales (auto intro: within_empty job_step_within)

interpretation wellformed: jobs_invariant K cfg wf_jobs for K cfg
  by unfold_locales (auto intro: job_step_wf)

section \<open>Trust and write-ahead\<close>

text \<open>
  What must have happened before an effect. A JIT runner is generated right after GitHub
  returned a trusted workflow run of the same owner and repository. An instance is created for a job after
  a trust check against the repository in its specification and after the generation of the
  runner whose configuration it carries, with nothing but saves in between.
\<close>

definition trusted_run :: "WorkflowRun \<Rightarrow> bool" where
  "trusted_run run \<longleftrightarrow>
     (rr_Private (run_Repository run) \<or> run_Event run \<noteq> ''pull_request_target'') \<and>
     (rr_FullName (run_Repository run) \<noteq> [] \<longrightarrow>
        trust_policy run (rr_FullName (run_Repository run)))"

lemma trust_policy_run: "trust_policy run repository \<Longrightarrow> trusted_run run"
  unfolding trusted_run_def trust_policy_def fork_pull_request_def
  by (auto dest: EqualFold_sym EqualFold_trans)

fun trust_guard :: "effect list \<Rightarrow> effect \<Rightarrow> bool" where
  "trust_guard before (EJIT i ow rp name g labels res) \<longleftrightarrow>
     (\<exists>pre runID run t.
        before = pre @ [EGetRun i ow rp runID (Inr run), EClock t] \<and> trusted_run run)"
| "trust_guard before (ECreate node spec res) \<longleftrightarrow>
     (\<exists>pre i ow rp runID run t name g labels jit t' saves.
        before = pre @ [EGetRun i ow rp runID (Inr run), EClock t,
                        EJIT i ow rp name g labels (Inr jit), EClock t'] @ saves \<and>
        trust_policy run (spec_Repository spec) \<and>
        fmlookup (spec_Environment spec) ''ACTIONS_RUNNER_INPUT_JITCONFIG'' = Some (jit_EncodedConfig jit) \<and>
        (\<forall>e \<in> set saves. file_effect e))"
| "trust_guard before e \<longleftrightarrow> True"

text \<open>The state file at an instance creation says that the job is provisioning on that node.\<close>

fun saved_guard :: "effect list \<Rightarrow> effect \<Rightarrow> bool" where
  "saved_guard before (ECreate node spec res) \<longleftrightarrow>
     (\<exists>js k r. dsk_state (fold disk_step before emptyDisk) = Some (JobsDoc (Some js)) \<and>
        fmlookup js k = Some r \<and> spec_ID spec = containerJobID k \<and>
        rec_Status r = jobProvisioning \<and> rec_NodeID r = node_ID node \<and>
        rec_RunnerName r = runnerName (node_ID node) k (rec_Attempt r))"
| "saved_guard before e \<longleftrightarrow> True"

lemma perform_inject: "perform E e m = perform E' e' m \<Longrightarrow> e = e'"
  using perform_trace by (metis append_eq_append_conv list.inject)

lemma lstep_perform_cases:
  assumes "lstep E K m (perform E e m)"
  obtains (world) "quiet (mgr_jobs m) e"
  | (jit) k r nodeID g res where "fmlookup (mgr_jobs m) k = Some r" "rec_Status r = jobPending"
      "just_checked (mgr_trace m) r"
      "e = EJIT (rec_InstallationID r) (rec_Owner r) (rec_Repo r)
        (runnerName nodeID k (wrap64 (rec_Attempt r + 1))) g (rec_Labels r) res"
  | (create) k r node jit res where "fmlookup (mgr_jobs m) k = Some r"
      "rec_Status r = jobProvisioning" "rec_NodeID r = node_ID node"
      "rec_RunnerID r = jit_RunnerID jit" "authorised (mgr_trace m) r jit"
      "cfg_StateFile (mgr_cfg m) \<noteq> [] \<Longrightarrow> dsk_state (mgr_disk m) = Some (JobsDoc (Some (mgr_jobs m)))"
      "e = ECreate node (runnerSpec (mgr_cfg m) k r jit) res"
  using assms
proof (cases rule: lstep.cases)
  case (jobs js)
  then have "mgr_trace (perform E e m) = mgr_trace m" by simp
  then show ?thesis by simp
next
  case (world e')
  then show ?thesis using that(1) perform_inject by metis
next
  case (jit k r nodeID g res)
  then show ?thesis using that(2) perform_inject by metis
next
  case (create k r node jit res)
  then show ?thesis using that(3) perform_inject by metis
qed

lemma trust_guard_lstep:
  assumes "lstep E K m (perform E e m)"
  shows "trust_guard (mgr_trace m) e"
  using assms
proof (cases rule: lstep_perform_cases)
  case world
  then show ?thesis by (cases e) auto
next
  case (jit k r nodeID g res)
  then show ?thesis by (auto simp: just_checked_def dest: trust_policy_run)
next
  case (create k r node jit res)
  then show ?thesis unfolding authorised_def by (auto simp: runnerSpec_def) blast
qed

lemma saved_guard_lstep:
  assumes "lstep E K m (perform E e m)" and "sys_ok K cfg m" and "cfg_StateFile cfg \<noteq> []"
  shows "saved_guard (mgr_trace m) e"
  using assms(1)
proof (cases rule: lstep_perform_cases)
  case world
  then show ?thesis by (cases e) auto
next
  case (jit k r nodeID g res)
  then show ?thesis by simp
next
  case (create k r node jit res)
  with assms(2) have "wf_record k r" by (auto simp: sys_ok_def everywhere_def dest: wf_jobs_lookup)
  with create assms(2,3) show ?thesis
    by (auto simp: runnerSpec_def sys_ok_def defaultConfig_def wf_record_def)
qed

interpretation trust: effect_guard E K cfg trust_guard for E K cfg
  by unfold_locales (rule trust_guard_lstep)

interpretation saved: effect_guard E K cfg
  "\<lambda>before e. cfg_StateFile cfg \<noteq> [] \<longrightarrow> saved_guard before e" for E K cfg
  by unfold_locales (auto intro: saved_guard_lstep)

end
