(* ===== verification/Runner_Behaviour.thy ===== *)
theory Runner_Behaviour
  imports Runner_System
begin

text \<open>
  The functional behaviour of the operations of the runner manager, branch by branch: which job
  an operation touches, what happens to a job on success and on each failure, and which
  effects are performed.
\<close>

section \<open>An operation touches one job\<close>

definition only :: "int \<Rightarrow> Manager \<Rightarrow> Manager \<Rightarrow> bool" where
  "only k m m' \<longleftrightarrow> mgr_cfg m' = mgr_cfg m \<and> mgr_queue m' = mgr_queue m \<and>
     (\<forall>j. j \<noteq> k \<longrightarrow> fmlookup (mgr_jobs m') j = fmlookup (mgr_jobs m) j)"

lemma only_refl [simp, intro]: "only k m m"
  by (simp add: only_def)

lemma only_perform: "only k a b \<Longrightarrow> only k a (perform E e b)"
  by (simp add: only_def)

lemma only_setJob: "only k a b \<Longrightarrow> only k a (setJob k r b)"
  by (simp add: only_def)

lemma only_jobs:
  "only k a b \<Longrightarrow> (\<And>j. j \<noteq> k \<Longrightarrow> fmlookup js j = fmlookup (mgr_jobs b) j) \<Longrightarrow> only k a (b\<lparr>mgr_jobs := js\<rparr>)"
  by (simp add: only_def)

lemma only_saveLocked: "only k a b \<Longrightarrow> only k a (snd (saveLocked E b))"
  by (simp add: only_def)

lemma only_calls:
  assumes "only k a b"
  shows "only k a (snd (GetWorkflowRun E i ow rp rid b))"
    and "only k a (snd (GenerateJITConfig E i ow rp nm g ls b))"
    and "only k a (snd (DeleteRunner E i ow rp x b))"
    and "only k a (snd (CreateInstance E nd sp b))"
    and "only k a (snd (DestroyInstance E nd iid b))"
    and "only k a (snd (Now E b))"
  by (simp_all add: call_states only_perform assms)

lemmas only_intros = only_calls only_saveLocked only_setJob only_jobs

lemma only_helpers:
  assumes "only k a b"
  shows "only k a (deleteRunnerOf E r b)" and "only k a (snd (destroyInstanceOf E j r b))"
    and "only k a (tearDown E r b)" and "only k a (snd (rejectJob E k b))"
    and "only k a (snd (completeJob E k b))"
  using assms
  by (auto simp: deleteRunnerOf_def destroyInstanceOf_def tearDown_def rejectJob_def completeJob_def
      split_beta Let_def intro!: only_intros split: option.splits)

lemma only_launchRunner: "only k a b \<Longrightarrow> only k a (snd (launchRunner E k nd r jit b))"
  by (auto simp: launchRunner_def split_beta Let_def intro!: only_intros split: sum.splits)

lemma only_provisionOn: "only k a b \<Longrightarrow> only k a (snd (provisionOn E k nd b))"
  by (auto simp: provisionOn_def split_beta Let_def intro!: only_intros only_launchRunner
      split: sum.splits option.splits)

lemma only_tryProvision: "only k a b \<Longrightarrow> only k a (snd (tryProvision E k b))"
  by (rule tryProvision_cases [of E k b]) (auto intro!: only_intros only_helpers only_provisionOn)

lemma only_handleQueued:
  "only (wj_ID (ev_Job ev)) a b \<Longrightarrow> only (wj_ID (ev_Job ev)) a (snd (handleQueued E ev b))"
  by (auto simp: handleQueued_def split_beta Let_def intro!: only_intros only_tryProvision
      split: sum.splits option.splits)

lemma only_handleCompleted:
  "only (wj_ID (ev_Job ev)) a b \<Longrightarrow> only (wj_ID (ev_Job ev)) a (snd (handleCompleted E ev b))"
  by (auto simp: handleCompleted_def split_beta Let_def intro!: only_intros only_helpers
      split: option.splits)

lemma only_Process: "only (wj_ID (ev_Job ev)) m (snd (Process E ev m))"
  by (simp add: Process_def only_handleQueued only_handleCompleted)

lemma only_cleanupRecord:
  "only (rec_JobID r) a b \<Longrightarrow> only (rec_JobID r) a (snd (cleanupRecord E r b))"
  by (auto simp: cleanupRecord_def split_beta Let_def intro!: only_helpers split: option.splits)

lemma only_recoverProvisioning:
  "only (rec_JobID r) a b \<Longrightarrow> only (rec_JobID r) a (snd (recoverProvisioning E r b))"
  by (auto simp: recoverProvisioning_def split_beta Let_def
      intro!: only_intros only_helpers only_tryProvision split: option.splits)

lemma only_reconcileJob:
  assumes "wf_jobs (mgr_jobs m)"
  shows "only k m (reconcileJob E now k m)"
proof (cases "fmlookup (mgr_jobs m) k")
  case (Some r)
  with assms have "rec_JobID r = k" by (auto dest: wf_jobs_lookup simp: wf_record_def)
  with Some show ?thesis
    using only_cleanupRecord [of r m m E] only_recoverProvisioning [of r m m E]
    by (simp add: reconcileJob_def only_tryProvision)
qed (simp add: reconcileJob_def)

section \<open>Deliveries of a known job\<close>

lemma handleQueued_known:
  "fmlookup (mgr_jobs m) (wj_ID (ev_Job ev)) \<noteq> None \<Longrightarrow> snd (handleQueued E ev m) = m"
  by (auto simp: handleQueued_def Let_def split: sum.splits)

lemma handleQueued_known_result:
  assumes "fmlookup (mgr_jobs m) (wj_ID (ev_Job ev)) \<noteq> None"
    and "0 < wj_ID (ev_Job ev)" "0 < wj_RunID (ev_Job ev)" "0 < ev_InstallationID ev"
    and "repoParts (ev_Repository ev) = Inr parts"
  shows "handleQueued E ev m = (None, m)"
  using assms by (auto simp: handleQueued_def Let_def split: prod.splits)

lemma handleCompleted_completed:
  "fmlookup (mgr_jobs m) (wj_ID (ev_Job ev)) = Some r \<Longrightarrow> rec_Status r = jobCompleted \<Longrightarrow>
     handleCompleted E ev m = (None, m)"
  by (simp add: handleCompleted_def Let_def)

lemma Process_completed:
  assumes "fmlookup (mgr_jobs m) k = Some r" and "rec_Status r = jobCompleted"
  shows "fmlookup (mgr_jobs (snd (Process E ev m))) k = Some r"
proof (cases "k = wj_ID (ev_Job ev)")
  case True
  with assms show ?thesis by (simp add: Process_def handleQueued_known handleCompleted_completed)
next
  case False
  with only_Process [of ev m E] assms show ?thesis by (simp add: only_def)
qed

section \<open>Rejection\<close>

lemma rejectJob_result:
  assumes "fmlookup (mgr_jobs m) k = Some r"
  shows "fmlookup (mgr_jobs (snd (rejectJob E k m))) k =
      Some (r\<lparr>rec_Status := jobRejected, rec_UpdatedAt := env_clock E (mgr_trace m)\<rparr>)
    \<and> (\<exists>saves. mgr_trace (snd (rejectJob E k m)) =
        mgr_trace m @ EClock (env_clock E (mgr_trace m)) # saves \<and> (\<forall>e \<in> set saves. file_effect e))"
  using assms saveLocked_trace [of E "setJob k (r\<lparr>rec_Status := jobRejected,
      rec_UpdatedAt := env_clock E (mgr_trace m)\<rparr>) (snd (Now E m))"]
  by (auto simp: rejectJob_def split_beta Let_def)

lemma tryProvision_untrusted:
  assumes "fmlookup (mgr_jobs m) k = Some r" and "rec_Status r = jobPending"
    and "gotRun E r m = Inr run" and "\<not> trust_policy run (rec_Repository r)"
  shows "tryProvision E k m = rejectJob E k (afterRun E r m)"
  using assms by (simp add: tryProvision_def split_beta Let_def trustedWorkflowRun_policy)

section \<open>Launching\<close>

lemma launchRunner_failure:
  assumes "env_create E (mgr_trace m) node (runnerSpec (mgr_cfg m) k r jit) = Inl err"
    and "fmlookup (mgr_jobs m) k = Some c"
  shows "\<exists>t destroyed deleted saves.
      fmlookup (mgr_jobs (snd (launchRunner E k node r jit m))) k = Some (pendingAgain t c)
    \<and> fst (launchRunner E k node r jit m) \<noteq> None
    \<and> mgr_trace (snd (launchRunner E k node r jit m)) = mgr_trace m @
        [ECreate node (runnerSpec (mgr_cfg m) k r jit) (Inl err),
         EDestroy node (containerName k) destroyed,
         EDeleteRunner (rec_InstallationID r) (rec_Owner r) (rec_Repo r) (jit_RunnerID jit) deleted,
         EClock t] @ saves
    \<and> (\<forall>e \<in> set saves. file_effect e)"
proof -
  let ?m1 = "snd (CreateInstance E node (runnerSpec (mgr_cfg m) k r jit) m)"
  let ?m2 = "snd (DestroyInstance E node (containerName k) ?m1)"
  let ?m3 = "snd (DeleteRunner E (rec_InstallationID r) (rec_Owner r) (rec_Repo r) (jit_RunnerID jit) ?m2)"
  let ?t = "env_clock E (mgr_trace ?m3)"
  let ?s = "saveLocked E (setJob k (pendingAgain ?t c) (snd (Now E ?m3)))"
  have run: "launchRunner E k node r jit m = (case fst ?s of Some e \<Rightarrow> Some e
      | None \<Rightarrow> Some (Wrapf ''create runner instance: '' err []), snd ?s)"
    using assms by (simp add: launchRunner_def split_beta Let_def job_def call_states)
  obtain saves where "mgr_trace (snd ?s) = mgr_trace (setJob k (pendingAgain ?t c) (snd (Now E ?m3))) @ saves"
    "\<forall>e \<in> set saves. file_effect e" using saveLocked_trace by blast
  then show ?thesis using assms(1)
    by (intro exI [of _ ?t] exI [of _ "env_destroy E (mgr_trace ?m1) node (containerName k)"]
        exI [of _ "env_deleteRunner E (mgr_trace ?m2) (rec_InstallationID r) (rec_Owner r) (rec_Repo r)
          (jit_RunnerID jit)"] exI [of _ saves])
       (simp add: run call_states split: option.splits)
qed

text \<open>A world in which every call succeeds.\<close>

definition healthy :: "Env \<Rightarrow> WorkflowRun \<Rightarrow> JITConfig \<Rightarrow> Instance \<Rightarrow> bool" where
  "healthy E run jit inst \<longleftrightarrow>
     (\<forall>tr i ow rp rid. env_getRun E tr i ow rp rid = Inr run) \<and>
     (\<forall>tr i ow rp nm g ls. env_jit E tr i ow rp nm g ls = Inr jit) \<and>
     (\<forall>tr nd sp. env_create E tr nd sp = Inr inst) \<and>
     (\<forall>tr. env_mkdir E tr = None) \<and> (\<forall>tr js. env_marshal E tr js = None) \<and>
     (\<forall>tr. env_write E tr = None) \<and> (\<forall>tr. env_rename E tr = None)"

lemma healthy_save: "healthy E run jit inst \<Longrightarrow> fst (saveLocked E m) = None"
  by (simp add: saveLocked_def healthy_def Let_def)

lemma launchRunner_success:
  assumes "env_create E (mgr_trace m) node (runnerSpec (mgr_cfg m) k r jit) = Inr inst"
    and "fmlookup (mgr_jobs m) k = Some c"
  shows "\<exists>t. fmlookup (mgr_jobs (snd (launchRunner E k node r jit m))) k =
      Some (c\<lparr>rec_Status := jobRunning, rec_InstanceID := inst_ID inst,
        rec_Deadline := (if IsZero (inst_Deadline inst) then rec_Deadline c else inst_Deadline inst),
        rec_UpdatedAt := t\<rparr>)"
  using assms
  by (intro exI [of _ "env_clock E (mgr_trace (snd (CreateInstance E node
        (runnerSpec (mgr_cfg m) k r jit) m)))"])
     (simp add: launchRunner_def split_beta Let_def job_def call_states)

lemma launchRunner_healthy: "healthy E run jit inst \<Longrightarrow> fst (launchRunner E k node r jit m) = None"
  by (auto simp: launchRunner_def split_beta Let_def healthy_save healthy_def CreateInstance_def)

lemma provisionOn_healthy:
  assumes h: "healthy E run jit inst" and r: "fmlookup (mgr_jobs m) k = Some r"
  shows "fst (provisionOn E k node m) = None \<and>
    (\<exists>started t. fmlookup (mgr_jobs (snd (provisionOn E k node m))) k =
      Some (r\<lparr>rec_Status := jobRunning, rec_NodeID := node_ID node, rec_InstanceID := inst_ID inst,
        rec_RunnerName := runnerName (node_ID node) k (wrap64 (rec_Attempt r + 1)),
        rec_RunnerID := jit_RunnerID jit, rec_Attempt := wrap64 (rec_Attempt r + 1),
        rec_Deadline := (if IsZero (inst_Deadline inst)
                         then time_Add started (cfg_RunnerTimeout (mgr_cfg m)) else inst_Deadline inst),
        rec_UpdatedAt := t\<rparr>))"
proof -
  let ?name = "runnerName (node_ID node) k (wrap64 (rec_Attempt r + 1))"
  let ?m1 = "snd (GenerateJITConfig E (rec_InstallationID r) (rec_Owner r) (rec_Repo r) ?name
    (cfg_RunnerGroupID (mgr_cfg m)) (rec_Labels r) m)"
  let ?now = "env_clock E (mgr_trace ?m1)"
  let ?r = "r\<lparr>rec_Status := jobProvisioning, rec_NodeID := node_ID node, rec_RunnerName := ?name,
    rec_RunnerID := jit_RunnerID jit, rec_Attempt := wrap64 (rec_Attempt r + 1),
    rec_Deadline := time_Add ?now (cfg_RunnerTimeout (mgr_cfg m)), rec_UpdatedAt := ?now\<rparr>"
  let ?m3 = "snd (saveLocked E (setJob k ?r (snd (Now E ?m1))))"
  have go: "provisionOn E k node m = launchRunner E k node ?r jit ?m3"
    using h r healthy_save [OF h]
    by (simp add: provisionOn_def split_beta Let_def job_def call_states healthy_def)
  have "fmlookup (mgr_jobs ?m3) k = Some ?r" by simp
  moreover have "env_create E (mgr_trace ?m3) node (runnerSpec (mgr_cfg ?m3) k ?r jit) = Inr inst"
    using h by (simp add: healthy_def)
  ultimately obtain t where t: "fmlookup (mgr_jobs (snd (launchRunner E k node ?r jit ?m3))) k =
      Some (?r\<lparr>rec_Status := jobRunning, rec_InstanceID := inst_ID inst,
        rec_Deadline := (if IsZero (inst_Deadline inst) then rec_Deadline ?r else inst_Deadline inst),
        rec_UpdatedAt := t\<rparr>)" using launchRunner_success by blast
  show ?thesis unfolding go
    by (intro conjI launchRunner_healthy [OF h] exI [of _ ?now] exI [of _ t]) (simp add: t)
qed

section \<open>Tombstones\<close>

lemma pruneTombstones_lookup:
  assumes "pruneTombstones cfg now ks js = (ids, pruned, js')" and "distinct ks"
  shows "fmlookup js' k =
      (if k \<in> set ks \<and> tombstoneExpired cfg now (index0 zero_JobRecord js k) then None else fmlookup js k)
    \<and> set ids = {k \<in> set ks. \<not> tombstoneExpired cfg now (index0 zero_JobRecord js k)}"
  using assms
proof (induction ks arbitrary: js ids pruned)
  case Nil
  then show ?case by simp
next
  case (Cons j ks)
  show ?case
  proof (cases "tombstoneExpired cfg now (index0 zero_JobRecord js j)")
    case True
    with Cons.prems obtain p where "pruneTombstones cfg now ks (fmdrop j js) = (ids, p, js')"
      by (auto split: prod.splits)
    note IH = Cons.IH [OF this]
    have "index0 zero_JobRecord (fmdrop j js) i = index0 zero_JobRecord js i" if "i \<in> set ks" for i
      using that Cons.prems(2) by (auto simp: index0_def)
    with IH Cons.prems(2) True show ?thesis by (auto split: if_splits)
  next
    case False
    with Cons.prems obtain ids' where ids: "ids = j # ids'"
      and "pruneTombstones cfg now ks js = (ids', pruned, js')" by (auto split: prod.splits)
    note IH = Cons.IH [OF this(2)]
    with Cons.prems(2) False ids show ?thesis by auto
  qed
qed

lemma reconcileJob_tombstone:
  assumes "wf_jobs (mgr_jobs m)" and "fmlookup (mgr_jobs m) k = x"
    and "\<And>r. x = Some r \<Longrightarrow> rec_Status r = jobCompleted \<or> rec_Status r = jobRejected"
  shows "fmlookup (mgr_jobs (reconcileJob E now j m)) k = x"
proof (cases "j = k")
  case True
  with assms(2,3) show ?thesis by (cases x) (auto simp: reconcileJob_def)
next
  case False
  with only_reconcileJob [OF assms(1), of j E now] assms(2) show ?thesis by (simp add: only_def)
qed

lemma fold_reconcileJob_tombstone:
  assumes "wf_jobs (mgr_jobs m)" "wf_config (mgr_cfg m)" and "known_heartbeats E K"
    and "known_nodes K (mgr_server m)" and "fmlookup (mgr_jobs m) k = x"
    and "\<And>r. x = Some r \<Longrightarrow> rec_Status r = jobCompleted \<or> rec_Status r = jobRejected"
  shows "fmlookup (mgr_jobs (fold (reconcileJob E now) ids m)) k = x"
  using assms
proof (induction ids arbitrary: m)
  case (Cons j ids)
  have st: "lsteps E K m (reconcileJob E now j m)"
    using Cons.prems by (intro lsteps_reconcileJob) auto
  note keep = lsteps_wf [OF st] lsteps_known_nodes [OF st] lsteps_cfg [OF st]
    reconcileJob_tombstone [of m k x E now j]
  have "fmlookup (mgr_jobs (fold (reconcileJob E now) ids (reconcileJob E now j m))) k = x"
    by (rule Cons.IH) (use Cons.prems keep in auto)
  then show ?case by simp
qed simp

lemma reconcile_tombstone:
  assumes wf: "wf_jobs (mgr_jobs m)" "wf_config (mgr_cfg m)" and K: "known_heartbeats E K"
    "known_nodes K (mgr_server m)" and r: "fmlookup (mgr_jobs m) k = Some r"
    "rec_Status r = jobCompleted \<or> rec_Status r = jobRejected"
  shows "fmlookup (mgr_jobs (reconcile E now m)) k =
     (if time_Sub now (rec_UpdatedAt r) > cfg_TombstoneTTL (mgr_cfg m) then None else Some r)"
proof -
  let ?ks = "range_keys (env_rankJobs E (mgr_trace m)) (mgr_jobs m)"
  obtain ids pruned js where p: "pruneTombstones (mgr_cfg m) now ?ks (mgr_jobs m) = (ids, pruned, js)"
    using prod_cases3 by blast
  let ?m1 = "m\<lparr>mgr_jobs := js\<rparr>" and ?x = "if time_Sub now (rec_UpdatedAt r) > cfg_TombstoneTTL (mgr_cfg m)
    then None else Some r"
  let ?m2 = "if pruned then snd (saveLocked E ?m1) else ?m1"
  have k: "k \<in> set ?ks" using r(1) by (auto simp: fmlookup_dom_iff)
  have js: "fmlookup js k = ?x"
    using pruneTombstones_lookup [OF p, of k] k r by (simp add: tombstoneExpired_def)
  have "(job_step K (mgr_cfg m))\<^sup>*\<^sup>* (mgr_jobs m) js"
    using pruneTombstones_steps [OF p] by (auto simp: fmlookup_dom_iff)
  then have st: "lsteps E K m ?m1" by (rule lsteps_job_steps)
  then have "lsteps E K m ?m2" by auto
  note keep = lsteps_wf [OF this] lsteps_known_nodes [OF this K(1)] lsteps_cfg [OF this]
  have "fmlookup (mgr_jobs (fold (reconcileJob E now) ids ?m2)) k = ?x"
    by (rule fold_reconcileJob_tombstone [OF _ _ K(1)]) (use wf K keep js r(2) in \<open>auto split: if_splits\<close>)
  then show ?thesis by (simp add: reconcile_def p Let_def)
qed

section \<open>Placement with a fitting node\<close>

text \<open>The nodes that the scheduler is offered when a placement starts in this state.\<close>

definition offered :: "Env \<Rightarrow> Manager \<Rightarrow> Node list" where
  "offered E m =
     (let m1 = snd (Now E m) in
      map (applyReservation (reservations (env_rankJobs E (mgr_trace m1)) (mgr_jobs m)))
        (snapshotNodes (env_rankNames E (mgr_trace m1)) (mgr_server m1) (fst (Now E m))))"

lemma place_offered:
  "fst (place E req m) =
     (case Place req (offered E m) of
        Inl err \<Rightarrow> Inl err
      | Inr pl \<Rightarrow> (case find (\<lambda>n. node_ID n = pl_NodeID pl) (offered E m) of
                     Some node \<Rightarrow> Inr (pl, node) | None \<Rightarrow> Inl ErrNoPlacement))"
  unfolding place_def offered_def split_beta Let_def by (simp split: sum.split)

lemma place_container:
  assumes "n \<in> set (offered E m)" and "hosts req n b" and "req_Isolation req = IsolationContainer"
  shows "\<exists>pl node. fst (place E req m) = Inr (pl, node) \<and> pl_Backend pl = BackendDocker
     \<and> node \<in> set (offered E m) \<and> node_ID node = pl_NodeID pl"
proof -
  obtain pl where P: "Place req (offered E m) = Inr pl" using sched.place_succeeds_iff assms(1,2) by blast
  from sched.place_sound [OF P] obtain q where q: "q \<in> set (offered E m)" "hosts req q (pl_Backend pl)"
    "pl_NodeID pl = node_ID q" by blast
  then have "pl_Backend pl = BackendDocker"
    using selectBackend_offered assms(3) by (fastforce simp: hosts_def preferred_def)
  moreover have "find (\<lambda>n. node_ID n = pl_NodeID pl) (offered E m) \<noteq> None"
    using q by (auto simp: find_None_iff)
  ultimately show ?thesis
    using P by (auto simp: place_offered dest: find_SomeD)
qed

lemma tryProvision_healthy:
  assumes h: "healthy E run jit inst" and r: "fmlookup (mgr_jobs m) k = Some r" "rec_Status r = jobPending"
    and t: "trust_policy run (rec_Repository r)" and q: "reqOf E r m = Inr req"
    and n: "n \<in> set (offered E (afterRun E r m))" "hosts req n b" "req_Isolation req = IsolationContainer"
  shows "\<exists>node. node \<in> set (offered E (afterRun E r m)) \<and>
    tryProvision E k m = provisionOn E k node (snd (Now E (afterRun E r m)))"
proof -
  obtain pl node where pl: "fst (place E req (afterRun E r m)) = Inr (pl, node)"
    "pl_Backend pl = BackendDocker" "node \<in> set (offered E (afterRun E r m))"
    using place_container [OF n] by blast
  have "gotRun E r m = Inr run" using h by (simp add: healthy_def)
  with r t q pl have "tryProvision E k m = provisionOn E k node (snd (Now E (afterRun E r m)))"
    by (simp add: tryProvision_def split_beta Let_def trustedWorkflowRun_policy)
  with pl(3) show ?thesis by blast
qed

section \<open>Deadlines and cleanup\<close>

lemma completeJob_result:
  assumes "fmlookup (mgr_jobs m) k = Some r"
  shows "fmlookup (mgr_jobs (snd (completeJob E k m))) k =
     Some (r\<lparr>rec_Status := jobCompleted, rec_InstanceID := [], rec_UpdatedAt := env_clock E (mgr_trace m)\<rparr>)"
  using assms by (simp add: completeJob_def split_beta Let_def)

lemma completeJob_trace: "\<exists>es. mgr_trace (snd (completeJob E k m)) = mgr_trace m @ es"
  using saveLocked_trace [of E "setJob k ((job m k)\<lparr>rec_Status := jobCompleted, rec_InstanceID := [],
      rec_UpdatedAt := env_clock E (mgr_trace m)\<rparr>) (snd (Now E m))"]
  by (auto simp: completeJob_def split_beta Let_def)

lemma cleanupRecord_result:
  assumes "fmlookup (mgr_jobs m) (rec_JobID r) = Some r"
  shows "\<exists>t. fmlookup (mgr_jobs (snd (cleanupRecord E r m))) (rec_JobID r) =
     Some (if fst (destroyInstanceOf E (rec_JobID r) r m) = None
           then r\<lparr>rec_Status := jobCompleted, rec_InstanceID := [], rec_UpdatedAt := t\<rparr> else r)"
proof (cases "fst (destroyInstanceOf E (rec_JobID r) r m)")
  case None
  let ?m = "deleteRunnerOf E r (snd (destroyInstanceOf E (rec_JobID r) r m))"
  have run: "snd (cleanupRecord E r m) = snd (completeJob E (rec_JobID r) ?m)"
    using None by (simp add: cleanupRecord_def split_beta Let_def)
  have "fmlookup (mgr_jobs ?m) (rec_JobID r) = Some r" using assms by simp
  from completeJob_result [OF this, of E] show ?thesis unfolding run None by (intro exI) simp
next
  case (Some err)
  with assms show ?thesis by (simp add: cleanupRecord_def split_beta Let_def)
qed

section \<open>Recovery with an empty node table\<close>

fun is_destroy :: "effect \<Rightarrow> bool" where
  "is_destroy (EDestroy node i res) = True"
| "is_destroy e = False"

definition no_nodes :: "Env \<Rightarrow> Manager \<Rightarrow> bool" where
  "no_nodes E m \<longleftrightarrow> srv_nodes (mgr_server m) = fmempty \<and> (\<forall>tr. env_heartbeats E tr = [])"

lemma no_nodes_perform [simp]: "no_nodes E (perform E e m) = no_nodes E m"
  by (auto simp: no_nodes_def perform_def)

lemma no_nodes_setJob [simp]: "no_nodes E (setJob k r m) = no_nodes E m"
  by (simp add: no_nodes_def)

lemma no_nodes_save [simp]: "no_nodes E (snd (saveLocked E m)) = no_nodes E m"
  by (rule saveLocked_cases [of m E]) auto

lemma range_keys_empty: "range_keys rank fmempty = []"
  by (simp add: range_keys_def sorted_list_of_fset_def)

lemma no_nodes_offered: "no_nodes E m \<Longrightarrow> offered E m = []"
  by (simp add: offered_def Let_def no_nodes_def snapshotNodes_def range_keys_empty SliceStable_def call_states
      perform_def)

lemma tryProvision_no_nodes:
  assumes "no_nodes E m" and "fmlookup (mgr_jobs m) k = Some r" "rec_Status r = jobPending"
  shows "\<exists>r'. fmlookup (mgr_jobs (snd (tryProvision E k m))) k = Some r' \<and> rec_NodeID r' = rec_NodeID r \<and>
     (\<exists>es. mgr_trace (snd (tryProvision E k m)) = mgr_trace m @ es \<and> (\<forall>e \<in> set es. \<not> is_destroy e))"
proof (rule tryProvision_cases [of E k m])
  have unplaced: "fst (place E req (afterRun E r m)) = Inl ErrNoPlacement" for req
    using no_nodes_offered [of E "afterRun E r m"] assms(1)
    by (simp add: place_offered sched.place_empty call_states)
  have harmless: "\<not> is_destroy e" if "file_effect e" for e using that by (cases e) auto
  have rejected: "\<exists>r'. fmlookup (mgr_jobs (snd (rejectJob E k (afterRun E r m)))) k = Some r' \<and>
     rec_NodeID r' = rec_NodeID r \<and> (\<exists>es. mgr_trace (snd (rejectJob E k (afterRun E r m))) = mgr_trace m @ es \<and>
       (\<forall>e \<in> set es. \<not> is_destroy e))"
    using rejectJob_result [of "afterRun E r m" k r E] assms(2) harmless by (force simp: call_states)
  show ?thesis if "fmlookup (mgr_jobs m) k = Some r'" "tryProvision E k m = rejectJob E k (afterRun E r' m)" for r'
    using that assms rejected by auto
  show ?thesis if "fmlookup (mgr_jobs m) k = Some r'" "tryProvision E k m =
      (case fst (rejectJob E k (afterRun E r' m)) of Some e \<Rightarrow> Some e | None \<Rightarrow> Some err,
       snd (rejectJob E k (afterRun E r' m)))" for r' err
    using that assms rejected by auto
qed (use assms in \<open>auto simp: call_states place_offered no_nodes_offered sched.place_empty\<close>)

section \<open>Completion of a known job\<close>

lemma completed_known:
  assumes "0 < k" and "fmlookup (mgr_jobs m) k = Some r" and "rec_Status r \<noteq> jobCompleted"
    and "rec_NodeID r \<noteq> []" and "rawNode m (rec_NodeID r) = Some node"
    and "wj_ID (ev_Job event) = k" and "d = env_destroy E (mgr_trace m) node (instanceOf k r)"
  shows "\<exists>t rest. mgr_trace (snd (handleCompleted E event m)) = mgr_trace m @ EDestroy node (instanceOf k r) d # rest \<and>
     (case d of
        None \<Rightarrow>
          fmlookup (mgr_jobs (snd (handleCompleted E event m))) k =
            Some (r\<lparr>rec_Status := jobCompleted, rec_InstanceID := [], rec_UpdatedAt := t\<rparr>) \<and>
          (0 < rec_RunnerID r \<longrightarrow> (\<exists>x. EDeleteRunner (rec_InstallationID r) (rec_Owner r) (rec_Repo r)
             (rec_RunnerID r) x \<in> set rest))
      | Some err \<Rightarrow>
          fmlookup (mgr_jobs (snd (handleCompleted E event m))) k =
            Some (r\<lparr>rec_Status := jobCleanupPending, rec_UpdatedAt := t\<rparr>) \<and>
          fst (handleCompleted E event m) \<noteq> None)"
proof -
  let ?m1 = "perform E (EDestroy node (instanceOf k r) d) m"
  have D: "destroyInstanceOf E k r m = (d, ?m1)"
    using assms by (simp add: destroyInstanceOf_def DestroyInstance_def Let_def)
  show ?thesis
  proof (cases d)
    case None
    let ?m2 = "deleteRunnerOf E r ?m1"
    have run: "handleCompleted E event m = completeJob E k ?m2"
      using assms(1,2,3,6) D None by (simp add: handleCompleted_def Let_def)
    obtain ds where ds: "mgr_trace ?m2 = mgr_trace ?m1 @ ds"
      "0 < rec_RunnerID r \<Longrightarrow> \<exists>x. EDeleteRunner (rec_InstallationID r) (rec_Owner r) (rec_Repo r) (rec_RunnerID r) x \<in> set ds"
      by (cases "0 < rec_RunnerID r") (auto simp: deleteRunnerOf_def call_states)
    obtain ss where "mgr_trace (snd (completeJob E k ?m2)) = mgr_trace ?m2 @ ss"
      using completeJob_trace by blast
    moreover have "fmlookup (mgr_jobs ?m2) k = Some r" using assms(2) by simp
    ultimately show ?thesis unfolding run using None ds completeJob_result [of ?m2 k r E]
      by (intro exI [of _ "env_clock E (mgr_trace ?m2)"] exI [of _ "ds @ ss"]) auto
  next
    case (Some err)
    let ?t = "env_clock E (mgr_trace ?m1)"
    let ?s = "saveLocked E (setJob k (r\<lparr>rec_Status := jobCleanupPending, rec_UpdatedAt := ?t\<rparr>) (snd (Now E ?m1)))"
    have run: "handleCompleted E event m = (case fst ?s of Some e \<Rightarrow> Some e | None \<Rightarrow> Some err, snd ?s)"
      using assms(1,2,3,6) D Some by (simp add: handleCompleted_def Let_def split_beta)
    obtain ss where "mgr_trace (snd ?s) = mgr_trace ?m1 @ EClock ?t # ss"
      using saveLocked_trace [of E "setJob k (r\<lparr>rec_Status := jobCleanupPending, rec_UpdatedAt := ?t\<rparr>) (snd (Now E ?m1))"]
      by auto
    then show ?thesis unfolding run using Some
      by (intro exI [of _ ?t] exI [of _ "EClock ?t # ss"]) (auto split: option.splits)
  qed
qed

section \<open>Restart\<close>

lemma tearDown_no_nodes:
  assumes "no_nodes E m"
  shows "\<exists>es. mgr_trace (tearDown E r m) = mgr_trace m @ es \<and> (\<forall>e \<in> set es. \<not> is_destroy e)"
    and "no_nodes E (tearDown E r m)"
  using assms by (auto simp: tearDown_def deleteRunnerOf_def rawNode_def no_nodes_def call_states perform_def)

lemma recoverProvisioning_no_nodes:
  assumes "no_nodes E m" and "fmlookup (mgr_jobs m) (rec_JobID r) = Some r" and "rec_Status r = jobProvisioning"
  shows "\<exists>r' es. fmlookup (mgr_jobs (snd (recoverProvisioning E r m))) (rec_JobID r) = Some r' \<and> rec_NodeID r' = [] \<and>
     mgr_trace (snd (recoverProvisioning E r m)) = mgr_trace m @ es \<and> (\<forall>e \<in> set es. \<not> is_destroy e)"
proof -
  let ?k = "rec_JobID r" and ?m1 = "tearDown E r m"
  let ?t = "env_clock E (mgr_trace ?m1)"
  let ?m2 = "setJob ?k (pendingAgain ?t r) (snd (Now E ?m1))"
  let ?m3 = "snd (saveLocked E ?m2)"
  obtain es1 where es1: "mgr_trace ?m1 = mgr_trace m @ es1" "\<forall>e \<in> set es1. \<not> is_destroy e"
    using tearDown_no_nodes(1) [OF assms(1)] by blast
  obtain es2 where es2: "mgr_trace ?m3 = mgr_trace ?m2 @ es2" "\<forall>e \<in> set es2. file_effect e"
    using saveLocked_trace by blast
  have harmless: "\<not> is_destroy e" if "file_effect e" for e using that by (cases e) auto
  have m3: "mgr_trace ?m3 = mgr_trace m @ es1 @ EClock ?t # es2" using es1 es2 by simp
  have r3: "fmlookup (mgr_jobs ?m3) ?k = Some (pendingAgain ?t r)"
    "rec_Status (pendingAgain ?t r) = jobPending" "rec_NodeID (pendingAgain ?t r) = []"
    by (simp_all add: pendingAgain_def)
  have run: "snd (recoverProvisioning E r m) = (if fst (saveLocked E ?m2) = None then snd (tryProvision E ?k ?m3) else ?m3)"
    using assms(2,3) by (auto simp: recoverProvisioning_def split_beta Let_def split: option.split)
  have "no_nodes E ?m3" using tearDown_no_nodes(2) [OF assms(1), of r] by (simp add: call_states)
  from tryProvision_no_nodes [OF this r3(1,2)] r3(3) obtain r' es3 where
    tp: "fmlookup (mgr_jobs (snd (tryProvision E ?k ?m3))) ?k = Some r'" "rec_NodeID r' = []"
    "mgr_trace (snd (tryProvision E ?k ?m3)) = mgr_trace ?m3 @ es3" "\<forall>e \<in> set es3. \<not> is_destroy e" by auto
  have quiet: "\<forall>e \<in> set (es1 @ EClock ?t # es2). \<not> is_destroy e" using es1(2) es2(2) harmless by auto
  show ?thesis
  proof (cases "fst (saveLocked E ?m2) = None")
    case True
    then have "snd (recoverProvisioning E r m) = snd (tryProvision E ?k ?m3)" unfolding run by (rule if_P)
    with tp m3 quiet show ?thesis
      by (intro exI [of _ r'] exI [of _ "es1 @ EClock ?t # es2 @ es3"]) auto
  next
    case False
    then have "snd (recoverProvisioning E r m) = ?m3" unfolding run by (rule if_not_P)
    with r3(1,3) m3 quiet show ?thesis
      by (intro exI [of _ "pendingAgain ?t r"] exI [of _ "es1 @ EClock ?t # es2"]) simp
  qed
qed

lemma boot_no_nodes:
  "bootManager E cfg ttl d tr = Inr m \<Longrightarrow> (\<forall>tr. env_heartbeats E tr = []) \<Longrightarrow> no_nodes E m"
  using boot_manager(2) by (fastforce simp: no_nodes_def NewServer_def)

end
