(* ===== verification/Sample_Run.thy ===== *)
theory Sample_Run
  imports Runner_Safety Runner_Behaviour
begin

text \<open>
  A concrete run of the system, for the witnesses: the worker of the repository's tests
  registers, a queued job of a trusted push arrives and is provisioned, and the controller is
  killed and started again. The world answers every call with success; \<open>brokenEnv\<close> is the same world
  with an agent that refuses to create containers.
\<close>

definition okEnv :: Env where
  "okEnv =
     \<lparr>env_getRun = (\<lambda>_ _ _ _ _. Inr trusted_push),
      env_jit = (\<lambda>_ _ _ _ _ _ _. Inr \<lparr>jit_RunnerID = 77, jit_EncodedConfig = ''jit-secret''\<rparr>),
      env_deleteRunner = (\<lambda>_ _ _ _ _. None),
      env_create = (\<lambda>_ _ _. Inr \<lparr>inst_ID = ''container123'', inst_Backend = BackendDocker,
        inst_NodeID = ''e5'', inst_Deadline = 0\<rparr>),
      env_destroy = (\<lambda>_ _ _. None), env_clock = (\<lambda>tr. 2000 + int (length tr)),
      env_mkdir = (\<lambda>_. None), env_marshal = (\<lambda>_ _. None), env_write = (\<lambda>_. None),
      env_rename = (\<lambda>_. None), env_read = (\<lambda>_. None), env_rankJobs = (\<lambda>_ _. 0),
      env_rankNames = (\<lambda>_ _. 0), env_heartbeats = (\<lambda>_. [])\<rparr>"

definition brokenEnv :: Env where
  "brokenEnv = okEnv\<lparr>env_create := (\<lambda>_ _ _. Inl (Errorf ''agent unreachable''))\<rparr>"

definition forkEnv :: Env where
  "forkEnv = okEnv\<lparr>env_getRun := (\<lambda>_ _ _ _ _. Inr fork_pull_run)\<rparr>"

definition cfg0 :: RunnerManagerConfig where
  "cfg0 =
     \<lparr>cfg_MarkerLabel = [], cfg_RunnerGroupID = 0, cfg_RunnerImage = [], cfg_RunnerCPU = 2,
      cfg_RunnerMemoryM = 1024, cfg_RunnerTimeout = Hour, cfg_StateFile = ''/state'',
      cfg_RetryInterval = 0, cfg_TombstoneTTL = 0, cfg_QueueSize = 0\<rparr>"

definition queued12 :: WorkflowJobEvent where
  "queued12 =
     \<lparr>ev_DeliveryID = ''d-1'', ev_Action = ''queued'', ev_InstallationID = 42,
      ev_Repository = \<lparr>repo_FullName = ''fangbm/CIFleet'', repo_Owner = ''fangbm'',
        repo_Name = ''CIFleet'', repo_Private = False\<rparr>,
      ev_Job = \<lparr>wj_ID = 12, wj_RunID = 10, wj_Name = ''build'',
        wj_Labels = [''self-hosted'', ''cifleet'', ''linux-x64''], wj_RunnerName = []\<rparr>\<rparr>"

definition completed12 :: WorkflowJobEvent where
  "completed12 = queued12\<lparr>ev_Action := ''completed''\<rparr>"

definition booted :: Manager where
  "booted = \<lparr>mgr_cfg = defaultConfig cfg0, mgr_jobs = fmempty, mgr_queue = [],
     mgr_server = NewServer [], mgr_disk = emptyDisk, mgr_trace = []\<rparr>"

definition joined :: Manager where
  "joined = booted\<lparr>mgr_server := snd (heartbeat (Some e5_node) None 1000 (mgr_server booted))\<rparr>"

definition submitted :: Manager where
  "submitted = snd (Submit queued12 joined)"

definition provisioned :: Manager where
  "provisioned = snd (Process okEnv queued12 (submitted\<lparr>mgr_queue := []\<rparr>))"

text \<open>The fleet: every node has the totals of \<open>e5\<close>.\<close>

definition fleet :: "string \<Rightarrow> Capacity \<Rightarrow> bool" where
  "fleet = total_is (\<lambda>_. 12) (\<lambda>_. 32768)"

lemma okEnv_known [simp]: "known_heartbeats okEnv K" "known_heartbeats brokenEnv K"
    "known_heartbeats forkEnv K"
  by (simp_all add: known_heartbeats_def okEnv_def brokenEnv_def forkEnv_def)

lemma reach_booted: "reach okEnv K cfg0 [] booted"
  by (rule reach.boot) (simp add: bootManager_def NewRunnerManager_def loadState_def booted_def
      emptyDisk_def)

lemma reach_joined: "reach okEnv fleet cfg0 [] joined"
  unfolding joined_def
  by (rule reach.run [OF reach_booted sys_step.beat])
     (simp add: fleet_def total_is_def e5_node_def in_int64_def)

lemma reach_submitted: "reach okEnv fleet cfg0 [] submitted"
  unfolding submitted_def by (rule reach.run [OF reach_joined sys_step.submit])

lemma submitted_queue: "mgr_queue submitted = [queued12]"
  by code_simp

lemma reach_provisioned: "reach okEnv fleet cfg0 [] provisioned"
  unfolding provisioned_def
  by (rule reach.run [OF reach_submitted sys_step.deliver]) (simp add: submitted_queue)

definition record12 :: JobRecord where
  "record12 =
     \<lparr>rec_JobID = 12, rec_RunID = 10, rec_InstallationID = 42, rec_Repository = ''fangbm/CIFleet'',
      rec_Owner = ''fangbm'', rec_Repo = ''CIFleet'',
      rec_Labels = [''self-hosted'', ''cifleet'', ''linux-x64''], rec_Status = ''running'',
      rec_NodeID = ''e5'', rec_InstanceID = ''container123'', rec_RunnerName = ''cifleet-e5-12-a1'',
      rec_RunnerID = 77, rec_CPU = 2, rec_MemoryM = 1024, rec_Attempt = 1,
      rec_Deadline = 2007 + Hour, rec_UpdatedAt = 2012\<rparr>"

lemma provisioned_record: "fmlookup (mgr_jobs provisioned) 12 = Some record12"
  by code_simp

lemma provisioned_jobs: "mgr_jobs provisioned = fmupd 12 record12 fmempty"
proof (rule fmap_ext)
  fix k
  have "range_keys (\<lambda>_. 0) (mgr_jobs provisioned) = [12]" by code_simp
  then have "fmlookup (mgr_jobs provisioned) k \<noteq> None \<longleftrightarrow> k = 12"
    using range_keys_lookup [of k "\<lambda>_. 0" "mgr_jobs provisioned"] by (simp del: set_range_keys)
  then show "fmlookup (mgr_jobs provisioned) k = fmlookup (fmupd 12 record12 fmempty) k"
    by (cases "k = 12") (simp_all add: provisioned_record)
qed

text \<open>The trace of the run has a JIT generation at position 6 and a container creation at 11.\<close>

fun is_create :: "effect \<Rightarrow> bool" where
  "is_create (ECreate node spec res) = True"
| "is_create e = False"

fun is_jit :: "effect \<Rightarrow> bool" where
  "is_jit (EJIT i ow rp name g labels res) = True"
| "is_jit e = False"

lemma provisioned_effects:
  "map (\<lambda>e. (is_jit e, is_create e)) (mgr_trace provisioned) =
     map (\<lambda>i. (i = 6, i = 11)) [0..<16]"
  by code_simp

lemma provisioned_at:
  assumes "i < 16"
  shows "mgr_trace provisioned = take i (mgr_trace provisioned) @ mgr_trace provisioned ! i #
      drop (Suc i) (mgr_trace provisioned)
    \<and> is_jit (mgr_trace provisioned ! i) = (i = 6) \<and> is_create (mgr_trace provisioned ! i) = (i = 11)"
proof -
  have len: "length (mgr_trace provisioned) = 16"
    using arg_cong [OF provisioned_effects, of length] by simp
  have "map (\<lambda>e. (is_jit e, is_create e)) (mgr_trace provisioned) ! i = (i = 6, i = 11)"
    using assms by (simp add: provisioned_effects del: upt.simps)
  with assms len show ?thesis by (simp add: id_take_nth_drop)
qed

lemma provisioned_create:
  "\<exists>before node spec res after. mgr_trace provisioned = before @ ECreate node spec res # after"
proof -
  have "is_create (mgr_trace provisioned ! 11)" using provisioned_at [of 11] by simp
  with provisioned_at [of 11] show ?thesis by (cases "mgr_trace provisioned ! 11"; simp; blast)
qed

lemma provisioned_jit:
  "\<exists>before i ow rp name g labels res after.
     mgr_trace provisioned = before @ EJIT i ow rp name g labels res # after"
proof -
  have "is_jit (mgr_trace provisioned ! 6)" using provisioned_at [of 6] by simp
  with provisioned_at [of 6] show ?thesis by (cases "mgr_trace provisioned ! 6"; simp; blast)
qed

lemma provisioned_node: "\<exists>node. fmlookup (srv_nodes (mgr_server provisioned)) ''e5'' = Some node"
proof -
  have "fmlookup (srv_nodes (mgr_server provisioned)) ''e5'' \<noteq> None" by code_simp
  then show ?thesis by simp
qed

end
