(* ===== verification/State_File.thy ===== *)
theory State_File
  imports Job_Store
begin

text \<open>
  The bytes of the state file: what \<open>json.MarshalIndent\<close> writes for the job table in \<open>saveLocked\<close>, and what
  \<open>json.Unmarshal\<close> makes of the bytes in \<open>loadState\<close> (\<open>src/internal/controller/github_state.go\<close>, with the tags of
  \<open>JobRecord\<close> in \<open>github_jobs.go\<close>). \<open>Job_Store\<close> has a \<open>document\<close> in the file; here is the text that stands for it, and that a
  table is read as it was written.
\<close>

section \<open>Writing\<close>

definition timeJSON :: "time \<Rightarrow> json" where
  "timeJSON t = JStr (formatRFC3339 t)"

definition recordMembers :: "JobRecord \<Rightarrow> (string \<times> json) list" where
  "recordMembers r =
     [(''job_id'', intJSON (rec_JobID r)), (''run_id'', intJSON (rec_RunID r)),
      (''installation_id'', intJSON (rec_InstallationID r)), (''repository'', JStr (rec_Repository r)),
      (''owner'', JStr (rec_Owner r)), (''repo'', JStr (rec_Repo r)), (''labels'', stringsJSON (rec_Labels r)),
      (''status'', JStr (rec_Status r))] @
     member_unless (rec_NodeID r = []) ''node_id'' (JStr (rec_NodeID r)) @
     member_unless (rec_InstanceID r = []) ''instance_id'' (JStr (rec_InstanceID r)) @
     member_unless (rec_RunnerName r = []) ''runner_name'' (JStr (rec_RunnerName r)) @
     member_unless (rec_RunnerID r = 0) ''runner_id'' (intJSON (rec_RunnerID r)) @
     member_unless (rec_CPU r = 0) ''cpu'' (intJSON (rec_CPU r)) @
     member_unless (rec_MemoryM r = 0) ''memory_mb'' (intJSON (rec_MemoryM r)) @
     member_unless (rec_Attempt r = 0) ''attempt'' (intJSON (rec_Attempt r)) @
     [(''deadline'', timeJSON (rec_Deadline r)), (''updated_at'', timeJSON (rec_UpdatedAt r))]"

text \<open>The keys of a map are written as texts, in the order of the texts.\<close>

definition jobsMembers :: "jobs \<Rightarrow> (string \<times> json) list" where
  "jobsMembers js =
     map (\<lambda>k. (FormatInt k, JObj (recordMembers (the (fmlookup js k)))))
       (sort_key FormatInt (sorted_list_of_fset (fmdom js)))"

definition stateText :: "jobs \<Rightarrow> string" where
  "stateText js = indent_json (JObj [(''jobs'', JObj (jobsMembers js))]) 0"

section \<open>Reading\<close>

definition recordFields :: "(string \<times> JobRecord setter) list" where
  "recordFields =
     [(''job_id'', set_int (\<lambda>x r. r\<lparr>rec_JobID := x\<rparr>)),
      (''run_id'', set_int (\<lambda>x r. r\<lparr>rec_RunID := x\<rparr>)),
      (''installation_id'', set_int (\<lambda>x r. r\<lparr>rec_InstallationID := x\<rparr>)),
      (''repository'', set_string (\<lambda>x r. r\<lparr>rec_Repository := x\<rparr>)),
      (''owner'', set_string (\<lambda>x r. r\<lparr>rec_Owner := x\<rparr>)),
      (''repo'', set_string (\<lambda>x r. r\<lparr>rec_Repo := x\<rparr>)),
      (''labels'', set_strings rec_Labels (\<lambda>x r. r\<lparr>rec_Labels := x\<rparr>)),
      (''status'', set_string (\<lambda>x r. r\<lparr>rec_Status := x\<rparr>)),
      (''node_id'', set_string (\<lambda>x r. r\<lparr>rec_NodeID := x\<rparr>)),
      (''instance_id'', set_string (\<lambda>x r. r\<lparr>rec_InstanceID := x\<rparr>)),
      (''runner_name'', set_string (\<lambda>x r. r\<lparr>rec_RunnerName := x\<rparr>)),
      (''runner_id'', set_int (\<lambda>x r. r\<lparr>rec_RunnerID := x\<rparr>)),
      (''cpu'', set_int (\<lambda>x r. r\<lparr>rec_CPU := x\<rparr>)),
      (''memory_mb'', set_int (\<lambda>x r. r\<lparr>rec_MemoryM := x\<rparr>)),
      (''attempt'', set_int (\<lambda>x r. r\<lparr>rec_Attempt := x\<rparr>)),
      (''deadline'', set_time (\<lambda>x r. r\<lparr>rec_Deadline := x\<rparr>)),
      (''updated_at'', set_time (\<lambda>x r. r\<lparr>rec_UpdatedAt := x\<rparr>))]"

text \<open>A map with numbers as keys; every value starts from a zero record.\<close>

fun decode_jobs :: "(string \<times> json) list \<Rightarrow> jobs \<Rightarrow> jobs option" where
  "decode_jobs [] js = Some js"
| "decode_jobs ((k, v) # ms) js =
     (case ParseInt k of
        None \<Rightarrow> None
      | Some jobID \<Rightarrow>
      case decode_struct False recordFields v zero_JobRecord of
        None \<Rightarrow> None
      | Some r \<Rightarrow> decode_jobs ms (fmupd jobID r js))"

definition set_jobs :: "jobs option setter" where
  "set_jobs v js =
     (case v of
        JNull \<Rightarrow> Some None
      | JObj ms \<Rightarrow> map_option Some (decode_jobs ms (case js of None \<Rightarrow> fmempty | Some m \<Rightarrow> m))
      | _ \<Rightarrow> None)"

text \<open>The document in a file with these bytes; \<open>jsonErr\<close> is the error of the decoder on bytes that it refuses.\<close>

definition decodeState :: "(string \<Rightarrow> goerror) \<Rightarrow> string \<Rightarrow> document" where
  "decodeState jsonErr data =
     (case parse_json data of
        None \<Rightarrow> Malformed (jsonErr data)
      | Some v \<Rightarrow>
          (case decode_struct False [(''jobs'', set_jobs)] v None of
             None \<Rightarrow> Malformed (jsonErr data)
           | Some js \<Rightarrow> JobsDoc js))"

section \<open>Round trip\<close>

definition record_ok :: "JobRecord \<Rightarrow> bool" where
  "record_ok r \<longleftrightarrow>
     in_int64 (rec_JobID r) \<and> in_int64 (rec_RunID r) \<and> in_int64 (rec_InstallationID r) \<and> in_int64 (rec_RunnerID r) \<and>
     in_int64 (rec_CPU r) \<and> in_int64 (rec_MemoryM r) \<and> in_int64 (rec_Attempt r) \<and>
     json_year (rec_Deadline r) \<and> json_year (rec_UpdatedAt r)"

definition jobs_ok :: "jobs \<Rightarrow> bool" where
  "jobs_ok js \<longleftrightarrow> fmpred (\<lambda>k r. in_int64 k \<and> record_ok r) js"

lemma recordFields_find:
  "find_field recordFields ''job_id'' = Some (set_int (\<lambda>x r. r\<lparr>rec_JobID := x\<rparr>))"
  "find_field recordFields ''run_id'' = Some (set_int (\<lambda>x r. r\<lparr>rec_RunID := x\<rparr>))"
  "find_field recordFields ''installation_id'' = Some (set_int (\<lambda>x r. r\<lparr>rec_InstallationID := x\<rparr>))"
  "find_field recordFields ''repository'' = Some (set_string (\<lambda>x r. r\<lparr>rec_Repository := x\<rparr>))"
  "find_field recordFields ''owner'' = Some (set_string (\<lambda>x r. r\<lparr>rec_Owner := x\<rparr>))"
  "find_field recordFields ''repo'' = Some (set_string (\<lambda>x r. r\<lparr>rec_Repo := x\<rparr>))"
  "find_field recordFields ''labels'' = Some (set_strings rec_Labels (\<lambda>x r. r\<lparr>rec_Labels := x\<rparr>))"
  "find_field recordFields ''status'' = Some (set_string (\<lambda>x r. r\<lparr>rec_Status := x\<rparr>))"
  "find_field recordFields ''node_id'' = Some (set_string (\<lambda>x r. r\<lparr>rec_NodeID := x\<rparr>))"
  "find_field recordFields ''instance_id'' = Some (set_string (\<lambda>x r. r\<lparr>rec_InstanceID := x\<rparr>))"
  "find_field recordFields ''runner_name'' = Some (set_string (\<lambda>x r. r\<lparr>rec_RunnerName := x\<rparr>))"
  "find_field recordFields ''runner_id'' = Some (set_int (\<lambda>x r. r\<lparr>rec_RunnerID := x\<rparr>))"
  "find_field recordFields ''cpu'' = Some (set_int (\<lambda>x r. r\<lparr>rec_CPU := x\<rparr>))"
  "find_field recordFields ''memory_mb'' = Some (set_int (\<lambda>x r. r\<lparr>rec_MemoryM := x\<rparr>))"
  "find_field recordFields ''attempt'' = Some (set_int (\<lambda>x r. r\<lparr>rec_Attempt := x\<rparr>))"
  "find_field recordFields ''deadline'' = Some (set_time (\<lambda>x r. r\<lparr>rec_Deadline := x\<rparr>))"
  "find_field recordFields ''updated_at'' = Some (set_time (\<lambda>x r. r\<lparr>rec_UpdatedAt := x\<rparr>))"
  by (simp_all add: recordFields_def find_field_def)

text \<open>Each member that may be left out sets its field, which is zero before, to the value it had.\<close>

lemma decode_record_optional:
  "rec_NodeID r = [] \<Longrightarrow> decode_fields False recordFields (member_unless (s = []) ''node_id'' (JStr s)) r = Some (r\<lparr>rec_NodeID := s\<rparr>)"
  "rec_InstanceID r = [] \<Longrightarrow> decode_fields False recordFields (member_unless (s = []) ''instance_id'' (JStr s)) r = Some (r\<lparr>rec_InstanceID := s\<rparr>)"
  "rec_RunnerName r = [] \<Longrightarrow> decode_fields False recordFields (member_unless (s = []) ''runner_name'' (JStr s)) r = Some (r\<lparr>rec_RunnerName := s\<rparr>)"
  "rec_RunnerID r = 0 \<Longrightarrow> in_int64 n \<Longrightarrow> decode_fields False recordFields (member_unless (n = 0) ''runner_id'' (intJSON n)) r = Some (r\<lparr>rec_RunnerID := n\<rparr>)"
  "rec_CPU r = 0 \<Longrightarrow> in_int64 n \<Longrightarrow> decode_fields False recordFields (member_unless (n = 0) ''cpu'' (intJSON n)) r = Some (r\<lparr>rec_CPU := n\<rparr>)"
  "rec_MemoryM r = 0 \<Longrightarrow> in_int64 n \<Longrightarrow> decode_fields False recordFields (member_unless (n = 0) ''memory_mb'' (intJSON n)) r = Some (r\<lparr>rec_MemoryM := n\<rparr>)"
  "rec_Attempt r = 0 \<Longrightarrow> in_int64 n \<Longrightarrow> decode_fields False recordFields (member_unless (n = 0) ''attempt'' (intJSON n)) r = Some (r\<lparr>rec_Attempt := n\<rparr>)"
  by (auto simp: member_unless_def recordFields_find)

lemma decode_record_head:
  assumes "in_int64 a" "in_int64 b" "in_int64 c" "rec_Labels r = []"
  shows "decode_fields False recordFields
     [(''job_id'', intJSON a), (''run_id'', intJSON b), (''installation_id'', intJSON c), (''repository'', JStr d),
      (''owner'', JStr e), (''repo'', JStr f), (''labels'', stringsJSON g), (''status'', JStr h)] r =
     Some (r\<lparr>rec_JobID := a, rec_RunID := b, rec_InstallationID := c, rec_Repository := d, rec_Owner := e, rec_Repo := f,
       rec_Labels := g, rec_Status := h\<rparr>)"
  using assms by (simp add: recordFields_find set_stringsJSON)

lemma decode_record_times:
  "json_year d \<Longrightarrow> json_year u \<Longrightarrow>
   decode_fields False recordFields [(''deadline'', timeJSON d), (''updated_at'', timeJSON u)] r =
     Some (r\<lparr>rec_Deadline := d, rec_UpdatedAt := u\<rparr>)"
  by (simp add: recordFields_find timeJSON_def)

lemma decode_step:
  "decode_fields strict fs a r = Some r1 \<Longrightarrow> decode_fields strict fs b r1 = Some r2 \<Longrightarrow>
     decode_fields strict fs (a @ b) r = Some r2"
  by (simp add: decode_fields_append)

lemma decode_recordMembers:
  assumes "record_ok r"
  shows "decode_fields False recordFields (recordMembers r) zero_JobRecord = Some r"
proof -
  let ?z = "zero_JobRecord\<lparr>rec_JobID := rec_JobID r, rec_RunID := rec_RunID r, rec_InstallationID := rec_InstallationID r,
      rec_Repository := rec_Repository r, rec_Owner := rec_Owner r, rec_Repo := rec_Repo r, rec_Labels := rec_Labels r,
      rec_Status := rec_Status r, rec_NodeID := rec_NodeID r, rec_InstanceID := rec_InstanceID r,
      rec_RunnerName := rec_RunnerName r, rec_RunnerID := rec_RunnerID r, rec_CPU := rec_CPU r, rec_MemoryM := rec_MemoryM r,
      rec_Attempt := rec_Attempt r, rec_Deadline := rec_Deadline r, rec_UpdatedAt := rec_UpdatedAt r\<rparr>"
  have "decode_fields False recordFields (recordMembers r) zero_JobRecord = Some ?z"
    unfolding recordMembers_def
    by (intro decode_step [OF decode_record_head] decode_step [OF decode_record_optional(1)] decode_step [OF decode_record_optional(2)]
        decode_step [OF decode_record_optional(3)] decode_step [OF decode_record_optional(4)]
        decode_step [OF decode_record_optional(5)] decode_step [OF decode_record_optional(6)]
        decode_step [OF decode_record_optional(7)] decode_record_times)
      (use assms in \<open>simp_all add: record_ok_def zero_JobRecord_def\<close>)
  also have "?z = r" by (rule JobRecord.equality) simp_all
  finally show ?thesis .
qed

lemma list_all_member_unless: "list_all P (member_unless omit k v) \<longleftrightarrow> omit \<or> P (k, v)"
  by (simp add: member_unless_def)

lemma recordMembers_written: "kv \<in> set (recordMembers r) \<Longrightarrow> written (snd kv) \<and> nesting (snd kv) \<le> 1"
proof -
  have "list_all (\<lambda>kv. written (snd kv) \<and> nesting (snd kv) \<le> 1) (recordMembers r)"
    using stringsJSON_written [of "rec_Labels r"]
    by (simp add: recordMembers_def timeJSON_def list_all_member_unless)
  then show "kv \<in> set (recordMembers r) \<Longrightarrow> ?thesis" by (simp add: list_all_iff)
qed

lemma decode_jobs_list:
  assumes "distinct ks" "\<And>k. k \<in> set ks \<Longrightarrow> in_int64 k \<and> record_ok (f k)"
  shows "decode_jobs (map (\<lambda>k. (FormatInt k, JObj (recordMembers (f k)))) ks) js =
     Some (fold (\<lambda>(k, r). fmupd k r) (map (\<lambda>k. (k, f k)) ks) js)"
  using assms
proof (induction ks arbitrary: js)
  case (Cons k ks)
  then show ?case by (simp add: ParseInt_FormatInt decode_struct_def decode_recordMembers)
qed simp

lemma decode_jobsMembers:
  assumes "jobs_ok js"
  shows "decode_jobs (jobsMembers js) fmempty = Some js"
proof -
  let ?ks = "sort_key FormatInt (sorted_list_of_fset (fmdom js))"
  have ks: "distinct ?ks" "set ?ks = fset (fmdom js)" by (simp_all add: sorted_list_of_fset.rep_eq)
  have "in_int64 k \<and> record_ok (the (fmlookup js k))" if "k \<in> set ?ks" for k
    using that ks(2) assms by (auto simp: jobs_ok_def fmlookup_dom_iff dest: fmpredD)
  from decode_jobs_list [OF ks(1) this, of fmempty]
  have "decode_jobs (jobsMembers js) fmempty =
      Some (fold (\<lambda>(k, r). fmupd k r) (map (\<lambda>k. (k, the (fmlookup js k))) ?ks) fmempty)"
    by (simp add: jobsMembers_def)
  also have "fold (\<lambda>(k, r). fmupd k r) (map (\<lambda>k. (k, the (fmlookup js k))) ?ks) fmempty = js"
  proof (rule fmap_ext)
    fix x
    from fold_fmupd_lookup [OF ks(1), of "\<lambda>k. the (fmlookup js k)" fmempty x]
    show "fmlookup (fold (\<lambda>(k, r). fmupd k r) (map (\<lambda>k. (k, the (fmlookup js k))) ?ks) fmempty) x = fmlookup js x"
      unfolding ks(2) by (cases "fmlookup js x") (auto simp: fmdom_notI dest: fmdomI)
  qed
  finally show ?thesis .
qed

lemma stateText_parsed: "parse_json (stateText js) = Some (JObj [(''jobs'', JObj (jobsMembers js))])"
proof -
  have r: "written (JObj (recordMembers r)) \<and> nesting (JObj (recordMembers r)) \<le> Suc 1" for r
    unfolding nesting_JObj written_JObj using recordMembers_written by blast
  have "written (JObj (jobsMembers js)) \<and> nesting (JObj (jobsMembers js)) \<le> Suc (Suc 1)"
    unfolding nesting_JObj [of "jobsMembers js"] written_JObj [of "jobsMembers js"] using r
    by (auto simp: jobsMembers_def simp del: written.simps nesting.simps)
  then have "\<forall>kv \<in> set [(''jobs'', JObj (jobsMembers js))]. written (snd kv) \<and> nesting (snd kv) \<le> 9999"
    by (simp del: written.simps nesting.simps)
  from members_written [OF this] show ?thesis unfolding stateText_def by (intro parse_json_indented) blast+
qed

text \<open>The job table survives the state file byte by byte: for every table of records with 64-bit numbers and times up to
  the year 9999, whatever their texts, the bytes that a save writes are read by the next start as exactly this table.\<close>

lemma state_file_roundtrip:
  assumes "jobs_ok js"
  shows "decodeState jsonErr (stateText js) = JobsDoc (Some js)"
  using decode_jobsMembers [OF assms]
  by (simp add: decodeState_def stateText_parsed decode_struct_def find_field_def set_jobs_def)

text \<open>Whatever is read, its numbers are 64-bit numbers.\<close>

definition record_ints :: "JobRecord \<Rightarrow> bool" where
  "record_ints r \<longleftrightarrow>
     in_int64 (rec_JobID r) \<and> in_int64 (rec_RunID r) \<and> in_int64 (rec_InstallationID r) \<and> in_int64 (rec_RunnerID r) \<and>
     in_int64 (rec_CPU r) \<and> in_int64 (rec_MemoryM r) \<and> in_int64 (rec_Attempt r)"

lemma decode_record_typed:
  "decode_struct False recordFields v zero_JobRecord = Some r \<Longrightarrow> record_ints r"
proof -
  have "keeps record_ints (decode_struct False recordFields)"
    unfolding recordFields_def
    by (rule keeps_struct, simp only: list.pred_inject snd_conv, intro conjI keeps_intros) (simp_all add: record_ints_def)
  moreover have "record_ints zero_JobRecord" by (simp add: record_ints_def zero_JobRecord_def in_int64_def)
  ultimately show "decode_struct False recordFields v zero_JobRecord = Some r \<Longrightarrow> ?thesis" by (auto simp: keeps_def)
qed

lemma decode_jobs_typed:
  "decode_jobs ms js = Some js' \<Longrightarrow> fmpred (\<lambda>k r. in_int64 k \<and> record_ints r) js \<Longrightarrow>
     fmpred (\<lambda>k r. in_int64 k \<and> record_ints r) js'"
proof (induction ms js rule: decode_jobs.induct)
  case (2 k v ms js)
  then obtain jobID r where s: "ParseInt k = Some jobID" "decode_struct False recordFields v zero_JobRecord = Some r"
    "decode_jobs ms (fmupd jobID r js) = Some js'" by (auto split: option.splits)
  from 2(1) [OF s] s(1,2) "2.prems"(2) show ?case
    by (simp add: fmpred_upd ParseInt_int64 decode_record_typed)
qed simp

lemma decodeState_typed:
  assumes "decodeState jsonErr data = JobsDoc (Some js)"
  shows "fmpred (\<lambda>k r. in_int64 k \<and> record_ints r) js"
proof -
  let ?P = "\<lambda>saved. \<forall>js. saved = Some js \<longrightarrow> fmpred (\<lambda>k r. in_int64 k \<and> record_ints r) js"
  have "keeps ?P set_jobs"
    by (auto simp: keeps_def set_jobs_def split: json.splits option.splits intro: decode_jobs_typed)
  then have "keeps ?P (decode_struct False [(''jobs'', set_jobs)])" by (intro keeps_struct) simp
  then show ?thesis using assms by (auto simp: keeps_def decodeState_def split: option.splits)
qed

interpretation state: wire_format stateText
  "\<lambda>data. case decodeState (\<lambda>_. Errorf []) data of JobsDoc js \<Rightarrow> js | Malformed _ \<Rightarrow> None" jobs_ok
  by unfold_locales (simp add: state_file_roundtrip)

text \<open>Different tables are different files.\<close>

lemmas stateText_inject = state.enc_inject

end
