(* ===== verification/Runner_Properties.thy ===== *)
theory Runner_Properties
  imports Sample_Run State_File
begin

text \<open>
  The properties of the runner manager: safety of every run of the system, refinement of the life
  cycle, the behaviour of each operation on its branches, and persistence. The witnesses apply
  them to the run of \<open>Sample_Run\<close>.
\<close>

section \<open>Safety of every run\<close>

text \<open>C1: In every run of the controller, crashes and restarts included, if the heartbeats of a
  node always report the same totals, then the CPUs and the memory of the jobs that are
  provisioning, running or waiting for cleanup on a node never exceed what the node reports; this
  holds of the job table in memory and of the one in the state file.\<close>

theorem no_overcommit:
  assumes "reach E (total_is C M) cfg ttl m" and "known_heartbeats E (total_is C M)"
    and "js = mgr_jobs m \<or> dsk_state (mgr_disk m) = Some (JobsDoc (Some js))"
  shows "(0 < C nodeID \<longrightarrow> reservedCPU js nodeID \<le> C nodeID) \<and>
     (0 < M nodeID \<longrightarrow> reservedMemory js nodeID \<le> M nodeID)"
  using capacity.J_reach [OF assms(1,2)] assms(3)
  by (auto simp: everywhere_def disk_jobs_def within_def)

theorem no_overcommit_witness:
  "reservedCPU (mgr_jobs provisioned) ''e5'' = 2 \<and> reservedCPU (mgr_jobs provisioned) ''e5'' \<le> 12"
proof
  have "active_on (mgr_jobs provisioned) ''e5'' = {12}"
    unfolding active_on_range [of _ _ "\<lambda>_. 0"] provisioned_jobs by code_simp
  then show "reservedCPU (mgr_jobs provisioned) ''e5'' = 2"
    by (simp add: reservedCPU_def provisioned_record) (simp add: record12_def)
  show "reservedCPU (mgr_jobs provisioned) ''e5'' \<le> 12"
    using no_overcommit [OF reach_provisioned [unfolded fleet_def] okEnv_known(1), of _ "''e5''"] by simp
qed

text \<open>C4: In every run, every record of the job table, in memory and in the state file, is stored
  under its own positive identifier, has one of the six states, and has the fields of that state:
  a pending job has no node, instance, runner or deadline; a job that is provisioning, running or
  waiting for cleanup has a node and the runner name derived from that node and its attempt
  number; a completed job has no instance.\<close>

theorem jobs_well_formed:
  assumes "reach E K cfg ttl m" and "known_heartbeats E K"
    and "js = mgr_jobs m \<or> dsk_state (mgr_disk m) = Some (JobsDoc (Some js))"
    and "fmlookup js k = Some r"
  shows "rec_JobID r = k \<and> 0 < k \<and>
     (rec_Status r = jobPending \<and> rec_NodeID r = [] \<and> rec_InstanceID r = [] \<and>
        rec_RunnerName r = [] \<and> rec_RunnerID r = 0 \<and> rec_Deadline r = 0 \<or>
      rec_Status r \<in> {jobProvisioning, jobRunning, jobCleanupPending} \<and> rec_NodeID r \<noteq> [] \<and>
        rec_RunnerName r = runnerName (rec_NodeID r) k (rec_Attempt r) \<or>
      rec_Status r = jobRejected \<and> rec_NodeID r = [] \<and> rec_InstanceID r = [] \<or>
      rec_Status r = jobCompleted \<and> rec_InstanceID r = [])"
proof -
  from wellformed.J_reach [OF assms(1,2)] assms(3) have "wf_jobs js"
    by (auto simp: everywhere_def disk_jobs_def)
  then have "wf_record k r" using assms(4) by (rule wf_jobs_lookup)
  then show ?thesis by (auto simp: wf_record_def)
qed

theorem jobs_well_formed_witness:
  "fmlookup (mgr_jobs provisioned) 12 = Some record12 \<and> rec_JobID record12 = 12 \<and>
     rec_RunnerName record12 = runnerName ''e5'' 12 1"
  using jobs_well_formed [OF reach_provisioned okEnv_known(1) disjI1 provisioned_record, OF refl]
    provisioned_record
  by (simp add: record12_def status_consts)



text \<open>A JIT runner is generated only directly after GitHub returned a workflow run of the same
  installation, owner and repository that is not an untrusted event of a public repository.\<close>

lemma jit_needs_trust:
  assumes "reach E K cfg ttl m" and "known_heartbeats E K"
    and "mgr_trace m = before @ EJIT i ow rp name g labels res # after"
  shows "\<exists>pre runID run t. before = pre @ [EGetRun i ow rp runID (Inr run), EClock t] \<and>
     (rr_Private (run_Repository run) \<or> run_Event run \<noteq> ''pull_request_target'') \<and>
     (rr_FullName (run_Repository run) \<noteq> [] \<longrightarrow>
        trust_policy run (rr_FullName (run_Repository run)))"
proof -
  from trust.guarded_reach [OF assms(1,2)] assms(3)
  have "trust_guard before (EJIT i ow rp name g labels res)" unfolding trust.guarded_def by blast
  then show ?thesis by (simp add: trusted_run_def)
qed

lemma jit_needs_trust_witness:
  "\<exists>before i ow rp name g labels res after pre runID run t.
     mgr_trace provisioned = before @ EJIT i ow rp name g labels res # after \<and>
     before = pre @ [EGetRun i ow rp runID (Inr run), EClock t]"
proof -
  obtain before i ow rp name g labels res after where
    tr: "mgr_trace provisioned = before @ EJIT i ow rp name g labels res # after"
    using provisioned_jit by blast
  from jit_needs_trust [OF reach_provisioned okEnv_known(1) this] tr show ?thesis by metis
qed

text \<open>C3: Write-ahead. With a state file configured, at every creation of a container in every run
  the state file says that the job of this container is provisioning on this node, with the runner
  name of its attempt; so a restart after a crash knows about every container.\<close>

theorem create_after_save:
  assumes "reach E K cfg ttl m" and "known_heartbeats E K" and "cfg_StateFile cfg \<noteq> []"
    and "mgr_trace m = before @ ECreate node spec res # after"
  shows "\<exists>js k r. dsk_state (fold disk_step before emptyDisk) = Some (JobsDoc (Some js)) \<and>
     fmlookup js k = Some r \<and> spec_ID spec = containerJobID k \<and>
     rec_Status r = jobProvisioning \<and> rec_NodeID r = node_ID node \<and>
     rec_RunnerName r = runnerName (node_ID node) k (rec_Attempt r)"
proof -
  from saved.guarded_reach [OF assms(1,2)] assms(3,4) have "saved_guard before (ECreate node spec res)"
    unfolding saved.guarded_def by blast
  then show ?thesis by simp
qed

theorem create_after_save_witness:
  "\<exists>before node spec res after js k r. mgr_trace provisioned = before @ ECreate node spec res # after \<and>
     dsk_state (fold disk_step before emptyDisk) = Some (JobsDoc (Some js)) \<and>
     fmlookup js k = Some r \<and> rec_Status r = jobProvisioning"
proof -
  obtain before node spec res after where
    tr: "mgr_trace provisioned = before @ ECreate node spec res # after"
    using provisioned_create by blast
  from create_after_save [OF reach_provisioned okEnv_known(1) _ this] tr show ?thesis
    unfolding cfg0_def by fastforce
qed

text \<open>The queue of webhook events never holds more events than its configured size.\<close>

lemma queue_bounded:
  assumes "reach E K cfg ttl m" and "known_heartbeats E K"
  shows "int (length (mgr_queue m)) \<le> cfg_QueueSize (defaultConfig cfg)"
  using assms
proof (induction rule: reach.induct)
  case (boot m)
  then show ?case using boot_manager [OF boot.hyps] by (simp add: defaultConfig_def)
next
  case (run m m')
  then have ok: "sys_ok K cfg m" using reach_ok by blast
  show ?case using queue_step [OF run.hyps(2) run.prems ok] run ok by (simp add: sys_ok_def)
next
  case (crash m m' es lost m'')
  then show ?case using boot_manager [OF crash.hyps(4)] by (simp add: defaultConfig_def)
qed

lemma queue_bounded_witness: "mgr_queue submitted = [queued12] \<and> int (length (mgr_queue submitted)) \<le> 256"
  using queue_bounded [OF reach_submitted okEnv_known(1)] submitted_queue
  by (simp add: defaultConfig_def cfg0_def)

section \<open>Refinement of the life cycle\<close>

text \<open>C5: Every event, processed in any environment from any state with a known node table, is a
  sequence of steps of the abstract protocol: every change of the job table is a transition of the
  life cycle (a job is provisioned only with room on its node), a runner is generated only for a
  pending job that was just checked, and a container is created only for a saved provisioning job.\<close>

theorem Process_refines:
  assumes "known_heartbeats E K" and "known_nodes K (mgr_server m)"
  shows "(lstep E K)\<^sup>*\<^sup>* m (snd (Process E event m))"
  using assms by (intro lsteps_Process) auto

theorem Process_refines_witness: "(lstep okEnv fleet)\<^sup>*\<^sup>* joined (snd (Process okEnv queued12 joined))"
  using reach_ok [OF reach_joined okEnv_known(1)]
  by (intro Process_refines okEnv_known) (simp add: sys_ok_def)

text \<open>C6: A reconciliation at any time is a sequence of steps of the abstract protocol.\<close>

theorem reconcile_refines:
  assumes "known_heartbeats E K" and "known_nodes K (mgr_server m)"
    and "wf_jobs (mgr_jobs m)" and "wf_config (mgr_cfg m)"
  shows "(lstep E K)\<^sup>*\<^sup>* m (reconcile E now m)"
  using assms by (intro lsteps_reconcile) auto

theorem reconcile_refines_witness: "(lstep okEnv fleet)\<^sup>*\<^sup>* provisioned (reconcile okEnv 5000 provisioned)"
  using reach_ok [OF reach_provisioned okEnv_known(1)]
  by (intro reconcile_refines okEnv_known) (simp_all add: sys_ok_def everywhere_def)

section \<open>Events\<close>

text \<open>A queued event of a job that is already in the table changes nothing and has no effect,
  so redelivered webhooks are harmless in every state of the job.\<close>

lemma duplicate_queued_ignored:
  assumes "ev_Action event = ''queued''" and "fmlookup (mgr_jobs m) (wj_ID (ev_Job event)) = Some r"
  shows "snd (Process E event m) = m"
  using assms by (simp add: Process_def handleQueued_known)

lemma duplicate_queued_ignored_witness: "snd (Process okEnv queued12 provisioned) = provisioned"
  by (rule duplicate_queued_ignored) (simp_all add: queued12_def provisioned_record)

text \<open>A completed job is final for events: no event, of this or any other job, changes its
  record, and a second completed event of it has no effect at all.\<close>

lemma completed_is_final:
  assumes "fmlookup (mgr_jobs m) k = Some r" and "rec_Status r = jobCompleted"
  shows "fmlookup (mgr_jobs (snd (Process E event m))) k = Some r \<and>
     (wj_ID (ev_Job event) = k \<longrightarrow> snd (Process E event m) = m)"
  using Process_completed [OF assms] assms
  by (auto simp: Process_def handleQueued_known handleCompleted_completed)

definition finished :: Manager where
  "finished = setJob 12 (record12\<lparr>rec_Status := jobCompleted\<rparr>) joined"

lemma completed_is_final_witness: "snd (Process okEnv completed12 finished) = finished"
  using completed_is_final [of finished 12 "record12\<lparr>rec_Status := jobCompleted\<rparr>" okEnv completed12]
  by (simp add: finished_def completed12_def queued12_def)

text \<open>C11: A completed event of a job on a known node asks the agent of that node to destroy the
  job's instance (the recorded one, or the deterministic container name). If the agent confirms, the
  job is completed and its runner was deleted from GitHub; if the agent fails, the job waits for
  cleanup, keeps its node, and the error is returned so that the delivery is seen to have failed.\<close>

theorem completed_event:
  assumes "ev_Action event = ''completed''" and "wj_ID (ev_Job event) = k" and "0 < k"
    and "fmlookup (mgr_jobs m) k = Some r" and "rec_Status r \<noteq> jobCompleted"
    and "rec_NodeID r \<noteq> []" and "rawNode m (rec_NodeID r) = Some node"
    and "d = env_destroy E (mgr_trace m) node (instanceOf k r)"
  shows "\<exists>t rest. mgr_trace (snd (Process E event m)) = mgr_trace m @ EDestroy node (instanceOf k r) d # rest \<and>
     (case d of
        None \<Rightarrow>
          fmlookup (mgr_jobs (snd (Process E event m))) k =
            Some (r\<lparr>rec_Status := jobCompleted, rec_InstanceID := [], rec_UpdatedAt := t\<rparr>) \<and>
          (0 < rec_RunnerID r \<longrightarrow> (\<exists>x. EDeleteRunner (rec_InstallationID r) (rec_Owner r) (rec_Repo r)
             (rec_RunnerID r) x \<in> set rest))
      | Some err \<Rightarrow>
          fmlookup (mgr_jobs (snd (Process E event m))) k =
            Some (r\<lparr>rec_Status := jobCleanupPending, rec_UpdatedAt := t\<rparr>) \<and>
          fst (Process E event m) \<noteq> None)"
proof -
  have "Process E event m = handleCompleted E event m" using assms(1) by (simp add: Process_def)
  then show ?thesis by (simp only: completed_known [OF assms(3-7,2,8)])
qed

theorem completed_event_witness:
  "map_option rec_Status (fmlookup (mgr_jobs (snd (Process okEnv completed12 provisioned))) 12) =
     Some jobCompleted"
proof -
  have r: "wj_ID (ev_Job completed12) = 12" "(0::int) < 12" "rec_Status record12 \<noteq> jobCompleted"
    "rec_NodeID record12 \<noteq> []" "ev_Action completed12 = ''completed''"
    by (simp_all add: completed12_def queued12_def record12_def status_consts)
  obtain node where n: "rawNode provisioned (rec_NodeID record12) = Some node"
    using provisioned_node by (auto simp: rawNode_def record12_def)
  have "env_destroy okEnv tr node i = None" for tr i by (simp add: okEnv_def)
  with completed_event [OF r(5,1,2) provisioned_record r(3,4) n refl, of okEnv] show ?thesis by auto
qed

section \<open>Provisioning\<close>

text \<open>C9: A pending job whose workflow run the trust policy refuses becomes rejected, and nothing
  else happens but the lookup of the run, the clock and the save: no runner is generated and no
  agent is called.\<close>

theorem untrusted_rejected:
  assumes "fmlookup (mgr_jobs m) k = Some r" and "rec_Status r = jobPending"
    and "env_getRun E (mgr_trace m) (rec_InstallationID r) (rec_Owner r) (rec_Repo r) (rec_RunID r) = Inr run"
    and "\<not> trust_policy run (rec_Repository r)"
  shows "\<exists>t saves. fmlookup (mgr_jobs (snd (tryProvision E k m))) k =
       Some (r\<lparr>rec_Status := jobRejected, rec_UpdatedAt := t\<rparr>) \<and>
     mgr_trace (snd (tryProvision E k m)) = mgr_trace m @
       [EGetRun (rec_InstallationID r) (rec_Owner r) (rec_Repo r) (rec_RunID r) (Inr run), EClock t] @ saves \<and>
     (\<forall>e \<in> set saves. file_effect e)"
proof -
  have "fmlookup (mgr_jobs (afterRun E r m)) k = Some r" using assms(1) by simp
  from rejectJob_result [OF this, of E] show ?thesis
    unfolding tryProvision_untrusted [OF assms] by (auto simp: call_states assms(3))
qed

definition waiting :: JobRecord where
  "waiting = record12\<lparr>rec_Status := jobPending, rec_NodeID := [], rec_InstanceID := [],
     rec_RunnerName := [], rec_RunnerID := 0, rec_Attempt := 0, rec_Deadline := 0\<rparr>"

theorem untrusted_rejected_witness:
  "\<exists>t. fmlookup (mgr_jobs (snd (tryProvision forkEnv 12 (setJob 12 waiting joined)))) 12 =
     Some (waiting\<lparr>rec_Status := jobRejected, rec_UpdatedAt := t\<rparr>)"
proof -
  have "\<not> trust_policy fork_pull_run (rec_Repository waiting)"
    unfolding trustedWorkflowRun_policy [symmetric] by code_simp
  with untrusted_rejected [of "setJob 12 waiting joined" 12 waiting forkEnv fork_pull_run] show ?thesis
    by (auto simp: waiting_def forkEnv_def)
qed

text \<open>C10: If the agent refuses to create the container, the manager destroys the container by its
  deterministic name on that node, deletes the runner it generated, puts the job back to pending
  without node, instance and runner, tries to save that, and returns an error.\<close>

theorem create_failure_rolls_back:
  assumes "env_create E (mgr_trace m) node (runnerSpec (mgr_cfg m) k r jit) = Inl err"
    and "fmlookup (mgr_jobs m) k = Some c"
  shows "\<exists>t destroyed deleted saves.
      fmlookup (mgr_jobs (snd (launchRunner E k node r jit m))) k =
        Some (c\<lparr>rec_Status := jobPending, rec_NodeID := [], rec_InstanceID := [], rec_RunnerName := [],
                rec_RunnerID := 0, rec_Deadline := 0, rec_UpdatedAt := t\<rparr>)
    \<and> fst (launchRunner E k node r jit m) \<noteq> None
    \<and> mgr_trace (snd (launchRunner E k node r jit m)) = mgr_trace m @
        [ECreate node (runnerSpec (mgr_cfg m) k r jit) (Inl err),
         EDestroy node (containerName k) destroyed,
         EDeleteRunner (rec_InstallationID r) (rec_Owner r) (rec_Repo r) (jit_RunnerID jit) deleted,
         EClock t] @ saves
    \<and> (\<forall>e \<in> set saves. file_effect e)"
  using launchRunner_failure [OF assms] by (simp add: pendingAgain_def)

theorem create_failure_rolls_back_witness:
  "\<exists>t. fmlookup (mgr_jobs (snd (launchRunner brokenEnv 12 e5_node record12
       \<lparr>jit_RunnerID = 77, jit_EncodedConfig = []\<rparr> provisioned))) 12 =
     Some (record12\<lparr>rec_Status := jobPending, rec_NodeID := [], rec_InstanceID := [], rec_RunnerName := [],
                rec_RunnerID := 0, rec_Deadline := 0, rec_UpdatedAt := t\<rparr>)"
proof -
  have "env_create brokenEnv tr nd sp = Inl (Errorf ''agent unreachable'')" for tr nd sp
    by (simp add: brokenEnv_def)
  from create_failure_rolls_back [OF this provisioned_record] show ?thesis by blast
qed

text \<open>C8: Progress. If GitHub, the agents and the file system answer every call with success, the
  workflow run is trusted, the labels ask for a container platform and some node offered to the
  scheduler can host the job, then provisioning returns no error and the job is running on one of
  the offered nodes, with the instance and the runner the world returned, its attempt counted and a
  deadline: the one of the instance, or else the runner timeout after the start.\<close>

theorem healthy_job_runs:
  assumes "healthy E run jit inst" and "fmlookup (mgr_jobs m) k = Some r" and "rec_Status r = jobPending"
    and "trust_policy run (rec_Repository r)" and "reqOf E r m = Inr req"
    and "req_Isolation req = IsolationContainer"
    and "n \<in> set (offered E (afterRun E r m))" and "hosts req n b"
  shows "fst (tryProvision E k m) = None \<and>
    (\<exists>node started t. node \<in> set (offered E (afterRun E r m)) \<and>
      fmlookup (mgr_jobs (snd (tryProvision E k m))) k =
      Some (r\<lparr>rec_Status := jobRunning, rec_NodeID := node_ID node, rec_InstanceID := inst_ID inst,
        rec_RunnerName := runnerName (node_ID node) k (wrap64 (rec_Attempt r + 1)),
        rec_RunnerID := jit_RunnerID jit, rec_Attempt := wrap64 (rec_Attempt r + 1),
        rec_Deadline := (if IsZero (inst_Deadline inst)
                         then time_Add started (cfg_RunnerTimeout (mgr_cfg m)) else inst_Deadline inst),
        rec_UpdatedAt := t\<rparr>))"
proof -
  let ?m = "snd (Now E (afterRun E r m))"
  from tryProvision_healthy [OF assms(1-5,7,8,6)] obtain node where
    node: "node \<in> set (offered E (afterRun E r m))" "tryProvision E k m = provisionOn E k node ?m" by blast
  have "fmlookup (mgr_jobs ?m) k = Some r" "mgr_cfg ?m = mgr_cfg m" using assms(2) by simp_all
  with provisionOn_healthy [OF assms(1), of ?m k r node] node show ?thesis by metis
qed

theorem healthy_job_runs_witness:
  "\<exists>r. fmlookup (mgr_jobs (snd (tryProvision okEnv 12 (setJob 12 waiting joined)))) 12 = Some r \<and>
     rec_Status r = jobRunning \<and> rec_InstanceID r = ''container123''"
proof -
  let ?m = "setJob 12 waiting joined"
  let ?req = "\<lparr>req_Repository = ''fangbm/CIFleet'', req_OS = OSLinux, req_Arch = ArchAMD64,
    req_Isolation = IsolationContainer, req_Capabilities = [], req_CPU = 2, req_MemoryM = 1024\<rparr>"
  let ?jit = "\<lparr>jit_RunnerID = 77, jit_EncodedConfig = ''jit-secret''\<rparr>"
  let ?inst = "\<lparr>inst_ID = ''container123'', inst_Backend = BackendDocker, inst_NodeID = ''e5'', inst_Deadline = 0\<rparr>"
  have h: "healthy okEnv trusted_push ?jit ?inst" by (simp add: healthy_def okEnv_def)
  have t: "trust_policy trusted_push (rec_Repository waiting)"
    unfolding trustedWorkflowRun_policy [symmetric] by code_simp
  have q: "reqOf okEnv waiting ?m = Inr ?req" by code_simp
  have "list_ex (\<lambda>n. hosts ?req n BackendDocker) (offered okEnv (afterRun okEnv waiting ?m))" by code_simp
  then obtain n where n: "n \<in> set (offered okEnv (afterRun okEnv waiting ?m))" "hosts ?req n BackendDocker"
    by (auto simp: list_ex_iff)
  have r: "fmlookup (mgr_jobs ?m) 12 = Some waiting" "rec_Status waiting = jobPending"
    "req_Isolation ?req = IsolationContainer" by (simp_all add: waiting_def)
  from healthy_job_runs [OF h r(1,2) t q r(3) n] show ?thesis by fastforce
qed

text \<open>A placement of the manager is on a node of the table that is alive, has the right platform and
  capabilities, and has free CPUs and memory for the job after the reservations of every job that is
  provisioning, running or waiting for cleanup there.\<close>

lemma place_has_room:
  assumes "fst (place E req m) = Inr (pl, node)" and "registry_ok (mgr_server (snd (Now E m)))"
    and "req_CPU req = rec_CPU r" and "req_MemoryM req = rec_MemoryM r"
  shows "\<exists>n. fmlookup (srv_nodes (mgr_server (snd (Now E m)))) (pl_NodeID pl) = Some n \<and>
     node_ID node = pl_NodeID pl \<and> hosts req node (pl_Backend pl) \<and>
     time_Sub (env_clock E (mgr_trace m)) (node_LastSeen n) \<le> srv_nodeTTL (mgr_server (snd (Now E m))) \<and>
     room (mgr_jobs m) (pl_NodeID pl) (node_Capacity n) r"
proof -
  from place_result [OF assms(1,2)] obtain n where
    n: "fmlookup (srv_nodes (mgr_server (snd (Now E m)))) (node_ID node) = Some n"
      "node_ID node = pl_NodeID pl" "hosts req node (pl_Backend pl)"
      "node = applyReservation (reservations (env_rankJobs E (mgr_trace (snd (Now E m)))) (mgr_jobs m))
                 (liveNode (mgr_server (snd (Now E m))) (fst (Now E m)) n)" by blast
  have "room (mgr_jobs m) (node_ID n) (node_Capacity n) r"
    using place_room [OF n(4,3) assms(3,4)] .
  moreover have "node_ID n = pl_NodeID pl" using registry_ok_lookup [OF assms(2) n(1)] n(2) by simp
  moreover have "node_Online (liveNode (mgr_server (snd (Now E m))) (fst (Now E m)) n)"
    using n(3) by (subst (asm) n(4)) (simp add: hosts_def fits_def applyReservation_def Let_def)
  ultimately show ?thesis using n(1-3) by (auto simp: liveNode_def)
qed

lemma place_has_room_witness:
  "\<exists>pl node. fst (place okEnv \<lparr>req_Repository = [], req_OS = OSLinux, req_Arch = ArchAMD64,
       req_Isolation = IsolationContainer, req_Capabilities = [], req_CPU = 2, req_MemoryM = 1024\<rparr> joined) =
       Inr (pl, node) \<and> room (mgr_jobs joined) (pl_NodeID pl) (node_Capacity e5_node) waiting"
proof -
  let ?req = "\<lparr>req_Repository = [], req_OS = OSLinux, req_Arch = ArchAMD64,
       req_Isolation = IsolationContainer, req_Capabilities = [], req_CPU = 2, req_MemoryM = 1024\<rparr>"
  have "\<not> isl (fst (place okEnv ?req joined))" by code_simp
  then obtain pl node where p: "fst (place okEnv ?req joined) = Inr (pl, node)" 
    by (cases "fst (place okEnv ?req joined)") auto
  have srv: "mgr_server (snd (Now okEnv joined)) = storeNode 1000 e5_node (NewServer [])"
    by (simp add: Now_def Let_def perform_def okEnv_def joined_def booted_def heartbeat_def) (simp add: e5_node_def)
  have reg: "registry_ok (storeNode 1000 e5_node (NewServer []))"
    by (rule registry_ok_storeNode) (simp_all add: e5_node_def)
  show ?thesis
    using place_has_room [OF p, unfolded srv, OF reg, of waiting] p
    by (auto simp: waiting_def record12_def storeNode_def NewServer_def split: if_splits)
qed

text \<open>The reservations of a node are the exact 64-bit sums of the CPUs and the memory of its active
  jobs, in whatever order the job table is visited.\<close>

lemma reservations_exact:
  "TotalCPU (index0 zero_Capacity (reservations rank js) nodeID) = wrap64 (reservedCPU js nodeID) \<and>
   TotalMemoryM (index0 zero_Capacity (reservations rank js) nodeID) = wrap64 (reservedMemory js nodeID)"
  by (simp add: reservations_totals)

section \<open>Reconciliation\<close>





section \<open>Persistence and restart\<close>

text \<open>Saving is atomic. With a state file configured, a save that returns no error has replaced the
  document in the state file by the current job table, and a save that returns an error, at whatever
  step it failed, has left the document in the state file as it was.\<close>

lemma save_atomic:
  assumes "cfg_StateFile (mgr_cfg m) \<noteq> []"
  shows "dsk_state (mgr_disk (snd (saveLocked E m))) =
     (if fst (saveLocked E m) = None then Some (JobsDoc (Some (mgr_jobs m))) else dsk_state (mgr_disk m))"
  using assms by (simp add: saveLocked_disk saveLocked_failed_disk)

lemma save_atomic_witness:
  "dsk_state (mgr_disk (snd (saveLocked okEnv provisioned))) = Some (JobsDoc (Some (mgr_jobs provisioned)))"
proof -
  have "mgr_cfg provisioned = defaultConfig cfg0"
    using reach_ok [OF reach_provisioned okEnv_known(1)] by (simp add: sys_ok_def)
  then have "cfg_StateFile (mgr_cfg provisioned) \<noteq> []" by (simp add: defaultConfig_def cfg0_def)
  moreover have "fst (saveLocked okEnv m) = None" for m by (simp add: saveLocked_def okEnv_def Let_def)
  ultimately show ?thesis using save_atomic [of provisioned okEnv] by simp
qed

text \<open>C16: Round trip through the bytes of the state file. After a successful save of a job table with 64-bit numbers and
  times up to the year 9999, whatever the texts in it, the file holds the bytes of the table; and a manager started from
  these bytes has exactly the saved job table, an empty queue and the completed configuration.\<close>

theorem restart_restores_jobs:
  assumes "cfg_StateFile cfg \<noteq> []" and "mgr_cfg m = defaultConfig cfg"
    and "fst (saveLocked E m) = None" and "env_read E tr = None" and "jobs_ok (mgr_jobs m)"
  shows "dsk_state (mgr_disk (snd (saveLocked E m))) = Some (decodeState jsonErr (stateText (mgr_jobs m))) \<and>
    (\<exists>m'. bootManager E cfg ttl \<lparr>dsk_state = Some (decodeState jsonErr (stateText (mgr_jobs m))), dsk_tmp = None\<rparr> tr = Inr m' \<and>
       mgr_jobs m' = mgr_jobs m \<and> mgr_queue m' = [] \<and> mgr_cfg m' = defaultConfig cfg)"
proof -
  have path: "cfg_StateFile (defaultConfig cfg) = cfg_StateFile cfg" by (simp add: defaultConfig_def)
  with assms saveLocked_disk [OF assms(3)] state_file_roundtrip [OF assms(5)] show ?thesis
    by (simp add: bootManager_def NewRunnerManager_def loadState_def)
qed

theorem restart_restores_jobs_witness:
  "\<exists>m'. bootManager okEnv cfg0 [] \<lparr>dsk_state = Some (decodeState (\<lambda>_. Errorf []) (stateText (mgr_jobs provisioned))),
        dsk_tmp = None\<rparr> [] = Inr m' \<and>
     fmlookup (mgr_jobs m') 12 = Some record12"
proof -
  have "mgr_cfg provisioned = defaultConfig cfg0"
    using reach_ok [OF reach_provisioned okEnv_known(1)] by (simp add: sys_ok_def)
  moreover have "fst (saveLocked okEnv m) = None" for m by (simp add: saveLocked_def okEnv_def Let_def)
  moreover have "env_read okEnv [] = None" by (simp add: okEnv_def)
  moreover have "jobs_ok (mgr_jobs provisioned)"
    unfolding provisioned_jobs by code_simp
  ultimately show ?thesis
    using restart_restores_jobs [of cfg0 provisioned okEnv "[]" "\<lambda>_. Errorf []" "[]"] provisioned_record
    by (auto simp: cfg0_def)
qed

text \<open>C17: A restart forgets containers. When a restarted manager reconciles a job that was provisioning,
  before any node has sent a heartbeat (the node table is not persisted), no agent is asked to destroy
  anything and the record loses its node: whatever container the interrupted provisioning started
  is no longer known to the controller.\<close>

theorem restart_forgets_container:
  assumes "bootManager E cfg ttl d tr = Inr m" and "\<forall>tr. env_heartbeats E tr = []"
    and "fmlookup (mgr_jobs m) k = Some r" and "rec_JobID r = k" and "rec_Status r = jobProvisioning"
  shows "\<exists>r' es. fmlookup (mgr_jobs (reconcileJob E now k m)) k = Some r' \<and> rec_NodeID r' = [] \<and>
     mgr_trace (reconcileJob E now k m) = mgr_trace m @ es \<and>
     (\<forall>node i res. EDestroy node i res \<notin> set es)"
proof -
  have run: "reconcileJob E now k m = snd (recoverProvisioning E r m)"
    using assms(3,5) by (simp add: reconcileJob_def)
  from recoverProvisioning_no_nodes [OF boot_no_nodes [OF assms(1,2)] _ assms(5)] assms(3,4)
  show ?thesis unfolding run by fastforce
qed

theorem restart_forgets_container_witness:
  "\<exists>m r'. bootManager okEnv cfg0 [] \<lparr>dsk_state = Some (JobsDoc (Some (fmupd 12
        (record12\<lparr>rec_Status := jobProvisioning\<rparr>) fmempty))), dsk_tmp = None\<rparr> [] = Inr m \<and>
     fmlookup (mgr_jobs m) 12 = Some (record12\<lparr>rec_Status := jobProvisioning\<rparr>) \<and>
     fmlookup (mgr_jobs (reconcileJob okEnv 5000 12 m)) 12 = Some r' \<and> rec_NodeID r' = []"
proof -
  let ?r = "record12\<lparr>rec_Status := jobProvisioning\<rparr>"
  let ?d = "\<lparr>dsk_state = Some (JobsDoc (Some (fmupd 12 ?r fmempty))), dsk_tmp = None\<rparr>"
  obtain m where m: "bootManager okEnv cfg0 [] ?d [] = Inr m" "mgr_jobs m = fmupd 12 ?r fmempty"
    by (simp add: bootManager_def NewRunnerManager_def loadState_def okEnv_def cfg0_def defaultConfig_def)
  have "\<forall>tr. env_heartbeats okEnv tr = []" by (simp add: okEnv_def)
  from restart_forgets_container [OF m(1) this, of 12 ?r 5000] m show ?thesis
    by (auto simp: record12_def)
qed

end
