(* ===== verification/Docker_Backend.thy ===== *)
theory Docker_Backend
  imports Policy Go_Paths Go_Crypto
begin

text \<open>
  The Docker backend of the worker agent, \<open>src/internal/backend/docker/docker.go\<close>, and the two backends
  that are not implemented yet (\<open>src/internal/backend/kvm\<close>, \<open>src/internal/backend/hyperv\<close>).

  The machine is a \<open>Host\<close>: the command line, the clock, the file system and the processor count answer
  as functions of everything that happened before (the list of effects), so a theorem over all hosts
  covers every behaviour of Docker. Every operation takes the effects so far and returns its result
  and the effects after it.
\<close>

section \<open>The machine\<close>

datatype dock_effect =
    DExec string "string list" "string \<times> goerror option"
  | DClock time
  | DMkdirAll string "goerror option"
  | DReadMeminfo "goerror + string"

type_synonym dock_trace = "dock_effect list"

record Host =
  host_exec :: "dock_trace \<Rightarrow> string \<Rightarrow> string list \<Rightarrow> string \<times> goerror option"
  host_clock :: "dock_trace \<Rightarrow> time"
  host_mkdir :: "dock_trace \<Rightarrow> string \<Rightarrow> goerror option"
  host_meminfo :: "dock_trace \<Rightarrow> goerror + string"
  host_NumCPU :: int
  host_GOOS :: string
  host_GOARCH :: string
  host_rank :: "dock_trace \<Rightarrow> string \<Rightarrow> nat"

definition managedLabel :: string where
  "managedLabel = ''io.cifleet.managed''"

record DockerConfig =
  dc_Binary :: string
  dc_NodeID :: string
  dc_CacheRoot :: string
  dc_DefaultTimeout :: duration

definition NewDocker :: "DockerConfig \<Rightarrow> DockerConfig" where
  "NewDocker cfg =
     cfg\<lparr>dc_Binary := (if dc_Binary cfg = [] then ''docker'' else dc_Binary cfg),
         dc_CacheRoot := (if dc_CacheRoot cfg = [] then ''/var/lib/cifleet/cache'' else dc_CacheRoot cfg),
         dc_DefaultTimeout := (if dc_DefaultTimeout cfg \<le> 0 then 2 * Hour else dc_DefaultTimeout cfg)\<rparr>"

text \<open>\<open>execRunner.Run\<close>: the combined output without surrounding space, and the wrapped error.\<close>

definition execRun ::
  "Host \<Rightarrow> string \<Rightarrow> string list \<Rightarrow> dock_trace \<Rightarrow> (string \<times> goerror option) \<times> dock_trace" where
  "execRun H name args tr =
     (let (out, err) = host_exec H tr name args in
      ((TrimSpace out,
        case err of
          Some e \<Rightarrow> Some (Wrapf (name @ '' '' @ strings_Join '' '' args @ '': '') e ('': '' @ TrimSpace out))
        | None \<Rightarrow> None),
       tr @ [DExec name args (out, err)]))"

section \<open>Names, paths and numbers\<close>

definition sanitizeName :: "string \<Rightarrow> string" where
  "sanitizeName val =
     Trim (map (\<lambda>c. if name_byte c then c else CHR ''-'') (ToLower val)) ''-._''"

definition parseNonNegativeInt :: "string \<Rightarrow> int" where
  "parseNonNegativeInt val =
     (case ParseInt (TrimSpace val) of None \<Rightarrow> 0 | Some n \<Rightarrow> if n < 0 then 0 else n)"

definition cachePath :: "DockerConfig \<Rightarrow> string \<Rightarrow> string \<Rightarrow> goerror + string" where
  "cachePath cfg repository name =
     (let name = sanitizeName name in
      if name = [] then Inl (Errorf ''cache mount name is required'')
      else let repoKey = hex_Encode (take 8 (Sum256 repository)) in
        Inr (filepath_Join [dc_CacheRoot cfg, repoKey, name]))"

definition validateCacheTarget :: "string \<Rightarrow> goerror option" where
  "validateCacheTarget target =
     (if \<not> IsAbs target \<or> Clean target = ''/''
      then Some (Errorf (''cache target '' @ Quote target @ '' must be an absolute non-root path''))
      else None)"

text \<open>The lines of \<open>/proc/meminfo\<close>: later lines win, lines without a number are skipped.\<close>

fun memLines :: "string list \<Rightarrow> int \<times> int \<Rightarrow> int \<times> int" where
  "memLines [] acc = acc"
| "memLines (line # rest) (total0, available) =
     (case Fields line of
        key # val # _ \<Rightarrow>
          (case ParseInt val of
             None \<Rightarrow> memLines rest (total0, available)
           | Some valueKB \<Rightarrow>
               if key = ''MemTotal:'' then memLines rest (go_div valueKB 1024, available)
               else if key = ''MemAvailable:'' then memLines rest (total0, go_div valueKB 1024)
               else memLines rest (total0, available))
      | _ \<Rightarrow> memLines rest (total0, available))"

definition memoryMB :: "Host \<Rightarrow> dock_trace \<Rightarrow> (goerror + (int \<times> int)) \<times> dock_trace" where
  "memoryMB H tr =
     (if host_GOOS H \<noteq> ''linux''
      then (Inl (Errorf ''docker capacity memory probe currently requires linux''), tr)
      else let read = host_meminfo H tr; tr1 = tr @ [DReadMeminfo read] in
      case read of
        Inl err \<Rightarrow> (Inl (Wrapf ''read /proc/meminfo: '' err []), tr1)
      | Inr text \<Rightarrow>
          (let (total0, available) = memLines (Split text (char_of (10::nat))) (0, 0) in
           if total0 = 0 then (Inl (Errorf ''MemTotal missing from /proc/meminfo''), tr1)
           else (Inr (total0, available), tr1)))"

section \<open>Operations\<close>

definition managedContainerIDs ::
  "Host \<Rightarrow> DockerConfig \<Rightarrow> bool \<Rightarrow> dock_trace \<Rightarrow> (goerror + string list) \<times> dock_trace" where
  "managedContainerIDs H cfg all tr =
     (let args = [''ps''] @ (if all then [''-a''] else []) @
            [''--filter'', ''label='' @ managedLabel @ ''=true'', ''--format'', ''{{.ID}}''];
          ((out, err), tr1) = execRun H (dc_Binary cfg) args tr in
      case err of
        Some e \<Rightarrow> (Inl e, tr1)
      | None \<Rightarrow> (Inr (if TrimSpace out = [] then [] else Fields out), tr1))"

definition resourceFormat :: string where
  "resourceFormat = ''{{index .Config.Labels '' @ [CHR 0x22] @ ''io.cifleet.cpu'' @ [CHR 0x22] @ ''}}|'' @
     ''{{index .Config.Labels '' @ [CHR 0x22] @ ''io.cifleet.memory_mb'' @ [CHR 0x22] @ ''}}''"

definition deadlineFormat :: string where
  "deadlineFormat = ''{{index .Config.Labels '' @ [CHR 0x22] @ ''io.cifleet.deadline'' @ [CHR 0x22] @ ''}}''"

fun sumReserved ::
  "Host \<Rightarrow> DockerConfig \<Rightarrow> string list \<Rightarrow> int \<Rightarrow> int \<Rightarrow> dock_trace \<Rightarrow> (goerror + (int \<times> int)) \<times> dock_trace" where
  "sumReserved H cfg [] cpu mem tr = (Inr (cpu, mem), tr)"
| "sumReserved H cfg (cid # ids) cpu mem tr =
     (let ((out, err), tr1) = execRun H (dc_Binary cfg) [''inspect'', ''--format'', resourceFormat, cid] tr in
      case err of
        Some e \<Rightarrow> (Inl (Wrapf (''inspect managed container '' @ cid @ '': '') e []), tr1)
      | None \<Rightarrow>
          (case SplitN2 out CHR ''|'' of
             [p0, p1] \<Rightarrow> sumReserved H cfg ids (wrap64 (cpu + parseNonNegativeInt p0))
                          (wrap64 (mem + parseNonNegativeInt p1)) tr1
           | _ \<Rightarrow> sumReserved H cfg ids cpu mem tr1))"

definition CapacityDocker :: "Host \<Rightarrow> DockerConfig \<Rightarrow> dock_trace \<Rightarrow> (goerror + Capacity) \<times> dock_trace" where
  "CapacityDocker H cfg tr =
     (let ((_, err), tr1) = execRun H (dc_Binary cfg) [''info'', ''--format'', ''{{.ServerVersion}}''] tr in
      case err of
        Some e \<Rightarrow> (Inl (Wrapf ''docker unavailable: '' e []), tr1)
      | None \<Rightarrow>
      let (memory, tr2) = memoryMB H tr1 in
      case memory of
        Inl e \<Rightarrow> (Inl e, tr2)
      | Inr (totalMemory, availableMemory) \<Rightarrow>
      let (listed, tr3) = managedContainerIDs H cfg False tr2 in
      case listed of
        Inl e \<Rightarrow> (Inl e, tr3)
      | Inr ids \<Rightarrow>
      let (summed, tr4) = sumReserved H cfg ids 0 0 tr3 in
      case summed of
        Inl e \<Rightarrow> (Inl e, tr4)
      | Inr (reservedCPU, reservedMemory) \<Rightarrow>
          (Inr \<lparr>TotalCPU = host_NumCPU H,
                FreeCPU = max 0 (wrap64 (host_NumCPU H - reservedCPU)),
                TotalMemoryM = totalMemory,
                FreeMemoryM = min availableMemory (max 0 (wrap64 (totalMemory - reservedMemory))),
                RunningJobs = int (length ids)\<rparr>, tr4))"

fun envArgs :: "string list \<Rightarrow> (string, string) fmap \<Rightarrow> goerror + string list" where
  "envArgs [] env = Inr []"
| "envArgs (key # keys) env =
     (if CHR ''='' \<in> set key \<or> key = []
      then Inl (Errorf (''invalid environment variable name '' @ Quote key))
      else (case envArgs keys env of
              Inl err \<Rightarrow> Inl err
            | Inr args \<Rightarrow> Inr (''--env'' # (key @ ''='' @ index0 [] env key) # args)))"

fun mountArgs ::
  "Host \<Rightarrow> DockerConfig \<Rightarrow> string \<Rightarrow> CacheMount list \<Rightarrow> dock_trace \<Rightarrow> (goerror + string list) \<times> dock_trace" where
  "mountArgs H cfg repository [] tr = (Inr [], tr)"
| "mountArgs H cfg repository (mount # mounts) tr =
     (case cachePath cfg repository (cm_Name mount) of
        Inl err \<Rightarrow> (Inl err, tr)
      | Inr hostPath \<Rightarrow>
      case validateCacheTarget (cm_Target mount) of
        Some err \<Rightarrow> (Inl err, tr)
      | None \<Rightarrow>
      let made = host_mkdir H tr hostPath; tr1 = tr @ [DMkdirAll hostPath made] in
      case made of
        Some err \<Rightarrow> (Inl (Wrapf ''create cache directory: '' err []), tr1)
      | None \<Rightarrow>
          (let mountArg = ''type=bind,src='' @ hostPath @ '',dst='' @ cm_Target mount @
                 (if cm_ReadOnly mount then '',readonly'' else []);
               (rest, tr2) = mountArgs H cfg repository mounts tr1
           in (case rest of Inl err \<Rightarrow> Inl err | Inr args \<Rightarrow> Inr (''--mount'' # mountArg # args), tr2)))"

text \<open>The arguments of \<open>docker run\<close> up to the resource limits.\<close>

definition runArgs :: "DockerConfig \<Rightarrow> string \<Rightarrow> time \<Rightarrow> JobSpec \<Rightarrow> string list" where
  "runArgs cfg name deadline spec =
     [''run'', ''-d'', ''--name'', name, ''--label'', managedLabel @ ''=true'',
      ''--label'', ''io.cifleet.node='' @ dc_NodeID cfg, ''--label'', ''io.cifleet.job_id='' @ spec_ID spec,
      ''--label'', ''io.cifleet.repository='' @ spec_Repository spec,
      ''--label'', ''io.cifleet.deadline='' @ FormatInt (time_Unix deadline),
      ''--label'', ''io.cifleet.cpu='' @ FormatInt (spec_CPU spec),
      ''--label'', ''io.cifleet.memory_mb='' @ FormatInt (spec_MemoryM spec)] @
     (if spec_CPU spec > 0 then [''--cpus'', FormatInt (spec_CPU spec)] else []) @
     (if spec_MemoryM spec > 0 then [''--memory'', FormatInt (spec_MemoryM spec) @ ''m''] else [])"

definition configArgs :: "JobSpec \<Rightarrow> string list" where
  "configArgs spec =
     (if spec_RunnerConfig spec \<noteq> []
      then [''--env'', ''CIFLEET_RUNNER_CONFIG='' @ spec_RunnerConfig spec] else [])"

definition CreateDocker :: "Host \<Rightarrow> DockerConfig \<Rightarrow> JobSpec \<Rightarrow> dock_trace \<Rightarrow> (goerror + Instance) \<times> dock_trace" where
  "CreateDocker H cfg spec tr =
     (if spec_ID spec = [] \<or> spec_Repository spec = [] \<or> spec_Image spec = []
      then (Inl (Errorf ''job id, repository and image are required''), tr)
      else if spec_CPU spec < 0 \<or> spec_MemoryM spec < 0
      then (Inl (Errorf ''cpu and memory must be non-negative''), tr)
      else let name = ''cifleet-'' @ sanitizeName (spec_ID spec) in
      if name = ''cifleet-'' then (Inl (Errorf ''job id has no usable characters''), tr)
      else let now = host_clock H tr; tr1 = tr @ [DClock now];
               deadline = time_Add now (EffectiveTimeout spec (dc_DefaultTimeout cfg)) in
      case envArgs (range_keys (host_rank H tr1) (spec_Environment spec)) (spec_Environment spec) of
        Inl err \<Rightarrow> (Inl err, tr1)
      | Inr env \<Rightarrow>
      let (mounted, tr2) = mountArgs H cfg (spec_Repository spec) (spec_CacheMounts spec) tr1 in
      case mounted of
        Inl err \<Rightarrow> (Inl err, tr2)
      | Inr mounts \<Rightarrow>
      let ((cid, runErr), tr3) = execRun H (dc_Binary cfg)
            (runArgs cfg name deadline spec @ env @ configArgs spec @ mounts @ [spec_Image spec] @ spec_Command spec) tr2 in
      case runErr of
        Some err \<Rightarrow> (Inl err, tr3)
      | None \<Rightarrow> (Inr \<lparr>inst_ID = TrimSpace cid, inst_Backend = BackendDocker, inst_NodeID = dc_NodeID cfg,
                       inst_Deadline = deadline\<rparr>, tr3))"

definition DestroyDocker :: "Host \<Rightarrow> DockerConfig \<Rightarrow> string \<Rightarrow> dock_trace \<Rightarrow> goerror option \<times> dock_trace" where
  "DestroyDocker H cfg instanceID tr =
     (if TrimSpace instanceID = [] then (Some (Errorf ''instance id is required''), tr)
      else let ((_, err), tr1) = execRun H (dc_Binary cfg) [''rm'', ''-f'', instanceID] tr in
      (case err of
         Some e \<Rightarrow> if Contains (ToLower (Error e)) ''no such container'' then None else Some e
       | None \<Rightarrow> None, tr1))"

text \<open>Lines 180-186: the deadline label of a container says that it has expired.\<close>

definition deadlineExpired :: "time \<Rightarrow> string \<Rightarrow> bool" where
  "deadlineExpired now deadlineText =
     (case ParseInt (TrimSpace deadlineText) of
        None \<Rightarrow> False
      | Some deadlineUnix \<Rightarrow> \<not> (deadlineUnix \<le> 0 \<or> time_Unix now < deadlineUnix))"

fun cleanupLoop ::
  "Host \<Rightarrow> DockerConfig \<Rightarrow> time \<Rightarrow> string list \<Rightarrow> int \<Rightarrow> dock_trace \<Rightarrow> int \<times> dock_trace" where
  "cleanupLoop H cfg now [] removed tr = (removed, tr)"
| "cleanupLoop H cfg now (cid # ids) removed tr =
     (let ((deadlineText, err), tr1) = execRun H (dc_Binary cfg) [''inspect'', ''--format'', deadlineFormat, cid] tr in
      if err \<noteq> None \<or> \<not> deadlineExpired now deadlineText then cleanupLoop H cfg now ids removed tr1
      else
      let ((_, rmErr), tr2) = execRun H (dc_Binary cfg) [''rm'', ''-f'', cid] tr1 in
      cleanupLoop H cfg now ids (if rmErr = None then wrap64 (removed + 1) else removed) tr2)"

definition CleanupExpired :: "Host \<Rightarrow> DockerConfig \<Rightarrow> time \<Rightarrow> dock_trace \<Rightarrow> (goerror + int) \<times> dock_trace" where
  "CleanupExpired H cfg now tr =
     (let (listed, tr1) = managedContainerIDs H cfg True tr in
      case listed of
        Inl e \<Rightarrow> (Inl e, tr1)
      | Inr ids \<Rightarrow> (let (removed, tr2) = cleanupLoop H cfg now ids 0 tr1 in (Inr removed, tr2)))"

section \<open>The backends that are not implemented\<close>

definition CapacityKVM :: "goerror + Capacity" where
  "CapacityKVM = Inl (Errorf ''KVM backend capacity probe not implemented'')"

definition CreateKVM :: "JobSpec \<Rightarrow> goerror + Instance" where
  "CreateKVM spec = Inl (Errorf ''KVM backend create not implemented'')"

definition DestroyKVM :: "string \<Rightarrow> goerror option" where
  "DestroyKVM instanceID = Some (Errorf ''KVM backend destroy not implemented'')"

definition CapacityHyperV :: "goerror + Capacity" where
  "CapacityHyperV = Inl (Errorf ''HyperV backend capacity probe not implemented'')"

definition CreateHyperV :: "JobSpec \<Rightarrow> goerror + Instance" where
  "CreateHyperV spec = Inl (Errorf ''HyperV backend create not implemented'')"

definition DestroyHyperV :: "string \<Rightarrow> goerror option" where
  "DestroyHyperV instanceID = Some (Errorf ''HyperV backend destroy not implemented'')"

section \<open>Lemmas\<close>

subsection \<open>Labels: what is printed is read back\<close>

lemma digit_is_name_byte: "d < 10 \<Longrightarrow> name_byte (digit d) \<and> \<not> isSpace (digit d) \<and> digit d \<notin> set ''|-._''"
proof -
  have "list_all (\<lambda>d. name_byte (digit d) \<and> \<not> isSpace (digit d) \<and> digit d \<notin> set ''|-._'') [0..<10]"
    by code_simp
  then have "\<forall>d < 10. name_byte (digit d) \<and> \<not> isSpace (digit d) \<and> digit d \<notin> set ''|-._''"
    by (simp add: list_all_iff)
  then show "d < 10 \<Longrightarrow> ?thesis" by blast
qed

lemma FormatInt_bytes:
  "\<forall>c \<in> set (FormatInt n). name_byte c \<and> \<not> isSpace c \<and> c \<noteq> CHR ''|''"
proof
  fix c
  assume c: "c \<in> set (FormatInt n)"
  have "name_byte CHR ''-''" "\<not> isSpace CHR ''-''" by code_simp+
  moreover have "c = CHR ''-'' \<or> (\<exists>d < 10. c = digit d)"
    using c nat_dec_digits by (auto simp: FormatInt_def split: if_splits)
  ultimately show "name_byte c \<and> \<not> isSpace c \<and> c \<noteq> CHR ''|''" using digit_is_name_byte by auto
qed

lemma FormatInt_not_Nil [simp]: "FormatInt n \<noteq> []"
  by (simp add: FormatInt_def)

lemma last_FormatInt: "last (FormatInt n) \<notin> set ''-._''"
proof -
  have "last (FormatInt n) = last (nat_dec (nat \<bar>n\<bar>))" by (simp add: FormatInt_def)
  then obtain m where m: "last (FormatInt n) = last (nat_dec m)" by blast
  have "last (nat_dec m) \<in> set (nat_dec m)" by simp
  with nat_dec_digits [of m] obtain d where "d < 10" "last (nat_dec m) = digit d" by blast
  with digit_is_name_byte [of d] m show ?thesis by auto
qed

lemma TrimSpace_idem [simp]: "TrimSpace (TrimSpace s) = TrimSpace s"
proof -
  have front: "dropWhile isSpace (rev (dropWhile isSpace (rev t))) = rev (dropWhile isSpace (rev t))"
    if "dropWhile isSpace t = t" for t
  proof (cases "rev (dropWhile isSpace (rev t))")
    case (Cons c r)
    obtain k where "t = rev (dropWhile isSpace (rev t)) @ k"
      by (metis rev_append rev_rev_ident takeWhile_dropWhile_id)
    with Cons have "hd t = c" "t \<noteq> []" by auto
    with that have "\<not> isSpace c" by (metis dropWhile_eq_self_iff)
    with Cons show ?thesis by simp
  qed (simp only: dropWhile.simps)
  show ?thesis
    unfolding TrimSpace_def using front [of "dropWhile isSpace s"] by simp
qed

lemma TrimSpace_FormatInt [simp]: "TrimSpace (FormatInt n) = FormatInt n"
  using FormatInt_bytes by (intro TrimSpace_none) blast

lemma parseNonNegativeInt_FormatInt: "0 \<le> n \<Longrightarrow> in_int64 n \<Longrightarrow> parseNonNegativeInt (FormatInt n) = n"
  by (simp add: parseNonNegativeInt_def ParseInt_FormatInt)

lemma SplitN2_sep: "sep \<notin> set a \<Longrightarrow> SplitN2 (a @ sep # b) sep = [a, b]"
  by (induction a) (auto simp: SplitN2_def split: list.splits)

lemma SplitN2_labels: "SplitN2 (FormatInt a @ ''|'' @ FormatInt b) CHR ''|'' = [FormatInt a, FormatInt b]"
proof -
  have "CHR ''|'' \<notin> set (FormatInt a)" using FormatInt_bytes by blast
  then show ?thesis by (simp add: SplitN2_sep)
qed

lemma deadlineExpired_label:
  "in_int64 n \<Longrightarrow> deadlineExpired now (FormatInt n) \<longleftrightarrow> 0 < n \<and> n \<le> time_Unix now"
  by (auto simp: deadlineExpired_def ParseInt_FormatInt)

subsection \<open>Names\<close>

lemma sanitizeName_safeName: "sanitizeName = safeName"
  by (simp add: fun_eq_iff sanitizeName_def safeName_def)

lemma safeName_clean:
  assumes "\<forall>c \<in> set s. name_byte c" "s \<noteq> []" "hd s \<notin> set ''-._''" "last s \<notin> set ''-._''"
  shows "safeName s = s"
proof -
  have "map (\<lambda>c. if name_byte c then c else CHR ''-'') (ToLower s) = s"
    using assms(1) by (auto simp: ToLower_def lower_name_byte intro!: map_idI)
  with assms show ?thesis by (simp add: safeName_def Trim_clean)
qed

lemma safeName_containerJobID: "safeName (containerJobID k) = containerJobID k"
proof (rule safeName_clean)
  have "list_all name_byte ''gh-''" by code_simp
  then show "\<forall>c \<in> set (containerJobID k). name_byte c"
    using FormatInt_bytes by (auto simp: containerJobID_def)
  show "last (containerJobID k) \<notin> set ''-._''" using last_FormatInt by (simp add: containerJobID_def)
qed (simp_all add: containerJobID_def)

lemma plain_safeName: "safeName s \<noteq> [] \<Longrightarrow> plain_elem (safeName s)"
proof -
  assume ne: "safeName s \<noteq> []"
  then have "hd (safeName s) \<notin> set ''-._''" using Trim_ends unfolding safeName_def by blast
  moreover have "CHR ''/'' \<notin> set (safeName s)"
    using safeName_bytes [of s] by (auto simp: name_byte_def)
  ultimately show ?thesis using ne by (auto simp: plain_elem_def)
qed

lemma plain_hex: "s \<noteq> [] \<Longrightarrow> plain_elem (hex_Encode s)"
proof -
  assume ne: "s \<noteq> []"
  have d: "hex_digit d \<noteq> CHR ''/'' \<and> hex_digit d \<noteq> CHR ''.''" if "d < 16" for d
    using hex_value_digit [OF that] by (auto simp: hex_value_def)
  have "c \<noteq> CHR ''/'' \<and> c \<noteq> CHR ''.''" if "c \<in> set (hex_Encode s)" for c
  proof -
    from that obtain b where b: "c \<in> set (hex_byte b)" by (auto simp: hex_Encode_def)
    have "(of_char b :: nat) div 16 < 16" using nat_of_char_less_256 [of b] by linarith
    with b d show ?thesis by (auto simp: hex_byte_def Let_def)
  qed
  moreover have "hex_Encode s \<noteq> []"
    using ne length_hex_Encode [of s] by (metis length_0_conv mult_eq_0_iff zero_neq_numeral)
  ultimately show ?thesis by (fastforce simp: plain_elem_def)
qed

subsection \<open>Commands\<close>

fun exec_args :: "dock_effect \<Rightarrow> string list option" where
  "exec_args (DExec name args res) = Some args"
| "exec_args e = None"

definition commands :: "dock_trace \<Rightarrow> string list list" where
  "commands tr = List.map_filter exec_args tr"

lemma commands_simps [simp]:
  "commands [] = []" "commands (t @ u) = commands t @ commands u"
  "commands [DExec name args res] = [args]" "commands [DClock t'] = []" "commands [DMkdirAll p r] = []"
  "commands [DReadMeminfo x] = []"
  by (simp_all add: commands_def List.map_filter_def)

lemma execRun_effect [simp]: "snd (execRun H name args tr) = tr @ [DExec name args (host_exec H tr name args)]"
  by (simp add: execRun_def split_beta)

lemma execRun_pair:
  obtains e where "execRun H name args tr =
      ((TrimSpace (fst (host_exec H tr name args)), e), tr @ [DExec name args (host_exec H tr name args)])"
    "e = None \<longleftrightarrow> snd (host_exec H tr name args) = None"
proof (cases "host_exec H tr name args")
  case (Pair out e)
  then show thesis by (cases e) (auto intro!: that simp: execRun_def)
qed

lemma execRun_ok_iff: "snd (fst (execRun H name args tr)) = None \<longleftrightarrow> snd (host_exec H tr name args) = None"
  by (simp add: execRun_def split_beta split: option.split)

lemma execRun_out [simp]: "fst (fst (execRun H name args tr)) = TrimSpace (fst (host_exec H tr name args))"
  by (simp add: execRun_def split_beta)

lemma mountArgs_commands: "\<exists>es. snd (mountArgs H cfg repo mounts tr) = tr @ es \<and> commands es = []"
proof (induction H cfg repo mounts tr rule: mountArgs.induct)
  case (2 H cfg repo mount mounts tr)
  show ?case
  proof (cases "cachePath cfg repo (cm_Name mount)")
    case (Inl err)
    then show ?thesis by simp
  next
    case (Inr p)
    show ?thesis
    proof (cases "validateCacheTarget (cm_Target mount)")
      case (Some err)
      with Inr show ?thesis by simp
    next
      case None
      let ?tr = "tr @ [DMkdirAll p (host_mkdir H tr p)]"
      show ?thesis
      proof (cases "host_mkdir H tr p")
        case (Some err)
        with Inr None show ?thesis by (simp add: Let_def)
      next
        case made: None
        obtain es where "snd (mountArgs H cfg repo mounts ?tr) = ?tr @ es" "commands es = []"
          using 2 [OF Inr None refl refl] made by auto
        with Inr None made show ?thesis
          by (intro exI [of _ "DMkdirAll p None # es"])
             (auto simp: Let_def split_beta commands_def List.map_filter_def)
      qed
    qed
  qed
qed simp

lemma ToLower_append: "ToLower (s @ t) = ToLower s @ ToLower t"
  by (simp add: ToLower_def)

lemma envArgs_valid: "envArgs keys env = Inr args \<Longrightarrow> \<forall>k \<in> set keys. k \<noteq> [] \<and> CHR ''='' \<notin> set k"
  by (induction keys arbitrary: args) (auto split: if_splits sum.splits)

subsection \<open>The operations\<close>

text \<open>The branches of \<open>Create\<close> that reach \<open>docker run\<close>, and those that do not.\<close>

lemma CreateDocker_cases:
  obtains (refused) err es where "fst (CreateDocker H cfg spec tr) = Inl err"
      "snd (CreateDocker H cfg spec tr) = tr @ es" "commands es = []"
  | (ran) env mounts es args where
      "spec_ID spec \<noteq> []" "spec_Repository spec \<noteq> []" "spec_Image spec \<noteq> []"
      "0 \<le> spec_CPU spec" "0 \<le> spec_MemoryM spec" "sanitizeName (spec_ID spec) \<noteq> []"
      "args = runArgs cfg (''cifleet-'' @ sanitizeName (spec_ID spec))
         (time_Add (host_clock H tr) (EffectiveTimeout spec (dc_DefaultTimeout cfg))) spec @
         env @ configArgs spec @ mounts @ [spec_Image spec] @ spec_Command spec"
      "envArgs (range_keys (host_rank H (tr @ [DClock (host_clock H tr)])) (spec_Environment spec))
         (spec_Environment spec) = Inr env"
      "commands es = []"
      "CreateDocker H cfg spec tr =
         (case execRun H (dc_Binary cfg) args (tr @ es) of
            ((cid, Some err), tr3) \<Rightarrow> (Inl err, tr3)
          | ((cid, None), tr3) \<Rightarrow>
              (Inr \<lparr>inst_ID = TrimSpace cid, inst_Backend = BackendDocker, inst_NodeID = dc_NodeID cfg,
                 inst_Deadline = time_Add (host_clock H tr) (EffectiveTimeout spec (dc_DefaultTimeout cfg))\<rparr>, tr3))"
proof -
  let ?tr1 = "tr @ [DClock (host_clock H tr)]"
  let ?env = "envArgs (range_keys (host_rank H ?tr1) (spec_Environment spec)) (spec_Environment spec)"
  let ?mnt = "mountArgs H cfg (spec_Repository spec) (spec_CacheMounts spec) ?tr1"
  show thesis
  proof (cases "spec_ID spec = [] \<or> spec_Repository spec = [] \<or> spec_Image spec = [] \<or>
      spec_CPU spec < 0 \<or> spec_MemoryM spec < 0 \<or> sanitizeName (spec_ID spec) = []")
    case True
    then have "snd (CreateDocker H cfg spec tr) = tr @ []" "\<exists>err. fst (CreateDocker H cfg spec tr) = Inl err"
      by (auto simp: CreateDocker_def Let_def)
    with refused [of _ "[]"] show thesis by auto
  next
    case valid: False
    show thesis
    proof (cases ?env)
      case (Inl err)
      with valid show thesis by (intro refused [of err "[DClock (host_clock H tr)]"]) (auto simp: CreateDocker_def Let_def)
    next
      case env: (Inr env)
      obtain es where es: "snd ?mnt = ?tr1 @ es" "commands es = []" using mountArgs_commands by blast
      show thesis
      proof (cases "fst ?mnt")
        case (Inl err)
        with valid env es show thesis
          by (intro refused [of err "DClock (host_clock H tr) # es"])
             (auto simp: CreateDocker_def Let_def split_beta commands_def List.map_filter_def)
      next
        case (Inr mounts)
        with valid env es show thesis
          by (intro ran [of _ env mounts "DClock (host_clock H tr) # es"])
             (auto simp: CreateDocker_def Let_def split_beta commands_def List.map_filter_def
               split: option.split)
      qed
    qed
  qed
qed

lemma cleanupLoop_commands:
  assumes "\<And>t c. host_exec H t (dc_Binary cfg) [''inspect'', ''--format'', deadlineFormat, c] = label c"
  shows "\<exists>es. snd (cleanupLoop H cfg now ids n tr) = tr @ es \<and>
    filter (\<lambda>args. hd args = ''rm'') (commands es) =
      map (\<lambda>c. [''rm'', ''-f'', c])
        (filter (\<lambda>c. snd (label c) = None \<and> deadlineExpired now (TrimSpace (fst (label c)))) ids)"
proof (induction ids arbitrary: n tr)
  case (Cons c ids)
  let ?i = "[''inspect'', ''--format'', deadlineFormat, c]"
  let ?tr1 = "tr @ [DExec (dc_Binary cfg) ?i (label c)]"
  let ?tr2 = "?tr1 @ [DExec (dc_Binary cfg) [''rm'', ''-f'', c] (host_exec H ?tr1 (dc_Binary cfg) [''rm'', ''-f'', c])]"
  let ?rm = "snd (label c) = None \<and> deadlineExpired now (TrimSpace (fst (label c)))"
  obtain e1 where e1: "execRun H (dc_Binary cfg) ?i tr = ((TrimSpace (fst (label c)), e1), ?tr1)"
    "e1 = None \<longleftrightarrow> snd (label c) = None"
    by (rule execRun_pair [of H "dc_Binary cfg" ?i tr]) (auto simp: assms)
  obtain out e2 where e2: "execRun H (dc_Binary cfg) [''rm'', ''-f'', c] ?tr1 = ((out, e2), ?tr2)"
    by (rule execRun_pair [of H "dc_Binary cfg" "[''rm'', ''-f'', c]" ?tr1])
  define n' where "n' = (if e2 = None then wrap64 (n + 1) else n)"
  have step: "cleanupLoop H cfg now (c # ids) n tr =
      (if ?rm then cleanupLoop H cfg now ids n' ?tr2 else cleanupLoop H cfg now ids n ?tr1)"
    using e1(2) by (cases e1) (auto simp: e1(1) e2 n'_def)
  show ?case
  proof (cases ?rm)
    case True
    obtain es where "snd (cleanupLoop H cfg now ids n' ?tr2) = ?tr2 @ es"
      "filter (\<lambda>args. hd args = ''rm'') (commands es) =
        map (\<lambda>c. [''rm'', ''-f'', c])
        (filter (\<lambda>c. snd (label c) = None \<and> deadlineExpired now (TrimSpace (fst (label c)))) ids)"
      using Cons by blast
    with True step show ?thesis
      by (intro exI [of _ "drop (length tr) ?tr2 @ es"]) (simp add: commands_def List.map_filter_def)
  next
    case False
    obtain es where "snd (cleanupLoop H cfg now ids n ?tr1) = ?tr1 @ es"
      "filter (\<lambda>args. hd args = ''rm'') (commands es) =
        map (\<lambda>c. [''rm'', ''-f'', c])
        (filter (\<lambda>c. snd (label c) = None \<and> deadlineExpired now (TrimSpace (fst (label c)))) ids)"
      using Cons by blast
    with False step show ?thesis
      by (intro exI [of _ "drop (length tr) ?tr1 @ es"]) (auto simp: commands_def List.map_filter_def)
  qed
qed simp

lemma sumReserved_labels:
  assumes "\<And>t c. c \<in> set ids \<Longrightarrow> \<exists>out. host_exec H t (dc_Binary cfg) [''inspect'', ''--format'', resourceFormat, c] = (out, None)
      \<and> TrimSpace out = FormatInt (cpu c) @ ''|'' @ FormatInt (mem c)"
    and "\<And>c. c \<in> set ids \<Longrightarrow> 0 \<le> cpu c \<and> in_int64 (cpu c) \<and> 0 \<le> mem c \<and> in_int64 (mem c)"
  shows "\<exists>es. sumReserved H cfg ids a b tr =
    (Inr (if ids = [] then (a, b) else (wrap64 (a + sum_list (map cpu ids)), wrap64 (b + sum_list (map mem ids)))), tr @ es)"
  using assms
proof (induction ids arbitrary: a b tr)
  case (Cons c ids)
  let ?i = "[''inspect'', ''--format'', resourceFormat, c]"
  obtain out where out: "host_exec H tr (dc_Binary cfg) ?i = (out, None)"
    "TrimSpace out = FormatInt (cpu c) @ ''|'' @ FormatInt (mem c)" using Cons.prems(1) [of c tr] by auto
  have c: "parseNonNegativeInt (FormatInt (cpu c)) = cpu c" "parseNonNegativeInt (FormatInt (mem c)) = mem c"
    using Cons.prems(2) [of c] by (simp_all add: parseNonNegativeInt_FormatInt)
  have run: "execRun H (dc_Binary cfg) ?i tr = ((TrimSpace out, None), tr @ [DExec (dc_Binary cfg) ?i (out, None)])"
    by (simp add: execRun_def out(1))
  let ?tr = "tr @ [DExec (dc_Binary cfg) ?i (out, None)]"
  have parts: "SplitN2 (TrimSpace out) CHR ''|'' = [FormatInt (cpu c), FormatInt (mem c)]"
    unfolding out(2) by (rule SplitN2_labels)
  have step: "sumReserved H cfg (c # ids) a b tr = sumReserved H cfg ids (wrap64 (a + cpu c)) (wrap64 (b + mem c)) ?tr"
    by (simp only: sumReserved.simps run Let_def prod.case option.case parts list.case c)
  have "\<exists>es. sumReserved H cfg ids (wrap64 (a + cpu c)) (wrap64 (b + mem c)) ?tr =
    (Inr (if ids = [] then (wrap64 (a + cpu c), wrap64 (b + mem c)) else
      (wrap64 (wrap64 (a + cpu c) + sum_list (map cpu ids)), wrap64 (wrap64 (b + mem c) + sum_list (map mem ids)))),
      ?tr @ es)"
    by (rule Cons.IH) (use Cons.prems in auto)
  then show ?case unfolding step by (auto simp: add.assoc)
qed simp

lemma CreateDocker_ran:
  assumes "CreateDocker H cfg spec tr = (Inr inst, tr')"
  shows "\<exists>es args rest out.
     tr' = tr @ es @ [DExec (dc_Binary cfg) args (out, None)] \<and> commands es = [] \<and>
     args = [''run'', ''-d'', ''--name'', ''cifleet-'' @ sanitizeName (spec_ID spec),
       ''--label'', ''io.cifleet.managed=true'', ''--label'', ''io.cifleet.node='' @ dc_NodeID cfg,
       ''--label'', ''io.cifleet.job_id='' @ spec_ID spec,
       ''--label'', ''io.cifleet.repository='' @ spec_Repository spec,
       ''--label'', ''io.cifleet.deadline='' @ FormatInt (time_Unix (inst_Deadline inst)),
       ''--label'', ''io.cifleet.cpu='' @ FormatInt (spec_CPU spec),
       ''--label'', ''io.cifleet.memory_mb='' @ FormatInt (spec_MemoryM spec)] @
       rest @ [spec_Image spec] @ spec_Command spec \<and>
     inst_Deadline inst = time_Add (host_clock H tr) (EffectiveTimeout spec (dc_DefaultTimeout cfg)) \<and>
     inst_ID inst = TrimSpace out \<and> inst_Backend inst = BackendDocker \<and> inst_NodeID inst = dc_NodeID cfg"
proof (rule CreateDocker_cases [of H cfg spec tr])
  fix env mounts es args
  assume args: "args = runArgs cfg (''cifleet-'' @ sanitizeName (spec_ID spec))
      (time_Add (host_clock H tr) (EffectiveTimeout spec (dc_DefaultTimeout cfg))) spec @
      env @ configArgs spec @ mounts @ [spec_Image spec] @ spec_Command spec"
    and es: "commands es = []"
    and run: "CreateDocker H cfg spec tr =
         (case execRun H (dc_Binary cfg) args (tr @ es) of
            ((cid, Some err), tr3) \<Rightarrow> (Inl err, tr3)
          | ((cid, None), tr3) \<Rightarrow>
              (Inr \<lparr>inst_ID = TrimSpace cid, inst_Backend = BackendDocker, inst_NodeID = dc_NodeID cfg,
                 inst_Deadline = time_Add (host_clock H tr) (EffectiveTimeout spec (dc_DefaultTimeout cfg))\<rparr>, tr3))"
  let ?x = "host_exec H (tr @ es) (dc_Binary cfg) args"
  obtain e where
    e: "execRun H (dc_Binary cfg) args (tr @ es) = ((TrimSpace (fst ?x), e), (tr @ es) @ [DExec (dc_Binary cfg) args ?x])"
      "e = None \<longleftrightarrow> snd ?x = None" by (rule execRun_pair)
  with run assms have none: "e = None" by (cases e) auto
  with e(2) have x: "?x = (fst ?x, None)" by (metis prod.collapse)
  have inst: "inst = \<lparr>inst_ID = TrimSpace (TrimSpace (fst ?x)), inst_Backend = BackendDocker, inst_NodeID = dc_NodeID cfg,
                 inst_Deadline = time_Add (host_clock H tr) (EffectiveTimeout spec (dc_DefaultTimeout cfg))\<rparr>"
    and tr': "tr' = (tr @ es) @ [DExec (dc_Binary cfg) args ?x]"
    using run assms none by (simp_all add: e(1))
  let ?lim = "(if spec_CPU spec > 0 then [''--cpus'', FormatInt (spec_CPU spec)] else []) @
     (if spec_MemoryM spec > 0 then [''--memory'', FormatInt (spec_MemoryM spec) @ ''m''] else [])"
  show ?thesis
  proof (rule exI [of _ es], rule exI [of _ args], rule exI [of _ "?lim @ env @ configArgs spec @ mounts"],
      rule exI [of _ "fst ?x"], intro conjI)
    show "tr' = tr @ es @ [DExec (dc_Binary cfg) args (fst ?x, None)]" unfolding tr' using x by simp
    show "inst_ID inst = TrimSpace (fst ?x)" by (simp add: inst TrimSpace_idem)
    show "commands es = []" by (rule es)
    show "args = [''run'', ''-d'', ''--name'', ''cifleet-'' @ sanitizeName (spec_ID spec),
       ''--label'', ''io.cifleet.managed=true'', ''--label'', ''io.cifleet.node='' @ dc_NodeID cfg,
       ''--label'', ''io.cifleet.job_id='' @ spec_ID spec,
       ''--label'', ''io.cifleet.repository='' @ spec_Repository spec,
       ''--label'', ''io.cifleet.deadline='' @ FormatInt (time_Unix (inst_Deadline inst)),
       ''--label'', ''io.cifleet.cpu='' @ FormatInt (spec_CPU spec),
       ''--label'', ''io.cifleet.memory_mb='' @ FormatInt (spec_MemoryM spec)] @
       (?lim @ env @ configArgs spec @ mounts) @ [spec_Image spec] @ spec_Command spec"
      unfolding args runArgs_def managedLabel_def by (simp add: inst)
  qed (simp_all add: inst)
qed (use assms in simp)

lemma strings_Join_split:
  assumes "a \<in> set args"
  shows "\<exists>p q. strings_Join sep args = p @ a @ q"
  using assms
proof (induction sep args rule: strings_Join.induct)
  case (2 sep s)
  then have "strings_Join sep [s] = [] @ a @ []" by simp
  then show ?case by blast
next
  case (3 sep s t ss)
  show ?case
  proof (cases "a = s")
    case True
    then have "strings_Join sep (s # t # ss) = [] @ a @ sep @ strings_Join sep (t # ss)" by simp
    then show ?thesis by blast
  next
    case False
    with 3 obtain p q where "strings_Join sep (t # ss) = p @ a @ q" by auto
    then have "strings_Join sep (s # t # ss) = (s @ sep @ p) @ a @ q" by simp
    then show ?thesis by blast
  qed
qed simp

lemma envArgs_set: "envArgs keys env = Inr args \<Longrightarrow> k \<in> set keys \<Longrightarrow> k @ ''='' @ index0 [] env k \<in> set args"
  by (induction keys arbitrary: args) (auto split: if_splits sum.splits)

text \<open>The error of a failed \<open>docker run\<close> spells out the value of every environment variable.\<close>

lemma CreateDocker_error_env:
  assumes "CreateDocker H cfg spec tr = (Inl err, tr @ es)" and "commands es \<noteq> []"
    and "fmlookup (spec_Environment spec) k = Some v"
  shows "Contains (Error err) (k @ ''='' @ v)"
proof (rule CreateDocker_cases [of H cfg spec tr])
  fix err' es'
  assume "snd (CreateDocker H cfg spec tr) = tr @ es'" "commands es' = []"
  with assms show ?thesis by simp
next
  fix env mounts es' args
  let ?keys = "range_keys (host_rank H (tr @ [DClock (host_clock H tr)])) (spec_Environment spec)"
  let ?h = "runArgs cfg (''cifleet-'' @ sanitizeName (spec_ID spec))
      (time_Add (host_clock H tr) (EffectiveTimeout spec (dc_DefaultTimeout cfg))) spec"
  assume args: "args = ?h @ env @ configArgs spec @ mounts @ [spec_Image spec] @ spec_Command spec"
    and env: "envArgs ?keys (spec_Environment spec) = Inr env"
    and run: "CreateDocker H cfg spec tr =
         (case execRun H (dc_Binary cfg) args (tr @ es') of
            ((cid, Some err), tr3) \<Rightarrow> (Inl err, tr3)
          | ((cid, None), tr3) \<Rightarrow>
              (Inr \<lparr>inst_ID = TrimSpace cid, inst_Backend = BackendDocker, inst_NodeID = dc_NodeID cfg,
                 inst_Deadline = time_Add (host_clock H tr) (EffectiveTimeout spec (dc_DefaultTimeout cfg))\<rparr>, tr3))"
  have "k \<in> set ?keys" using assms(3) by (simp add: fmdomI)
  from envArgs_set [OF env this] assms(3) have "k @ ''='' @ v \<in> set env" by simp
  then have "k @ ''='' @ v \<in> set args" by (simp add: args)
  then obtain p q where j: "strings_Join '' '' args = p @ (k @ ''='' @ v) @ q" using strings_Join_split by blast
  obtain out e where x: "host_exec H (tr @ es') (dc_Binary cfg) args = (out, e)" by (cases "host_exec H (tr @ es') (dc_Binary cfg) args")
  obtain e' where e': "e = Some e'" using assms(1) run by (cases e) (auto simp: execRun_def x)
  have "err = Wrapf (dc_Binary cfg @ '' '' @ strings_Join '' '' args @ '': '') e' ('': '' @ TrimSpace out)"
    using assms(1) run by (simp add: execRun_def x e')
  then have "Error err = (dc_Binary cfg @ '' '' @ p) @ (k @ ''='' @ v) @ (q @ '': '' @ Error e' @ '': '' @ TrimSpace out)"
    by (simp add: j)
  then show ?thesis using Contains_append by metis
qed

section \<open>Properties\<close>

definition sample_host :: Host where
  "sample_host =
     \<lparr>host_exec = (\<lambda>_ _ args.
        if args = [''inspect'', ''--format'', deadlineFormat, ''old''] then (''100'', None)
        else if args = [''inspect'', ''--format'', deadlineFormat, ''new''] then (''200'', None)
        else if args = [''inspect'', ''--format'', resourceFormat, ''old''] then (''2|1024'', None)
        else if hd args = ''ps'' then (''old new'', None)
        else if hd args = ''run'' then (''c0ffee'', None)
        else ([], None)),
      host_clock = (\<lambda>_. (unix_epoch_seconds + 5) * Second), host_mkdir = (\<lambda>_ _. None), host_meminfo = (\<lambda>_. Inr []),
      host_NumCPU = 8, host_GOOS = ''linux'', host_GOARCH = ''amd64'', host_rank = (\<lambda>_ _. 0)\<rparr>"

definition sample_docker :: DockerConfig where
  "sample_docker = NewDocker \<lparr>dc_Binary = [], dc_NodeID = ''e5'', dc_CacheRoot = [], dc_DefaultTimeout = 0\<rparr>"

definition sample_spec :: JobSpec where
  "sample_spec = \<lparr>spec_ID = ''gh-12'', spec_Repository = ''o/r'', spec_RunnerConfig = [], spec_Image = ''img'',
     spec_Command = [''run.sh''], spec_CPU = 2, spec_MemoryM = 1024, spec_Environment = fmempty,
     spec_CacheMounts = [], spec_Timeout = 0, spec_TimeoutSeconds = 60\<rparr>"

text \<open>C22: \<open>Create\<close> runs one command at most, and none at all when it refuses the specification. When it
  returns an instance, the last thing it did is a \<open>docker run\<close> that succeeded, of a container named
  after the job, labelled as managed, with the deadline of the returned instance, the CPUs and the
  memory of the job in its labels, the image and the command of the specification at the end; the
  deadline is the effective timeout after the time of the call.\<close>

theorem create_runs_one_container:
  assumes "CreateDocker H cfg spec tr = (Inr inst, tr')"
  shows "\<exists>es args rest out.
     tr' = tr @ es @ [DExec (dc_Binary cfg) args (out, None)] \<and> commands es = [] \<and>
     args = [''run'', ''-d'', ''--name'', ''cifleet-'' @ sanitizeName (spec_ID spec),
       ''--label'', ''io.cifleet.managed=true'', ''--label'', ''io.cifleet.node='' @ dc_NodeID cfg,
       ''--label'', ''io.cifleet.job_id='' @ spec_ID spec,
       ''--label'', ''io.cifleet.repository='' @ spec_Repository spec,
       ''--label'', ''io.cifleet.deadline='' @ FormatInt (time_Unix (inst_Deadline inst)),
       ''--label'', ''io.cifleet.cpu='' @ FormatInt (spec_CPU spec),
       ''--label'', ''io.cifleet.memory_mb='' @ FormatInt (spec_MemoryM spec)] @
       rest @ [spec_Image spec] @ spec_Command spec \<and>
     inst_Deadline inst = time_Add (host_clock H tr) (EffectiveTimeout spec (dc_DefaultTimeout cfg)) \<and>
     inst_ID inst = TrimSpace out \<and> inst_Backend inst = BackendDocker \<and> inst_NodeID inst = dc_NodeID cfg"
  by (rule CreateDocker_ran [OF assms])

theorem create_runs_one_container_witness:
  "\<exists>es args out. snd (CreateDocker sample_host sample_docker sample_spec []) =
      es @ [DExec ''docker'' args (out, None)] \<and> commands es = [] \<and>
      take 4 args = [''run'', ''-d'', ''--name'', ''cifleet-gh-12'']"
proof -
  have "\<not> isl (fst (CreateDocker sample_host sample_docker sample_spec []))" by code_simp
  then obtain inst where "CreateDocker sample_host sample_docker sample_spec [] =
      (Inr inst, snd (CreateDocker sample_host sample_docker sample_spec []))"
    by (metis isl_def prod.collapse sum.exhaust_sel)
  from create_runs_one_container [OF this] obtain es args out where
    "snd (CreateDocker sample_host sample_docker sample_spec []) =
      es @ [DExec (dc_Binary sample_docker) args (out, None)]" "commands es = []"
    "take 4 args = [''run'', ''-d'', ''--name'', ''cifleet-'' @ sanitizeName (spec_ID sample_spec)]" by auto
  moreover have "sanitizeName (spec_ID sample_spec) = ''gh-12''" "dc_Binary sample_docker = ''docker''" by code_simp+
  ultimately show ?thesis by auto
qed

text \<open>A specification that is refused (missing fields, negative resources, an unusable identifier, an
  invalid environment variable or cache mount) runs no command.\<close>

lemma create_refusal_is_silent:
  assumes "CreateDocker H cfg spec tr = (Inl err, tr')"
  shows "\<exists>es. tr' = tr @ es \<and>
     (commands es = [] \<or>
      (\<exists>es' args out e. es = es' @ [DExec (dc_Binary cfg) args (out, Some e)] \<and> commands es' = [] \<and>
         (\<forall>k v. fmlookup (spec_Environment spec) k = Some v \<longrightarrow> k \<noteq> [] \<and> CHR ''='' \<notin> set k)))"
proof (rule CreateDocker_cases [of H cfg spec tr])
  fix err' es
  assume "snd (CreateDocker H cfg spec tr) = tr @ es" "commands es = []"
  with assms show ?thesis by auto
next
  fix env mounts es args
  assume env: "envArgs (range_keys (host_rank H (tr @ [DClock (host_clock H tr)])) (spec_Environment spec))
         (spec_Environment spec) = Inr env"
    and es: "commands es = []"
    and run: "CreateDocker H cfg spec tr =
         (case execRun H (dc_Binary cfg) args (tr @ es) of
            ((cid, Some err), tr3) \<Rightarrow> (Inl err, tr3)
          | ((cid, None), tr3) \<Rightarrow>
              (Inr \<lparr>inst_ID = TrimSpace cid, inst_Backend = BackendDocker, inst_NodeID = dc_NodeID cfg,
                 inst_Deadline = time_Add (host_clock H tr) (EffectiveTimeout spec (dc_DefaultTimeout cfg))\<rparr>, tr3))"
  let ?x = "host_exec H (tr @ es) (dc_Binary cfg) args"
  obtain e where
    e: "execRun H (dc_Binary cfg) args (tr @ es) = ((TrimSpace (fst ?x), e), (tr @ es) @ [DExec (dc_Binary cfg) args ?x])"
      "e = None \<longleftrightarrow> snd ?x = None" by (rule execRun_pair)
  with run assms have "e \<noteq> None" by (cases e) auto
  with e(2) obtain e' where x: "?x = (fst ?x, Some e')" by (metis not_None_eq prod.collapse)
  have "tr' = tr @ es @ [DExec (dc_Binary cfg) args ?x]" using run assms \<open>e \<noteq> None\<close> by (auto simp: e(1))
  moreover have "\<forall>k v. fmlookup (spec_Environment spec) k = Some v \<longrightarrow> k \<noteq> [] \<and> CHR ''='' \<notin> set k"
    using envArgs_valid [OF env] by (auto simp: fmlookup_dom_iff)
  ultimately show ?thesis using x es by metis
qed

text \<open>Destroying is idempotent: an empty identifier is an error without a command; otherwise one
  \<open>docker rm -f\<close> runs, and the result is success if it succeeded or if its error says, in whatever case,
  that there is no such container.\<close>

lemma destroy_idempotent:
  assumes "TrimSpace instanceID \<noteq> []" and "host_exec H tr (dc_Binary cfg) [''rm'', ''-f'', instanceID] = (out, e)"
  shows "snd (DestroyDocker H cfg instanceID tr) = tr @ [DExec (dc_Binary cfg) [''rm'', ''-f'', instanceID] (out, e)] \<and>
     (e = None \<or> Contains (ToLower (TrimSpace out)) ''no such container'' \<longrightarrow>
        fst (DestroyDocker H cfg instanceID tr) = None)"
proof -
  have "Contains (ToLower (Error (Wrapf p x ('': '' @ TrimSpace out)))) ''no such container''"
    if "Contains (ToLower (TrimSpace out)) ''no such container''" for p x
  proof -
    from that obtain a b where "ToLower (TrimSpace out) = a @ ''no such container'' @ b" by (auto simp: Contains_iff)
    then have "ToLower (Error (Wrapf p x ('': '' @ TrimSpace out))) =
        (ToLower p @ ToLower (Error x) @ ToLower '': '' @ a) @ ''no such container'' @ b"
      by (simp add: ToLower_append del: append_Cons append_Nil)
    then show ?thesis by (metis Contains_append)
  qed
  then show ?thesis using assms
    by (auto simp: DestroyDocker_def execRun_def split: option.split simp del: Error.simps)
qed

lemma destroy_idempotent_witness:
  "fst (DestroyDocker (sample_host\<lparr>host_exec := \<lambda>_ _ _. (''Error: No such container: x'', Some (Errorf ''exit status 1''))\<rparr>)
     sample_docker ''x'' []) = None"
proof -
  have "Contains (ToLower (TrimSpace ''Error: No such container: x'')) ''no such container''"
    "TrimSpace ''x'' \<noteq> []" by code_simp+
  with destroy_idempotent [of "''x''" "sample_host\<lparr>host_exec := \<lambda>_ _ _. (''Error: No such container: x'',
      Some (Errorf ''exit status 1''))\<rparr>" "[]" sample_docker "''Error: No such container: x''" "Some (Errorf ''exit status 1'')"]
  show ?thesis by simp
qed



text \<open>The deadline label is read back: a container created with a deadline has expired, for the cleanup,
  exactly from the second of the deadline on; and the resource labels of a container are read back by
  the capacity probe as the CPUs and the memory it was created with.\<close>

lemma labels_read_back:
  assumes "in_int64 (time_Unix deadline)" and "0 \<le> cpu" and "in_int64 cpu"
  shows "(deadlineExpired now (FormatInt (time_Unix deadline)) \<longleftrightarrow>
       0 < time_Unix deadline \<and> time_Unix deadline \<le> time_Unix now) \<and>
     parseNonNegativeInt (FormatInt cpu) = cpu"
  using assms by (simp add: deadlineExpired_label parseNonNegativeInt_FormatInt)


definition busy_host :: Host where
  "busy_host = sample_host\<lparr>
     host_exec := (\<lambda>_ _ args. if hd args = ''ps'' then (''old'', None) else (''2|1024'', None)),
     host_meminfo := (\<lambda>_. Inr ''MemTotal: 4096 kB'')\<rparr>"


text \<open>C25: A cache mount stays below the cache root: with an absolute cache root other than \<open>/\<close>, the host
  path of a mount is the clean root, a directory of 16 hexadecimal digits that depends on the
  repository only, and the sanitized name, which contains no slash and is neither \<open>.\<close> nor \<open>..\<close>.\<close>

theorem cache_stays_below_root:
  assumes "cachePath cfg repository name = Inr path" and "IsAbs (dc_CacheRoot cfg)" and "Clean (dc_CacheRoot cfg) \<noteq> ''/''"
  shows "\<exists>key. path = Clean (dc_CacheRoot cfg) @ ''/'' @ key @ ''/'' @ sanitizeName name \<and>
     key = hex_Encode (take 8 (Sum256 repository)) \<and> length key = 16 \<and>
     CHR ''/'' \<notin> set (sanitizeName name) \<and> sanitizeName name \<notin> {[], ''.'', ''..''}"
proof -
  from assms(1) have ne: "sanitizeName name \<noteq> []"
    and path: "path = filepath_Join [dc_CacheRoot cfg, hex_Encode (take 8 (Sum256 repository)), sanitizeName name]"
    by (auto simp: cachePath_def Let_def split: if_splits)
  have plain: "plain_elem (sanitizeName name)" using plain_safeName ne by (simp add: sanitizeName_safeName)
  have "Sum256 repository \<noteq> []" using length_Sum256 [of repository] by fastforce
  then have "plain_elem (hex_Encode (take 8 (Sum256 repository)))" by (intro plain_hex) simp
  from Join_below [OF assms(2,3) this plain] plain path show ?thesis by (auto simp: plain_elem_def)
qed

theorem cache_stays_below_root_witness:
  "\<exists>path key. cachePath sample_docker ''o/r'' ''../Go Mod'' = Inr path \<and>
     path = ''/var/lib/cifleet/cache/'' @ key @ ''/go-mod'' \<and> length key = 16"
proof -
  have s: "sanitizeName ''../Go Mod'' = ''go-mod''" by code_simp
  have r: "IsAbs (dc_CacheRoot sample_docker)" "Clean (dc_CacheRoot sample_docker) = ''/var/lib/cifleet/cache''" by code_simp+
  obtain path where p: "cachePath sample_docker ''o/r'' ''../Go Mod'' = Inr path" by (simp add: cachePath_def Let_def s)
  from cache_stays_below_root [OF p r(1)] r(2) s p show ?thesis by auto
qed

text \<open>The agent names the container of a job as the controller expects: the name that \<open>Create\<close> derives
  from the job identifier the controller sends is the deterministic container name with which the
  controller destroys the container of a job it has no instance for.\<close>

lemma container_name_agrees: "''cifleet-'' @ sanitizeName (containerJobID k) = containerName k"
  by (simp add: sanitizeName_safeName safeName_containerJobID containerName_def)

end
