(* ===== verification/Agent.thy ===== *)
theory Agent
  imports Docker_Backend Node_Server Go_URL
begin

text \<open>
  The worker agent: its HTTP server (\<open>src/internal/agent/server.go\<close>) and its service loop
  (\<open>src/internal/agent/service.go\<close>). The backend is a record of operations on a world \<open>'w\<close>, as the Go
  interfaces \<open>backend.Backend\<close> and \<open>agent.Backend\<close> are; the Docker backend and the two stubs are such
  records. The interface \<open>instance_backend\<close> states what the server relies on and is interpreted on all
  three.
\<close>

section \<open>Backends\<close>

record 'w BackendOps =
  bk_Kind :: BackendKind
  bk_Capacity :: "'w \<Rightarrow> (goerror + Capacity) \<times> 'w"
  bk_Create :: "JobSpec \<Rightarrow> 'w \<Rightarrow> (goerror + Instance) \<times> 'w"
  bk_Destroy :: "string \<Rightarrow> 'w \<Rightarrow> goerror option \<times> 'w"

record 'w AgentBackend = "'w BackendOps" +
  bk_CleanupExpired :: "time \<Rightarrow> 'w \<Rightarrow> (goerror + int) \<times> 'w"

definition dockerBackend :: "Host \<Rightarrow> DockerConfig \<Rightarrow> dock_trace AgentBackend" where
  "dockerBackend H cfg =
     \<lparr>bk_Kind = BackendDocker, bk_Capacity = CapacityDocker H cfg, bk_Create = CreateDocker H cfg,
      bk_Destroy = DestroyDocker H cfg, bk_CleanupExpired = CleanupExpired H cfg\<rparr>"

definition kvmBackend :: "'w BackendOps" where
  "kvmBackend =
     \<lparr>bk_Kind = BackendKVM, bk_Capacity = (\<lambda>w. (CapacityKVM, w)), bk_Create = (\<lambda>spec w. (CreateKVM spec, w)),
      bk_Destroy = (\<lambda>i w. (DestroyKVM i, w))\<rparr>"

definition hypervBackend :: "'w BackendOps" where
  "hypervBackend =
     \<lparr>bk_Kind = BackendHyperV, bk_Capacity = (\<lambda>w. (CapacityHyperV, w)),
      bk_Create = (\<lambda>spec w. (CreateHyperV spec, w)), bk_Destroy = (\<lambda>i w. (DestroyHyperV i, w))\<rparr>"

section \<open>The HTTP server\<close>

record 'b AgentServer =
  as_NodeID :: string
  as_ControllerIdentity :: string
  as_Backend :: "'b option"

datatype agent_body =
    AgentError string
  | HealthBody string string string time
  | CapacityBody Capacity
  | InstanceBody Instance
  | NoBody

text \<open>
  The peer certificates of a request: \<open>None\<close> without TLS, otherwise the common names of the chain. The
  result is the response that refuses the request, or \<open>None\<close> when it is authorized.
\<close>

definition authorizeController :: "'b AgentServer \<Rightarrow> string list option \<Rightarrow> (int \<times> agent_body) option" where
  "authorizeController s tls =
     (case tls of
        None \<Rightarrow> None
      | Some certs \<Rightarrow>
          (let wanted = (if as_ControllerIdentity s = [] then ''controller'' else as_ControllerIdentity s) in
           case certs of
             [] \<Rightarrow> Some (403, AgentError ''controller client certificate is required'')
           | got # _ \<Rightarrow>
               if got = [] \<or> got \<noteq> wanted
               then Some (403, AgentError ''client certificate is not the CIFleet controller'')
               else None))"

definition health :: "Host \<Rightarrow> time \<Rightarrow> 'b AgentServer \<Rightarrow> int \<times> agent_body" where
  "health H now s = (200, HealthBody (as_NodeID s) (host_GOOS H) (host_GOARCH H) now)"

definition capacity ::
  "('w, 'm) BackendOps_scheme AgentServer \<Rightarrow> string list option \<Rightarrow> 'w \<Rightarrow> (int \<times> agent_body) \<times> 'w" where
  "capacity s tls w =
     (case authorizeController s tls of
        Some refused \<Rightarrow> (refused, w)
      | None \<Rightarrow>
      case as_Backend s of
        None \<Rightarrow> ((503, AgentError ''backend unavailable''), w)
      | Some b \<Rightarrow>
      case bk_Capacity b w of
        (Inl err, w1) \<Rightarrow> ((503, AgentError (Error err)), w1)
      | (Inr c, w1) \<Rightarrow> ((200, CapacityBody c), w1))"

text \<open>The body is the result of decoding it strictly into a \<open>JobSpec\<close>.\<close>

definition createInstance ::
  "('w, 'm) BackendOps_scheme AgentServer \<Rightarrow> string list option \<Rightarrow> goerror + JobSpec \<Rightarrow> 'w
     \<Rightarrow> (int \<times> agent_body) \<times> 'w" where
  "createInstance s tls body w =
     (case authorizeController s tls of
        Some refused \<Rightarrow> (refused, w)
      | None \<Rightarrow>
      case as_Backend s of
        None \<Rightarrow> ((503, AgentError ''backend unavailable''), w)
      | Some b \<Rightarrow>
      case body of
        Inl err \<Rightarrow> ((400, AgentError (''invalid job spec: '' @ Error err)), w)
      | Inr spec \<Rightarrow>
      case bk_Create b spec w of
        (Inl err, w1) \<Rightarrow> ((400, AgentError (Error err)), w1)
      | (Inr inst, w1) \<Rightarrow> ((201, InstanceBody inst), w1))"

definition destroyInstance ::
  "('w, 'm) BackendOps_scheme AgentServer \<Rightarrow> string list option \<Rightarrow> string \<Rightarrow> 'w \<Rightarrow> (int \<times> agent_body) \<times> 'w" where
  "destroyInstance s tls pathID w =
     (case authorizeController s tls of
        Some refused \<Rightarrow> (refused, w)
      | None \<Rightarrow>
      case as_Backend s of
        None \<Rightarrow> ((503, AgentError ''backend unavailable''), w)
      | Some b \<Rightarrow>
      let instID = TrimSpace pathID in
      if instID = [] then ((400, AgentError ''instance id is required''), w)
      else case bk_Destroy b instID w of
        (Some err, w1) \<Rightarrow> ((502, AgentError (Error err)), w1)
      | (None, w1) \<Rightarrow> ((204, NoBody), w1))"

datatype agent_request =
    GetHealth
  | GetCapacity
  | PostInstances "goerror + JobSpec"
  | DeleteInstance string

fun Handler ::
  "Host \<Rightarrow> time \<Rightarrow> ('w, 'm) BackendOps_scheme AgentServer \<Rightarrow> string list option \<Rightarrow> agent_request \<Rightarrow> 'w
     \<Rightarrow> (int \<times> agent_body) \<times> 'w" where
  "Handler H now s tls GetHealth w = (health H now s, w)"
| "Handler H now s tls GetCapacity w = capacity s tls w"
| "Handler H now s tls (PostInstances body) w = createInstance s tls body w"
| "Handler H now s tls (DeleteInstance pathID) w = destroyInstance s tls pathID w"

definition errUnsupportedPlatform :: goerror where
  "errUnsupportedPlatform = Sentinel ''unsupported platform''"

definition runtimePlatform :: "Host \<Rightarrow> goerror + (OS \<times> Arch)" where
  "runtimePlatform H =
     (case (if host_GOOS H = ''linux'' then Some OSLinux
            else if host_GOOS H = ''windows'' then Some OSWindows
            else if host_GOOS H = ''darwin'' then Some OSMacOS else None) of
        None \<Rightarrow> Inl errUnsupportedPlatform
      | Some osName \<Rightarrow>
      case (if host_GOARCH H = ''amd64'' then Some ArchAMD64
            else if host_GOARCH H = ''arm64'' then Some ArchARM64 else None) of
        None \<Rightarrow> Inl errUnsupportedPlatform
      | Some arch \<Rightarrow> Inr (osName, arch))"

section \<open>The service\<close>

record ServiceConfig =
  sc_NodeID :: string
  sc_Endpoint :: string
  sc_ControllerURL :: string
  sc_HeartbeatInterval :: duration
  sc_CleanupInterval :: duration
  sc_Capabilities :: "string list"
  sc_Labels :: "string list"

definition NewService :: "ServiceConfig \<Rightarrow> ServiceConfig" where
  "NewService cfg =
     cfg\<lparr>sc_HeartbeatInterval := (if sc_HeartbeatInterval cfg \<le> 0 then 15 * Second else sc_HeartbeatInterval cfg),
         sc_CleanupInterval := (if sc_CleanupInterval cfg \<le> 0 then Minute else sc_CleanupInterval cfg)\<rparr>"

text \<open>Lines 69-77: the node that a heartbeat reports; without a capacity there is no backend.\<close>

definition heartbeatNode ::
  "Host \<Rightarrow> ServiceConfig \<Rightarrow> ('w, 'm) BackendOps_scheme \<Rightarrow> OS \<times> Arch \<Rightarrow> 'w \<Rightarrow> Node \<times> 'w" where
  "heartbeatNode H cfg b platform w =
     (let node = \<lparr>node_ID = sc_NodeID cfg, node_Endpoint = sc_Endpoint cfg, node_OS = fst platform,
            node_Arch = snd platform, node_Backends = [], node_Capabilities = sc_Capabilities cfg,
            node_Labels = sc_Labels cfg, node_Capacity = zero_Capacity, node_Online = True, node_LastSeen = 0\<rparr>
      in case bk_Capacity b w of
           (Inl err, w1) \<Rightarrow> (node, w1)
         | (Inr c, w1) \<Rightarrow> (node\<lparr>node_Backends := [bk_Kind b], node_Capacity := c\<rparr>, w1))"

datatype heartbeat_outcome = HbNoPlatform | HbBadRequest | HbFailed | HbRejected int | HbAccepted

text \<open>
  \<open>sendHeartbeat\<close>: \<open>post\<close> is the HTTP client, which acts on the world \<open>'c\<close> behind it, the controller's, and
  gives a status code or a transport error. The result is what is logged. The text of the node can always be encoded.
\<close>

definition heartbeatRequest :: "ServiceConfig \<Rightarrow> Node \<Rightarrow> http_req" where
  "heartbeatRequest cfg node =
     \<lparr>hr_method = ''POST'', hr_url = sc_ControllerURL cfg @ ''/v1/nodes/heartbeat'',
      hr_contentType = ''application/json'', hr_body = nodeText node\<rparr>"

definition sendHeartbeat ::
  "Host \<Rightarrow> ServiceConfig \<Rightarrow> ('w, 'm) BackendOps_scheme \<Rightarrow> (http_req \<Rightarrow> 'c \<Rightarrow> (goerror + int) \<times> 'c) \<Rightarrow> 'w \<times> 'c
     \<Rightarrow> heartbeat_outcome \<times> 'w \<times> 'c" where
  "sendHeartbeat H cfg b post wc =
     (let (w, c) = wc in
      case runtimePlatform H of
        Inl err \<Rightarrow> (HbNoPlatform, w, c)
      | Inr platform \<Rightarrow>
      let (node, w1) = heartbeatNode H cfg b platform w; req = heartbeatRequest cfg node in
      case NewRequest_error (hr_url req) of
        Some err \<Rightarrow> (HbBadRequest, w1, c)
      | None \<Rightarrow>
      case post req c of
        (Inl err, c1) \<Rightarrow> (HbFailed, w1, c1)
      | (Inr status, c1) \<Rightarrow> (if status < 200 \<or> status \<ge> 300 then HbRejected status else HbAccepted, w1, c1))"

definition cleanupAt :: "('w, 'm) AgentBackend_scheme \<Rightarrow> time \<Rightarrow> 'w \<Rightarrow> 'w" where
  "cleanupAt b now w = snd (bk_CleanupExpired b now w)"

text \<open>The checks of \<open>Run\<close> before the loop.\<close>

definition serviceReady :: "ServiceConfig \<Rightarrow> bool \<Rightarrow> bool \<Rightarrow> goerror option" where
  "serviceReady cfg hasBackend hasClient =
     (if sc_NodeID cfg = [] then Some (Errorf ''node id is required'')
      else if \<not> hasBackend then Some (Errorf ''backend is required'')
      else if \<not> hasClient then Some (Errorf ''http client is required'')
      else None)"

text \<open>
  The loop of \<open>Run\<close>: a heartbeat and a cleanup, then heartbeats and cleanups in any order, while the controller does what
  it does.
\<close>

inductive service_run ::
  "Host \<Rightarrow> ServiceConfig \<Rightarrow> ('w, 'm) AgentBackend_scheme
     \<Rightarrow> (http_req \<Rightarrow> 'c \<Rightarrow> (goerror + int) \<times> 'c) \<Rightarrow> 'w \<times> 'c \<Rightarrow> 'w \<times> 'c \<Rightarrow> bool" for H cfg b post wc where
  started: "service_run H cfg b post wc (apfst (cleanupAt b now) (snd (sendHeartbeat H cfg b post wc)))"
    if "serviceReady cfg True True = None"
| heartbeat_tick: "service_run H cfg b post wc (snd (sendHeartbeat H cfg b post (w, c)))"
    if "service_run H cfg b post wc (w, c)"
| cleanup_tick: "service_run H cfg b post wc (cleanupAt b now w, c)"
    if "service_run H cfg b post wc (w, c)"
| controller_acts: "service_run H cfg b post wc (w, c')"
    if "service_run H cfg b post wc (w, c)"

section \<open>The interface of a backend\<close>

locale instance_backend =
  fixes B :: "('w, 'm) BackendOps_scheme"
  assumes create_kind: "bk_Create B spec w = (Inr inst, w') \<Longrightarrow> inst_Backend inst = bk_Kind B"
    and capacity_free: "bk_Capacity B w = (Inr c, w') \<Longrightarrow> 0 \<le> FreeCPU c"
    and destroy_blank: "TrimSpace i = [] \<Longrightarrow> fst (bk_Destroy B i w) \<noteq> None"
begin

text \<open>An instance that the server returns was created by its backend and has its kind.\<close>

lemma created_kind:
  assumes "createInstance s tls body w = ((status, InstanceBody inst), w')" and "as_Backend s = Some B"
  shows "status = 201 \<and> inst_Backend inst = bk_Kind B \<and>
     (\<exists>spec. body = Inr spec \<and> bk_Create B spec w = (Inr inst, w'))"
proof -
  have auth: "authorizeController s tls = None"
    using assms(1) by (cases tls)
      (auto simp: createInstance_def authorizeController_def Let_def split: list.splits if_splits)
  with assms obtain spec where spec: "body = Inr spec" by (cases body) (auto simp: createInstance_def)
  obtain res w1 where r: "bk_Create B spec w = (res, w1)" by (cases "bk_Create B spec w")
  with assms auth spec have "res = Inr inst" "w1 = w'" "status = 201"
    by (cases res; simp add: createInstance_def)+
  with r create_kind [of spec w inst w'] spec show ?thesis by simp
qed

lemma heartbeat_free:
  "node_Backends (fst (heartbeatNode H cfg B p w)) \<noteq> [] \<Longrightarrow>
     0 \<le> FreeCPU (node_Capacity (fst (heartbeatNode H cfg B p w)))"
  using capacity_free by (auto simp: heartbeatNode_def Let_def split: prod.splits sum.splits)

end

lemma docker_capacity_free: "CapacityDocker H cfg w = (Inr c, w') \<Longrightarrow> 0 \<le> FreeCPU c"
  by (auto simp: CapacityDocker_def Let_def split: prod.splits option.splits sum.splits)

lemma docker_create_kind: "CreateDocker H cfg spec w = (Inr inst, w') \<Longrightarrow> inst_Backend inst = BackendDocker"
  by (auto simp: CreateDocker_def Let_def split: if_splits prod.splits option.splits sum.splits)

interpretation docker: instance_backend "dockerBackend H cfg" for H cfg
  by unfold_locales
     (auto simp: dockerBackend_def DestroyDocker_def intro: docker_capacity_free docker_create_kind)

interpretation kvm: instance_backend kvmBackend
  by unfold_locales (simp_all add: kvmBackend_def CapacityKVM_def CreateKVM_def DestroyKVM_def)

interpretation hyperv: instance_backend hypervBackend
  by unfold_locales (simp_all add: hypervBackend_def CapacityHyperV_def CreateHyperV_def DestroyHyperV_def)

section \<open>What the service runs\<close>

definition housekeeping :: "dock_trace \<Rightarrow> bool" where
  "housekeeping tr \<longleftrightarrow> (\<forall>args \<in> set (commands tr). hd args \<in> {''info'', ''ps'', ''inspect'', ''rm''})"

lemma housekeeping_append [simp]: "housekeeping (t @ u) \<longleftrightarrow> housekeeping t \<and> housekeeping u"
  by (auto simp: housekeeping_def)

lemma housekeeping_effects [simp]:
  "housekeeping [DExec name (a # args) res] \<longleftrightarrow> a \<in> {''info'', ''ps'', ''inspect'', ''rm''}"
  "housekeeping [DReadMeminfo r]" "housekeeping []"
  by (simp_all add: housekeeping_def)

lemma housekeeping_execRun:
  "housekeeping tr \<Longrightarrow> a \<in> {''info'', ''ps'', ''inspect'', ''rm''} \<Longrightarrow> housekeeping (snd (execRun H name (a # args) tr))"
  by simp

lemma housekeeping_sumReserved:
  "housekeeping tr \<Longrightarrow> housekeeping (snd (sumReserved H cfg ids a b tr))"
proof (induction ids arbitrary: a b tr)
  case (Cons c ids)
  let ?i = "[''inspect'', ''--format'', resourceFormat, c]"
  have "housekeeping (snd (execRun H (dc_Binary cfg) ?i tr))" using Cons.prems by simp
  with Cons.IH show ?case
    by (auto simp: split_beta Let_def split: option.splits list.splits simp del: execRun_effect)
qed simp

lemma housekeeping_memoryMB: "housekeeping tr \<Longrightarrow> housekeeping (snd (memoryMB H tr))"
  by (auto simp: memoryMB_def Let_def split: sum.splits prod.splits)

lemma housekeeping_managed: "housekeeping tr \<Longrightarrow> housekeeping (snd (managedContainerIDs H cfg all tr))"
  by (simp add: managedContainerIDs_def Let_def split_beta split: option.splits)

lemma housekeeping_capacity:
  assumes "housekeeping tr"
  shows "housekeeping (snd (CapacityDocker H cfg tr))"
proof -
  let ?i = "[''info'', ''--format'', ''{{.ServerVersion}}'']"
  let ?t1 = "snd (execRun H (dc_Binary cfg) ?i tr)"
  let ?t2 = "snd (memoryMB H ?t1)"
  let ?t3 = "snd (managedContainerIDs H cfg False ?t2)"
  have 1: "housekeeping ?t1" using assms by simp
  note 2 = housekeeping_memoryMB [OF 1, of H] and 3 = housekeeping_managed [OF housekeeping_memoryMB [OF 1]]
  have 4: "housekeeping (snd (sumReserved H cfg ids 0 0 ?t3))" for ids by (rule housekeeping_sumReserved [OF 3])
  show ?thesis using 1 2 3 4
    by (auto simp: CapacityDocker_def split_beta Let_def simp del: execRun_effect split: option.splits sum.splits)
qed

lemma housekeeping_cleanupLoop: "housekeeping tr \<Longrightarrow> housekeeping (snd (cleanupLoop H cfg now ids n tr))"
proof (induction ids arbitrary: n tr)
  case (Cons c ids)
  let ?t1 = "snd (execRun H (dc_Binary cfg) [''inspect'', ''--format'', deadlineFormat, c] tr)"
  have 1: "housekeeping ?t1" using Cons.prems by simp
  then have 2: "housekeeping (snd (execRun H (dc_Binary cfg) [''rm'', ''-f'', c] ?t1))"
    by (rule housekeeping_execRun) simp
  show ?case using Cons.IH [OF 1] Cons.IH [OF 2] by (simp add: split_beta Let_def del: execRun_effect)
qed simp

lemma housekeeping_cleanup: "housekeeping tr \<Longrightarrow> housekeeping (snd (CleanupExpired H cfg now tr))"
  using housekeeping_managed [of tr H cfg True] housekeeping_cleanupLoop
  by (auto simp: CleanupExpired_def split_beta Let_def split: sum.splits)

lemma housekeeping_heartbeat:
  assumes "housekeeping tr"
  shows "housekeeping (fst (snd (sendHeartbeat H cfg (dockerBackend H' dcfg) post (tr, c))))"
proof -
  have "snd (heartbeatNode H cfg (dockerBackend H' dcfg) p tr) = snd (CapacityDocker H' dcfg tr)" for p
    by (simp add: heartbeatNode_def dockerBackend_def Let_def split: prod.splits sum.splits)
  with housekeeping_capacity [OF assms] assms show ?thesis
    by (auto simp: sendHeartbeat_def split_beta Let_def split: sum.splits option.splits)
qed

section \<open>Properties\<close>

text \<open>C26: In mutual TLS mode only the controller can use the worker's API: every request but the health
  check that comes without a client certificate, or with one whose common name is not the controller's
  identity, is answered with 403 and runs no operation of the backend.\<close>

theorem agent_requires_controller:
  assumes "req \<noteq> GetHealth"
    and "certs = [] \<or> hd certs = [] \<or>
      hd certs \<noteq> (if as_ControllerIdentity s = [] then ''controller'' else as_ControllerIdentity s)"
  shows "\<exists>msg. Handler H now s (Some certs) req w = ((403, AgentError msg), w)"
proof -
  obtain msg where "authorizeController s (Some certs) = Some (403, AgentError msg)"
    using assms(2) by (cases certs) (auto simp: authorizeController_def Let_def)
  with assms(1) show ?thesis
    by (cases req) (simp_all add: capacity_def createInstance_def destroyInstance_def)
qed

definition sample_agent :: "dock_trace AgentBackend AgentServer" where
  "sample_agent = \<lparr>as_NodeID = ''e5'', as_ControllerIdentity = [], as_Backend = Some (dockerBackend sample_host sample_docker)\<rparr>"

theorem agent_requires_controller_witness:
  "\<exists>msg. Handler sample_host 0 sample_agent (Some [''pi'']) (DeleteInstance ''cifleet-gh-12'') [] = ((403, AgentError msg), [])"
  by (rule agent_requires_controller) (simp_all add: sample_agent_def)

text \<open>An instance that the worker returns to the controller, with status 201, is one that its Docker
  backend created for the specification in the request.\<close>

lemma agent_returns_created_instance:
  assumes "Handler H' now s tls (PostInstances body) w = ((status, InstanceBody inst), w')"
    and "as_Backend s = Some (dockerBackend H cfg)"
  shows "status = 201 \<and> inst_Backend inst = BackendDocker \<and>
     (\<exists>spec. body = Inr spec \<and> CreateDocker H cfg spec w = (Inr inst, w'))"
  using docker.created_kind [of s tls body w status inst w' H cfg] assms by (simp add: dockerBackend_def)

text \<open>A worker whose capacity probe fails is never scheduled on: the node it reports has no backend, so
  that it can host no job, whatever the control plane stores of it.\<close>

lemma unprobed_node_hosts_nothing:
  assumes "bk_Capacity b w = (Inl err, w1)"
  shows "\<not> hosts req (liveNode s now ((fst (heartbeatNode H cfg b platform w))
     \<lparr>node_LastSeen := t, node_Online := True\<rparr>)) kind"
  using assms selectBackend_offered [of "req_Isolation req" "[]" kind]
  by (auto simp: heartbeatNode_def Let_def hosts_def liveNode_def)

definition sample_service :: ServiceConfig where
  "sample_service = NewService \<lparr>sc_NodeID = ''e5'', sc_Endpoint = ''https://e5:8090'', sc_ControllerURL = ''https://c:8080'',
     sc_HeartbeatInterval = 0, sc_CleanupInterval = 0, sc_Capabilities = [''docker''], sc_Labels = []\<rparr>"

lemma unprobed_node_hosts_nothing_witness:
  "\<not> hosts \<lparr>req_Repository = [], req_OS = OSLinux, req_Arch = ArchAMD64, req_Isolation = IsolationVM,
        req_Capabilities = [], req_CPU = 0, req_MemoryM = 0\<rparr>
     (liveNode (NewServer []) 2000 ((fst (heartbeatNode sample_host sample_service (kvmBackend :: unit BackendOps)
        (OSLinux, ArchAMD64) ()))\<lparr>node_LastSeen := 1000, node_Online := True\<rparr>)) BackendKVM"
proof (rule unprobed_node_hosts_nothing)
  show "bk_Capacity (kvmBackend :: unit BackendOps) () = (Inl (Errorf ''KVM backend capacity probe not implemented''), ())"
    by (simp add: kvmBackend_def CapacityKVM_def)
qed

text \<open>The controller behind the HTTP client of the service: the status of its answer, 404 when the mux has no route.\<close>

definition toController ::
  "(string \<Rightarrow> nat) \<Rightarrow> time \<Rightarrow> string list option \<Rightarrow> http_req \<Rightarrow> Server \<Rightarrow> (goerror + int) \<times> Server" where
  "toController rank now tls req s =
     (case serveControl rank now tls req s of
        (Some (status, _), s') \<Rightarrow> (Inr status, s')
      | (None, s') \<Rightarrow> (Inr 404, s'))"

lemma controlRoute_heartbeat:
  assumes "base_endpoint (sc_ControllerURL cfg)" "url_Parse (sc_ControllerURL cfg) = Inr u" "url_Host u \<noteq> []" "url_Scheme u \<noteq> []"
  shows "NewRequest_error (hr_url (heartbeatRequest cfg n)) = None"
    and "controlRoute (heartbeatRequest cfg n) = Some (Route CtlHeartbeat)"
proof -
  have "url_path ''/v1/nodes/heartbeat''"
    using url_path_segment [of "''/v1/nodes/heartbeat''" "[]"] by (simp add: PathEscape_def path_byte_def alnum_def)
  from base_url_request [OF assms(2,3,4,1) this]
  have p: "NewRequest_error (sc_ControllerURL cfg @ ''/v1/nodes/heartbeat'') = None"
    "request_path (sc_ControllerURL cfg @ ''/v1/nodes/heartbeat'') = ''/v1/nodes/heartbeat''" by simp_all
  have "mux_segments ''/v1/nodes/heartbeat'' = Some [''v1'', ''nodes'', ''heartbeat'']" by code_simp
  with p show "NewRequest_error (hr_url (heartbeatRequest cfg n)) = None"
    and "controlRoute (heartbeatRequest cfg n) = Some (Route CtlHeartbeat)"
    by (simp_all add: heartbeatRequest_def controlRoute_def method_defs)
qed

lemma heartbeatNode_fields:
  "heartbeatNode H cfg b platform w = (n, w1) \<Longrightarrow> node_ID n = sc_NodeID cfg \<and> node_LastSeen n = 0"
  by (auto simp: heartbeatNode_def Let_def split: prod.splits sum.splits)

text \<open>C27: a heartbeat registers the worker as it is. When the service of a worker reports to the controller at its base
  URL, the node it probed, written as JSON, sent, routed and read again, is what the controller stores under the worker's
  name, seen now and online: every field, the capacity and the backend included; no other entry changes, and the worker
  sees the acceptance. With a certificate for another name the worker is refused, and the table stays as it was.\<close>

theorem worker_registers:
  assumes "runtimePlatform H = Inr platform" and "heartbeatNode H cfg b platform w = (n, w1)"
    and "sc_NodeID cfg \<noteq> []" and "capacity_ok (node_Capacity n)" and "int (length (nodeText n)) \<le> maxNodeBody"
    and "base_endpoint (sc_ControllerURL cfg)" "url_Parse (sc_ControllerURL cfg) = Inr u" "url_Host u \<noteq> []" "url_Scheme u \<noteq> []"
  shows "sendHeartbeat H cfg b (toController rank now (Some (peerCN # chain))) (w, s) =
     (if peerCN = sc_NodeID cfg
      then (HbAccepted, w1, s\<lparr>srv_nodes := fmupd (sc_NodeID cfg) (n\<lparr>node_LastSeen := now, node_Online := True\<rparr>) (srv_nodes s)\<rparr>)
      else (HbRejected 403, w1, s))"
proof -
  note n = heartbeatNode_fields [OF assms(2)]
  have "node_ok n" using n assms(4) json_yearI [of 0] by (simp add: node_ok_def duration_defs)
  then have decoded: "decodeNode (hr_body (heartbeatRequest cfg n)) = Some n"
    using assms(5) by (simp add: heartbeatRequest_def decodeNode_nodeText)
  note route = controlRoute_heartbeat [OF assms(6-9), of n]
  have "toController rank now (Some (peerCN # chain)) (heartbeatRequest cfg n) s =
      (if peerCN = sc_NodeID cfg then (Inr 202, storeNode now n s) else (Inr 403, s))"
    using n assms(3) by (simp add: toController_def serveControl_def route(2) decoded heartbeat_def)
  then show ?thesis
    using n by (simp add: sendHeartbeat_def assms(1,2) route(1) storeNode_def)
qed

definition idle_host :: Host where
  "idle_host = sample_host\<lparr>host_exec := \<lambda>_ _ _. ([], None), host_meminfo := \<lambda>_. Inr (''MemTotal: 2048 kB'' @ [CHR 0x0A] @ ''MemAvailable: 1024 kB'')\<rparr>"

theorem worker_registers_witness:
  "\<exists>n w1. sendHeartbeat idle_host sample_service (dockerBackend idle_host sample_docker)
       (toController (\<lambda>_. 0) 1000 (Some [''e5''])) ([], NewServer []) =
     (HbAccepted, w1, (NewServer [])\<lparr>srv_nodes := fmupd ''e5'' (n\<lparr>node_LastSeen := 1000, node_Online := True\<rparr>) fmempty\<rparr>) \<and>
     node_Backends n = [BackendDocker]"
proof -
  let ?b = "dockerBackend idle_host sample_docker"
  obtain n w1 where n: "heartbeatNode idle_host sample_service ?b (OSLinux, ArchAMD64) [] = (n, w1)" by fastforce
  have "case heartbeatNode idle_host sample_service ?b (OSLinux, ArchAMD64) [] of (n, w1) \<Rightarrow>
      capacity_ok (node_Capacity n) \<and> int (length (nodeText n)) \<le> maxNodeBody \<and> node_Backends n = [BackendDocker]" by code_simp
  then have ok: "capacity_ok (node_Capacity n)" "int (length (nodeText n)) \<le> maxNodeBody" "node_Backends n = [BackendDocker]"
    using n by simp_all
  have p: "runtimePlatform idle_host = Inr (OSLinux, ArchAMD64)" "sc_NodeID sample_service = ''e5''"
    "base_endpoint (sc_ControllerURL sample_service)" by code_simp+
  have "case url_Parse (sc_ControllerURL sample_service) of Inr u \<Rightarrow> url_Host u \<noteq> [] \<and> url_Scheme u \<noteq> [] | Inl _ \<Rightarrow> False"
    by code_simp
  then obtain u where u: "url_Parse (sc_ControllerURL sample_service) = Inr u" "url_Host u \<noteq> []" "url_Scheme u \<noteq> []"
    by (auto split: sum.splits)
  have "sc_NodeID sample_service \<noteq> []" using p(2) by simp
  from worker_registers [OF p(1) n this ok(1,2) p(3) u, of "\<lambda>_. 0" 1000 "''e5''" "[]" "NewServer []"] p(2) ok(3)
  show ?thesis by (intro exI [of _ n] exI [of _ w1]) (simp add: NewServer_def)
qed

text \<open>C28: The service loop of a worker only looks and removes: whatever Docker and the controller answer, in
  any number of heartbeats and cleanups, every command it runs is \<open>docker info\<close>, \<open>ps\<close>, \<open>inspect\<close> or
  \<open>rm\<close>; containers are started by requests of the controller only.\<close>

theorem service_only_housekeeping:
  assumes "service_run H cfg (dockerBackend H' dcfg) post ([], c0) (tr, c)" and "args \<in> set (commands tr)"
  shows "hd args \<in> {''info'', ''ps'', ''inspect'', ''rm''}"
proof -
  have step: "housekeeping t \<Longrightarrow> housekeeping (cleanupAt (dockerBackend H' dcfg) now t)" for t now
    by (simp add: cleanupAt_def dockerBackend_def housekeeping_cleanup)
  have "housekeeping (fst wc)" if "service_run H cfg (dockerBackend H' dcfg) post ([], c0) wc" for wc
    using that by (induction rule: service_run.induct) (auto intro!: step housekeeping_heartbeat)
  with assms show ?thesis by (fastforce simp: housekeeping_def)
qed

theorem service_only_housekeeping_witness:
  "\<exists>tr args. service_run sample_host sample_service (dockerBackend sample_host sample_docker) (\<lambda>_ c. (Inr 202, c)) ([], ()) (tr, ()) \<and>
     args \<in> set (commands tr) \<and> hd args \<in> {''info'', ''ps'', ''inspect'', ''rm''}"
proof -
  let ?b = "dockerBackend sample_host sample_docker" and ?post = "\<lambda>_ c. (Inr 202, c)"
  let ?tr = "cleanupAt ?b 0 (fst (snd (sendHeartbeat sample_host sample_service ?b ?post ([], ()))))"
  have "service_run sample_host sample_service ?b ?post ([], ())
      (apfst (cleanupAt ?b 0) (snd (sendHeartbeat sample_host sample_service ?b ?post ([], ()))))"
    by (rule service_run.started) (simp add: serviceReady_def sample_service_def NewService_def)
  then have run: "service_run sample_host sample_service ?b ?post ([], ()) (?tr, ())"
    by (simp add: apfst_def map_prod_def split_beta)
  have "commands ?tr \<noteq> []" by code_simp
  then have "hd (commands ?tr) \<in> set (commands ?tr)" by simp
  with run service_only_housekeeping [OF run this] show ?thesis by blast
qed

end
