(* ===== verification/Spec_JSON.thy ===== *)
theory Spec_JSON
  imports Model Go_JSON
begin

text \<open>
  The JSON text of a \<open>JobSpec\<close>, as the tags in \<open>src/internal/backend/backend.go\<close> lay it out, and decoding it as
  the worker does: strictly, and from the first bytes of the body only. A specification is read as it was
  written, less the field \<open>Timeout\<close>, which has no place in the text.
\<close>

section \<open>Writing\<close>

definition marshalSpec :: "JobSpec \<Rightarrow> JobSpec" where
  "marshalSpec spec = spec\<lparr>spec_Timeout := 0\<rparr>"

definition mountJSON :: "CacheMount \<Rightarrow> json" where
  "mountJSON c =
     JObj ([(''name'', JStr (cm_Name c)), (''target'', JStr (cm_Target c))] @
       member_unless (\<not> cm_ReadOnly c) ''read_only'' (JBool (cm_ReadOnly c)))"

text \<open>The keys of a map are written in sorted order.\<close>

definition mapMembers :: "(string, string) fmap \<Rightarrow> (string \<times> string) list" where
  "mapMembers m = map (\<lambda>k. (k, the (fmlookup m k))) (sorted_list_of_fset (fmdom m))"

definition mapJSON :: "(string, string) fmap \<Rightarrow> json" where
  "mapJSON m = JObj (map (\<lambda>(k, v). (k, JStr v)) (mapMembers m))"

definition specMembers :: "JobSpec \<Rightarrow> (string \<times> json) list" where
  "specMembers s =
     [(''id'', JStr (spec_ID s)), (''repository'', JStr (spec_Repository s))] @
     member_unless (spec_RunnerConfig s = []) ''runner_config'' (JStr (spec_RunnerConfig s)) @
     [(''image'', JStr (spec_Image s))] @
     member_unless (spec_Command s = []) ''command'' (JArr (map JStr (spec_Command s))) @
     member_unless (spec_CPU s = 0) ''cpu'' (JNum (FormatInt (spec_CPU s))) @
     member_unless (spec_MemoryM s = 0) ''memory_mb'' (JNum (FormatInt (spec_MemoryM s))) @
     member_unless (spec_Environment s = fmempty) ''environment'' (mapJSON (spec_Environment s)) @
     member_unless (spec_CacheMounts s = []) ''cache_mounts'' (JArr (map mountJSON (spec_CacheMounts s))) @
     member_unless (spec_TimeoutSeconds s = 0) ''timeout_seconds'' (JNum (FormatInt (spec_TimeoutSeconds s)))"

definition specText :: "JobSpec \<Rightarrow> string" where
  "specText s = write_json (JObj (specMembers s))"

section \<open>Reading\<close>

definition zero_CacheMount :: CacheMount where
  "zero_CacheMount = \<lparr>cm_Name = [], cm_Target = [], cm_ReadOnly = False\<rparr>"

definition zero_JobSpec :: JobSpec where
  "zero_JobSpec = \<lparr>spec_ID = [], spec_Repository = [], spec_RunnerConfig = [], spec_Image = [], spec_Command = [],
     spec_CPU = 0, spec_MemoryM = 0, spec_Environment = fmempty, spec_CacheMounts = [], spec_Timeout = 0,
     spec_TimeoutSeconds = 0\<rparr>"

definition mountFields :: "(string \<times> CacheMount setter) list" where
  "mountFields =
     [(''name'', set_string (\<lambda>s c. c\<lparr>cm_Name := s\<rparr>)),
      (''target'', set_string (\<lambda>s c. c\<lparr>cm_Target := s\<rparr>)),
      (''read_only'', set_bool (\<lambda>b c. c\<lparr>cm_ReadOnly := b\<rparr>))]"

definition specFields :: "(string \<times> JobSpec setter) list" where
  "specFields =
     [(''id'', set_string (\<lambda>x s. s\<lparr>spec_ID := x\<rparr>)),
      (''repository'', set_string (\<lambda>x s. s\<lparr>spec_Repository := x\<rparr>)),
      (''runner_config'', set_string (\<lambda>x s. s\<lparr>spec_RunnerConfig := x\<rparr>)),
      (''image'', set_string (\<lambda>x s. s\<lparr>spec_Image := x\<rparr>)),
      (''command'', set_slice (set_string (\<lambda>x _. x)) [] spec_Command (\<lambda>x s. s\<lparr>spec_Command := x\<rparr>)),
      (''cpu'', set_int (\<lambda>x s. s\<lparr>spec_CPU := x\<rparr>)),
      (''memory_mb'', set_int (\<lambda>x s. s\<lparr>spec_MemoryM := x\<rparr>)),
      (''environment'', set_map spec_Environment (\<lambda>x s. s\<lparr>spec_Environment := x\<rparr>)),
      (''cache_mounts'', set_slice (decode_struct True mountFields) zero_CacheMount spec_CacheMounts
         (\<lambda>x s. s\<lparr>spec_CacheMounts := x\<rparr>)),
      (''timeout_seconds'', set_int (\<lambda>x s. s\<lparr>spec_TimeoutSeconds := x\<rparr>))]"

text \<open>\<open>http.MaxBytesReader(w, r.Body, 1<<20)\<close>: the decoder sees no more than this.\<close>

definition maxSpecBody :: int where
  "maxSpecBody = 2 ^ 20"

definition decodeSpec :: "string \<Rightarrow> JobSpec option" where
  "decodeSpec body = strictBody maxSpecBody specFields zero_JobSpec body"

section \<open>Round trip\<close>

definition spec_ok :: "JobSpec \<Rightarrow> bool" where
  "spec_ok s \<longleftrightarrow> in_int64 (spec_CPU s) \<and> in_int64 (spec_MemoryM s) \<and> in_int64 (spec_TimeoutSeconds s)"

lemma decode_map_JSON: "decode_map (map (\<lambda>(k, v). (k, JStr v)) (mapMembers m)) fmempty = Some m"
proof -
  have keys: "map fst (mapMembers m) = sorted_list_of_fset (fmdom m)" by (simp add: mapMembers_def comp_def)
  have "fold (\<lambda>(k, v). fmupd k v) (mapMembers m) fmempty = m"
  proof (rule fmap_ext)
    fix x
    have "distinct (sorted_list_of_fset (fmdom m))" by (simp add: sorted_list_of_fset.rep_eq)
    from fold_fmupd_lookup [OF this, of "\<lambda>k. the (fmlookup m k)" fmempty x]
    show "fmlookup (fold (\<lambda>(k, v). fmupd k v) (mapMembers m) fmempty) x = fmlookup m x"
      by (cases "fmlookup m x") (auto simp: mapMembers_def fmdom_notI dest: fmdomI)
  qed
  then show ?thesis using keys by (subst decode_map_list) (simp_all add: sorted_list_of_fset.rep_eq)
qed

lemma decode_mount: "decode_struct True mountFields (mountJSON c) zero_CacheMount = Some c"
  by (simp add: mountJSON_def decode_struct_def mountFields_def zero_CacheMount_def find_field_def member_unless_def)

text \<open>Each member that may be left out sets its field, which is zero before, to the value it had.\<close>

lemma decode_optional:
  "spec_RunnerConfig r = [] \<Longrightarrow>
     decode_fields True specFields (member_unless (c = []) ''runner_config'' (JStr c)) r = Some (r\<lparr>spec_RunnerConfig := c\<rparr>)"
  "spec_Command r = [] \<Longrightarrow>
     decode_fields True specFields (member_unless (xs = []) ''command'' (JArr (map JStr xs))) r = Some (r\<lparr>spec_Command := xs\<rparr>)"
  "spec_CPU r = 0 \<Longrightarrow> in_int64 n \<Longrightarrow>
     decode_fields True specFields (member_unless (n = 0) ''cpu'' (JNum (FormatInt n))) r = Some (r\<lparr>spec_CPU := n\<rparr>)"
  "spec_MemoryM r = 0 \<Longrightarrow> in_int64 n \<Longrightarrow>
     decode_fields True specFields (member_unless (n = 0) ''memory_mb'' (JNum (FormatInt n))) r = Some (r\<lparr>spec_MemoryM := n\<rparr>)"
  "spec_Environment r = fmempty \<Longrightarrow>
     decode_fields True specFields (member_unless (e = fmempty) ''environment'' (mapJSON e)) r = Some (r\<lparr>spec_Environment := e\<rparr>)"
  "spec_CacheMounts r = [] \<Longrightarrow>
     decode_fields True specFields (member_unless (ms = []) ''cache_mounts'' (JArr (map mountJSON ms))) r =
       Some (r\<lparr>spec_CacheMounts := ms\<rparr>)"
  "spec_TimeoutSeconds r = 0 \<Longrightarrow> in_int64 n \<Longrightarrow>
     decode_fields True specFields (member_unless (n = 0) ''timeout_seconds'' (JNum (FormatInt n))) r =
       Some (r\<lparr>spec_TimeoutSeconds := n\<rparr>)"
  using set_slice_zero [of xs "set_string (\<lambda>x _. x)" JStr "[]" spec_Command r "\<lambda>x s. s\<lparr>spec_Command := x\<rparr>"]
    set_slice_zero [of ms "decode_struct True mountFields" mountJSON zero_CacheMount spec_CacheMounts r
      "\<lambda>x s. s\<lparr>spec_CacheMounts := x\<rparr>", OF decode_mount]
  by (auto simp: member_unless_def specFields_def find_field_def set_map_def mapJSON_def decode_map_JSON)

lemma decode_specMembers:
  assumes "spec_ok s"
  shows "decode_fields True specFields (specMembers s) zero_JobSpec = Some (marshalSpec s)"
proof -
  have required: "find_field specFields ''id'' = Some (set_string (\<lambda>x s. s\<lparr>spec_ID := x\<rparr>))"
    "find_field specFields ''repository'' = Some (set_string (\<lambda>x s. s\<lparr>spec_Repository := x\<rparr>))"
    "find_field specFields ''image'' = Some (set_string (\<lambda>x s. s\<lparr>spec_Image := x\<rparr>))"
    by (simp_all add: specFields_def find_field_def)
  show ?thesis using assms
    by (simp add: specMembers_def decode_fields_append required decode_optional spec_ok_def zero_JobSpec_def marshalSpec_def)
qed

lemma specMembers_written: "\<forall>kv \<in> set (specMembers s). written (snd kv) \<and> nesting (snd kv) \<le> 2"
proof -
  have strs: "nesting (JArr (map JStr xs)) \<le> Suc 0" "written (JArr (map JStr xs))" for xs
    unfolding nesting_JArr by (auto simp: list_all_iff)
  have mount: "written (mountJSON c) \<and> nesting (mountJSON c) = 1" for c by (simp add: mountJSON_def member_unless_def)
  have "nesting (JArr (map mountJSON ms)) \<le> Suc 1" "written (JArr (map mountJSON ms))" for ms
    unfolding nesting_JArr using mount by (auto simp: list_all_iff)
  moreover have "nesting (mapJSON e) \<le> Suc 0" "written (mapJSON e)" for e
    unfolding mapJSON_def nesting_JObj written_JObj by auto
  ultimately show ?thesis
    by (auto simp: specMembers_def member_unless_def list_all_iff strs numeral_2_eq_2 intro: le_SucI simp del: nesting.simps(5) nesting.simps(6) written.simps(5,6))
qed

lemma decodeSpec_specText:
  assumes "spec_ok s" "int (length (specText s)) \<le> maxSpecBody"
  shows "decodeSpec (specText s) = Some (marshalSpec s)"
  unfolding decodeSpec_def specText_def using assms
  by (intro strictBody_written decode_specMembers) (auto simp: specText_def dest!: specMembers_written [rule_format])

text \<open>Whatever is read, its numbers are 64-bit numbers, and the field that has no place in the text is zero.\<close>

lemma decodeSpec_typed: "decodeSpec body = Some s \<Longrightarrow> spec_ok s \<and> spec_Timeout s = 0"
proof -
  let ?P = "\<lambda>s. spec_ok s \<and> spec_Timeout s = 0"
  have "list_all (\<lambda>kf. keeps ?P (snd kf)) specFields"
    by (auto simp: specFields_def spec_ok_def intro!: keeps_intros)
  moreover have "?P zero_JobSpec" by (simp add: spec_ok_def zero_JobSpec_def in_int64_def)
  ultimately show "decodeSpec body = Some s \<Longrightarrow> ?thesis" unfolding decodeSpec_def by (rule strictBody_keeps)
qed

interpretation spec: wire_format specText decodeSpec
  "\<lambda>s. spec_ok s \<and> spec_Timeout s = 0 \<and> int (length (specText s)) \<le> maxSpecBody"
  by unfold_locales (simp add: decodeSpec_specText marshalSpec_def)

end
