(* ===== verification/Agent_Client.thy ===== *)
theory Agent_Client
  imports Agent Spec_JSON
begin

text \<open>
  The controller's HTTP client for the workers, \<open>src/internal/controller/agent_client.go\<close>, and the wire between
  it and the server of \<open>Agent\<close>: the request a worker receives, routed as its \<open>ServeMux\<close> does, and the response
  the client reads. The theorems show which endpoints are accepted, and that over this wire the two
  calls of the client are the two operations of the worker's Docker backend.

  The body of a creation is the JSON text of the specification; \<open>json.Marshal\<close> cannot fail on it.
\<close>

section \<open>The client\<close>

text \<open>
  A response: the status, what can be read of the body, and the error of the decoder, should the text not be that of an
  \<open>Instance\<close>.
\<close>

record http_resp =
  hs_status :: int
  hs_text :: string
  hs_jsonErr :: goerror

record 'w HTTPAgentClient =
  hc_client :: "(http_req \<Rightarrow> 'w \<Rightarrow> (goerror + http_resp) \<times> 'w) option"
  hc_allowHTTP :: bool

definition NewHTTPAgentClient ::
  "(http_req \<Rightarrow> 'w \<Rightarrow> (goerror + http_resp) \<times> 'w) option \<Rightarrow> bool \<Rightarrow> 'w HTTPAgentClient" where
  "NewHTTPAgentClient client allowHTTP = \<lparr>hc_client = client, hc_allowHTTP = allowHTTP\<rparr>"

definition endpoint :: "'w HTTPAgentClient \<Rightarrow> Node \<Rightarrow> goerror + string" where
  "endpoint c node =
     (if hc_client c = None then Inl (Errorf ''agent HTTP client is required'')
      else let raw = TrimRight (TrimSpace (node_Endpoint node)) ''/'' in
      if raw = [] then Inl (Errorf (''node '' @ node_ID node @ '' has no endpoint''))
      else case url_Parse raw of
        Inl _ \<Rightarrow> Inl (Errorf (''node '' @ node_ID node @ '' has invalid endpoint '' @ Quote (node_Endpoint node)))
      | Inr parsed \<Rightarrow>
          if url_Host parsed = []
          then Inl (Errorf (''node '' @ node_ID node @ '' has invalid endpoint '' @ Quote (node_Endpoint node)))
          else if url_Scheme parsed \<noteq> ''https'' \<and> \<not> (hc_allowHTTP c \<and> url_Scheme parsed = ''http'')
          then Inl (Errorf (''node '' @ node_ID node @ '' endpoint must use https''))
          else Inr raw)"

definition agentError :: "Node \<Rightarrow> string \<Rightarrow> http_resp \<Rightarrow> goerror" where
  "agentError node verb resp =
     Errorf (''agent '' @ node_ID node @ '' '' @ verb @ '' instance returned '' @ FormatInt (hs_status resp) @ '': '' @
       TrimSpace (take 4096 (hs_text resp)))"

definition CreateInstanceHTTP ::
  "'w HTTPAgentClient \<Rightarrow> Node \<Rightarrow> JobSpec \<Rightarrow> 'w \<Rightarrow> (goerror + Instance) \<times> 'w" where
  "CreateInstanceHTTP c node spec w =
     (case endpoint c node of
        Inl err \<Rightarrow> (Inl err, w)
      | Inr ep \<Rightarrow>
      let url = ep @ ''/v1/instances'' in
      case NewRequest_error url of
        Some err \<Rightarrow> (Inl err, w)
      | None \<Rightarrow>
      case the (hc_client c) \<lparr>hr_method = ''POST'', hr_url = url, hr_contentType = ''application/json'',
             hr_body = specText spec\<rparr> w of
        (Inl err, w1) \<Rightarrow> (Inl (Wrapf (''agent '' @ node_ID node @ '' create instance: '') err []), w1)
      | (Inr resp, w1) \<Rightarrow>
          if hs_status resp \<noteq> 201 then (Inl (agentError node ''create'' resp), w1)
          else case decodeInstance (hs_text resp) of
            None \<Rightarrow> (Inl (Wrapf ''decode agent instance: '' (hs_jsonErr resp) []), w1)
          | Some inst \<Rightarrow>
              if inst_ID inst = []
              then (Inl (Errorf (''agent '' @ node_ID node @ '' returned empty instance id'')), w1)
              else (Inr inst, w1))"

definition DestroyInstanceHTTP ::
  "'w HTTPAgentClient \<Rightarrow> Node \<Rightarrow> string \<Rightarrow> 'w \<Rightarrow> goerror option \<times> 'w" where
  "DestroyInstanceHTTP c node instanceID w =
     (case endpoint c node of
        Inl err \<Rightarrow> (Some err, w)
      | Inr ep \<Rightarrow>
      if TrimSpace instanceID = [] then (Some (Errorf ''instance id is required''), w)
      else let url = ep @ ''/v1/instances/'' @ PathEscape instanceID in
      case NewRequest_error url of
        Some err \<Rightarrow> (Some err, w)
      | None \<Rightarrow>
      case the (hc_client c) \<lparr>hr_method = ''DELETE'', hr_url = url, hr_contentType = [], hr_body = []\<rparr> w of
        (Inl err, w1) \<Rightarrow> (Some (Wrapf (''agent '' @ node_ID node @ '' destroy instance: '') err []), w1)
      | (Inr resp, w1) \<Rightarrow>
          if hs_status resp = 204 \<or> hs_status resp = 404 then (None, w1)
          else if hs_status resp < 200 \<or> hs_status resp \<ge> 300 then (Some (agentError node ''destroy'' resp), w1)
          else (None, w1))"

section \<open>The wire\<close>

text \<open>
  The routes of the mux: the segment of an instance is unescaped, and a body is decoded into a specification;
  \<open>jsonErr\<close> is the error of the decoder on a text that is none.
\<close>

definition decodedSpec :: "(string \<Rightarrow> goerror) \<Rightarrow> string \<Rightarrow> goerror + JobSpec" where
  "decodedSpec jsonErr body = (case decodeSpec body of Some spec \<Rightarrow> Inr spec | None \<Rightarrow> Inl (jsonErr body))"

definition route :: "(string \<Rightarrow> goerror) \<Rightarrow> http_req \<Rightarrow> agent_request mux_route option" where
  "route jsonErr req =
     (case mux_segments (request_path (hr_url req)) of
        None \<Rightarrow> None
      | Some segs \<Rightarrow>
          Some (if segs = [''healthz''] then on_method GET (hr_method req) GetHealth
                else if segs = [''v1'', ''capacity''] then on_method GET (hr_method req) GetCapacity
                else if segs = [''v1'', ''instances'']
                then on_method POST (hr_method req) (PostInstances (decodedSpec jsonErr (hr_body req)))
                else if length segs = 3 \<and> take 2 segs = [''v1'', ''instances'']
                then on_method DELETE (hr_method req) (DeleteInstance (last segs))
                else NotFound))"

text \<open>
  The text of a response's body, with the newline of the encoder. Encoding fails, and nothing is written, for a time
  beyond the year 9999.
\<close>

definition agentText :: "agent_body \<Rightarrow> string" where
  "agentText body =
     (case body of
        AgentError msg \<Rightarrow> encoded (JObj [(''error'', JStr msg)])
      | HealthBody node goos goarch now \<Rightarrow>
          if json_year now
          then encoded (JObj [(''goarch'', JStr goarch), (''goos'', JStr goos), (''node_id'', JStr node),
                 (''ok'', JBool True), (''time'', JStr (formatRFC3339 now))])
          else []
      | CapacityBody c \<Rightarrow> encoded (capacityJSON c)
      | InstanceBody inst \<Rightarrow> if json_year (inst_Deadline inst) then instanceText inst else []
      | NoBody \<Rightarrow> [])"

text \<open>A worker at the other end; \<open>other\<close> answers what its mux does not route.\<close>

definition serveWorker ::
  "(string \<Rightarrow> goerror) \<Rightarrow> (http_req \<Rightarrow> goerror + http_resp) \<Rightarrow> Host \<Rightarrow> time
     \<Rightarrow> ('w, 'm) BackendOps_scheme AgentServer \<Rightarrow> string list option \<Rightarrow> http_req \<Rightarrow> 'w
     \<Rightarrow> (goerror + http_resp) \<times> 'w" where
  "serveWorker jsonErr other H now s tls req w =
     (case route jsonErr req of
        None \<Rightarrow> (other req, w)
      | Some NotFound \<Rightarrow>
          (Inr \<lparr>hs_status = 404, hs_text = ''404 page not found'', hs_jsonErr = jsonErr ''404 page not found''\<rparr>, w)
      | Some MethodNotAllowed \<Rightarrow>
          (Inr \<lparr>hs_status = 405, hs_text = ''Method Not Allowed'', hs_jsonErr = jsonErr ''Method Not Allowed''\<rparr>, w)
      | Some (Route r) \<Rightarrow>
          (case Handler H now s tls r w of
             ((status, body), w1) \<Rightarrow>
               (Inr \<lparr>hs_status = status, hs_text = agentText body, hs_jsonErr = jsonErr (agentText body)\<rparr>, w1)))"

section \<open>Endpoints\<close>

lemma TrimRight_prefix: "\<exists>t. s = TrimRight s cs @ t"
  unfolding TrimRight_def by (metis rev_append rev_rev_ident takeWhile_dropWhile_id)

lemma endpoint_parsed:
  assumes "endpoint c node = Inr ep"
  obtains u where "ep = TrimRight (TrimSpace (node_Endpoint node)) ''/''" "url_Parse ep = Inr u" "url_Host u \<noteq> []"
    "url_Scheme u = ''https'' \<or> hc_allowHTTP c \<and> url_Scheme u = ''http''" "hc_client c \<noteq> None"
  using assms that by (auto simp: endpoint_def Let_def split: if_splits sum.splits)

lemma endpoint_scheme:
  assumes "endpoint c node = Inr ep"
  shows "\<exists>scheme rest. TrimSpace (node_Endpoint node) = scheme @ ''://'' @ rest \<and>
     (ToLower scheme = ''https'' \<or> hc_allowHTTP c \<and> ToLower scheme = ''http'')"
proof -
  from assms obtain u where u: "ep = TrimRight (TrimSpace (node_Endpoint node)) ''/''" "url_Parse ep = Inr u"
    "url_Host u \<noteq> []" "url_Scheme u = ''https'' \<or> hc_allowHTTP c \<and> url_Scheme u = ''http''"
    by (rule endpoint_parsed)
  then have "url_Scheme u \<noteq> []" by auto
  with url_Parse_host [OF u(2)] u(3) obtain scheme rest where "ep = scheme @ '':'' @ rest" "ToLower scheme = url_Scheme u"
    "HasPrefix rest ''//''" by blast
  moreover obtain t where "TrimSpace (node_Endpoint node) = ep @ t" using u(1) TrimRight_prefix by metis
  moreover from calculation obtain r where "rest = ''//'' @ r" by (auto simp: HasPrefix_iff)
  ultimately have "TrimSpace (node_Endpoint node) = scheme @ ''://'' @ (r @ t)" "ToLower scheme = url_Scheme u" by simp_all
  with u(4) show ?thesis by metis
qed

section \<open>The interface of an agent client\<close>

text \<open>The calls that the runner manager makes, and what they do to the world behind the client.\<close>

datatype agent_call = CallCreate (call_node: Node) JobSpec | CallDestroy (call_node: Node) string

fun run_calls ::
  "(Node \<Rightarrow> JobSpec \<Rightarrow> 'w \<Rightarrow> (goerror + Instance) \<times> 'w) \<Rightarrow> (Node \<Rightarrow> string \<Rightarrow> 'w \<Rightarrow> goerror option \<times> 'w)
     \<Rightarrow> agent_call list \<Rightarrow> 'w \<Rightarrow> 'w" where
  "run_calls create destroy [] w = w"
| "run_calls create destroy (CallCreate node spec # calls) w = run_calls create destroy calls (snd (create node spec w))"
| "run_calls create destroy (CallDestroy node i # calls) w = run_calls create destroy calls (snd (destroy node i w))"

locale instance_client =
  fixes create :: "Node \<Rightarrow> JobSpec \<Rightarrow> 'w \<Rightarrow> (goerror + Instance) \<times> 'w"
    and destroy :: "Node \<Rightarrow> string \<Rightarrow> 'w \<Rightarrow> goerror option \<times> 'w"
    and reaches :: "Node \<Rightarrow> bool"
  assumes created_named: "create node spec w = (Inr inst, w') \<Longrightarrow> inst_ID inst \<noteq> []"
    and create_unreached: "\<not> reaches node \<Longrightarrow> \<exists>err. create node spec w = (Inl err, w)"
    and destroy_unreached: "\<not> reaches node \<Longrightarrow> \<exists>err. destroy node i w = (Some err, w)"
begin

lemma call_unreached: "\<not> reaches (call_node call) \<Longrightarrow> run_calls create destroy [call] w = w"
  using create_unreached destroy_unreached by (cases call) (metis agent_call.sel run_calls.simps snd_conv)+

text \<open>Any sequence of calls to nodes that the client does not reach leaves the world as it was.\<close>

lemma calls_unreached: "\<forall>call \<in> set calls. \<not> reaches (call_node call) \<Longrightarrow> run_calls create destroy calls w = w"
proof (induction calls arbitrary: w)
  case (Cons call calls)
  then show ?case using call_unreached [of call w] by (cases call) simp_all
qed simp

end

interpretation http: instance_client "CreateInstanceHTTP c" "DestroyInstanceHTTP c" "\<lambda>node. \<not> isl (endpoint c node)" for c
proof
  show "CreateInstanceHTTP c node spec w = (Inr inst, w') \<Longrightarrow> inst_ID inst \<noteq> []" for node spec w inst w'
    by (auto simp: CreateInstanceHTTP_def Let_def split: sum.splits option.splits prod.splits if_splits)
qed (auto simp: CreateInstanceHTTP_def DestroyInstanceHTTP_def split: sum.splits)

text \<open>C31: without the development flag, nothing is ever sent to a worker whose endpoint is not an https URL,
  whatever the worker registered as its endpoint: every creation fails, and no sequence of calls, creations and
  destructions, makes a request.\<close>

theorem only_https_workers:
  assumes "\<not> hc_allowHTTP c"
    and "\<forall>call \<in> set calls. \<nexists>scheme rest.
      TrimSpace (node_Endpoint (call_node call)) = scheme @ ''://'' @ rest \<and> ToLower scheme = ''https''"
  shows "run_calls (CreateInstanceHTTP c) (DestroyInstanceHTTP c) calls w = w \<and>
    (\<forall>call \<in> set calls. \<exists>err. CreateInstanceHTTP c (call_node call) spec w = (Inl err, w))"
proof -
  have no: "isl (endpoint c (call_node call))" if "call \<in> set calls" for call
    using endpoint_scheme [of c "call_node call"] assms that by (cases "endpoint c (call_node call)") auto
  then show ?thesis using http.calls_unreached [of calls c w] http.create_unreached [of c] by blast
qed

theorem only_https_workers_witness:
  "run_calls (CreateInstanceHTTP (NewHTTPAgentClient (Some (\<lambda>req n. (Inl (Errorf ''down''), Suc n))) False))
     (DestroyInstanceHTTP (NewHTTPAgentClient (Some (\<lambda>req n. (Inl (Errorf ''down''), Suc n))) False))
     [CallDestroy (e5_node\<lparr>node_Endpoint := ''http://e5:8090''\<rparr>) ''x''] 0 = 0"
proof -
  let ?calls = "[CallDestroy (e5_node\<lparr>node_Endpoint := ''http://e5:8090''\<rparr>) ''x'']"
  have "TrimSpace ''http://e5:8090'' = ''http://e5:8090''" by code_simp
  moreover have "ToLower scheme \<noteq> ''https''" if "''http://e5:8090'' = scheme @ ''://'' @ rest" for scheme rest
    using that by (auto simp: Cons_eq_append_conv ToLower_def lower_byte_def)
  ultimately have no: "\<nexists>scheme rest. TrimSpace ''http://e5:8090'' = scheme @ ''://'' @ rest \<and> ToLower scheme = ''https''"
    by metis
  have "\<forall>call \<in> set ?calls. \<nexists>scheme rest.
      TrimSpace (node_Endpoint (call_node call)) = scheme @ ''://'' @ rest \<and> ToLower scheme = ''https''"
  proof
    fix call
    assume "call \<in> set ?calls"
    then have ep: "node_Endpoint (call_node call) = ''http://e5:8090''" by simp
    show "\<nexists>scheme rest. TrimSpace (node_Endpoint (call_node call)) = scheme @ ''://'' @ rest \<and> ToLower scheme = ''https''"
      unfolding ep by (rule no)
  qed
  moreover have "\<not> hc_allowHTTP (NewHTTPAgentClient (Some (\<lambda>req n. (Inl (Errorf ''down''), Suc n))) False)"
    by (simp add: NewHTTPAgentClient_def)
  ultimately show ?thesis by (intro only_https_workers [THEN conjunct1])
qed

section \<open>Over the wire\<close>

lemma base_endpoint_request:
  assumes "endpoint c node = Inr ep" "base_endpoint ep" "url_path path"
  shows "NewRequest_error (ep @ path) = None \<and> request_path (ep @ path) = path"
proof -
  from assms(1) obtain u where u: "url_Parse ep = Inr u" "url_Host u \<noteq> []" "url_Scheme u \<noteq> []"
    by (auto elim: endpoint_parsed)
  from base_url_request [OF u assms(2,3)] show ?thesis .
qed

lemma url_path_instances: "url_path ''/v1/instances''" "url_path (''/v1/instances/'' @ PathEscape i)"
  using url_path_segment [of "''/v1/instances''" "[]"] url_path_segment [of "''/v1/instances/''" i]
  by (simp_all add: PathEscape_def path_byte_def alnum_def)

lemma route_create:
  assumes "request_path url = ''/v1/instances''"
  shows "route jsonErr \<lparr>hr_method = ''POST'', hr_url = url, hr_contentType = t, hr_body = body\<rparr> =
     Some (Route (PostInstances (decodedSpec jsonErr body)))"
proof -
  have "mux_segments ''/v1/instances'' = Some [''v1'', ''instances'']" by code_simp
  then show ?thesis by (simp add: route_def assms method_defs)
qed

lemma route_destroy:
  assumes "request_path url = ''/v1/instances/'' @ PathEscape i" "plain_elem i"
  shows "route jsonErr \<lparr>hr_method = ''DELETE'', hr_url = url, hr_contentType = t, hr_body = []\<rparr> =
     Some (Route (DeleteInstance i))"
proof -
  have "Split ''/v1/instances'' CHR ''/'' = [[], ''v1'', ''instances'']" "list_all plain_elem [''v1'', ''instances'']"
    "map (\<lambda>e. case unescape encodePath e of Inr x \<Rightarrow> x | Inl _ \<Rightarrow> e) [''v1'', ''instances''] = [''v1'', ''instances'']"
    by code_simp+
  from mux_segments_escaped [OF this(1,2) assms(2)] this(3)
  have "mux_segments (''/v1/instances/'' @ PathEscape i) = Some [''v1'', ''instances'', i]" by simp
  then show ?thesis by (simp add: route_def assms(1) method_defs)
qed

text \<open>A worker with the Docker backend that trusts the controller, behind the client's transport.\<close>

definition linked ::
  "dock_trace HTTPAgentClient \<Rightarrow> Node \<Rightarrow> (string \<Rightarrow> goerror) \<Rightarrow> (http_req \<Rightarrow> goerror + http_resp) \<Rightarrow> Host \<Rightarrow> time
     \<Rightarrow> dock_trace AgentBackend AgentServer \<Rightarrow> string list option \<Rightarrow> Host \<Rightarrow> DockerConfig \<Rightarrow> bool" where
  "linked c node jsonErr other H0 now s tls H cfg \<longleftrightarrow>
     hc_client c = Some (serveWorker jsonErr other H0 now s tls) \<and> as_Backend s = Some (dockerBackend H cfg) \<and>
     authorizeController s tls = None \<and> (\<exists>ep. endpoint c node = Inr ep \<and> base_endpoint ep)"

lemma linked_create:
  assumes "linked c node jsonErr other H0 now s tls H cfg" "spec_ok spec" "int (length (specText spec)) \<le> maxSpecBody"
  shows "CreateInstanceHTTP c node spec w = (Inr inst, w') \<longleftrightarrow>
     CreateDocker H cfg (marshalSpec spec) w = (Inr inst, w') \<and> inst_ID inst \<noteq> [] \<and> json_year (inst_Deadline inst)"
proof -
  from assms obtain ep where ep: "endpoint c node = Inr ep" "base_endpoint ep" by (auto simp: linked_def)
  have "decodedSpec jsonErr (specText spec) = Inr (marshalSpec spec)"
    using decodeSpec_specText [OF assms(2,3)] by (simp add: decodedSpec_def)
  moreover have "decodeInstance (agentText (InstanceBody i)) = (if json_year (inst_Deadline i) then Some i else None)" for i
    by (simp add: agentText_def decodeInstance_instanceText decodeInstance_empty)
  ultimately show ?thesis using ep assms(1) base_endpoint_request [OF ep url_path_instances(1)]
    by (auto simp: linked_def CreateInstanceHTTP_def serveWorker_def route_create createInstance_def dockerBackend_def
        split: sum.splits prod.splits if_splits)
qed

lemma linked_destroy:
  assumes "linked c node jsonErr other H0 now s tls H cfg" and i: "plain_elem i" "TrimSpace i = i"
  shows "snd (DestroyInstanceHTTP c node i w) = snd (DestroyDocker H cfg i w) \<and>
     (fst (DestroyInstanceHTTP c node i w) = None \<longleftrightarrow> fst (DestroyDocker H cfg i w) = None)"
proof -
  from assms(1) obtain ep where ep: "endpoint c node = Inr ep" "base_endpoint ep" by (auto simp: linked_def)
  from i have "TrimSpace i \<noteq> []" by (auto simp: plain_elem_def)
  note del = base_endpoint_request [OF ep url_path_instances(2) [of i]]
  obtain e w1 where d: "DestroyDocker H cfg i w = (e, w1)" by fastforce
  have "DestroyInstanceHTTP c node i w =
      (if e = None then None else Some (agentError node ''destroy''
         \<lparr>hs_status = 502, hs_text = agentText (AgentError (Error (the e))),
           hs_jsonErr = jsonErr (agentText (AgentError (Error (the e))))\<rparr>), w1)"
    using assms(1) ep(1) del d i \<open>TrimSpace i \<noteq> []\<close>
    by (cases e) (simp_all add: linked_def DestroyInstanceHTTP_def serveWorker_def route_destroy destroyInstance_def
        dockerBackend_def)
  with d show ?thesis by auto
qed

text \<open>C30: across the wire, the two calls of the controller are the two operations of the worker's Docker backend.
  With a worker that trusts this controller, reached at its base URL, the specification, written as JSON and read
  again, arrives as it was, less the field that is not part of the text: a creation with 64-bit numbers and at most a
  megabyte of text succeeds exactly when the backend creates that container, names its instance, and gives it a
  deadline up to the year 9999, beyond which the answer has no text; the answer, written as JSON and read again, is the
  instance of the backend. A destruction runs the backend's destruction of exactly this instance, whatever characters its
  name has, and succeeds exactly when that does.\<close>

theorem wire_is_backend:
  assumes "linked c node jsonErr other H0 now s tls H cfg" "spec_ok spec" "int (length (specText spec)) \<le> maxSpecBody"
  shows "(CreateInstanceHTTP c node spec w = (Inr inst, w') \<longleftrightarrow>
        CreateDocker H cfg (marshalSpec spec) w = (Inr inst, w') \<and> inst_ID inst \<noteq> [] \<and> json_year (inst_Deadline inst)) \<and>
    (plain_elem i \<and> TrimSpace i = i \<longrightarrow>
       snd (DestroyInstanceHTTP c node i w) = snd (DestroyDocker H cfg i w) \<and>
       (fst (DestroyInstanceHTTP c node i w) = None \<longleftrightarrow> fst (DestroyDocker H cfg i w) = None))"
  using linked_create [OF assms] linked_destroy [OF assms(1)] by blast

definition sample_link :: "dock_trace HTTPAgentClient" where
  "sample_link = NewHTTPAgentClient
     (Some (serveWorker (\<lambda>_. Errorf []) (\<lambda>_. Inl (Errorf ''redirected'')) sample_host 0 sample_agent (Some [''controller'']))) False"

lemma sample_link_endpoint: "endpoint sample_link e5_node = Inr ''https://e5:8090''"
proof -
  have "TrimRight (TrimSpace ''https://e5:8090'') ''/'' = ''https://e5:8090''" by code_simp
  moreover have "case url_Parse ''https://e5:8090'' of Inl _ \<Rightarrow> False | Inr u \<Rightarrow> url_Scheme u = ''https'' \<and> url_Host u \<noteq> []"
    by code_simp
  ultimately show ?thesis
    by (auto simp: endpoint_def sample_link_def NewHTTPAgentClient_def e5_node_def Let_def split: sum.splits)
qed

lemma sample_linked:
  "linked sample_link e5_node (\<lambda>_. Errorf []) (\<lambda>_. Inl (Errorf ''redirected'')) sample_host 0 sample_agent (Some [''controller''])
     sample_host sample_docker"
proof -
  have "base_endpoint ''https://e5:8090''" by code_simp
  with sample_link_endpoint show ?thesis
    by (simp add: linked_def sample_link_def NewHTTPAgentClient_def sample_agent_def authorizeController_def)
qed

theorem wire_is_backend_witness:
  "\<exists>inst. fst (CreateInstanceHTTP sample_link e5_node sample_spec []) = Inr inst \<and> inst_ID inst \<noteq> [] \<and>
     snd (DestroyInstanceHTTP sample_link e5_node ''cifleet-gh-12'' []) =
       snd (DestroyDocker sample_host sample_docker ''cifleet-gh-12'' [])"
proof -
  have "spec_ok sample_spec" "int (length (specText sample_spec)) \<le> maxSpecBody" by code_simp+
  note wire = wire_is_backend [OF sample_linked this]
  have "case CreateDocker sample_host sample_docker (marshalSpec sample_spec) [] of
      (Inr inst, _) \<Rightarrow> inst_ID inst \<noteq> [] \<and> json_year (inst_Deadline inst) | _ \<Rightarrow> False" by code_simp
  then obtain inst tr where "CreateDocker sample_host sample_docker (marshalSpec sample_spec) [] = (Inr inst, tr)" "inst_ID inst \<noteq> []"
    "json_year (inst_Deadline inst)"
    by (auto split: prod.splits sum.splits)
  then have c: "CreateInstanceHTTP sample_link e5_node sample_spec [] = (Inr inst, tr)" "inst_ID inst \<noteq> []"
    using wire [THEN conjunct1, THEN iffD2] by simp_all
  have "plain_elem ''cifleet-gh-12'' \<and> TrimSpace ''cifleet-gh-12'' = ''cifleet-gh-12''" by code_simp
  from wire [THEN conjunct2, THEN mp, OF this, THEN conjunct1] c show ?thesis
    by (intro exI [of _ inst] conjI) simp_all
qed

text \<open>
  A query in a registered endpoint is accepted, and then the path that the client appends is part of the query:
  the request reaches no route of the worker. For a destruction the answer 404 counts as success, although the
  worker ran nothing.
\<close>

lemma query_endpoint_destroys_nothing:
  assumes "node = e5_node\<lparr>node_Endpoint := ''https://e5:8090?x''\<rparr>"
  shows "endpoint sample_link node = Inr ''https://e5:8090?x''"
    and "DestroyInstanceHTTP sample_link node ''cifleet-gh-12'' [] = (None, [])"
proof -
  have "TrimRight (TrimSpace ''https://e5:8090?x'') ''/'' = ''https://e5:8090?x''" by code_simp
  moreover have "case url_Parse ''https://e5:8090?x'' of Inl _ \<Rightarrow> False | Inr u \<Rightarrow> url_Scheme u = ''https'' \<and> url_Host u \<noteq> []"
    by code_simp
  ultimately show ep: "endpoint sample_link node = Inr ''https://e5:8090?x''"
    using assms by (auto simp: endpoint_def sample_link_def NewHTTPAgentClient_def Let_def split: sum.splits)
  have "TrimSpace ''cifleet-gh-12'' \<noteq> []" by code_simp
  moreover have "NewRequest_error (''https://e5:8090?x'' @ ''/v1/instances/'' @ PathEscape ''cifleet-gh-12'') = None"
    by code_simp
  moreover have "route (\<lambda>_. Errorf []) \<lparr>hr_method = ''DELETE'', hr_url = ''https://e5:8090?x'' @ ''/v1/instances/'' @ PathEscape ''cifleet-gh-12'',
      hr_contentType = [], hr_body = []\<rparr> = Some NotFound" by code_simp
  ultimately show "DestroyInstanceHTTP sample_link node ''cifleet-gh-12'' [] = (None, [])"
    unfolding DestroyInstanceHTTP_def ep Let_def
    by (simp add: serveWorker_def sample_link_def NewHTTPAgentClient_def del: append.simps)
qed

end
