(* ===== verification/Webhook.thy ===== *)
theory Webhook
  imports Runner_Manager Go_Crypto Go_JSON
begin

text \<open>
  The webhook endpoint of the controller, \<open>src/internal/controller/webhook.go\<close>: the HMAC signature of a
  delivery, the filter on event types, actions and labels, and the submission of the event to the
  queue of the runner manager, from the bytes of the request on. The interface \<open>event_submitter\<close> is what the handler needs of the
  queue; it is interpreted on \<open>Submit\<close>.
\<close>

section \<open>Definitions\<close>

definition maxWebhookBody :: int where
  "maxWebhookBody = 2 * 2 ^ 20"

record WebhookServer =
  ws_secret :: string
  ws_marker :: string

definition NewWebhookServer :: "string \<Rightarrow> string \<Rightarrow> bool \<Rightarrow> goerror + WebhookServer" where
  "NewWebhookServer secret marker hasSubmitter =
     (if secret = [] then Inl (Errorf ''GitHub webhook secret is required'')
      else if \<not> hasSubmitter then Inl (Errorf ''GitHub event submitter is required'')
      else Inr \<lparr>ws_secret = secret, ws_marker = (if TrimSpace marker = [] then ''cifleet'' else marker)\<rparr>)"

text \<open>A request: the bytes of its body, an error while reading it, and its header fields.\<close>

record hook_request =
  hr_Method :: string
  hr_URL :: string
  hr_Body :: string
  hr_BodyErr :: "goerror option"
  hr_Header :: "string \<Rightarrow> string"

datatype hook_body = HookError string | HookOk | HookIgnored | HookAccepted

record hook_payload =
  pay_Action :: string
  pay_InstallationID :: int
  pay_FullName :: string
  pay_Name :: string
  pay_Private :: bool
  pay_OwnerLogin :: string
  pay_JobID :: int
  pay_RunID :: int
  pay_JobName :: string
  pay_Labels :: "string list"
  pay_RunnerName :: string

definition zero_payload :: hook_payload where
  "zero_payload = \<lparr>pay_Action = [], pay_InstallationID = 0, pay_FullName = [], pay_Name = [], pay_Private = False,
     pay_OwnerLogin = [], pay_JobID = 0, pay_RunID = 0, pay_JobName = [], pay_Labels = [], pay_RunnerName = []\<rparr>"

text \<open>The fields of the payload's struct, with the structs inside it.\<close>

definition ownerFields :: "(string \<times> hook_payload setter) list" where
  "ownerFields = [(''login'', set_string (\<lambda>s p. p\<lparr>pay_OwnerLogin := s\<rparr>))]"

definition repositoryFields :: "(string \<times> hook_payload setter) list" where
  "repositoryFields =
     [(''full_name'', set_string (\<lambda>s p. p\<lparr>pay_FullName := s\<rparr>)),
      (''name'', set_string (\<lambda>s p. p\<lparr>pay_Name := s\<rparr>)),
      (''private'', set_bool (\<lambda>b p. p\<lparr>pay_Private := b\<rparr>)),
      (''owner'', decode_struct False ownerFields)]"

definition jobFields :: "(string \<times> hook_payload setter) list" where
  "jobFields =
     [(''id'', set_int (\<lambda>n p. p\<lparr>pay_JobID := n\<rparr>)),
      (''run_id'', set_int (\<lambda>n p. p\<lparr>pay_RunID := n\<rparr>)),
      (''name'', set_string (\<lambda>s p. p\<lparr>pay_JobName := s\<rparr>)),
      (''labels'', set_slice (set_string (\<lambda>s _. s)) [] pay_Labels (\<lambda>xs p. p\<lparr>pay_Labels := xs\<rparr>)),
      (''runner_name'', set_string (\<lambda>s p. p\<lparr>pay_RunnerName := s\<rparr>))]"

definition payloadFields :: "(string \<times> hook_payload setter) list" where
  "payloadFields =
     [(''action'', set_string (\<lambda>s p. p\<lparr>pay_Action := s\<rparr>)),
      (''installation'', decode_struct False [(''id'', set_int (\<lambda>n p. p\<lparr>pay_InstallationID := n\<rparr>))]),
      (''repository'', decode_struct False repositoryFields),
      (''workflow_job'', decode_struct False jobFields)]"

definition unmarshalPayload :: "string \<Rightarrow> hook_payload option" where
  "unmarshalPayload body =
     (case parse_json body of None \<Rightarrow> None | Some v \<Rightarrow> decode_struct False payloadFields v zero_payload)"

definition validWebhookSignature :: "string \<Rightarrow> string \<Rightarrow> string \<Rightarrow> bool" where
  "validWebhookSignature secret body header =
     (if secret = [] \<or> \<not> HasPrefix header ''sha256='' then False
      else case hex_Decode (TrimPrefix header ''sha256='') of
        None \<Rightarrow> False
      | Some provided \<Rightarrow> hmac_sha256 secret body = provided)"

definition eventOf :: "string \<Rightarrow> hook_payload \<Rightarrow> WorkflowJobEvent" where
  "eventOf deliveryID p =
     \<lparr>ev_DeliveryID = deliveryID, ev_Action = pay_Action p, ev_InstallationID = pay_InstallationID p,
      ev_Repository = \<lparr>repo_FullName = pay_FullName p, repo_Owner = pay_OwnerLogin p, repo_Name = pay_Name p,
        repo_Private = pay_Private p\<rparr>,
      ev_Job = \<lparr>wj_ID = pay_JobID p, wj_RunID = pay_RunID p, wj_Name = pay_JobName p,
        wj_Labels = pay_Labels p, wj_RunnerName = pay_RunnerName p\<rparr>\<rparr>"

text \<open>Lines 100-111: the events that are ignored.\<close>

definition ignoredEvent :: "string \<Rightarrow> WorkflowJobEvent \<Rightarrow> bool" where
  "ignoredEvent marker event \<longleftrightarrow>
     ev_Action event = ''queued'' \<and> \<not> hasLabel (wj_Labels (ev_Job event)) marker \<or>
     ev_Action event = ''completed'' \<and> \<not> hasLabel (wj_Labels (ev_Job event)) marker \<and>
       \<not> HasPrefix (ToLower (wj_RunnerName (ev_Job event))) ''cifleet-'' \<or>
     ev_Action event \<noteq> ''queued'' \<and> ev_Action event \<noteq> ''completed''"

definition webhook ::
  "(WorkflowJobEvent \<Rightarrow> 's \<Rightarrow> goerror option \<times> 's) \<Rightarrow> WebhookServer \<Rightarrow> hook_request \<Rightarrow> 's \<Rightarrow> (int \<times> hook_body) \<times> 's" where
  "webhook submit ws req s =
     (let body = take (nat (maxWebhookBody + 1)) (hr_Body req) in
      if hr_BodyErr req \<noteq> None then ((400, HookError ''read webhook body''), s)
      else if int (length body) > maxWebhookBody then ((413, HookError ''webhook body too large''), s)
      else if \<not> validWebhookSignature (ws_secret ws) body (hr_Header req ''X-Hub-Signature-256'')
      then ((401, HookError ''invalid webhook signature''), s)
      else let eventType = hr_Header req ''X-GitHub-Event'' in
      if eventType = ''ping'' then ((200, HookOk), s)
      else if eventType \<noteq> ''workflow_job'' then ((202, HookIgnored), s)
      else case unmarshalPayload body of
        None \<Rightarrow> ((400, HookError ''invalid workflow_job payload''), s)
      | Some payload \<Rightarrow>
          (let event = eventOf (hr_Header req ''X-GitHub-Delivery'') payload in
           if ignoredEvent (ws_marker ws) event then ((202, HookIgnored), s)
           else case submit event s of
             (Some err, s1) \<Rightarrow> ((503, HookError (Error err)), s1)
           | (None, s1) \<Rightarrow> ((202, HookAccepted), s1)))"

text \<open>The routes of the endpoint, and the server. \<open>None\<close> is an answer of the mux itself.\<close>

datatype hook_endpoint = HookHealthz | HookDelivery

definition hookRoute :: "hook_request \<Rightarrow> hook_endpoint mux_route option" where
  "hookRoute req =
     (case mux_segments (request_path (hr_URL req)) of
        None \<Rightarrow> None
      | Some segs \<Rightarrow>
          Some (if segs = [''healthz''] then on_method GET (hr_Method req) HookHealthz
                else if segs = [''github'', ''webhook''] then on_method POST (hr_Method req) HookDelivery
                else NotFound))"

definition serveHook ::
  "(WorkflowJobEvent \<Rightarrow> 's \<Rightarrow> goerror option \<times> 's) \<Rightarrow> WebhookServer \<Rightarrow> hook_request \<Rightarrow> 's \<Rightarrow> (int \<times> hook_body) option \<times> 's" where
  "serveHook submit ws req s =
     (case hookRoute req of
        Some (Route HookHealthz) \<Rightarrow> (Some (200, HookOk), s)
      | Some (Route HookDelivery) \<Rightarrow> (let (resp, s') = webhook submit ws req s in (Some resp, s'))
      | _ \<Rightarrow> (None, s))"

section \<open>The interface of the event queue\<close>

text \<open>
  A submission either appends the event to the queue or returns an error and leaves the state as it
  was; \<open>queue\<close> is the list of events that the consumer will see.
\<close>

locale event_submitter =
  fixes submit :: "WorkflowJobEvent \<Rightarrow> 's \<Rightarrow> goerror option \<times> 's" and queue :: "'s \<Rightarrow> WorkflowJobEvent list"
  assumes submit_ok: "submit ev s = (None, s') \<Longrightarrow> queue s' = queue s @ [ev]"
    and submit_full: "submit ev s = (Some err, s') \<Longrightarrow> s' = s"
begin

text \<open>The queue grows by one event, of an authentic delivery that is not to be ignored, or not at all.\<close>

lemma webhook_queue:
  assumes "webhook submit ws req s = (resp, s')" and "s' \<noteq> s"
  shows "\<exists>payload. hr_BodyErr req = None \<and> int (length (hr_Body req)) \<le> maxWebhookBody \<and>
     validWebhookSignature (ws_secret ws) (hr_Body req) (hr_Header req ''X-Hub-Signature-256'') \<and>
     hr_Header req ''X-GitHub-Event'' = ''workflow_job'' \<and>
     unmarshalPayload (hr_Body req) = Some payload \<and>
     \<not> ignoredEvent (ws_marker ws) (eventOf (hr_Header req ''X-GitHub-Delivery'') payload) \<and>
     resp = (202, HookAccepted) \<and>
     queue s' = queue s @ [eventOf (hr_Header req ''X-GitHub-Delivery'') payload]"
proof -
  let ?b = "take (nat (maxWebhookBody + 1)) (hr_Body req)"
  have len: "int (length ?b) \<le> maxWebhookBody"
    and steps: "hr_BodyErr req = None" "validWebhookSignature (ws_secret ws) ?b (hr_Header req ''X-Hub-Signature-256'')"
      "hr_Header req ''X-GitHub-Event'' = ''workflow_job''"
    using assms by (auto simp: webhook_def Let_def not_less split: if_splits)
  from len have b: "?b = hr_Body req" by (simp add: maxWebhookBody_def split: if_splits)
  obtain payload where p: "unmarshalPayload (hr_Body req) = Some payload"
    using assms steps len unfolding b by (cases "unmarshalPayload (hr_Body req)") (auto simp: webhook_def Let_def b)
  let ?ev = "eventOf (hr_Header req ''X-GitHub-Delivery'') payload"
  have go: "\<not> ignoredEvent (ws_marker ws) ?ev"
    using assms steps len p unfolding b by (auto simp: webhook_def Let_def b)
  obtain e s1 where sub: "submit ?ev s = (e, s1)" by (cases "submit ?ev s")
  have run: "webhook submit ws req s = (case e of
      Some err \<Rightarrow> ((503, HookError (Error err)), s1) | None \<Rightarrow> ((202, HookAccepted), s1))"
    using steps len p go sub unfolding b by (auto simp: webhook_def Let_def b split: option.split)
  have "e = None" using assms run sub submit_full by (cases e) auto
  with assms run sub submit_ok [of ?ev s s1] steps len p go show ?thesis unfolding b by auto
qed

end

lemma Submit_cases:
  "Submit ev m = (if int (length (mgr_queue m)) < cfg_QueueSize (mgr_cfg m)
     then (None, m\<lparr>mgr_queue := mgr_queue m @ [ev]\<rparr>) else (Some ErrEventQueueFull, m))"
  by (simp add: Submit_def)

interpretation hook: event_submitter Submit mgr_queue
  by unfold_locales (auto simp: Submit_cases split: if_splits)

lemma own_signature:
  "secret \<noteq> [] \<Longrightarrow> validWebhookSignature secret body (''sha256='' @ hex_Encode (hmac_sha256 secret body))"
  using HasPrefix_append [of "''sha256=''" "hex_Encode (hmac_sha256 secret body)"]
    TrimPrefix_append [of "''sha256=''" "hex_Encode (hmac_sha256 secret body)"]
  by (simp add: validWebhookSignature_def del: append_Cons append_Nil)

section \<open>Payloads as GitHub writes them\<close>

definition payloadMembers :: "hook_payload \<Rightarrow> (string \<times> json) list" where
  "payloadMembers p =
     [(''action'', JStr (pay_Action p)),
      (''workflow_job'', JObj [(''id'', JNum (FormatInt (pay_JobID p))), (''run_id'', JNum (FormatInt (pay_RunID p))),
         (''name'', JStr (pay_JobName p)), (''labels'', JArr (map JStr (pay_Labels p))),
         (''runner_name'', JStr (pay_RunnerName p))]),
      (''repository'', JObj [(''name'', JStr (pay_Name p)), (''full_name'', JStr (pay_FullName p)),
         (''private'', JBool (pay_Private p)), (''owner'', JObj [(''login'', JStr (pay_OwnerLogin p))])]),
      (''installation'', JObj [(''id'', JNum (FormatInt (pay_InstallationID p)))])]"

definition payload_ok :: "hook_payload \<Rightarrow> bool" where
  "payload_ok p \<longleftrightarrow> in_int64 (pay_JobID p) \<and> in_int64 (pay_RunID p) \<and> in_int64 (pay_InstallationID p)"

lemma set_labels:
  "pay_Labels p = [] \<Longrightarrow>
   set_slice (set_string (\<lambda>s _. s)) [] pay_Labels (\<lambda>xs p. p\<lparr>pay_Labels := xs\<rparr>) (JArr (map JStr ls)) p = Some (p\<lparr>pay_Labels := ls\<rparr>)"
  by (rule set_slice_zero) simp_all

lemma decode_payload: "payload_ok p \<Longrightarrow> decode_fields False payloadFields (payloadMembers p) zero_payload = Some p"
  by (simp add: payload_ok_def payloadMembers_def payloadFields_def jobFields_def repositoryFields_def ownerFields_def
      find_field_def decode_struct_def set_labels zero_payload_def)

lemma payloadMembers_written: "\<forall>kv \<in> set (payloadMembers p). written (snd kv) \<and> nesting (snd kv) \<le> 3"
proof -
  have "fold max (map (nesting \<circ> JStr) ls) 0 = 0" for ls by (induction ls) simp_all
  then show ?thesis by (auto simp: payloadMembers_def written_JObj list_all_iff)
qed

lemma parse_payload:
  assumes "renders (JObj (extra @ payloadMembers p)) s" "\<forall>(k, v) \<in> set extra. nesting v < 10000" "blank w" "blank w'"
  shows "parse_json (w @ s @ w') = Some (JObj (extra @ payloadMembers p))"
proof -
  have "nesting (JObj (extra @ payloadMembers p)) \<le> Suc 9999"
    using assms(2) payloadMembers_written [of p] unfolding nesting_JObj by fastforce
  then show ?thesis using parse_json_renders [OF assms(1) _ assms(3,4)] maxNestingDepth_Suc by blast
qed

lemma unmarshal_rendered:
  assumes "payload_ok p" "renders (JObj (extra @ payloadMembers p)) s" "blank w" "blank w'"
    and "\<forall>(k, v) \<in> set extra. find_field payloadFields k = None \<and> nesting v < 10000"
  shows "unmarshalPayload (w @ s @ w') = Some p"
proof -
  have x: "\<forall>(k, v) \<in> set extra. find_field payloadFields k = None" "\<forall>(k, v) \<in> set extra. nesting v < 10000"
    using assms(5) by auto
  show ?thesis
    by (simp add: unmarshalPayload_def decode_struct_def parse_payload [OF assms(2) x(2) assms(3,4)] decode_unknown [OF x(1)]
        decode_payload [OF assms(1)])
qed

text \<open>Whatever is read, its numbers are 64-bit numbers.\<close>

lemma unmarshal_typed:
  assumes "unmarshalPayload body = Some p"
  shows "payload_ok p"
proof -
  have "keeps payload_ok (decode_struct False payloadFields)"
    by (auto simp: payloadFields_def repositoryFields_def ownerFields_def jobFields_def payload_ok_def intro!: keeps_intros)
  moreover have "payload_ok zero_payload" by (simp add: payload_ok_def zero_payload_def in_int64_def)
  ultimately show ?thesis using assms by (auto simp: keeps_def unmarshalPayload_def split: option.splits)
qed

section \<open>Properties\<close>

text \<open>A signature header is valid for a secret and a body exactly when the secret is not empty and the
  header is \<open>sha256=\<close> followed by a hexadecimal encoding, in any case, of the HMAC-SHA256 of the body
  under the secret; in particular the header GitHub computes is valid.\<close>

lemma signature_valid_iff:
  "(validWebhookSignature secret body header \<longleftrightarrow>
      secret \<noteq> [] \<and> (\<exists>sig. header = ''sha256='' @ sig \<and> hex_Decode sig = Some (hmac_sha256 secret body))) \<and>
   validWebhookSignature (c # secret) body (''sha256='' @ hex_Encode (hmac_sha256 (c # secret) body))"
proof -
  have "HasPrefix header ''sha256='' \<longleftrightarrow> (\<exists>sig. header = ''sha256='' @ sig)" by (simp add: HasPrefix_iff)
  moreover have "TrimPrefix (''sha256='' @ sig) ''sha256='' = sig" for sig by (rule TrimPrefix_append)
  moreover have "HasPrefix (''sha256='' @ sig) ''sha256=''" for sig by (rule HasPrefix_append)
  ultimately show ?thesis
    by (auto simp: validWebhookSignature_def simp del: append_Cons split: option.splits)
qed



lemma serveHook_changes:
  assumes "serveHook submit ws req s = (resp, s')" "s' \<noteq> s"
  obtains r where "webhook submit ws req s = (r, s')" "resp = Some r" "hr_Method req = ''POST''"
    "mux_segments (request_path (hr_URL req)) = Some [''github'', ''webhook'']"
  using assms
  by (auto simp: serveHook_def hookRoute_def method_defs split: option.splits mux_route.splits hook_endpoint.splits if_splits prod.splits)

text \<open>C19: Only authentic deliveries reach the runner manager: if a request to the endpoint changes the manager,
  then it was posted to \<open>/github/webhook\<close>, its body was read completely and within the size limit, its signature is the HMAC of the body under the
  webhook secret, it is a \<open>workflow_job\<close> event with a well-formed payload that is queued or completed
  and marked for CIFleet, the answer is 202, and the only change is that this event is appended to the
  queue.\<close>

theorem webhook_only_authentic:
  assumes "serveHook Submit ws req m = (resp, m')" and "m' \<noteq> m"
  shows "\<exists>payload event. event = eventOf (hr_Header req ''X-GitHub-Delivery'') payload \<and>
     hr_Method req = ''POST'' \<and> mux_segments (request_path (hr_URL req)) = Some [''github'', ''webhook''] \<and>
     hr_BodyErr req = None \<and> int (length (hr_Body req)) \<le> maxWebhookBody \<and>
     validWebhookSignature (ws_secret ws) (hr_Body req) (hr_Header req ''X-Hub-Signature-256'') \<and>
     hr_Header req ''X-GitHub-Event'' = ''workflow_job'' \<and> unmarshalPayload (hr_Body req) = Some payload \<and>
     (ev_Action event = ''queued'' \<and> hasLabel (wj_Labels (ev_Job event)) (ws_marker ws) \<or>
      ev_Action event = ''completed'' \<and> (hasLabel (wj_Labels (ev_Job event)) (ws_marker ws) \<or>
        HasPrefix (ToLower (wj_RunnerName (ev_Job event))) ''cifleet-'')) \<and>
     resp = Some (202, HookAccepted) \<and> mgr_queue m' = mgr_queue m @ [event]"
proof -
  from serveHook_changes [OF assms] obtain r where "webhook Submit ws req m = (r, m')" "resp = Some r"
    "hr_Method req = ''POST''" "mux_segments (request_path (hr_URL req)) = Some [''github'', ''webhook'']" by blast
  with hook.webhook_queue [OF this(1) assms(2)] show ?thesis by (auto simp: ignoredEvent_def)
qed

definition sample_payload :: hook_payload where
  "sample_payload = \<lparr>pay_Action = ''queued'', pay_InstallationID = 42, pay_FullName = ''fangbm/CIFleet'',
     pay_Name = ''CIFleet'', pay_Private = False, pay_OwnerLogin = ''fangbm'', pay_JobID = 12, pay_RunID = 10,
     pay_JobName = ''build'', pay_Labels = [''self-hosted'', ''cifleet'', ''linux-x64''], pay_RunnerName = []\<rparr>"

definition sample_body :: string where
  "sample_body = write_json (JObj ((''sender'', JObj [(''id'', JNum ''7'')]) # payloadMembers sample_payload))"

lemma sample_rendered:
  "renders (JObj ([(''sender'', JObj [(''id'', JNum ''7'')])] @ payloadMembers sample_payload)) sample_body"
  "payload_ok sample_payload"
  "\<forall>(k, v) \<in> set [(''sender'', JObj [(''id'', JNum ''7'')])]. find_field payloadFields k = None \<and> nesting v < 10000"
proof -
  have "written (JObj [(''id'', JNum ''7'')])" by code_simp
  then have "written (JObj ((''sender'', JObj [(''id'', JNum ''7'')]) # payloadMembers sample_payload))"
    using payloadMembers_written [of sample_payload] unfolding written_JObj by auto
  from renders_written [OF this]
  show "renders (JObj ([(''sender'', JObj [(''id'', JNum ''7'')])] @ payloadMembers sample_payload)) sample_body"
    by (simp only: sample_body_def append.simps)
  show "payload_ok sample_payload" by (simp add: payload_ok_def sample_payload_def in_int64_def)
  have "find_field payloadFields ''sender'' = None" by code_simp
  then show "\<forall>(k, v) \<in> set [(''sender'', JObj [(''id'', JNum ''7'')])]. find_field payloadFields k = None \<and> nesting v < 10000"
    by simp
qed


lemma sample_unmarshal: "unmarshalPayload sample_body = Some sample_payload"
  using unmarshal_rendered [OF sample_rendered(2,1) _ _ sample_rendered(3), of "[]" "[]"] by simp


lemma sample_body_length: "int (length sample_body) \<le> 1000"
  by code_simp

definition sample_request :: hook_request where
  "sample_request = \<lparr>hr_Method = ''POST'', hr_URL = ''https://ci.example/github/webhook'', hr_Body = sample_body, hr_BodyErr = None, hr_Header = (\<lambda>h.
     if h = ''X-Hub-Signature-256'' then ''sha256='' @ hex_Encode (hmac_sha256 ''s3cret'' sample_body)
     else if h = ''X-GitHub-Event'' then ''workflow_job'' else ''d-1'')\<rparr>"

definition sample_manager :: Manager where
  "sample_manager = \<lparr>mgr_cfg = (defaultConfig \<lparr>cfg_MarkerLabel = [], cfg_RunnerGroupID = 0, cfg_RunnerImage = [],
       cfg_RunnerCPU = 2, cfg_RunnerMemoryM = 1024, cfg_RunnerTimeout = Hour, cfg_StateFile = [],
       cfg_RetryInterval = 0, cfg_TombstoneTTL = 0, cfg_QueueSize = 1\<rparr>),
     mgr_jobs = fmempty, mgr_queue = [], mgr_server = NewServer [],
     mgr_disk = \<lparr>dsk_state = None, dsk_tmp = None\<rparr>, mgr_trace = []\<rparr>"

lemma sample_webhook:
  assumes "int (length (mgr_queue m)) < cfg_QueueSize (mgr_cfg m)"
  shows "serveHook Submit \<lparr>ws_secret = ''s3cret'', ws_marker = ''cifleet''\<rparr> sample_request m =
     (Some (202, HookAccepted), m\<lparr>mgr_queue := mgr_queue m @ [eventOf ''d-1'' sample_payload]\<rparr>)"
proof -
  have route: "hookRoute sample_request = Some (Route HookDelivery)" unfolding sample_request_def by code_simp
  have sig: "validWebhookSignature ''s3cret'' sample_body (''sha256='' @ hex_Encode (hmac_sha256 ''s3cret'' sample_body))"
    by (rule own_signature) simp
  have keep: "\<not> ignoredEvent ''cifleet'' (eventOf ''d-1'' sample_payload)" by code_simp
  have body: "take (nat (maxWebhookBody + 1)) (hr_Body sample_request) = sample_body"
    using sample_body_length by (simp add: maxWebhookBody_def sample_request_def)
  have hdr: "hr_Header sample_request ''X-Hub-Signature-256'' = ''sha256='' @ hex_Encode (hmac_sha256 ''s3cret'' sample_body)"
    "hr_Header sample_request ''X-GitHub-Event'' = ''workflow_job''" "hr_Header sample_request ''X-GitHub-Delivery'' = ''d-1''"
    "hr_BodyErr sample_request = None" by (simp_all add: sample_request_def)
  have sub: "Submit ev m = (None, m\<lparr>mgr_queue := mgr_queue m @ [ev]\<rparr>)" for ev
    using assms by (simp add: Submit_def)
  have "webhook Submit \<lparr>ws_secret = ''s3cret'', ws_marker = ''cifleet''\<rparr> sample_request m =
     ((202, HookAccepted), m\<lparr>mgr_queue := mgr_queue m @ [eventOf ''d-1'' sample_payload]\<rparr>)"
    unfolding webhook_def body hdr WebhookServer.simps
    using sig keep sample_body_length by (simp add: maxWebhookBody_def sub sample_unmarshal)
  then show ?thesis by (simp add: serveHook_def route)
qed

theorem webhook_only_authentic_witness:
  "\<exists>m' payload. serveHook Submit \<lparr>ws_secret = ''s3cret'', ws_marker = ''cifleet''\<rparr>
      sample_request sample_manager = (Some (202, HookAccepted), m') \<and>
     mgr_queue m' = [eventOf ''d-1'' payload]"
proof -
  have ne: "sample_manager\<lparr>mgr_queue := [eventOf ''d-1'' sample_payload]\<rparr> \<noteq> sample_manager"
    by (simp add: sample_manager_def)
  have served: "serveHook Submit \<lparr>ws_secret = ''s3cret'', ws_marker = ''cifleet''\<rparr> sample_request sample_manager =
     (Some (202, HookAccepted), sample_manager\<lparr>mgr_queue := [eventOf ''d-1'' sample_payload]\<rparr>)"
    using sample_webhook [of sample_manager] by (simp add: sample_manager_def defaultConfig_def)
  from webhook_only_authentic [OF this ne] show ?thesis
    using served by (auto simp: sample_request_def sample_manager_def)
qed

text \<open>When the queue is full the endpoint answers 503 with the queue's error and drops nothing: the
  manager is unchanged, so that GitHub can redeliver.\<close>

lemma webhook_queue_full:
  assumes "cfg_QueueSize (mgr_cfg m) \<le> int (length (mgr_queue m))"
  shows "snd (webhook Submit ws req m) = m \<and>
     fst (fst (webhook Submit ws req m)) \<in> {200, 202, 400, 401, 413, 503} \<and>
     snd (fst (webhook Submit ws req m)) \<noteq> HookAccepted"
  using assms by (auto simp: webhook_def Let_def Submit_def split: option.split)

end
