(* ===== verification/Github_App.thy ===== *)
theory Github_App
  imports Model Go_URL Go_Paths Go_Time
begin

text \<open>
  The GitHub App client, \<open>src/internal/githubapp/client.go\<close>: the constructor, the cache of installation
  tokens, the JSON web token, and the three API calls of the controller.

  The network is a \<open>Net\<close>: the answer of the HTTP client to a request, as a function of the requests so
  far. Bodies are JSON texts: a request carries the text of the value that the code marshals, and the body
  of a response is decoded into the struct of the call. The RSA signature is a parameter, and so is the message of a
  decoding error.
\<close>

section \<open>Library functions\<close>

text \<open>\<open>base64.RawURLEncoding\<close>.\<close>

definition b64_char :: "nat \<Rightarrow> char" where
  "b64_char n =
     (if n < 26 then char_of (65 + n) else if n < 52 then char_of (71 + n)
      else if n < 62 then char_of (n - 4) else if n = 62 then CHR ''-'' else CHR ''_'')"

fun b64_Encode :: "string \<Rightarrow> string" where
  "b64_Encode [] = []"
| "b64_Encode [a] = (let x = of_char a * 65536 :: nat in [b64_char (x div 262144), b64_char (x div 4096 mod 64)])"
| "b64_Encode [a, b] = (let x = of_char a * 65536 + of_char b * 256 :: nat in
     [b64_char (x div 262144), b64_char (x div 4096 mod 64), b64_char (x div 64 mod 64)])"
| "b64_Encode (a # b # c # rest) = (let x = of_char a * 65536 + of_char b * 256 + of_char c :: nat in
     [b64_char (x div 262144), b64_char (x div 4096 mod 64), b64_char (x div 64 mod 64), b64_char (x mod 64)]
       @ b64_Encode rest)"

section \<open>Client\<close>

definition defaultAPIVersion :: string where
  "defaultAPIVersion = ''2026-03-10''"

record installationToken =
  tok_Value :: string
  tok_ExpiresAt :: time

text \<open>
  The configuration: \<open>gc_Sign\<close> is \<open>rsa.SignPKCS1v15\<close> with the private key on a digest, if there is a key;
  the clock \<open>Now\<close> is part of the network below.
\<close>

record GithubConfig =
  gc_Issuer :: string
  gc_Sign :: "(string \<Rightarrow> goerror + string) option"
  gc_BaseURL :: string
  gc_APIVersion :: string

record Client =
  cl_issuer :: string
  cl_sign :: "string \<Rightarrow> goerror + string"
  cl_baseURL :: string
  cl_apiVersion :: string
  cl_tokens :: "(int, installationToken) fmap"

text \<open>
  Private keys. \<open>pem.Decode\<close> gives the bytes of the first block, if there is one; the two parsers of
  \<open>x509\<close> are arguments, and what a PKCS#8 block holds need not be an RSA key.
\<close>

datatype 'k pkcs8_key = RSAKey 'k | OtherKey

definition ParsePrivateKey ::
  "(string \<Rightarrow> string option) \<Rightarrow> (string \<Rightarrow> goerror + 'k) \<Rightarrow> (string \<Rightarrow> goerror + 'k pkcs8_key)
     \<Rightarrow> string \<Rightarrow> goerror + 'k" where
  "ParsePrivateKey pem parsePKCS1 parsePKCS8 data =
     (case pem data of
        None \<Rightarrow> Inl (Errorf ''GitHub App private key is not PEM'')
      | Some block \<Rightarrow>
      case parsePKCS1 block of
        Inr key \<Rightarrow> Inr key
      | Inl _ \<Rightarrow>
      case parsePKCS8 block of
        Inl err \<Rightarrow> Inl (Wrapf ''parse GitHub App private key: '' err [])
      | Inr (RSAKey key) \<Rightarrow> Inr key
      | Inr OtherKey \<Rightarrow> Inl (Errorf ''GitHub App private key is not RSA''))"

definition LoadPrivateKey ::
  "(string \<Rightarrow> string option) \<Rightarrow> (string \<Rightarrow> goerror + 'k) \<Rightarrow> (string \<Rightarrow> goerror + 'k pkcs8_key)
     \<Rightarrow> (string \<Rightarrow> goerror + string) \<Rightarrow> string \<Rightarrow> goerror + 'k" where
  "LoadPrivateKey pem parsePKCS1 parsePKCS8 readFile path =
     (case readFile path of
        Inl err \<Rightarrow> Inl (Wrapf ''read GitHub App private key: '' err [])
      | Inr data \<Rightarrow> ParsePrivateKey pem parsePKCS1 parsePKCS8 data)"

definition NewClient :: "GithubConfig \<Rightarrow> goerror + Client" where
  "NewClient cfg =
     (if TrimSpace (gc_Issuer cfg) = [] then Inl (Errorf ''GitHub App issuer is required'')
      else case gc_Sign cfg of
        None \<Rightarrow> Inl (Errorf ''GitHub App private key is required'')
      | Some sign \<Rightarrow>
      let baseURL = (if gc_BaseURL cfg = [] then ''https://api.github.com'' else gc_BaseURL cfg) in
      case ParseRequestURI baseURL of
        Inl err \<Rightarrow> Inl (Wrapf ''invalid GitHub API base URL: '' err [])
      | Inr _ \<Rightarrow>
          Inr \<lparr>cl_issuer = gc_Issuer cfg, cl_sign = sign, cl_baseURL = TrimRight baseURL ''/'',
               cl_apiVersion = (if gc_APIVersion cfg = [] then defaultAPIVersion else gc_APIVersion cfg),
               cl_tokens = fmempty\<rparr>)"

section \<open>Requests\<close>

record api_request =
  ar_method :: string
  ar_url :: string
  ar_accept :: string
  ar_apiVersion :: string
  ar_authorization :: string
  ar_contentType :: string
  ar_body :: "string option"

text \<open>A response; \<open>as_text\<close> is what can be read of its body.\<close>

record api_response =
  as_status :: int
  as_text :: string

datatype net_event = NetRequest api_request "goerror + api_response" | NetClock time

record Net =
  net_do :: "net_event list \<Rightarrow> api_request \<Rightarrow> goerror + api_response"
  net_clock :: "net_event list \<Rightarrow> time"
  net_jsonErr :: "net_event list \<Rightarrow> goerror"

type_synonym net_trace = "net_event list"

text \<open>\<open>json.NewDecoder(resp.Body).Decode(out)\<close>: the first value of the text, set over what \<open>out\<close> is.\<close>

definition decodeInto :: "'a setter \<Rightarrow> 'a \<Rightarrow> string \<Rightarrow> 'a option" where
  "decodeInto dec out body = (case decode_first body of None \<Rightarrow> None | Some (v, _) \<Rightarrow> dec v out)"

text \<open>
  The argument \<open>out\<close> comes with how it is decoded into, or with \<open>None\<close> when it is \<open>nil\<close>; its value after the call
  is the result.
\<close>

definition doJSON ::
  "Net \<Rightarrow> Client \<Rightarrow> string \<Rightarrow> string \<Rightarrow> string \<Rightarrow> json option \<Rightarrow> 'a setter option \<Rightarrow> 'a \<Rightarrow> net_trace
     \<Rightarrow> (goerror + 'a) \<times> net_trace" where
  "doJSON N c method path bearer body dec out tr =
     (case NewRequest_error (cl_baseURL c @ path) of
        Some err \<Rightarrow> (Inl err, tr)
      | None \<Rightarrow>
      let req = \<lparr>ar_method = method, ar_url = cl_baseURL c @ path, ar_accept = ''application/vnd.github+json'',
                 ar_apiVersion = cl_apiVersion c,
                 ar_authorization = (if bearer \<noteq> [] then ''Bearer '' @ bearer else []),
                 ar_contentType = (if body \<noteq> None then ''application/json'' else []),
                 ar_body = map_option write_json body\<rparr>;
          answer = net_do N tr req; tr1 = tr @ [NetRequest req answer] in
      case answer of
        Inl err \<Rightarrow> (Inl (Wrapf (''GitHub API '' @ method @ '' '' @ path @ '': '') err []), tr1)
      | Inr resp \<Rightarrow>
          if as_status resp < 200 \<or> as_status resp \<ge> 300
          then (Inl (Errorf (''GitHub API '' @ method @ '' '' @ path @ '' returned '' @ FormatInt (as_status resp) @
                  '': '' @ TrimSpace (take 4096 (as_text resp)))), tr1)
          else if dec = None \<or> as_status resp = 204 then (Inr out, tr1)
          else (case decodeInto (the dec) out (as_text resp) of
                  None \<Rightarrow> (Inl (Wrapf ''decode GitHub API response: '' (net_jsonErr N tr1) []), tr1)
                | Some out' \<Rightarrow> (Inr out', tr1)))"

text \<open>The header and the claims; \<open>json.Marshal\<close> sorts the keys of a map.\<close>

definition jwtHeader :: json where
  "jwtHeader = JObj [(''alg'', JStr ''RS256''), (''typ'', JStr ''JWT'')]"

definition jwtClaims :: "string \<Rightarrow> time \<Rightarrow> json" where
  "jwtClaims issuer now =
     JObj [(''exp'', JNum (FormatInt (time_Unix (time_Add now (9 * Minute))))),
           (''iat'', JNum (FormatInt (time_Unix (time_Add now (- (60 * Second)))))),
           (''iss'', JStr issuer)]"

definition jwt :: "Client \<Rightarrow> time \<Rightarrow> goerror + string" where
  "jwt c now =
     (let unsigned = b64_Encode (write_json jwtHeader) @ ''.'' @ b64_Encode (write_json (jwtClaims (cl_issuer c) now)) in
      case cl_sign c (Sum256 unsigned) of
        Inl err \<Rightarrow> Inl (Wrapf ''sign GitHub App JWT: '' err [])
      | Inr signature \<Rightarrow> Inr (unsigned @ ''.'' @ b64_Encode signature))"

section \<open>The structs of the responses\<close>

record token_response =
  tr_Token :: string
  tr_ExpiresAt :: time

definition tokenFields :: "(string \<times> token_response setter) list" where
  "tokenFields =
     [(''token'', set_string (\<lambda>s r. r\<lparr>tr_Token := s\<rparr>)),
      (''expires_at'', set_time (\<lambda>t r. r\<lparr>tr_ExpiresAt := t\<rparr>))]"

definition zero_token :: token_response where
  "zero_token = \<lparr>tr_Token = [], tr_ExpiresAt = 0\<rparr>"

definition refFields :: "(string \<times> RepositoryRef setter) list" where
  "refFields =
     [(''full_name'', set_string (\<lambda>s r. r\<lparr>rr_FullName := s\<rparr>)),
      (''private'', set_bool (\<lambda>b r. r\<lparr>rr_Private := b\<rparr>))]"

definition zero_RepositoryRef :: RepositoryRef where
  "zero_RepositoryRef = \<lparr>rr_FullName = [], rr_Private = False\<rparr>"

definition runFields :: "(string \<times> WorkflowRun setter) list" where
  "runFields =
     [(''id'', set_int (\<lambda>n r. r\<lparr>run_ID := n\<rparr>)),
      (''event'', set_string (\<lambda>s r. r\<lparr>run_Event := s\<rparr>)),
      (''repository'', set_inner (decode_struct False refFields) run_Repository (\<lambda>x r. r\<lparr>run_Repository := x\<rparr>)),
      (''head_repository'', set_pointer (decode_struct False refFields) zero_RepositoryRef run_HeadRepository
         (\<lambda>x r. r\<lparr>run_HeadRepository := x\<rparr>))]"

definition zero_WorkflowRun :: WorkflowRun where
  "zero_WorkflowRun = \<lparr>run_ID = 0, run_Event = [], run_Repository = zero_RepositoryRef, run_HeadRepository = None\<rparr>"

record jit_response =
  jr_RunnerID :: int
  jr_EncodedJITConfig :: string

definition jitFields :: "(string \<times> jit_response setter) list" where
  "jitFields =
     [(''runner'', decode_struct False [(''id'', set_int (\<lambda>n r. r\<lparr>jr_RunnerID := n\<rparr>))]),
      (''encoded_jit_config'', set_string (\<lambda>s r. r\<lparr>jr_EncodedJITConfig := s\<rparr>))]"

definition zero_jit :: jit_response where
  "zero_jit = \<lparr>jr_RunnerID = 0, jr_EncodedJITConfig = []\<rparr>"

definition jitRequest :: "string \<Rightarrow> int \<Rightarrow> string list \<Rightarrow> json" where
  "jitRequest runnerName runnerGroupID labels =
     JObj [(''name'', JStr runnerName), (''runner_group_id'', JNum (FormatInt runnerGroupID)),
           (''labels'', JArr (map JStr labels)), (''work_folder'', JStr ''_work'')]"

section \<open>Tokens and calls\<close>

definition installationAccessToken ::
  "Net \<Rightarrow> int \<Rightarrow> Client \<times> net_trace \<Rightarrow> (goerror + string) \<times> Client \<times> net_trace" where
  "installationAccessToken N installationID st =
     (let (c, tr) = st in
      if installationID \<le> 0 then (Inl (Errorf ''GitHub App installation id is required''), c, tr)
      else let now = net_clock N tr; tr1 = tr @ [NetClock now] in
      case (case fmlookup (cl_tokens c) installationID of
              Some cached \<Rightarrow>
                if tok_Value cached \<noteq> [] \<and> time_After (tok_ExpiresAt cached) (time_Add now (5 * Minute))
                then Some (tok_Value cached) else None
            | None \<Rightarrow> None) of
        Some tok \<Rightarrow> (Inr tok, c, tr1)
      | None \<Rightarrow>
      case jwt c now of
        Inl err \<Rightarrow> (Inl err, c, tr1)
      | Inr bearer \<Rightarrow>
      let (done, tr2) = doJSON N c ''POST'' (''/app/installations/'' @ FormatInt installationID @ ''/access_tokens'')
             bearer (Some (JObj [])) (Some (decode_struct False tokenFields)) zero_token tr1 in
      case done of
        Inl err \<Rightarrow> (Inl err, c, tr2)
      | Inr response \<Rightarrow>
          if tr_Token response = [] \<or> IsZero (tr_ExpiresAt response)
          then (Inl (Errorf ''GitHub returned an incomplete installation token''), c, tr2)
          else (Inr (tr_Token response),
                c\<lparr>cl_tokens := fmupd installationID
                     \<lparr>tok_Value = tr_Token response, tok_ExpiresAt = tr_ExpiresAt response\<rparr> (cl_tokens c)\<rparr>, tr2))"

definition runPath :: "string \<Rightarrow> string \<Rightarrow> int \<Rightarrow> string" where
  "runPath owner repo runID =
     ''/repos/'' @ PathEscape owner @ ''/'' @ PathEscape repo @ ''/actions/runs/'' @ FormatInt runID"

definition jitPath :: "string \<Rightarrow> string \<Rightarrow> string" where
  "jitPath owner repo =
     ''/repos/'' @ PathEscape owner @ ''/'' @ PathEscape repo @ ''/actions/runners/generate-jitconfig''"

definition runnerPath :: "string \<Rightarrow> string \<Rightarrow> int \<Rightarrow> string" where
  "runnerPath owner repo runnerID =
     ''/repos/'' @ PathEscape owner @ ''/'' @ PathEscape repo @ ''/actions/runners/'' @ FormatInt runnerID"

definition GetWorkflowRunAPI ::
  "Net \<Rightarrow> int \<Rightarrow> string \<Rightarrow> string \<Rightarrow> int \<Rightarrow> Client \<times> net_trace
     \<Rightarrow> (goerror + WorkflowRun) \<times> Client \<times> net_trace" where
  "GetWorkflowRunAPI N installationID owner repo runID st =
     (let (got, c, tr) = installationAccessToken N installationID st in
      case got of
        Inl err \<Rightarrow> (Inl err, c, tr)
      | Inr tok \<Rightarrow>
      let (done, tr1) = doJSON N c ''GET'' (runPath owner repo runID) tok None
             (Some (decode_struct False runFields)) zero_WorkflowRun tr in
      case done of
        Inl err \<Rightarrow> (Inl err, c, tr1)
      | Inr run \<Rightarrow> (Inr run, c, tr1))"

definition GenerateJITConfigAPI ::
  "Net \<Rightarrow> int \<Rightarrow> string \<Rightarrow> string \<Rightarrow> string \<Rightarrow> int \<Rightarrow> string list \<Rightarrow> Client \<times> net_trace
     \<Rightarrow> (goerror + JITConfig) \<times> Client \<times> net_trace" where
  "GenerateJITConfigAPI N installationID owner repo runnerName runnerGroupID labels st =
     (if runnerGroupID \<le> 0 then (Inl (Errorf ''runner group id must be positive''), st)
      else if TrimSpace runnerName = [] then (Inl (Errorf ''runner name is required''), st)
      else if labels = [] then (Inl (Errorf ''at least one runner label is required''), st)
      else let (got, c, tr) = installationAccessToken N installationID st in
      case got of
        Inl err \<Rightarrow> (Inl err, c, tr)
      | Inr tok \<Rightarrow>
      let (done, tr1) = doJSON N c ''POST'' (jitPath owner repo)
             tok (Some (jitRequest runnerName runnerGroupID labels)) (Some (decode_struct False jitFields)) zero_jit tr in
      case done of
        Inl err \<Rightarrow> (Inl err, c, tr1)
      | Inr response \<Rightarrow>
          if jr_RunnerID response = 0 \<or> jr_EncodedJITConfig response = []
          then (Inl (Errorf ''GitHub returned an incomplete JIT runner configuration''), c, tr1)
          else (Inr \<lparr>jit_RunnerID = jr_RunnerID response, jit_EncodedConfig = jr_EncodedJITConfig response\<rparr>, c, tr1))"

definition DeleteRunnerAPI ::
  "Net \<Rightarrow> int \<Rightarrow> string \<Rightarrow> string \<Rightarrow> int \<Rightarrow> Client \<times> net_trace
     \<Rightarrow> goerror option \<times> Client \<times> net_trace" where
  "DeleteRunnerAPI N installationID owner repo runnerID st =
     (if runnerID \<le> 0 then (None, st)
      else let (got, c, tr) = installationAccessToken N installationID st in
      case got of
        Inl err \<Rightarrow> (Some err, c, tr)
      | Inr tok \<Rightarrow>
      let (done, tr1) = doJSON N c ''DELETE'' (runnerPath owner repo runnerID) tok None None () tr in
      (case done of Inl err \<Rightarrow> Some err | Inr _ \<Rightarrow> None, c, tr1))"

section \<open>Escaped paths\<close>

lemma notin_FormatInt: "list_all (\<lambda>d. digit d \<noteq> c) [0..<10] \<Longrightarrow> c \<noteq> CHR ''-'' \<Longrightarrow> c \<notin> set (FormatInt n)"
proof -
  assume "list_all (\<lambda>d. digit d \<noteq> c) [0..<10]" "c \<noteq> CHR ''-''"
  moreover from this have "c \<notin> set (nat_dec m)" for m using nat_dec_digits [of m] by (fastforce simp: list_all_iff)
  ultimately show ?thesis by (simp add: FormatInt_def)
qed

lemma slash_notin_FormatInt [simp]: "CHR ''/'' \<notin> set (FormatInt n)"
  by (rule notin_FormatInt) code_simp+

lemma Split_runPath:
  "Split (runPath owner repo runID) CHR ''/'' =
     [[], ''repos'', PathEscape owner, PathEscape repo, ''actions'', ''runs'', FormatInt runID]"
proof -
  have "runPath owner repo runID = [] @ CHR ''/'' # ''repos'' @ CHR ''/'' # PathEscape owner @ CHR ''/'' #
      PathEscape repo @ CHR ''/'' # ''actions'' @ CHR ''/'' # ''runs'' @ CHR ''/'' # FormatInt runID"
    by (simp add: runPath_def)
  then show ?thesis by (simp only: Split_append Split_none slash_notin_PathEscape slash_notin_FormatInt) (simp add: Split_none)
qed

section \<open>Requests\<close>

lemma doJSON_success:
  assumes "doJSON N c method path bearer body (Some dec) out tr = (Inr data, tr')" "data \<noteq> out"
  shows "\<exists>req resp. tr' = tr @ [NetRequest req (Inr resp)] \<and> ar_method req = method \<and>
     ar_url req = cl_baseURL c @ path \<and> ar_body req = map_option write_json body \<and> ar_apiVersion req = cl_apiVersion c \<and>
     (bearer \<noteq> [] \<longrightarrow> ar_authorization req = ''Bearer '' @ bearer) \<and>
     200 \<le> as_status resp \<and> as_status resp < 300 \<and> decodeInto dec out (as_text resp) = Some data"
  using assms by (auto simp: doJSON_def Let_def split: option.splits sum.splits if_splits)

lemma jwt_not_Nil: "jwt c now = Inr j \<Longrightarrow> j \<noteq> []"
  by (auto simp: jwt_def Let_def split: sum.splits)

definition cached_token :: "Client \<Rightarrow> int \<Rightarrow> time \<Rightarrow> string option" where
  "cached_token c k now =
     (case fmlookup (cl_tokens c) k of
        Some cached \<Rightarrow>
          if tok_Value cached \<noteq> [] \<and> time_After (tok_ExpiresAt cached) (time_Add now (5 * Minute))
          then Some (tok_Value cached) else None
      | None \<Rightarrow> None)"

lemma cached_tokenD:
  "cached_token c k now = Some tok \<Longrightarrow>
     tok \<noteq> [] \<and> (\<exists>cached. fmlookup (cl_tokens c) k = Some cached \<and> tok_Value cached = tok \<and>
       now + 5 * Minute < tok_ExpiresAt cached)"
  by (auto simp: cached_token_def time_After_def time_Add_def split: option.splits if_splits)

abbreviation tokenPath :: "int \<Rightarrow> string" where
  "tokenPath k \<equiv> ''/app/installations/'' @ FormatInt k @ ''/access_tokens''"

abbreviation tokenSet :: "token_response setter" where
  "tokenSet \<equiv> decode_struct False tokenFields"

lemma token_cases:
  assumes "installationAccessToken N k (c, tr) = (Inr tok, c', tr')"
  obtains (cached) "c' = c" "tr' = tr @ [NetClock (net_clock N tr)]"
      "cached_token c k (net_clock N tr) = Some tok"
  | (requested) j e where "cached_token c k (net_clock N tr) = None" "jwt c (net_clock N tr) = Inr j"
      "doJSON N c ''POST'' (tokenPath k) j (Some (JObj [])) (Some tokenSet) zero_token
         (tr @ [NetClock (net_clock N tr)]) = (Inr \<lparr>tr_Token = tok, tr_ExpiresAt = e\<rparr>, tr')"
      "tok \<noteq> []" "e \<noteq> 0" "c' = c\<lparr>cl_tokens := fmupd k \<lparr>tok_Value = tok, tok_ExpiresAt = e\<rparr> (cl_tokens c)\<rparr>"
proof -
  let ?now = "net_clock N tr" and ?tr1 = "tr @ [NetClock (net_clock N tr)]"
  have unf: "installationAccessToken N k (c, tr) =
     (if k \<le> 0 then (Inl (Errorf ''GitHub App installation id is required''), c, tr)
      else case cached_token c k ?now of
        Some tok \<Rightarrow> (Inr tok, c, ?tr1)
      | None \<Rightarrow>
      case jwt c ?now of
        Inl err \<Rightarrow> (Inl err, c, ?tr1)
      | Inr bearer \<Rightarrow>
      let (done, tr2) = doJSON N c ''POST'' (tokenPath k) bearer (Some (JObj [])) (Some tokenSet) zero_token ?tr1 in
      case done of
        Inl err \<Rightarrow> (Inl err, c, tr2)
      | Inr r \<Rightarrow>
          if tr_Token r = [] \<or> IsZero (tr_ExpiresAt r)
          then (Inl (Errorf ''GitHub returned an incomplete installation token''), c, tr2)
          else (Inr (tr_Token r), c\<lparr>cl_tokens := fmupd k \<lparr>tok_Value = tr_Token r, tok_ExpiresAt = tr_ExpiresAt r\<rparr>
                 (cl_tokens c)\<rparr>, tr2))"
    unfolding installationAccessToken_def cached_token_def Let_def prod.case by simp
  show thesis
  proof (cases "cached_token c k ?now")
    case (Some t)
    with assms unf show thesis by (intro cached) (auto split: if_splits)
  next
    case none: None
    with assms unf obtain j where j: "jwt c ?now = Inr j" by (auto split: if_splits sum.splits)
    obtain res tr2 where d: "doJSON N c ''POST'' (tokenPath k) j (Some (JObj [])) (Some tokenSet) zero_token ?tr1 = (res, tr2)"
      by fastforce
    with assms unf none j obtain r where r: "res = Inr r" by (auto split: if_splits sum.splits)
    with assms unf none j d have "tr_Token r = tok" "tr' = tr2" "tok \<noteq> []" "tr_ExpiresAt r \<noteq> 0"
      "c' = c\<lparr>cl_tokens := fmupd k \<lparr>tok_Value = tok, tok_ExpiresAt = tr_ExpiresAt r\<rparr> (cl_tokens c)\<rparr>"
      by (auto simp: IsZero_def Let_def split: if_splits)
    with none j d r show thesis by (intro requested [of j "tr_ExpiresAt r"]) auto
  qed
qed

text \<open>C33: an installation token that the client hands out is never empty. Either it was in the cache for this
  installation, good for more than five minutes from now, and no request is made; or exactly one request is made,
  a POST to the installation's token address, authorised with the app's own JWT and answered with success, and the
  new token is put in the cache under this installation, the tokens of all other installations staying as they
  were.\<close>

theorem token_cached_or_requested:
  assumes "installationAccessToken N k (c, tr) = (Inr tok, c', tr')"
  shows "0 < k \<and> tok \<noteq> [] \<and>
    (c' = c \<and> tr' = tr @ [NetClock (net_clock N tr)] \<and>
       (\<exists>t. fmlookup (cl_tokens c) k = Some t \<and> tok_Value t = tok \<and>
            net_clock N tr + 5 * Minute < tok_ExpiresAt t) \<or>
     (\<exists>req resp j expires. tr' = tr @ [NetClock (net_clock N tr), NetRequest req (Inr resp)] \<and>
        ar_method req = ''POST'' \<and>
        ar_url req = cl_baseURL c @ ''/app/installations/'' @ FormatInt k @ ''/access_tokens'' \<and>
        jwt c (net_clock N tr) = Inr j \<and> ar_authorization req = ''Bearer '' @ j \<and>
        200 \<le> as_status resp \<and> as_status resp < 300 \<and>
        decodeInto (decode_struct False tokenFields) zero_token (as_text resp) = Some \<lparr>tr_Token = tok, tr_ExpiresAt = expires\<rparr> \<and>
        c' = c\<lparr>cl_tokens := fmupd k \<lparr>tok_Value = tok, tok_ExpiresAt = expires\<rparr> (cl_tokens c)\<rparr>))"
proof -
  have k: "0 < k" using assms by (auto simp: installationAccessToken_def split: if_splits)
  from assms show ?thesis
  proof (cases rule: token_cases)
    case cached
    with k show ?thesis by (auto dest!: cached_tokenD)
  next
    case (requested j e)
    then have "\<lparr>tr_Token = tok, tr_ExpiresAt = e\<rparr> \<noteq> zero_token" by (simp add: zero_token_def)
    from doJSON_success [OF requested(3) this] jwt_not_Nil [OF requested(2)] k requested(2,4,6) show ?thesis
      by auto
  qed
qed

text \<open>A GitHub that answers token and JIT requests, and an app whose signature is the digest.\<close>

definition sample_token_reply :: json where
  "sample_token_reply = JObj [(''token'', JStr ''ghs''), (''expires_at'', JStr ''2030-01-01T00:00:00Z''), (''permissions'', JObj [])]"

definition sample_jit_reply :: json where
  "sample_jit_reply = JObj [(''runner'', JObj [(''id'', JNum ''77''), (''name'', JStr ''r-1'')]), (''encoded_jit_config'', JStr ''enc'')]"

definition sample_net :: Net where
  "sample_net = \<lparr>net_do = (\<lambda>tr req.
       Inr \<lparr>as_status = 201,
            as_text = write_json (if ar_body req = Some (write_json (JObj [])) then sample_token_reply else sample_jit_reply)\<rparr>),
     net_clock = (\<lambda>tr. 1000000000000), net_jsonErr = (\<lambda>tr. Errorf ''unexpected EOF'')\<rparr>"

definition sample_client :: Client where
  "sample_client = \<lparr>cl_issuer = ''42'', cl_sign = (\<lambda>d. Inr ''sig''), cl_baseURL = ''https://api.github.com'',
     cl_apiVersion = defaultAPIVersion, cl_tokens = fmempty\<rparr>"

lemma sample_jwt: "\<exists>j. jwt sample_client now = Inr j"
  by (simp add: jwt_def sample_client_def Let_def)

lemma sample_requests:
  "NewRequest_error (cl_baseURL sample_client @ ''/app/installations/'' @ FormatInt 5 @ ''/access_tokens'') = None"
  "NewRequest_error (cl_baseURL sample_client @ jitPath ''acme'' ''app'') = None"
  by code_simp+

lemma sample_replies:
  "decodeInto tokenSet zero_token (write_json sample_token_reply) = Some \<lparr>tr_Token = ''ghs'', tr_ExpiresAt = 64029052800 * Second\<rparr>"
  "decodeInto (decode_struct False jitFields) zero_jit (write_json sample_jit_reply) =
     Some \<lparr>jr_RunnerID = 77, jr_EncodedJITConfig = ''enc''\<rparr>"
  "write_json (jitRequest ''r-1'' 1 [''linux'']) \<noteq> write_json (JObj [])"
  by code_simp+

lemma sample_token: "\<exists>c' tr'. installationAccessToken sample_net 5 (sample_client, []) = (Inr ''ghs'', c', tr') \<and>
    cl_baseURL c' = cl_baseURL sample_client"
proof -
  obtain j where "jwt sample_client 1000000000000 = Inr j" using sample_jwt by blast
  moreover have "fmlookup (cl_tokens sample_client) 5 = None" by (simp add: sample_client_def)
  ultimately show ?thesis
    using sample_requests(1) by (simp add: installationAccessToken_def doJSON_def sample_net_def sample_replies IsZero_def Second_def Let_def del: write_json.simps)
qed

theorem token_cached_or_requested_witness:
  "\<exists>c' tr' req resp. installationAccessToken sample_net 5 (sample_client, []) = (Inr ''ghs'', c', tr') \<and>
     NetRequest req (Inr resp) \<in> set tr' \<and>
     ar_url req = ''https://api.github.com/app/installations/5/access_tokens''"
proof -
  obtain c' tr' where run: "installationAccessToken sample_net 5 (sample_client, []) = (Inr ''ghs'', c', tr')"
    using sample_token by blast
  have "fmlookup (cl_tokens sample_client) 5 = None" by (simp add: sample_client_def)
  with token_cached_or_requested [OF run] obtain req resp where
    "tr' = [NetClock (net_clock sample_net []), NetRequest req (Inr resp)]"
    "ar_url req = cl_baseURL sample_client @ ''/app/installations/'' @ FormatInt 5 @ ''/access_tokens''" by auto
  moreover have "FormatInt 5 = ''5''" by code_simp
  ultimately show ?thesis using run by (auto simp: sample_client_def)
qed

lemma token_keeps:
  assumes "installationAccessToken N k (c, tr) = (res, c', tr')"
  shows "cl_baseURL c' = cl_baseURL c \<and> cl_apiVersion c' = cl_apiVersion c"
proof (cases res)
  case (Inr tok)
  with assms show ?thesis by (auto elim: token_cases)
next
  case (Inl err)
  with assms show ?thesis
    by (auto simp: installationAccessToken_def Let_def split_beta
        split: if_splits option.splits sum.splits)
qed

text \<open>C34: a runner configuration that the client returns is complete, and it is GitHub's answer to the last request
  made: a POST to the JIT address of exactly this repository, authorised with the installation's token, with the
  runner's name, group and labels and the work folder. The calls with no name, no label or no group make no
  request at all.\<close>

theorem jit_config_of_request:
  "(runnerGroupID \<le> 0 \<or> TrimSpace name = [] \<or> labels = [] \<longrightarrow>
      (\<exists>err. GenerateJITConfigAPI N k owner repo name runnerGroupID labels (c, tr) = (Inl err, c, tr))) \<and>
   (GenerateJITConfigAPI N k owner repo name runnerGroupID labels (c, tr) = (Inr jit, c', tr') \<longrightarrow>
      (\<exists>tok tr1 req resp. installationAccessToken N k (c, tr) = (Inr tok, c', tr1) \<and>
         tr' = tr1 @ [NetRequest req (Inr resp)] \<and> ar_method req = ''POST'' \<and>
         ar_url req = cl_baseURL c @ jitPath owner repo \<and> ar_authorization req = ''Bearer '' @ tok \<and>
         ar_body req = Some (write_json (jitRequest name runnerGroupID labels)) \<and>
         200 \<le> as_status resp \<and> as_status resp < 300 \<and>
         decodeInto (decode_struct False jitFields) zero_jit (as_text resp) =
           Some \<lparr>jr_RunnerID = jit_RunnerID jit, jr_EncodedJITConfig = jit_EncodedConfig jit\<rparr> \<and>
         jit_RunnerID jit \<noteq> 0 \<and> jit_EncodedConfig jit \<noteq> []))"
proof (intro conjI impI)
  show "runnerGroupID \<le> 0 \<or> TrimSpace name = [] \<or> labels = [] \<Longrightarrow>
      \<exists>err. GenerateJITConfigAPI N k owner repo name runnerGroupID labels (c, tr) = (Inl err, c, tr)"
    by (auto simp: GenerateJITConfigAPI_def)
next
  assume run: "GenerateJITConfigAPI N k owner repo name runnerGroupID labels (c, tr) = (Inr jit, c', tr')"
  obtain got c1 tr1 where t: "installationAccessToken N k (c, tr) = (got, c1, tr1)" by (metis prod_cases3)
  with run obtain tok where tok: "got = Inr tok"
    by (auto simp: GenerateJITConfigAPI_def split: if_splits sum.splits)
  obtain res tr2 where d: "doJSON N c1 ''POST'' (jitPath owner repo) tok
      (Some (jitRequest name runnerGroupID labels)) (Some (decode_struct False jitFields)) zero_jit tr1 = (res, tr2)"
    by fastforce
  with run t tok obtain r where r: "res = Inr r" "jr_RunnerID r \<noteq> 0" "jr_EncodedJITConfig r \<noteq> []"
      "jit = \<lparr>jit_RunnerID = jr_RunnerID r, jit_EncodedConfig = jr_EncodedJITConfig r\<rparr>" "c1 = c'" "tr2 = tr'"
    by (auto simp: GenerateJITConfigAPI_def Let_def split: if_splits sum.splits)
  then have "r \<noteq> zero_jit" by (auto simp: zero_jit_def)
  note s = doJSON_success [OF d [unfolded r(1)] this]
  moreover note r
  moreover from t tok have "tok \<noteq> []" by (auto elim: token_cases dest: cached_tokenD)
  ultimately show "\<exists>tok tr1 req resp. installationAccessToken N k (c, tr) = (Inr tok, c', tr1) \<and>
         tr' = tr1 @ [NetRequest req (Inr resp)] \<and> ar_method req = ''POST'' \<and>
         ar_url req = cl_baseURL c @ jitPath owner repo \<and> ar_authorization req = ''Bearer '' @ tok \<and>
         ar_body req = Some (write_json (jitRequest name runnerGroupID labels)) \<and>
         200 \<le> as_status resp \<and> as_status resp < 300 \<and>
         decodeInto (decode_struct False jitFields) zero_jit (as_text resp) =
           Some \<lparr>jr_RunnerID = jit_RunnerID jit, jr_EncodedJITConfig = jit_EncodedConfig jit\<rparr> \<and>
         jit_RunnerID jit \<noteq> 0 \<and> jit_EncodedConfig jit \<noteq> []"
    using t tok token_keeps [OF t] by fastforce
qed

theorem jit_config_of_request_witness:
  "\<exists>jit c' tr' tr1 req resp. GenerateJITConfigAPI sample_net 5 ''acme'' ''app'' ''r-1'' 1 [''linux''] (sample_client, []) =
       (Inr jit, c', tr') \<and> tr' = tr1 @ [NetRequest req (Inr resp)] \<and>
     ar_url req = ''https://api.github.com/repos/acme/app/actions/runners/generate-jitconfig''"
proof -
  obtain c1 tr1 where t: "installationAccessToken sample_net 5 (sample_client, []) = (Inr ''ghs'', c1, tr1)"
    using sample_token by blast
  from token_keeps [OF t] sample_requests(2)
  have "NewRequest_error (cl_baseURL c1 @ jitPath ''acme'' ''app'') = None" by simp
  moreover have "TrimSpace ''r-1'' \<noteq> []" by code_simp
  ultimately obtain tr' where run: "GenerateJITConfigAPI sample_net 5 ''acme'' ''app'' ''r-1'' 1 [''linux''] (sample_client, []) =
     (Inr \<lparr>jit_RunnerID = 77, jit_EncodedConfig = ''enc''\<rparr>, c1, tr')"
    using t sample_replies(2,3) by (simp add: GenerateJITConfigAPI_def doJSON_def sample_net_def Let_def del: write_json.simps)
  moreover have "jitPath ''acme'' ''app'' = ''/repos/acme/app/actions/runners/generate-jitconfig''" by code_simp
  moreover have "cl_baseURL sample_client = ''https://api.github.com''" by (simp add: sample_client_def)
  ultimately show ?thesis using jit_config_of_request [THEN conjunct2, rule_format, OF run] by fastforce
qed

lemma Split_repoPath:
  "CHR ''/'' \<notin> set a \<Longrightarrow> CHR ''/'' \<notin> set b \<Longrightarrow>
   Split (''/repos/'' @ a @ ''/'' @ b @ ''/actions/runners/'' @ rest) CHR ''/'' =
     [[], ''repos'', a, b, ''actions'', ''runners''] @ Split rest CHR ''/''"
proof -
  assume ab: "CHR ''/'' \<notin> set a" "CHR ''/'' \<notin> set b"
  have "''/repos/'' @ a @ ''/'' @ b @ ''/actions/runners/'' @ rest = [] @ CHR ''/'' # ''repos'' @ CHR ''/'' # a @ CHR ''/'' #
      b @ CHR ''/'' # ''actions'' @ CHR ''/'' # ''runners'' @ CHR ''/'' # rest"
    by simp
  with ab show ?thesis by (simp only: Split_append) (simp add: Split_append Split_none)
qed

lemma Split_eqD: "Split p c = xs \<Longrightarrow> Split q c = ys \<Longrightarrow> p = q \<Longrightarrow> xs = ys"
  by simp

text \<open>C40: the path of a request determines what it is about. Whatever characters owner and repository have,
  slashes and dots included, two calls that ask for the same path ask for the same owner, repository and run, and
  the same for runners; and no path for a runner is a path for a JIT configuration.\<close>

theorem paths_determine_target:
  "(runPath owner repo n = runPath owner' repo' n' \<longleftrightarrow> owner = owner' \<and> repo = repo' \<and> n = n') \<and>
   (runnerPath owner repo n = runnerPath owner' repo' n' \<longleftrightarrow> owner = owner' \<and> repo = repo' \<and> n = n') \<and>
   (jitPath owner repo = jitPath owner' repo' \<longleftrightarrow> owner = owner' \<and> repo = repo') \<and>
   jitPath owner repo \<noteq> runnerPath owner' repo' n"
proof -
  have runner: "Split (runnerPath owner repo n) CHR ''/'' =
      [[], ''repos'', PathEscape owner, PathEscape repo, ''actions'', ''runners'', FormatInt n]" for owner repo n
    using Split_repoPath [of "PathEscape owner" "PathEscape repo" "FormatInt n"]
    by (simp add: runnerPath_def Split_none)
  have jit: "Split (jitPath owner repo) CHR ''/'' =
      [[], ''repos'', PathEscape owner, PathEscape repo, ''actions'', ''runners'', ''generate-jitconfig'']" for owner repo
    using Split_repoPath [of "PathEscape owner" "PathEscape repo" "''generate-jitconfig''"]
    by (simp add: jitPath_def Split_none)
  have "CHR ''g'' \<notin> set (FormatInt n)" by (rule notin_FormatInt) code_simp+
  then have "FormatInt n \<noteq> ''generate-jitconfig''" by auto
  then have "jitPath owner repo \<noteq> runnerPath owner' repo' n"
    by (auto dest: Split_eqD [OF jit runner])
  moreover have "runPath owner repo n = runPath owner' repo' n' \<longleftrightarrow> owner = owner' \<and> repo = repo' \<and> n = n'"
    by (auto dest: Split_eqD [OF Split_runPath Split_runPath])
  moreover have "runnerPath owner repo n = runnerPath owner' repo' n' \<longleftrightarrow> owner = owner' \<and> repo = repo' \<and> n = n'"
    by (auto dest: Split_eqD [OF runner runner])
  moreover have "jitPath owner repo = jitPath owner' repo' \<longleftrightarrow> owner = owner' \<and> repo = repo'"
    by (auto dest: Split_eqD [OF jit jit])
  ultimately show ?thesis by blast
qed

end
