(* ===== verification/Go_Duration.thy ===== *)
theory Go_Duration
  imports Go_Time
begin

text \<open>
  \<open>time.ParseDuration\<close>, which the flags and the environment of the two programs are read with. The one step in floating
  point, the fraction \<open>f\<close> of \<open>k\<close> digits of a unit, is the argument \<open>scaled\<close>. Every number is checked against the bound
  \<open>2 ^ 63\<close>, so that only the sum of two numbers can wrap, and it does as in the library.
\<close>

section \<open>Definitions\<close>

definition leadingInt :: "string \<Rightarrow> (int \<times> string) option" where
  "leadingInt s =
     (case dec_value 0 (takeWhile is_digit s) of
        Some x \<Rightarrow> if x \<le> 2 ^ 63 then Some (x, dropWhile is_digit s) else None
      | None \<Rightarrow> None)"

text \<open>The digits of a fraction, until they no longer fit; their number gives the scale.\<close>

fun fractionDigits :: "int \<Rightarrow> nat \<Rightarrow> string \<Rightarrow> int \<times> nat" where
  "fractionDigits x k [] = (x, k)"
| "fractionDigits x k (c # s) =
     (case digit_value c of
        None \<Rightarrow> (x, k)
      | Some d \<Rightarrow>
          if x > (2 ^ 63 - 1) div 10 \<or> 10 * x + int d > 2 ^ 63 then (x, k)
          else fractionDigits (10 * x + int d) (Suc k) s)"

definition microSigns :: "string list" where
  "microSigns = [''us'', [CHR 0xC2, CHR 0xB5, CHR ''s''], [CHR 0xCE, CHR 0xBC, CHR ''s'']]"

definition unitOf :: "string \<Rightarrow> int option" where
  "unitOf u =
     (if u = ''ns'' then Some 1
      else if u \<in> set microSigns then Some 1000
      else if u = ''ms'' then Some 1000000
      else if u = ''s'' then Some Second
      else if u = ''m'' then Some Minute
      else if u = ''h'' then Some Hour
      else None)"

definition unitChar :: "char \<Rightarrow> bool" where
  "unitChar c \<longleftrightarrow> c \<noteq> CHR ''.'' \<and> \<not> is_digit c"

text \<open>One number with its unit.\<close>

definition durationItem :: "(int \<Rightarrow> int \<Rightarrow> nat \<Rightarrow> int) \<Rightarrow> string \<Rightarrow> (int \<times> string) option" where
  "durationItem scaled s =
     (case leadingInt s of
        None \<Rightarrow> None
      | Some (v, s1) \<Rightarrow>
      let pre = s1 \<noteq> s; point = HasPrefix s1 ''.'';
          digits = takeWhile is_digit (tl s1);
          (f, k) = (if point then fractionDigits 0 0 digits else (0, 0));
          s2 = (if point then dropWhile is_digit (tl s1) else s1);
          u = takeWhile unitChar s2 in
      if \<not> pre \<and> \<not> (point \<and> digits \<noteq> []) then None
      else if u = [] then None
      else case unitOf u of
        None \<Rightarrow> None
      | Some unit \<Rightarrow>
          if v > 2 ^ 63 div unit then None
          else let v1 = v * unit + (if f > 0 then scaled f unit k else 0) in
          if v1 > 2 ^ 63 then None else Some (v1, dropWhile unitChar s2))"

lemma dropWhile_length: "length (dropWhile P s) \<le> length s"
  by (simp add: length_dropWhile_le)

lemma durationItem_shorter: "durationItem scaled s = Some (v, r) \<Longrightarrow> length r < length s"
proof -
  assume item: "durationItem scaled s = Some (v, r)"
  then obtain n s1 where s1: "leadingInt s = Some (n, s1)" by (auto simp: durationItem_def split: option.splits)
  then have "length s1 \<le> length s" by (auto simp: leadingInt_def dropWhile_length split: option.splits if_splits)
  define s2 where "s2 = (if HasPrefix s1 ''.'' then dropWhile is_digit (tl s1) else s1)"
  have "length s2 \<le> length s1"
  proof -
    have "length (dropWhile is_digit (tl s1)) \<le> length s1"
      using dropWhile_length [of is_digit "tl s1"] by (rule le_trans) simp
    then show ?thesis by (simp add: s2_def)
  qed
  moreover have "takeWhile unitChar s2 \<noteq> []" "r = dropWhile unitChar s2"
    using item s1 by (auto simp: durationItem_def Let_def s2_def split: option.splits if_splits prod.splits)
  ultimately show ?thesis using dropWhile_shorter [of unitChar s2] \<open>length s1 \<le> length s\<close> by simp
qed

function durationSum :: "(int \<Rightarrow> int \<Rightarrow> nat \<Rightarrow> int) \<Rightarrow> int \<Rightarrow> string \<Rightarrow> int option" where
  "durationSum scaled d s =
     (if s = [] then Some d
      else case durationItem scaled s of
        None \<Rightarrow> None
      | Some (v, r) \<Rightarrow> let d1 = (d + v) mod 2 ^ 64 in if d1 > 2 ^ 63 then None else durationSum scaled d1 r)"
  by pat_completeness auto
termination
  by (relation "measure (\<lambda>(_, _, s). length s)") (auto dest: durationItem_shorter)

declare durationSum.simps [simp del]

definition ParseDuration :: "(int \<Rightarrow> int \<Rightarrow> nat \<Rightarrow> int) \<Rightarrow> string \<Rightarrow> duration option" where
  "ParseDuration scaled orig =
     (let neg = HasPrefix orig ''-''; s = (if neg \<or> HasPrefix orig ''+'' then tl orig else orig) in
      if s = ''0'' then Some 0
      else if s = [] then None
      else case durationSum scaled 0 s of
        None \<Rightarrow> None
      | Some d \<Rightarrow> if neg then Some (- d) else if d > 2 ^ 63 - 1 then None else Some d)"

section \<open>Results are durations\<close>

text \<open>The samples of the documentation, and the defaults of the programs.\<close>

lemma ParseDuration_samples:
  "ParseDuration scaled ''45s'' = Some (45 * Second)"
  "ParseDuration scaled ''1h15m30s'' = Some (Hour + 15 * Minute + 30 * Second)"
  "ParseDuration scaled ''-2h'' = Some (- (2 * Hour))"
  "ParseDuration scaled ''0'' = Some 0" "ParseDuration scaled [] = None" "ParseDuration scaled ''15'' = None"
  "ParseDuration scaled ''3000000h'' = None"
  by code_simp+

lemma durationSum_bound: "durationSum scaled d s = Some n \<Longrightarrow> d \<le> 2 ^ 63 \<Longrightarrow> n \<le> 2 ^ 63"
proof (induction scaled d s rule: durationSum.induct)
  case (1 scaled d s)
  show ?case
  proof (cases "s = []")
    case True
    with "1.prems" show ?thesis by (simp add: durationSum.simps [of scaled d "[]"])
  next
    case False
    with "1.prems"(1) obtain v r where item: "durationItem scaled s = Some (v, r)" 
        "\<not> (d + v) mod 2 ^ 64 > 2 ^ 63" "durationSum scaled ((d + v) mod 2 ^ 64) r = Some n"
      by (auto simp: durationSum.simps [of scaled d s] Let_def split: option.splits if_splits)
    with 1(1) [OF False item(1) refl refl] show ?thesis by simp
  qed
qed

text \<open>The part of a unit that a fraction stands for is not negative.\<close>

definition scale_ok :: "(int \<Rightarrow> int \<Rightarrow> nat \<Rightarrow> int) \<Rightarrow> bool" where
  "scale_ok scaled \<longleftrightarrow> (\<forall>f u k. 0 < f \<longrightarrow> 0 < u \<longrightarrow> 0 \<le> scaled f u k)"

lemma durationItem_nonneg:
  assumes "durationItem scaled s = Some (v, r)" "scale_ok scaled"
  shows "0 \<le> v"
proof -
  have "0 \<le> n" if "dec_value m t = Some n" "0 \<le> m" for n m t
    using that by (induction m t rule: dec_value.induct) (auto split: option.splits)
  moreover have "0 < unit" if "unitOf u = Some unit" for u unit
    using that by (auto simp: unitOf_def duration_defs split: if_splits)
  ultimately show ?thesis using assms
    by (force simp: durationItem_def leadingInt_def Let_def scale_ok_def split: option.splits if_splits prod.splits)
qed

lemma durationSum_nonneg:
  "durationSum scaled d s = Some n \<Longrightarrow> 0 \<le> d \<Longrightarrow> scale_ok scaled \<Longrightarrow> 0 \<le> n"
proof (induction scaled d s rule: durationSum.induct)
  case (1 scaled d s)
  show ?case
  proof (cases "s = []")
    case True
    with "1.prems" show ?thesis by (simp add: durationSum.simps [of scaled d "[]"])
  next
    case False
    with "1.prems"(1) obtain v r where item: "durationItem scaled s = Some (v, r)" 
        "\<not> (d + v) mod 2 ^ 64 > 2 ^ 63" "durationSum scaled ((d + v) mod 2 ^ 64) r = Some n"
      by (auto simp: durationSum.simps [of scaled d s] Let_def split: option.splits if_splits)
    with 1(1) [OF False item(1) refl refl] durationItem_nonneg [OF item(1)] "1.prems"(2,3) show ?thesis by simp
  qed
qed

text \<open>A parsed duration fits its 64 bits.\<close>

lemma ParseDuration_int64:
  assumes "ParseDuration scaled s = Some d" "scale_ok scaled"
  shows "in_int64 d"
proof -
  have "in_int64 (- n)" "n \<le> 2 ^ 63 - 1 \<Longrightarrow> in_int64 n" if "durationSum scaled 0 t = Some n" for t n
    using durationSum_bound [OF that] durationSum_nonneg [OF that _ assms(2)] by (simp_all add: in_int64_def)
  with assms(1) show ?thesis
    by (auto simp: ParseDuration_def Let_def in_int64_def split: option.splits if_splits)
qed

end
