(* ===== verification/Commands.thy ===== *)
theory Commands
  imports Agent_Client Webhook Github_App Sample_Run Go_Duration
begin

text \<open>
  The two programs, \<open>src/cmd/controller/main.go\<close> and \<open>src/cmd/agent/main.go\<close>, and the TLS configurations they
  load, \<open>src/internal/tlsutil/tls.go\<close>: how flags and environment become the configurations of the components,
  in which order the parts are built, and which failure ends the start. The operating system and the
  certificate parsers are a \<open>Platform\<close>; so is the product of a duration's fraction and its unit, which the library
  computes in floating point. The life of the started processes is in \<open>Processes\<close>.
\<close>

section \<open>TLS configurations\<close>

record ('pool, 'cert, 'key) Platform =
  pf_Getenv :: "string \<Rightarrow> string"
  pf_ReadFile :: "string \<Rightarrow> goerror + string"
  pf_Scaled :: "int \<Rightarrow> int \<Rightarrow> nat \<Rightarrow> int"
  pf_CertPool :: "string \<Rightarrow> 'pool option"
  pf_KeyPair :: "string \<Rightarrow> string \<Rightarrow> goerror + 'cert"
  pf_PEM :: "string \<Rightarrow> string option"
  pf_PKCS1 :: "string \<Rightarrow> goerror + 'key"
  pf_PKCS8 :: "string \<Rightarrow> goerror + 'key pkcs8_key"
  pf_Sign :: "'key \<Rightarrow> string \<Rightarrow> goerror + string"

datatype client_auth = NoClientCert | RequireAndVerifyClientCert

definition VersionTLS13 :: int where
  "VersionTLS13 = 772"

record ('pool, 'cert) TLSConfig =
  tls_MinVersion :: int
  tls_Certificates :: "'cert list"
  tls_ClientCAs :: "'pool option"
  tls_RootCAs :: "'pool option"
  tls_ClientAuth :: client_auth
  tls_ServerName :: string

definition loadCAPool :: "('pool, 'cert, 'key) Platform \<Rightarrow> string \<Rightarrow> goerror + 'pool" where
  "loadCAPool P path =
     (case pf_ReadFile P path of
        Inl err \<Rightarrow> Inl (Wrapf ''read CA certificate: '' err [])
      | Inr pem \<Rightarrow>
      case pf_CertPool P pem of
        None \<Rightarrow> Inl (Errorf (''parse CA certificate '' @ Quote path))
      | Some pool \<Rightarrow> Inr pool)"

definition LoadServerConfig ::
  "('pool, 'cert, 'key) Platform \<Rightarrow> string \<Rightarrow> string \<Rightarrow> string \<Rightarrow> goerror + ('pool, 'cert) TLSConfig" where
  "LoadServerConfig P caFile certFile keyFile =
     bindr (loadCAPool P caFile) (\<lambda>pool.
     case pf_KeyPair P certFile keyFile of
       Inl err \<Rightarrow> Inl (Wrapf ''load server certificate: '' err [])
     | Inr cert \<Rightarrow>
         Inr \<lparr>tls_MinVersion = VersionTLS13, tls_Certificates = [cert], tls_ClientCAs = Some pool, tls_RootCAs = None,
              tls_ClientAuth = RequireAndVerifyClientCert, tls_ServerName = []\<rparr>)"

definition LoadClientConfig ::
  "('pool, 'cert, 'key) Platform \<Rightarrow> string \<Rightarrow> string \<Rightarrow> string \<Rightarrow> string \<Rightarrow> goerror + ('pool, 'cert) TLSConfig" where
  "LoadClientConfig P caFile certFile keyFile serverName =
     bindr (loadCAPool P caFile) (\<lambda>pool.
     case pf_KeyPair P certFile keyFile of
       Inl err \<Rightarrow> Inl (Wrapf ''load client certificate: '' err [])
     | Inr cert \<Rightarrow>
         Inr \<lparr>tls_MinVersion = VersionTLS13, tls_Certificates = [cert], tls_ClientCAs = None, tls_RootCAs = Some pool,
              tls_ClientAuth = NoClientCert, tls_ServerName = serverName\<rparr>)"

section \<open>Environment and files\<close>

definition env :: "('pool, 'cert, 'key) Platform \<Rightarrow> string \<Rightarrow> string \<Rightarrow> string" where
  "env P key fallback = (if pf_Getenv P key \<noteq> [] then pf_Getenv P key else fallback)"

definition envParsed :: "(string \<Rightarrow> 'a option) \<Rightarrow> string \<Rightarrow> 'a \<Rightarrow> 'a" where
  "envParsed parse val fallback = (if val \<noteq> [] then (case parse val of Some x \<Rightarrow> x | None \<Rightarrow> fallback) else fallback)"

definition envDuration :: "('pool, 'cert, 'key) Platform \<Rightarrow> string \<Rightarrow> duration \<Rightarrow> duration" where
  "envDuration P key fallback = envParsed (ParseDuration (pf_Scaled P)) (pf_Getenv P key) fallback"

definition envInt :: "('pool, 'cert, 'key) Platform \<Rightarrow> string \<Rightarrow> int \<Rightarrow> int" where
  "envInt P key fallback = envParsed ParseInt (pf_Getenv P key) fallback"

definition envInt64 :: "('pool, 'cert, 'key) Platform \<Rightarrow> string \<Rightarrow> int \<Rightarrow> int" where
  "envInt64 P key fallback = envParsed ParseInt (pf_Getenv P key) fallback"

definition readSecret :: "('pool, 'cert, 'key) Platform \<Rightarrow> string \<Rightarrow> goerror + string" where
  "readSecret P path =
     (case pf_ReadFile P path of
        Inl err \<Rightarrow> Inl err
      | Inr data \<Rightarrow>
      let secret = TrimSpace data in
      if secret = [] then Inl (Errorf (''secret file '' @ path @ '' is empty'')) else Inr secret)"

definition splitCSV :: "string \<Rightarrow> string list" where
  "splitCSV val =
     (if TrimSpace val = [] then [] else filter (\<lambda>part. part \<noteq> []) (map TrimSpace (Split val CHR '','')))"

section \<open>The controller\<close>

text \<open>The flags; their defaults come from the environment, the command line may set any of them.\<close>

record ControllerFlags =
  cf_listen :: string
  cf_caFile :: string
  cf_certFile :: string
  cf_keyFile :: string
  cf_nodeTTL :: duration
  cf_insecureHTTP :: bool
  cf_webhookListen :: string
  cf_githubIssuer :: string
  cf_githubPrivateKey :: string
  cf_githubWebhookSecret :: string
  cf_githubAPIURL :: string
  cf_githubAPIVersion :: string
  cf_markerLabel :: string
  cf_runnerGroupID :: int
  cf_runnerImage :: string
  cf_runnerCPU :: int
  cf_runnerMemory :: int
  cf_runnerTimeout :: duration
  cf_stateFile :: string

definition controllerDefaults :: "('pool, 'cert, 'key) Platform \<Rightarrow> ControllerFlags" where
  "controllerDefaults P =
     \<lparr>cf_listen = env P ''CIFLEET_LISTEN'' '':8080'',
      cf_caFile = env P ''CIFLEET_CA_FILE'' ''/etc/cifleet/pki/ca.crt'',
      cf_certFile = env P ''CIFLEET_CERT_FILE'' ''/etc/cifleet/pki/controller.crt'',
      cf_keyFile = env P ''CIFLEET_KEY_FILE'' ''/etc/cifleet/pki/controller.key'',
      cf_nodeTTL = envDuration P ''CIFLEET_NODE_TTL'' (45 * Second),
      cf_insecureHTTP = False,
      cf_webhookListen = env P ''CIFLEET_WEBHOOK_LISTEN'' ''127.0.0.1:8081'',
      cf_githubIssuer = env P ''CIFLEET_GITHUB_APP_ISSUER'' [],
      cf_githubPrivateKey = env P ''CIFLEET_GITHUB_APP_PRIVATE_KEY_FILE'' ''/etc/cifleet/github/app.pem'',
      cf_githubWebhookSecret = env P ''CIFLEET_GITHUB_WEBHOOK_SECRET_FILE'' ''/etc/cifleet/github/webhook-secret'',
      cf_githubAPIURL = env P ''CIFLEET_GITHUB_API_URL'' ''https://api.github.com'',
      cf_githubAPIVersion = env P ''CIFLEET_GITHUB_API_VERSION'' ''2026-03-10'',
      cf_markerLabel = env P ''CIFLEET_GITHUB_MARKER_LABEL'' ''cifleet'',
      cf_runnerGroupID = envInt64 P ''CIFLEET_RUNNER_GROUP_ID'' 1,
      cf_runnerImage = env P ''CIFLEET_RUNNER_IMAGE'' ''ghcr.io/actions/actions-runner:latest'',
      cf_runnerCPU = envInt P ''CIFLEET_RUNNER_CPU'' 2,
      cf_runnerMemory = envInt P ''CIFLEET_RUNNER_MEMORY_MB'' 4096,
      cf_runnerTimeout = envDuration P ''CIFLEET_RUNNER_TIMEOUT'' (2 * Hour),
      cf_stateFile = env P ''CIFLEET_STATE_FILE'' ''/var/lib/cifleet/controller-state.json''\<rparr>"

text \<open>What \<open>main\<close> has built when it starts to listen.\<close>

record ('pool, 'cert) ControllerParts =
  cp_control :: Server
  cp_listen :: string
  cp_serverTLS :: "('pool, 'cert) TLSConfig option"
  cp_agentTLS :: "('pool, 'cert) TLSConfig option"
  cp_allowHTTP :: bool
  cp_github :: "(Client \<times> Manager \<times> WebhookServer \<times> string) option"

definition managerConfig :: "ControllerFlags \<Rightarrow> RunnerManagerConfig" where
  "managerConfig f =
     \<lparr>cfg_MarkerLabel = cf_markerLabel f, cfg_RunnerGroupID = cf_runnerGroupID f, cfg_RunnerImage = cf_runnerImage f,
      cfg_RunnerCPU = cf_runnerCPU f, cfg_RunnerMemoryM = cf_runnerMemory f, cfg_RunnerTimeout = cf_runnerTimeout f,
      cfg_StateFile = cf_stateFile f, cfg_RetryInterval = 0, cfg_TombstoneTTL = 0, cfg_QueueSize = 0\<rparr>"

text \<open>\<open>fatal\<close> ends the program with a message and the error.\<close>

definition fatalOn :: "string \<Rightarrow> goerror + 'a \<Rightarrow> ('a \<Rightarrow> (string \<times> goerror) + 'b) \<Rightarrow> (string \<times> goerror) + 'b" where
  "fatalOn message r continue = (case r of Inl err \<Rightarrow> Inl (message, err) | Inr x \<Rightarrow> continue x)"

definition startGithub ::
  "('pool, 'cert, 'key) Platform \<Rightarrow> Env \<Rightarrow> Disk \<Rightarrow> effect list \<Rightarrow> ControllerFlags \<Rightarrow> Server
     \<Rightarrow> (string \<times> goerror) + (Client \<times> Manager \<times> WebhookServer \<times> string) option" where
  "startGithub P E disk before f control =
     (if TrimSpace (cf_githubIssuer f) \<noteq> [] then
        fatalOn ''load GitHub App private key''
          (LoadPrivateKey (pf_PEM P) (pf_PKCS1 P) (pf_PKCS8 P) (pf_ReadFile P) (cf_githubPrivateKey f)) (\<lambda>privateKey.
        fatalOn ''initialize GitHub App client''
          (NewClient \<lparr>gc_Issuer = cf_githubIssuer f, gc_Sign = Some (pf_Sign P privateKey),
             gc_BaseURL = cf_githubAPIURL f, gc_APIVersion = cf_githubAPIVersion f\<rparr>) (\<lambda>githubClient.
        fatalOn ''read GitHub webhook secret'' (readSecret P (cf_githubWebhookSecret f)) (\<lambda>secret.
        fatalOn ''initialize runner manager''
          (NewRunnerManager E (managerConfig f) (Some control) True True disk before) (\<lambda>manager.
        fatalOn ''initialize GitHub webhook server'' (NewWebhookServer secret (cf_markerLabel f) True) (\<lambda>webhook.
        Inr (Some (githubClient, manager, webhook, cf_webhookListen f)))))))
      else Inr None)"

definition startController ::
  "('pool, 'cert, 'key) Platform \<Rightarrow> Env \<Rightarrow> Disk \<Rightarrow> effect list \<Rightarrow> ControllerFlags
     \<Rightarrow> (string \<times> goerror) + ('pool, 'cert) ControllerParts" where
  "startController P E disk before f =
     (let control = NewServer [cf_nodeTTL f];
          parts = (\<lambda>serverTLS agentTLS.
            case startGithub P E disk before f control of
              Inl failure \<Rightarrow> Inl failure
            | Inr github \<Rightarrow>
                Inr \<lparr>cp_control = control, cp_listen = cf_listen f, cp_serverTLS = serverTLS, cp_agentTLS = agentTLS,
                     cp_allowHTTP = cf_insecureHTTP f, cp_github = github\<rparr>) in
      if cf_insecureHTTP f then parts None None
      else fatalOn ''load control-plane mTLS server configuration''
             (LoadServerConfig P (cf_caFile f) (cf_certFile f) (cf_keyFile f)) (\<lambda>serverTLS.
           fatalOn ''load worker mTLS client configuration''
             (LoadClientConfig P (cf_caFile f) (cf_certFile f) (cf_keyFile f) []) (\<lambda>clientTLS.
           parts (Some serverTLS) (Some clientTLS))))"

section \<open>The agent\<close>

record AgentFlags =
  af_listen :: string
  af_nodeID :: string
  af_endpoint :: string
  af_controllerURL :: string
  af_caFile :: string
  af_certFile :: string
  af_keyFile :: string
  af_serverName :: string
  af_controllerIdentity :: string
  af_dockerBin :: string
  af_cacheRoot :: string
  af_heartbeatInterval :: duration
  af_cleanupInterval :: duration
  af_jobTimeout :: duration
  af_capabilities :: string
  af_labels :: string
  af_insecureHTTP :: bool

definition agentDefaults :: "('pool, 'cert, 'key) Platform \<Rightarrow> AgentFlags" where
  "agentDefaults P =
     \<lparr>af_listen = env P ''CIFLEET_LISTEN'' '':8090'',
      af_nodeID = env P ''CIFLEET_NODE_ID'' ''node'',
      af_endpoint = env P ''CIFLEET_ENDPOINT'' [],
      af_controllerURL = env P ''CIFLEET_CONTROLLER_URL'' [],
      af_caFile = env P ''CIFLEET_CA_FILE'' ''/etc/cifleet/pki/ca.crt'',
      af_certFile = env P ''CIFLEET_CERT_FILE'' ''/etc/cifleet/pki/agent.crt'',
      af_keyFile = env P ''CIFLEET_KEY_FILE'' ''/etc/cifleet/pki/agent.key'',
      af_serverName = env P ''CIFLEET_CONTROLLER_SERVER_NAME'' [],
      af_controllerIdentity = env P ''CIFLEET_CONTROLLER_IDENTITY'' ''controller'',
      af_dockerBin = env P ''CIFLEET_DOCKER_BIN'' ''docker'',
      af_cacheRoot = env P ''CIFLEET_CACHE_ROOT'' ''/var/lib/cifleet/cache'',
      af_heartbeatInterval = envDuration P ''CIFLEET_HEARTBEAT_INTERVAL'' (15 * Second),
      af_cleanupInterval = envDuration P ''CIFLEET_CLEANUP_INTERVAL'' Minute,
      af_jobTimeout = envDuration P ''CIFLEET_JOB_TIMEOUT'' (2 * Hour),
      af_capabilities = env P ''CIFLEET_CAPABILITIES'' ''container,docker'',
      af_labels = env P ''CIFLEET_LABELS'' [],
      af_insecureHTTP = False\<rparr>"

record ('pool, 'cert) AgentParts =
  ap_server :: "dock_trace AgentBackend AgentServer"
  ap_listen :: string
  ap_serverTLS :: "('pool, 'cert) TLSConfig option"
  ap_clientTLS :: "('pool, 'cert) TLSConfig option"
  ap_service :: "ServiceConfig option"

definition startAgent ::
  "('pool, 'cert, 'key) Platform \<Rightarrow> Host \<Rightarrow> AgentFlags \<Rightarrow> (string \<times> goerror) + ('pool, 'cert) AgentParts" where
  "startAgent P H f =
     (let backend = dockerBackend H (NewDocker \<lparr>dc_Binary = af_dockerBin f, dc_NodeID = af_nodeID f,
            dc_CacheRoot = af_cacheRoot f, dc_DefaultTimeout = af_jobTimeout f\<rparr>);
          parts = (\<lambda>serverTLS clientTLS.
            \<lparr>ap_server = \<lparr>as_NodeID = af_nodeID f, as_ControllerIdentity = af_controllerIdentity f, as_Backend = Some backend\<rparr>,
             ap_listen = af_listen f, ap_serverTLS = serverTLS, ap_clientTLS = clientTLS,
             ap_service =
               (if af_controllerURL f \<noteq> []
                then Some (NewService \<lparr>sc_NodeID = af_nodeID f, sc_Endpoint = af_endpoint f,
                  sc_ControllerURL = TrimRight (af_controllerURL f) ''/'', sc_HeartbeatInterval = af_heartbeatInterval f,
                  sc_CleanupInterval = af_cleanupInterval f, sc_Capabilities = splitCSV (af_capabilities f),
                  sc_Labels = splitCSV (af_labels f)\<rparr>)
                else None)\<rparr>) in
      if af_insecureHTTP f then Inr (parts None None)
      else fatalOn ''load controller mTLS configuration''
             (LoadClientConfig P (af_caFile f) (af_certFile f) (af_keyFile f) (af_serverName f)) (\<lambda>clientTLS.
           fatalOn ''load agent mTLS configuration''
             (LoadServerConfig P (af_caFile f) (af_certFile f) (af_keyFile f)) (\<lambda>serverTLS.
           Inr (parts (Some serverTLS) (Some clientTLS)))))"

section \<open>The numbers of the flags\<close>

text \<open>Flags without a command line: their numbers fit 64 bits, whatever the environment holds.\<close>

definition controller_flags_ok :: "ControllerFlags \<Rightarrow> bool" where
  "controller_flags_ok f \<longleftrightarrow>
     in_int64 (cf_nodeTTL f) \<and> in_int64 (cf_runnerGroupID f) \<and> in_int64 (cf_runnerCPU f) \<and> in_int64 (cf_runnerMemory f) \<and>
     in_int64 (cf_runnerTimeout f)"

definition agent_flags_ok :: "AgentFlags \<Rightarrow> bool" where
  "agent_flags_ok f \<longleftrightarrow>
     in_int64 (af_heartbeatInterval f) \<and> in_int64 (af_cleanupInterval f) \<and> in_int64 (af_jobTimeout f)"

lemma envParsed_cases:
  "Q fallback \<Longrightarrow> (\<And>x. parse val = Some x \<Longrightarrow> Q x) \<Longrightarrow> Q (envParsed parse val fallback)"
  by (simp add: envParsed_def split: option.split)

lemma env_int64:
  "in_int64 d \<Longrightarrow> in_int64 (envInt P key d)" "in_int64 d \<Longrightarrow> in_int64 (envInt64 P key d)"
  "scale_ok (pf_Scaled P) \<Longrightarrow> in_int64 d \<Longrightarrow> in_int64 (envDuration P key d)"
  unfolding envInt_def envInt64_def envDuration_def
  by (rule envParsed_cases; blast intro: ParseInt_int64 ParseDuration_int64)+

lemma defaults_ok:
  assumes "scale_ok (pf_Scaled P)"
  shows "controller_flags_ok (controllerDefaults P)" "agent_flags_ok (agentDefaults P)"
  unfolding controller_flags_ok_def agent_flags_ok_def controllerDefaults_def agentDefaults_def
    ControllerFlags.select_convs AgentFlags.select_convs
  by (intro conjI env_int64 assms; simp add: in_int64_def duration_defs)+

section \<open>What a started program has\<close>

text \<open>Mutual TLS: a server that verifies client certificates against a pool, and a client that trusts only it.\<close>

definition mutual_server :: "'pool \<Rightarrow> ('pool, 'cert) TLSConfig option \<Rightarrow> bool" where
  "mutual_server pool tls \<longleftrightarrow>
     (\<exists>t. tls = Some t \<and> tls_MinVersion t = VersionTLS13 \<and> tls_ClientAuth t = RequireAndVerifyClientCert \<and>
        tls_ClientCAs t = Some pool \<and> tls_Certificates t \<noteq> [])"

definition mutual_client :: "'pool \<Rightarrow> ('pool, 'cert) TLSConfig option \<Rightarrow> bool" where
  "mutual_client pool tls \<longleftrightarrow>
     (\<exists>t. tls = Some t \<and> tls_MinVersion t = VersionTLS13 \<and> tls_RootCAs t = Some pool \<and> tls_Certificates t \<noteq> [])"

lemma LoadServerConfig_mutual:
  "LoadServerConfig P ca cert key = Inr t \<Longrightarrow> \<exists>pool. loadCAPool P ca = Inr pool \<and> mutual_server pool (Some t)"
  by (cases "loadCAPool P ca"; cases "pf_KeyPair P cert key") (auto simp: LoadServerConfig_def mutual_server_def bindr_def)

lemma LoadClientConfig_mutual:
  "LoadClientConfig P ca cert key name = Inr t \<Longrightarrow> \<exists>pool. loadCAPool P ca = Inr pool \<and> mutual_client pool (Some t)"
  by (cases "loadCAPool P ca"; cases "pf_KeyPair P cert key") (auto simp: LoadClientConfig_def mutual_client_def bindr_def)

lemma fatalOn_Inr: "fatalOn message r k = Inr y \<longleftrightarrow> (\<exists>x. r = Inr x \<and> k x = Inr y)"
  by (cases r) (simp_all add: fatalOn_def)

lemma startGithub_secret:
  "startGithub P E disk before f control = Inr (Some (c, m, wh, l)) \<Longrightarrow>
     ws_secret wh \<noteq> [] \<and> readSecret P (cf_githubWebhookSecret f) = Inr (ws_secret wh) \<and>
     NewRunnerManager E (managerConfig f) (Some control) True True disk before = Inr m"
  by (auto simp: startGithub_def fatalOn_Inr NewWebhookServer_def split: if_splits)

lemma startController_parts:
  assumes "startController P E disk before f = Inr c" "\<not> cf_insecureHTTP f"
  obtains s t where "LoadServerConfig P (cf_caFile f) (cf_certFile f) (cf_keyFile f) = Inr s"
    "LoadClientConfig P (cf_caFile f) (cf_certFile f) (cf_keyFile f) [] = Inr t"
    "cp_serverTLS c = Some s" "cp_agentTLS c = Some t" "\<not> cp_allowHTTP c"
    "startGithub P E disk before f (NewServer [cf_nodeTTL f]) = Inr (cp_github c)"
  using assms by (cases "startGithub P E disk before f (NewServer [cf_nodeTTL f])")
    (auto simp: startController_def fatalOn_Inr Let_def)

text \<open>C32: without the flag for insecure HTTP, no program of the fleet comes up in the clear. A controller that
  starts serves its control plane with TLS 1.3 and demands client certificates of the configured authority, trusts
  only workers of that authority, refuses workers that are not https, and accepts webhooks only with a
  secret, the non-empty one of its file; a worker agent that starts serves and reports in the same way.\<close>

theorem started_with_mutual_tls:
  "(startController P E disk before f = Inr c \<and> \<not> cf_insecureHTTP f \<longrightarrow>
      (\<exists>pool. loadCAPool P (cf_caFile f) = Inr pool \<and> mutual_server pool (cp_serverTLS c) \<and>
         mutual_client pool (cp_agentTLS c)) \<and> \<not> cp_allowHTTP c \<and>
      (\<forall>cl m wh l. cp_github c = Some (cl, m, wh, l) \<longrightarrow>
         ws_secret wh \<noteq> [] \<and> readSecret P (cf_githubWebhookSecret f) = Inr (ws_secret wh))) \<and>
   (startAgent P' H g = Inr a \<and> \<not> af_insecureHTTP g \<longrightarrow>
      (\<exists>pool. loadCAPool P' (af_caFile g) = Inr pool \<and> mutual_server pool (ap_serverTLS a) \<and>
         mutual_client pool (ap_clientTLS a)))"
proof (rule conjI; rule impI)
  assume "startController P E disk before f = Inr c \<and> \<not> cf_insecureHTTP f"
  then obtain s t where p: "LoadServerConfig P (cf_caFile f) (cf_certFile f) (cf_keyFile f) = Inr s"
    "LoadClientConfig P (cf_caFile f) (cf_certFile f) (cf_keyFile f) [] = Inr t"
    "cp_serverTLS c = Some s" "cp_agentTLS c = Some t" "\<not> cp_allowHTTP c"
    "startGithub P E disk before f (NewServer [cf_nodeTTL f]) = Inr (cp_github c)"
    by (auto elim: startController_parts)
  from LoadServerConfig_mutual [OF p(1)] LoadClientConfig_mutual [OF p(2)] p(3-6) startGithub_secret
  show "(\<exists>pool. loadCAPool P (cf_caFile f) = Inr pool \<and> mutual_server pool (cp_serverTLS c) \<and>
         mutual_client pool (cp_agentTLS c)) \<and> \<not> cp_allowHTTP c \<and>
      (\<forall>cl m wh l. cp_github c = Some (cl, m, wh, l) \<longrightarrow>
         ws_secret wh \<noteq> [] \<and> readSecret P (cf_githubWebhookSecret f) = Inr (ws_secret wh))" by fastforce
next
  assume "startAgent P' H g = Inr a \<and> \<not> af_insecureHTTP g"
  then obtain s t where p: "LoadServerConfig P' (af_caFile g) (af_certFile g) (af_keyFile g) = Inr s"
    "LoadClientConfig P' (af_caFile g) (af_certFile g) (af_keyFile g) (af_serverName g) = Inr t"
    "ap_serverTLS a = Some s" "ap_clientTLS a = Some t"
    by (auto simp: startAgent_def fatalOn_Inr Let_def)
  from LoadServerConfig_mutual [OF p(1)] LoadClientConfig_mutual [OF p(2)] p(3,4)
  show "\<exists>pool. loadCAPool P' (af_caFile g) = Inr pool \<and> mutual_server pool (ap_serverTLS a) \<and>
         mutual_client pool (ap_clientTLS a)" by auto
qed

text \<open>A platform with a certificate authority and the secrets of a GitHub App.\<close>

definition sample_platform :: "(string, string, string) Platform" where
  "sample_platform =
     \<lparr>pf_Getenv = (\<lambda>k. if k = ''CIFLEET_GITHUB_APP_ISSUER'' then ''42'' else []), pf_ReadFile = (\<lambda>p. Inr ''s3cret''),
      pf_Scaled = (\<lambda>f u k. f * u div 10 ^ k), pf_CertPool = (\<lambda>pem. Some pem), pf_KeyPair = (\<lambda>c k. Inr c),
      pf_PEM = (\<lambda>d. Some d), pf_PKCS1 = (\<lambda>b. Inr b), pf_PKCS8 = (\<lambda>b. Inl (Errorf ''not PKCS#8'')),
      pf_Sign = (\<lambda>k d. Inr d)\<rparr>"

lemma sample_tls:
  "\<exists>t. LoadServerConfig sample_platform ca cert key = Inr t" "\<exists>t. LoadClientConfig sample_platform ca cert key name = Inr t"
  by (simp_all add: LoadServerConfig_def LoadClientConfig_def loadCAPool_def sample_platform_def bindr_def)

lemma sample_github:
  "\<exists>cl m l. startGithub sample_platform okEnv \<lparr>dsk_state = None, dsk_tmp = None\<rparr> [] (controllerDefaults sample_platform) control =
     Inr (Some (cl, m, \<lparr>ws_secret = ''s3cret'', ws_marker = ''cifleet''\<rparr>, l))"
proof -
  let ?f = "controllerDefaults sample_platform"
  have "cf_githubIssuer ?f = ''42''" "cf_githubAPIURL ?f = ''https://api.github.com''" "cf_markerLabel ?f = ''cifleet''"
    by (simp_all add: controllerDefaults_def env_def sample_platform_def)
  moreover have "TrimSpace ''42'' \<noteq> []" "\<not> isl (ParseRequestURI ''https://api.github.com'')" "TrimSpace ''s3cret'' = ''s3cret''"
    by code_simp+
  moreover have "\<exists>m. NewRunnerManager okEnv (managerConfig ?f) (Some control) True True \<lparr>dsk_state = None, dsk_tmp = None\<rparr> [] = Inr m"
    by (simp add: NewRunnerManager_def loadState_def)
  ultimately show ?thesis
    by (auto simp: startGithub_def fatalOn_def LoadPrivateKey_def ParsePrivateKey_def NewClient_def readSecret_def
        NewWebhookServer_def sample_platform_def Let_def isl_def split: sum.splits)
qed

theorem started_with_mutual_tls_witness:
  "\<exists>c a pool. startController sample_platform okEnv \<lparr>dsk_state = None, dsk_tmp = None\<rparr> [] (controllerDefaults sample_platform) = Inr c \<and>
     startAgent sample_platform sample_host (agentDefaults sample_platform) = Inr a \<and>
     mutual_server pool (cp_serverTLS c) \<and> mutual_client pool (cp_agentTLS c) \<and> mutual_server pool (ap_serverTLS a)"
proof -
  let ?f = "controllerDefaults sample_platform" and ?g = "agentDefaults sample_platform"
  have flags: "\<not> cf_insecureHTTP ?f" "\<not> af_insecureHTTP ?g" "cf_caFile ?f = af_caFile ?g"
    by (simp_all add: controllerDefaults_def agentDefaults_def)
  obtain s1 t1 where 1: "LoadServerConfig sample_platform (cf_caFile ?f) (cf_certFile ?f) (cf_keyFile ?f) = Inr s1"
    "LoadClientConfig sample_platform (cf_caFile ?f) (cf_certFile ?f) (cf_keyFile ?f) [] = Inr t1" using sample_tls by metis
  obtain g where 2: "startGithub sample_platform okEnv \<lparr>dsk_state = None, dsk_tmp = None\<rparr> [] ?f (NewServer [cf_nodeTTL ?f]) = Inr g"
    using sample_github by blast
  obtain s2 t2 where 3: "LoadServerConfig sample_platform (af_caFile ?g) (af_certFile ?g) (af_keyFile ?g) = Inr s2"
    "LoadClientConfig sample_platform (af_caFile ?g) (af_certFile ?g) (af_keyFile ?g) (af_serverName ?g) = Inr t2"
    using sample_tls by metis
  obtain c where c: "startController sample_platform okEnv \<lparr>dsk_state = None, dsk_tmp = None\<rparr> [] ?f = Inr c"
    using flags(1) by (simp add: startController_def fatalOn_def 1 2)
  obtain a where a: "startAgent sample_platform sample_host ?g = Inr a"
    using flags(2) by (simp add: startAgent_def fatalOn_def 3)
  from flags started_with_mutual_tls [of sample_platform okEnv "\<lparr>dsk_state = None, dsk_tmp = None\<rparr>" "[]" ?f c sample_platform sample_host ?g a] c a
  show ?thesis by auto
qed

section \<open>Lists of capabilities\<close>

text \<open>\<open>splitCSV\<close> undoes the joining of words that have no comma and no surrounding space.\<close>

definition csv_word :: "string \<Rightarrow> bool" where
  "csv_word s \<longleftrightarrow> s \<noteq> [] \<and> TrimSpace s = s \<and> CHR '','' \<notin> set s"

lemma Split_Join: "xs \<noteq> [] \<Longrightarrow> \<forall>x \<in> set xs. c \<notin> set x \<Longrightarrow> Split (strings_Join [c] xs) c = xs"
  by (induction "[c]" xs rule: strings_Join.induct) (simp_all add: Split_append Split_none)

lemma splitCSV_Join: "\<forall>x \<in> set xs. csv_word x \<Longrightarrow> splitCSV (strings_Join '','' xs) = xs"
proof (cases xs)
  case (Cons w ws)
  assume words: "\<forall>x \<in> set xs. csv_word x"
  then have "Split (strings_Join '','' xs) CHR '','' = xs" using Cons Split_Join [of xs "CHR '',''"]
    by (simp add: csv_word_def)
  moreover have "set w \<subseteq> set (strings_Join '','' xs)" using Cons by (cases ws) auto
  then have "TrimSpace (strings_Join '','' xs) \<noteq> []"
    using words Cons TrimSpace_Nil_iff [of w] by (auto simp: csv_word_def TrimSpace_Nil_iff)
  moreover have "map TrimSpace xs = xs" "filter (\<lambda>x. x \<noteq> []) xs = xs"
    using words by (auto simp: csv_word_def map_idI filter_id_conv)
  ultimately show ?thesis by (simp add: splitCSV_def)
qed (simp add: splitCSV_def)

end
