(* ===== verification/Processes.thy ===== *)
theory Processes
  imports Commands
begin

text \<open>
  The life of the two processes once \<open>startController\<close> and \<open>startAgent\<close> have built their parts: the goroutines that
  \<open>src/cmd/controller/main.go\<close> and \<open>src/cmd/agent/main.go\<close> start, the context that a signal or a failure cancels, the
  shutdown of the servers and the exit code. A process takes one event at a time, of its goroutines or of its surroundings.

  The \<open>http.Server\<close> is modelled by what its documentation promises: \<open>Shutdown\<close> makes \<open>ListenAndServe\<close> return
  \<open>ErrServerClosed\<close> at once, and itself returns when no request is active or its context has expired.
\<close>

section \<open>Servers\<close>

datatype listener = Serving | Closed | Failed

record HTTPServer =
  sv_listener :: listener
  sv_active :: nat

definition idleServer :: HTTPServer where
  "idleServer = \<lparr>sv_listener = Serving, sv_active = 0\<rparr>"

definition acceptRequest :: "HTTPServer \<Rightarrow> HTTPServer option" where
  "acceptRequest s = (if sv_listener s = Serving then Some (s\<lparr>sv_active := Suc (sv_active s)\<rparr>) else None)"

definition answerRequest :: "HTTPServer \<Rightarrow> HTTPServer option" where
  "answerRequest s = (if 0 < sv_active s then Some (s\<lparr>sv_active := sv_active s - 1\<rparr>) else None)"

definition failListener :: "HTTPServer \<Rightarrow> HTTPServer option" where
  "failListener s = (if sv_listener s = Serving then Some (s\<lparr>sv_listener := Failed\<rparr>) else None)"

definition beginShutdown :: "HTTPServer \<Rightarrow> HTTPServer" where
  "beginShutdown s = (if sv_listener s = Serving then s\<lparr>sv_listener := Closed\<rparr> else s)"

definition shutdownReturns :: "bool \<Rightarrow> HTTPServer \<Rightarrow> bool" where
  "shutdownReturns expired s \<longleftrightarrow> expired \<or> sv_active s = 0"

text \<open>The error of \<open>ListenAndServe\<close> once it has returned; \<open>Some True\<close> is \<open>ErrServerClosed\<close>.\<close>

definition serveReturned :: "HTTPServer \<Rightarrow> bool option" where
  "serveReturned s = (case sv_listener s of Serving \<Rightarrow> None | Closed \<Rightarrow> Some True | Failed \<Rightarrow> Some False)"

text \<open>\<open>main\<close> exits with 0 when its server was closed, and with 1 through \<open>fatal\<close> when it failed.\<close>

definition exitCode :: "HTTPServer \<Rightarrow> nat option" where
  "exitCode s = map_option (\<lambda>closed. if closed then 0 else 1) (serveReturned s)"

section \<open>The controller process\<close>

text \<open>Where the goroutine that waits for the cancellation is.\<close>

datatype shutdown_phase = Awaiting | ClosingControl | ClosingWebhook | ShutdownDone

record ControllerProcess =
  pr_cancelled :: bool
  pr_control :: HTTPServer
  pr_webhook :: "HTTPServer option"
  pr_managerRuns :: bool
  pr_webhookRuns :: bool
  pr_phase :: shutdown_phase
  pr_expired :: bool
  pr_exit :: "nat option"

datatype controller_event =
    Signal
  | ControlAccepts | ControlAnswers | ControlFails
  | WebhookAccepts | WebhookAnswers | WebhookFails
  | ManagerReturns | WebhookReturns
  | ShutdownBegins | ShutdownExpires | ControlShut | WebhookShut
  | MainReturns

definition controllerProcess :: "('pool, 'cert) ControllerParts \<Rightarrow> ControllerProcess" where
  "controllerProcess c =
     (let github = cp_github c \<noteq> None in
      \<lparr>pr_cancelled = False, pr_control = idleServer, pr_webhook = (if github then Some idleServer else None),
       pr_managerRuns = github, pr_webhookRuns = github, pr_phase = Awaiting, pr_expired = False, pr_exit = None\<rparr>)"

text \<open>\<open>manager.Run\<close> returns only when the context is done, and then without an error.\<close>

definition managerRun :: "bool \<Rightarrow> goerror option option" where
  "managerRun cancelled = (if cancelled then Some None else None)"

definition runManager :: "ControllerProcess \<Rightarrow> ControllerProcess option" where
  "runManager p =
     (if \<not> pr_managerRuns p then None
      else case managerRun (pr_cancelled p) of
        None \<Rightarrow> None
      | Some err \<Rightarrow> Some (p\<lparr>pr_managerRuns := False, pr_cancelled := pr_cancelled p \<or> err \<noteq> None\<rparr>))"

definition serveWebhook :: "ControllerProcess \<Rightarrow> ControllerProcess option" where
  "serveWebhook p =
     (if \<not> pr_webhookRuns p then None
      else case Option.bind (pr_webhook p) serveReturned of
        None \<Rightarrow> None
      | Some closed \<Rightarrow> Some (p\<lparr>pr_webhookRuns := False, pr_cancelled := pr_cancelled p \<or> \<not> closed\<rparr>))"

text \<open>The goroutine that shuts the servers down, one after the other, within ten seconds for both.\<close>

definition beginControlShutdown :: "ControllerProcess \<Rightarrow> ControllerProcess option" where
  "beginControlShutdown p =
     (if pr_phase p = Awaiting \<and> pr_cancelled p
      then Some (p\<lparr>pr_phase := ClosingControl, pr_control := beginShutdown (pr_control p)\<rparr>) else None)"

definition controlShutdownReturns :: "ControllerProcess \<Rightarrow> ControllerProcess option" where
  "controlShutdownReturns p =
     (if pr_phase p = ClosingControl \<and> shutdownReturns (pr_expired p) (pr_control p)
      then (case pr_webhook p of
              None \<Rightarrow> Some (p\<lparr>pr_phase := ShutdownDone\<rparr>)
            | Some w \<Rightarrow> Some (p\<lparr>pr_phase := ClosingWebhook, pr_webhook := Some (beginShutdown w)\<rparr>))
      else None)"

definition webhookShutdownReturns :: "ControllerProcess \<Rightarrow> ControllerProcess option" where
  "webhookShutdownReturns p =
     (if pr_phase p = ClosingWebhook \<and> (case pr_webhook p of None \<Rightarrow> True | Some w \<Rightarrow> shutdownReturns (pr_expired p) w)
      then Some (p\<lparr>pr_phase := ShutdownDone\<rparr>) else None)"

definition mainReturns :: "ControllerProcess \<Rightarrow> ControllerProcess option" where
  "mainReturns p = map_option (\<lambda>code. p\<lparr>pr_exit := Some code\<rparr>) (exitCode (pr_control p))"

definition onControl :: "(HTTPServer \<Rightarrow> HTTPServer option) \<Rightarrow> ControllerProcess \<Rightarrow> ControllerProcess option" where
  "onControl f p = map_option (\<lambda>s. p\<lparr>pr_control := s\<rparr>) (f (pr_control p))"

definition onWebhook :: "(HTTPServer \<Rightarrow> HTTPServer option) \<Rightarrow> ControllerProcess \<Rightarrow> ControllerProcess option" where
  "onWebhook f p = map_option (\<lambda>s. p\<lparr>pr_webhook := Some s\<rparr>) (Option.bind (pr_webhook p) f)"

definition controllerStep :: "controller_event \<Rightarrow> ControllerProcess \<Rightarrow> ControllerProcess option" where
  "controllerStep e p =
     (if pr_exit p \<noteq> None then None
      else case e of
        Signal \<Rightarrow> Some (p\<lparr>pr_cancelled := True\<rparr>)
      | ControlAccepts \<Rightarrow> onControl acceptRequest p
      | ControlAnswers \<Rightarrow> onControl answerRequest p
      | ControlFails \<Rightarrow> onControl failListener p
      | WebhookAccepts \<Rightarrow> onWebhook acceptRequest p
      | WebhookAnswers \<Rightarrow> onWebhook answerRequest p
      | WebhookFails \<Rightarrow> onWebhook failListener p
      | ManagerReturns \<Rightarrow> runManager p
      | WebhookReturns \<Rightarrow> serveWebhook p
      | ShutdownBegins \<Rightarrow> beginControlShutdown p
      | ShutdownExpires \<Rightarrow> (if pr_phase p = Awaiting then None else Some (p\<lparr>pr_expired := True\<rparr>))
      | ControlShut \<Rightarrow> controlShutdownReturns p
      | WebhookShut \<Rightarrow> webhookShutdownReturns p
      | MainReturns \<Rightarrow> mainReturns p)"

section \<open>The agent process\<close>

record AgentProcess =
  ag_cancelled :: bool
  ag_server :: HTTPServer
  ag_service :: "ServiceConfig option"
  ag_closing :: bool
  ag_expired :: bool
  ag_shut :: bool
  ag_exit :: "nat option"

datatype agent_event =
    AgentSignal | AgentAccepts | AgentAnswers | AgentFails
  | ServiceReturns | AgentShutdownBegins | AgentShutdownExpires | AgentShut | AgentMainReturns

definition agentProcess :: "('pool, 'cert) AgentParts \<Rightarrow> AgentProcess" where
  "agentProcess a =
     \<lparr>ag_cancelled = False, ag_server = idleServer, ag_service = ap_service a, ag_closing = False,
      ag_expired = False, ag_shut = False, ag_exit = None\<rparr>"

text \<open>\<open>svc.Run\<close> returns an error at once when the service is not ready, and else nothing when the context is done.\<close>

definition serviceRun :: "ServiceConfig \<Rightarrow> bool \<Rightarrow> goerror option option" where
  "serviceRun cfg cancelled =
     (case serviceReady cfg True True of
        Some err \<Rightarrow> Some (Some err)
      | None \<Rightarrow> if cancelled then Some None else None)"

definition runService :: "AgentProcess \<Rightarrow> AgentProcess option" where
  "runService p =
     (case Option.bind (ag_service p) (\<lambda>cfg. serviceRun cfg (ag_cancelled p)) of
        None \<Rightarrow> None
      | Some err \<Rightarrow> Some (p\<lparr>ag_service := None, ag_cancelled := ag_cancelled p \<or> err \<noteq> None\<rparr>))"

definition beginAgentShutdown :: "AgentProcess \<Rightarrow> AgentProcess option" where
  "beginAgentShutdown p =
     (if \<not> ag_closing p \<and> ag_cancelled p
      then Some (p\<lparr>ag_closing := True, ag_server := beginShutdown (ag_server p)\<rparr>) else None)"

definition agentShutdownReturns :: "AgentProcess \<Rightarrow> AgentProcess option" where
  "agentShutdownReturns p =
     (if ag_closing p \<and> \<not> ag_shut p \<and> shutdownReturns (ag_expired p) (ag_server p)
      then Some (p\<lparr>ag_shut := True\<rparr>) else None)"

definition agentMainReturns :: "AgentProcess \<Rightarrow> AgentProcess option" where
  "agentMainReturns p = map_option (\<lambda>code. p\<lparr>ag_exit := Some code\<rparr>) (exitCode (ag_server p))"

definition onAgent :: "(HTTPServer \<Rightarrow> HTTPServer option) \<Rightarrow> AgentProcess \<Rightarrow> AgentProcess option" where
  "onAgent f p = map_option (\<lambda>s. p\<lparr>ag_server := s\<rparr>) (f (ag_server p))"

definition agentStep :: "agent_event \<Rightarrow> AgentProcess \<Rightarrow> AgentProcess option" where
  "agentStep e p =
     (if ag_exit p \<noteq> None then None
      else case e of
        AgentSignal \<Rightarrow> Some (p\<lparr>ag_cancelled := True\<rparr>)
      | AgentAccepts \<Rightarrow> onAgent acceptRequest p
      | AgentAnswers \<Rightarrow> onAgent answerRequest p
      | AgentFails \<Rightarrow> onAgent failListener p
      | ServiceReturns \<Rightarrow> runService p
      | AgentShutdownBegins \<Rightarrow> beginAgentShutdown p
      | AgentShutdownExpires \<Rightarrow> (if ag_closing p then Some (p\<lparr>ag_expired := True\<rparr>) else None)
      | AgentShut \<Rightarrow> agentShutdownReturns p
      | AgentMainReturns \<Rightarrow> agentMainReturns p)"

section \<open>Runs\<close>

fun runEvents :: "('e \<Rightarrow> 's \<Rightarrow> 's option) \<Rightarrow> 'e list \<Rightarrow> 's \<Rightarrow> 's option" where
  "runEvents step [] s = Some s"
| "runEvents step (e # es) s = Option.bind (step e s) (runEvents step es)"

lemma runEvents_append: "runEvents step (es @ fs) s = Option.bind (runEvents step es s) (runEvents step fs)"
  by (induction es arbitrary: s) (auto split: Option.bind_split)

lemmas server_defs = acceptRequest_def answerRequest_def failListener_def beginShutdown_def shutdownReturns_def idleServer_def

text \<open>
  What the two processes share: a context, the server \<open>main\<close> waits for, whether its shutdown has begun, and an exit. No
  step undoes a cancellation or leaves an exit, a server is closed only once the context is cancelled, and the exit tells
  how the server ended.
\<close>

locale process_life =
  fixes step :: "'e \<Rightarrow> 's \<Rightarrow> 's option"
    and cancelled :: "'s \<Rightarrow> bool" and server :: "'s \<Rightarrow> HTTPServer"
    and begun :: "'s \<Rightarrow> bool" and code :: "'s \<Rightarrow> nat option"
    and shut :: 'e and return :: 'e
  assumes exit_final: "code s \<noteq> None \<Longrightarrow> step e s = None"
    and cancelled_stays: "step e s = Some s' \<Longrightarrow> cancelled s \<Longrightarrow> cancelled s'"
    and begun_closes: "step e s = Some s' \<Longrightarrow> begun s' \<Longrightarrow> \<not> begun s \<Longrightarrow> sv_listener (server s') \<noteq> Serving \<and> cancelled s'"
    and begun_stays: "step e s = Some s' \<Longrightarrow> begun s \<Longrightarrow> begun s'"
    and ended_stays: "step e s = Some s' \<Longrightarrow> sv_listener (server s) \<noteq> Serving \<Longrightarrow> sv_listener (server s') = sv_listener (server s)"
    and closed_begun: "step e s = Some s' \<Longrightarrow> sv_listener (server s) = Serving \<Longrightarrow> sv_listener (server s') = Closed \<Longrightarrow> begun s'"
    and exits: "step e s = Some s' \<Longrightarrow> code s' = Some c \<Longrightarrow> exitCode (server s') = Some c"
    and shut_enabled: "code s = None \<Longrightarrow> cancelled s \<Longrightarrow> \<not> begun s \<Longrightarrow>
      \<exists>s'. step shut s = Some s' \<and> code s' = None \<and> begun s' \<and> sv_active (server s') = sv_active (server s)"
    and return_enabled: "code s = None \<Longrightarrow> exitCode (server s) = Some c \<Longrightarrow>
      \<exists>s'. step return s = Some s' \<and> code s' = Some c \<and> server s' = server s"
begin

definition sound :: "'s \<Rightarrow> bool" where
  "sound s \<longleftrightarrow>
     (begun s \<longrightarrow> cancelled s \<and> sv_listener (server s) \<noteq> Serving) \<and> (sv_listener (server s) = Closed \<longrightarrow> begun s) \<and>
     (\<forall>c. code s = Some c \<longrightarrow> exitCode (server s) = Some c)"

lemma sound_step: "step e s = Some s' \<Longrightarrow> sound s \<Longrightarrow> sound s'"
  unfolding sound_def
  by (metis begun_closes begun_stays cancelled_stays closed_begun ended_stays exits)

lemma sound_run: "runEvents step es s = Some s' \<Longrightarrow> sound s \<Longrightarrow> sound s'"
  by (induction es arbitrary: s) (auto split: Option.bind_splits intro: sound_step)

lemma exit_code:
  assumes "sound s" "code s = Some c"
  shows "c = 0 \<and> cancelled s \<and> sv_listener (server s) = Closed \<or> c = 1 \<and> sv_listener (server s) = Failed"
proof -
  have "exitCode (server s) = Some c" using assms by (simp add: sound_def)
  then have "c = 0 \<and> sv_listener (server s) = Closed \<or> c = 1 \<and> sv_listener (server s) = Failed"
    by (auto simp: exitCode_def serveReturned_def split: listener.splits)
  with assms(1) show ?thesis by (auto simp: sound_def)
qed

lemma exit_within_two:
  assumes "sound s" "code s = None" "cancelled s"
  shows "\<exists>es s' c. set es \<subseteq> {shut, return} \<and> length es \<le> 2 \<and> runEvents step es s = Some s' \<and> code s' = Some c \<and>
    sv_active (server s') = sv_active (server s)"
proof -
  have last: "\<exists>s'' c. step return s' = Some s'' \<and> code s'' = Some c \<and> server s'' = server s'"
    if "sv_listener (server s') \<noteq> Serving" "code s' = None" for s'
    using that return_enabled [OF that(2)] by (cases "sv_listener (server s')") (auto simp: exitCode_def serveReturned_def)
  show ?thesis
  proof (cases "begun s")
    case True
    with assms(1) have "sv_listener (server s) \<noteq> Serving" by (simp add: sound_def)
    from last [OF this assms(2)] obtain s' c where "step return s = Some s'" "code s' = Some c" "server s' = server s" by auto
    then show ?thesis by (intro exI [of _ "[return]"] exI [of _ s'] exI [of _ c]) simp
  next
    case False
    from shut_enabled [OF assms(2,3) this] obtain s1 where
      1: "step shut s = Some s1" "code s1 = None" "begun s1" "sv_active (server s1) = sv_active (server s)" by auto
    from last [OF conjunct1 [OF begun_closes [OF 1(1,3) False]] 1(2)] obtain s' c
      where "step return s1 = Some s'" "code s' = Some c" "server s' = server s1" by auto
    with 1 show ?thesis by (intro exI [of _ "[shut, return]"] exI [of _ s'] exI [of _ c]) simp
  qed
qed

end

lemmas controller_step_defs = controllerStep_def onControl_def onWebhook_def runManager_def managerRun_def
  beginControlShutdown_def controlShutdownReturns_def webhookShutdownReturns_def mainReturns_def server_defs

lemmas agent_step_defs = agentStep_def onAgent_def beginAgentShutdown_def agentShutdownReturns_def
  agentMainReturns_def server_defs

lemmas exit_defs = exitCode_def serveReturned_def

lemma serveWebhook_Some:
  "serveWebhook p = Some p' \<longleftrightarrow> (\<exists>w closed. pr_webhookRuns p \<and> pr_webhook p = Some w \<and> serveReturned w = Some closed \<and>
     p' = p\<lparr>pr_webhookRuns := False, pr_cancelled := pr_cancelled p \<or> \<not> closed\<rparr>)"
  by (auto simp: serveWebhook_def bind_eq_Some_conv split: option.splits)

lemma controllerStep_running: "controllerStep e p = Some p' \<Longrightarrow> pr_exit p = None"
  by (auto simp: controllerStep_def split: if_splits)

lemma controller_step_life:
  assumes "controllerStep e p = Some p'"
  shows "pr_cancelled p \<Longrightarrow> pr_cancelled p'"
    "pr_phase p' \<noteq> Awaiting \<Longrightarrow> pr_phase p = Awaiting \<Longrightarrow> sv_listener (pr_control p') \<noteq> Serving \<and> pr_cancelled p'"
    "pr_phase p \<noteq> Awaiting \<Longrightarrow> pr_phase p' \<noteq> Awaiting"
    "sv_listener (pr_control p) \<noteq> Serving \<Longrightarrow> sv_listener (pr_control p') = sv_listener (pr_control p)"
    "sv_listener (pr_control p) = Serving \<Longrightarrow> sv_listener (pr_control p') = Closed \<Longrightarrow> pr_phase p' \<noteq> Awaiting"
    "pr_exit p' = Some c \<Longrightarrow> exitCode (pr_control p') = Some c"
  using assms controllerStep_running [OF assms]
  by (cases e; auto simp: controller_step_defs serveWebhook_Some bind_eq_Some_conv split: if_splits option.splits)+

interpretation controller_life: process_life controllerStep pr_cancelled pr_control "\<lambda>p. pr_phase p \<noteq> Awaiting" pr_exit
  ShutdownBegins MainReturns
proof unfold_locales
  show "controllerStep e p = None" if "pr_exit p \<noteq> None" for e p
    using that by (simp add: controllerStep_def)
  show "\<exists>p'. controllerStep ShutdownBegins p = Some p' \<and> pr_exit p' = None \<and> pr_phase p' \<noteq> Awaiting \<and>
      sv_active (pr_control p') = sv_active (pr_control p)"
    if "pr_exit p = None" "pr_cancelled p" "\<not> pr_phase p \<noteq> Awaiting" for p
    using that by (simp add: controllerStep_def beginControlShutdown_def beginShutdown_def)
  show "\<exists>p'. controllerStep MainReturns p = Some p' \<and> pr_exit p' = Some c \<and> pr_control p' = pr_control p"
    if "pr_exit p = None" "exitCode (pr_control p) = Some c" for p c
    using that by (simp add: controllerStep_def mainReturns_def)
qed (rule controller_step_life; (assumption | simp; fail))+

lemma runService_Some:
  "runService p = Some p' \<longleftrightarrow> (\<exists>cfg err. ag_service p = Some cfg \<and> serviceRun cfg (ag_cancelled p) = Some err \<and>
     p' = p\<lparr>ag_service := None, ag_cancelled := ag_cancelled p \<or> err \<noteq> None\<rparr>)"
  by (auto simp: runService_def bind_eq_Some_conv split: option.splits)

lemma agentStep_running: "agentStep e p = Some p' \<Longrightarrow> ag_exit p = None"
  by (auto simp: agentStep_def split: if_splits)

lemma agent_step_life:
  assumes "agentStep e p = Some p'"
  shows "ag_cancelled p \<Longrightarrow> ag_cancelled p'"
    "ag_closing p' \<Longrightarrow> \<not> ag_closing p \<Longrightarrow> sv_listener (ag_server p') \<noteq> Serving \<and> ag_cancelled p'"
    "ag_closing p \<Longrightarrow> ag_closing p'"
    "sv_listener (ag_server p) \<noteq> Serving \<Longrightarrow> sv_listener (ag_server p') = sv_listener (ag_server p)"
    "sv_listener (ag_server p) = Serving \<Longrightarrow> sv_listener (ag_server p') = Closed \<Longrightarrow> ag_closing p'"
    "ag_exit p' = Some c \<Longrightarrow> exitCode (ag_server p') = Some c"
  using assms agentStep_running [OF assms]
  by (cases e; auto simp: agent_step_defs runService_Some split: if_splits)+

interpretation agent_life: process_life agentStep ag_cancelled ag_server ag_closing ag_exit AgentShutdownBegins AgentMainReturns
proof unfold_locales
  show "agentStep e p = None" if "ag_exit p \<noteq> None" for e p
    using that by (simp add: agentStep_def)
  show "\<exists>p'. agentStep AgentShutdownBegins p = Some p' \<and> ag_exit p' = None \<and> ag_closing p' \<and>
      sv_active (ag_server p') = sv_active (ag_server p)"
    if "ag_exit p = None" "ag_cancelled p" "\<not> ag_closing p" for p
    using that by (simp add: agentStep_def beginAgentShutdown_def beginShutdown_def)
  show "\<exists>p'. agentStep AgentMainReturns p = Some p' \<and> ag_exit p' = Some c \<and> ag_server p' = ag_server p"
    if "ag_exit p = None" "exitCode (ag_server p) = Some c" for p c
    using that by (simp add: agentStep_def agentMainReturns_def)
qed (rule agent_step_life; (assumption | simp; fail))+

lemma controller_starts_sound: "controller_life.sound (controllerProcess c)"
  by (simp add: controller_life.sound_def controllerProcess_def idleServer_def Let_def)

lemma agent_starts_sound: "agent_life.sound (agentProcess a)"
  by (simp add: agent_life.sound_def agentProcess_def idleServer_def)

section \<open>Properties\<close>


text \<open>A controller without GitHub, and an agent with a service.\<close>

definition plain_controller :: "(string, string) ControllerParts" where
  "plain_controller =
     \<lparr>cp_control = NewServer [45 * Second], cp_listen = '':8080'', cp_serverTLS = None, cp_agentTLS = None,
      cp_allowHTTP = True, cp_github = None\<rparr>"

definition plain_agent :: "string \<Rightarrow> (string, string) AgentParts" where
  "plain_agent node =
     \<lparr>ap_server = \<lparr>as_NodeID = node, as_ControllerIdentity = ''controller'', as_Backend = None\<rparr>, ap_listen = '':8090'',
      ap_serverTLS = None, ap_clientTLS = None, ap_service = Some (sample_service\<lparr>sc_NodeID := node\<rparr>)\<rparr>"

lemmas process_samples = plain_controller_def plain_agent_def controllerProcess_def agentProcess_def serviceRun_def
  serviceReady_def


text \<open>C39: a cancelled process ends. From every state a run reaches with its context cancelled, by a signal or by a failure, at
  most two steps of the process itself, the start of the shutdown and the return of \<open>main\<close>, lead to the exit, whatever
  requests are active; they are as many at the exit as before, since \<open>main\<close> does not wait for the shutdown it started.\<close>

theorem cancelled_process_exits:
  "(runEvents controllerStep es (controllerProcess c) = Some p \<and> pr_exit p = None \<and> pr_cancelled p \<longrightarrow>
      (\<exists>gs p' k. set gs \<subseteq> {ShutdownBegins, MainReturns} \<and> length gs \<le> 2 \<and> runEvents controllerStep gs p = Some p' \<and>
         pr_exit p' = Some k \<and> sv_active (pr_control p') = sv_active (pr_control p))) \<and>
   (runEvents agentStep fs (agentProcess a) = Some q \<and> ag_exit q = None \<and> ag_cancelled q \<longrightarrow>
      (\<exists>gs q' k. set gs \<subseteq> {AgentShutdownBegins, AgentMainReturns} \<and> length gs \<le> 2 \<and> runEvents agentStep gs q = Some q' \<and>
         ag_exit q' = Some k \<and> sv_active (ag_server q') = sv_active (ag_server q)))"
  by (intro conjI impI; elim conjE)
    (rule controller_life.exit_within_two [OF controller_life.sound_run [OF _ controller_starts_sound]]
       agent_life.exit_within_two [OF agent_life.sound_run [OF _ agent_starts_sound]]; assumption)+

theorem cancelled_process_exits_witness:
  "\<exists>p gs p' k q hs q' l.
     runEvents controllerStep [ControlAccepts, Signal] (controllerProcess plain_controller) = Some p \<and>
     runEvents controllerStep gs p = Some p' \<and> pr_exit p' = Some k \<and> sv_active (pr_control p') = 1 \<and>
     runEvents agentStep [AgentAccepts, AgentSignal] (agentProcess (plain_agent ''e5'')) = Some q \<and>
     runEvents agentStep hs q = Some q' \<and> ag_exit q' = Some l \<and> sv_active (ag_server q') = 1"
proof -
  let ?es = "[ControlAccepts, Signal]" and ?fs = "[AgentAccepts, AgentSignal]"
  obtain p where p: "runEvents controllerStep ?es (controllerProcess plain_controller) = Some p" "pr_exit p = None"
      "pr_cancelled p" "sv_active (pr_control p) = 1"
    by (simp add: process_samples controller_step_defs serveWebhook_def exit_defs)
  obtain q where q: "runEvents agentStep ?fs (agentProcess (plain_agent ''e5'')) = Some q" "ag_exit q = None"
      "ag_cancelled q" "sv_active (ag_server q) = 1"
    by (simp add: process_samples agent_step_defs exit_defs runService_def)
  from cancelled_process_exits [of ?es plain_controller p ?fs "plain_agent ''e5''" q] p q show ?thesis by metis
qed

text \<open>
  With the GitHub integration: a controller asked to stop may exit with 0 while requests of both servers are active and the
  webhook server was never shut down; and when the webhook server cannot listen, the controller ends, also with 0.
\<close>

lemma exit_before_drained:
  assumes "cp_github c \<noteq> None"
  shows "\<exists>p. runEvents controllerStep [ControlAccepts, WebhookAccepts, Signal, ShutdownBegins, MainReturns] (controllerProcess c) = Some p \<and>
    pr_exit p = Some 0 \<and> sv_active (pr_control p) = 1 \<and> pr_webhook p = Some \<lparr>sv_listener = Serving, sv_active = 1\<rparr>"
  using assms by (simp add: process_samples controller_step_defs serveWebhook_def exit_defs)

lemma failed_webhook_exits_zero:
  assumes "cp_github c \<noteq> None"
  shows "\<exists>p. runEvents controllerStep [WebhookFails, WebhookReturns, ShutdownBegins, MainReturns] (controllerProcess c) = Some p \<and>
    pr_exit p = Some 0"
  using assms by (simp add: process_samples controller_step_defs serveWebhook_def exit_defs)

lemma failed_service_exits_zero:
  assumes "ap_service a = Some cfg" "sc_NodeID cfg = []"
  shows "\<exists>q. runEvents agentStep [ServiceReturns, AgentShutdownBegins, AgentMainReturns] (agentProcess a) = Some q \<and>
    ag_exit q = Some 0"
  using assms by (simp add: process_samples agent_step_defs exit_defs runService_def)

end
