(* ===== verification/Controller_System.thy ===== *)
theory Controller_System
  imports Runner_Properties Processes
begin

text \<open>
  The controller as a whole: started by \<open>main\<close> from flags, files and state file, and then driven by requests as they arrive
  at its two HTTP servers, by the loop of the runner manager, and by crashes and restarts. Every state it can be in is a
  state of the system of \<open>Runner_System\<close>, so that what is shown of that system holds of the program.
\<close>

section \<open>The running program\<close>

text \<open>A node is truthful to \<open>K\<close> if the capacity of every heartbeat it sends is one that \<open>K\<close> allows for its name.\<close>

definition truthful :: "(string \<Rightarrow> Capacity \<Rightarrow> bool) \<Rightarrow> http_req \<Rightarrow> bool" where
  "truthful K req \<longleftrightarrow> (case decodeNode (hr_body req) of None \<Rightarrow> True | Some n \<Rightarrow> K (node_ID n) (node_Capacity n))"

inductive controller_run ::
  "('pool, 'cert, 'key) Platform \<Rightarrow> Env \<Rightarrow> ControllerFlags \<Rightarrow> (string \<Rightarrow> Capacity \<Rightarrow> bool) \<Rightarrow> Manager \<Rightarrow> WebhookServer \<Rightarrow> bool"
  for P E f K where
  start: "controller_run P E f K m ws"
    if "startController P E emptyDisk [] f = Inr c" "cp_github c = Some (cl, m, ws, l)"
| control_request: "controller_run P E f K (m\<lparr>mgr_server := s'\<rparr>) ws"
    if "controller_run P E f K m ws" "truthful K req" "serveControl rank now tls req (mgr_server m) = (resp, s')"
| hook_request: "controller_run P E f K m' ws"
    if "controller_run P E f K m ws" "serveHook Submit ws hreq m = (hresp, m')"
| next_event: "controller_run P E f K (snd (Process E ev (m\<lparr>mgr_queue := q\<rparr>))) ws"
    if "controller_run P E f K m ws" "mgr_queue m = ev # q"
| next_tick: "controller_run P E f K (reconcile E now m) ws"
    if "controller_run P E f K m ws"
| restart: "controller_run P E f K m'' ws''"
    if "controller_run P E f K m ws" "sys_step E K m m'" "mgr_trace m' = mgr_trace m @ es @ lost"
      "startController P E (fold disk_step es (mgr_disk m)) (mgr_trace m @ es) f = Inr c" "cp_github c = Some (cl, m'', ws'', l)"

section \<open>It is a run of the system\<close>

lemma startController_github:
  "startController P E disk before f = Inr c \<Longrightarrow>
     startGithub P E disk before f (NewServer [cf_nodeTTL f]) = Inr (cp_github c)"
  by (cases "startGithub P E disk before f (NewServer [cf_nodeTTL f])")
    (auto simp: startController_def fatalOn_Inr Let_def split: if_splits)

lemma started_boots:
  assumes "startController P E disk before f = Inr c" "cp_github c = Some (cl, m, ws, l)"
  shows "bootManager E (managerConfig f) [cf_nodeTTL f] disk before = Inr m"
    "readSecret P (cf_githubWebhookSecret f) = Inr (ws_secret ws)" "ws_secret ws \<noteq> []"
  using startGithub_secret [OF startController_github [OF assms(1), unfolded assms(2)]] by (simp_all add: bootManager_def)

lemma heartbeat_undecoded: "snd (heartbeat None tls now s) = s"
  by (simp add: heartbeat_def)

lemma control_step:
  assumes "serveControl rank now tls req (mgr_server m) = (resp, s')" "truthful K req"
  shows "m\<lparr>mgr_server := s'\<rparr> = m \<or> sys_step E K m (m\<lparr>mgr_server := s'\<rparr>)"
proof -
  from assms(1) have "s' = mgr_server m \<or> s' = snd (heartbeat (decodeNode (hr_body req)) tls now (mgr_server m))"
    by (auto simp: serveControl_def split: option.splits mux_route.splits control_request.splits prod.splits)
  then show ?thesis
  proof
    assume s': "s' = snd (heartbeat (decodeNode (hr_body req)) tls now (mgr_server m))"
    show ?thesis
    proof (cases "decodeNode (hr_body req)")
      case None
      then show ?thesis using s' by (simp add: heartbeat_undecoded)
    next
      case (Some n)
      with assms(2) have "K (node_ID n) (node_Capacity n)" by (simp add: truthful_def)
      then show ?thesis unfolding s' Some by (intro disjI2 sys_step.beat)
    qed
  qed simp
qed

lemma hook_step:
  assumes "serveHook Submit ws hreq m = (hresp, m')"
  shows "m' = m \<or> sys_step E K m m'"
proof (cases "m' = m")
  case False
  from serveHook_changes [OF assms this] obtain r where "webhook Submit ws hreq m = (r, m')" by blast
  with False have "\<exists>ev. m' = snd (Submit ev m)"
    by (auto simp: webhook_def Let_def split: if_splits option.splits prod.splits) (metis snd_conv)+
  then show ?thesis by (auto intro: sys_step.submit)
qed simp

lemma run_reaches:
  "controller_run P E f K m ws \<Longrightarrow> reach E K (managerConfig f) [cf_nodeTTL f] m \<and>
     readSecret P (cf_githubWebhookSecret f) = Inr (ws_secret ws) \<and> ws_secret ws \<noteq> []"
proof (induction rule: controller_run.induct)
  case (start c cl m ws l)
  then show ?case using started_boots [OF start] by (auto intro: reach.boot)
next
  case (control_request m ws req rank now tls resp s')
  then show ?case using control_step [OF control_request.hyps(3,2), of E] by (auto intro: reach.run)
next
  case (hook_request m ws hreq hresp m')
  then show ?case using hook_step [OF hook_request.hyps(2), of E K] by (auto intro: reach.run)
next
  case (next_event m ws ev q)
  then show ?case by (auto intro: reach.run sys_step.deliver)
next
  case (next_tick m ws now)
  then show ?case by (auto intro: reach.run sys_step.tick)
next
  case (restart m ws m' es lost c cl m'' ws'' l)
  then show ?case using started_boots [OF restart.hyps(4,5)] by (auto intro: reach.crash)
qed

section \<open>Properties\<close>

text \<open>C7: the running program refines the system. From the start by \<open>main\<close> with any flags and environment, through any bytes
  that arrive at the control plane and at the webhook endpoint, events, ticks, crashes and restarts, the manager is always
  in a state that the system of the safety theorems reaches with the configuration of the flags. So no worker is
  overcommitted, in memory or in the state file, if its heartbeats report the same totals; and whenever a webhook request
  changes anything, its body is signed with the secret of the configured file.\<close>

theorem program_refines_system:
  assumes "controller_run P E f (total_is C M) m ws" and "known_heartbeats E (total_is C M)"
    and "serveHook Submit ws hreq m = (hresp, m')"
  shows "reach E (total_is C M) (managerConfig f) [cf_nodeTTL f] m \<and>
     (js = mgr_jobs m \<or> dsk_state (mgr_disk m) = Some (JobsDoc (Some js)) \<longrightarrow>
        (0 < C nodeID \<longrightarrow> reservedCPU js nodeID \<le> C nodeID) \<and> (0 < M nodeID \<longrightarrow> reservedMemory js nodeID \<le> M nodeID)) \<and>
     (m' \<noteq> m \<longrightarrow> (\<exists>secret. readSecret P (cf_githubWebhookSecret f) = Inr secret \<and> secret \<noteq> [] \<and>
        validWebhookSignature secret (hr_Body hreq) (hr_Header hreq ''X-Hub-Signature-256'')))"
proof -
  note run = run_reaches [OF assms(1)]
  have "everywhere (within C M) m" using capacity.J_reach [OF _ assms(2)] run by blast
  moreover have "validWebhookSignature (ws_secret ws) (hr_Body hreq) (hr_Header hreq ''X-Hub-Signature-256'')" if "m' \<noteq> m"
  proof -
    from serveHook_changes [OF assms(3) that] obtain r where "webhook Submit ws hreq m = (r, m')" by blast
    from hook.webhook_queue [OF this that] show ?thesis by auto
  qed
  ultimately show ?thesis using run by (auto simp: everywhere_def disk_jobs_def within_def)
qed

lemma sample_started:
  "\<exists>c cl m l. startController sample_platform okEnv emptyDisk [] (controllerDefaults sample_platform) = Inr c \<and>
     cp_github c = Some (cl, m, \<lparr>ws_secret = ''s3cret'', ws_marker = ''cifleet''\<rparr>, l)"
proof -
  let ?f = "controllerDefaults sample_platform"
  obtain s t where tls: "LoadServerConfig sample_platform (cf_caFile ?f) (cf_certFile ?f) (cf_keyFile ?f) = Inr s"
    "LoadClientConfig sample_platform (cf_caFile ?f) (cf_certFile ?f) (cf_keyFile ?f) [] = Inr t" using sample_tls by metis
  obtain cl m l where "startGithub sample_platform okEnv emptyDisk [] ?f (NewServer [cf_nodeTTL ?f]) =
      Inr (Some (cl, m, \<lparr>ws_secret = ''s3cret'', ws_marker = ''cifleet''\<rparr>, l))"
    using sample_github unfolding emptyDisk_def by blast
  moreover have "\<not> cf_insecureHTTP ?f" by (simp add: controllerDefaults_def)
  ultimately show ?thesis by (simp add: startController_def fatalOn_def tls)
qed

theorem program_refines_system_witness:
  "\<exists>m ws m'. controller_run sample_platform okEnv (controllerDefaults sample_platform) (total_is (\<lambda>_. 12) (\<lambda>_. 32768)) m ws \<and>
     serveHook Submit ws sample_request m = (Some (202, HookAccepted), m') \<and> m' \<noteq> m \<and> reservedCPU (mgr_jobs m) ''e5'' \<le> 12 \<and>
     validWebhookSignature ''s3cret'' (hr_Body sample_request) (hr_Header sample_request ''X-Hub-Signature-256'')"
proof -
  let ?f = "controllerDefaults sample_platform" and ?K = "total_is (\<lambda>_. 12) (\<lambda>_. 32768)"
  let ?ws = "\<lparr>ws_secret = ''s3cret'', ws_marker = ''cifleet''\<rparr>"
  obtain c cl m l where c: "startController sample_platform okEnv emptyDisk [] ?f = Inr c" "cp_github c = Some (cl, m, ?ws, l)"
    using sample_started by blast
  then have run: "controller_run sample_platform okEnv ?f ?K m ?ws" by (rule controller_run.start)
  have "mgr_queue m = []" "cfg_QueueSize (mgr_cfg m) = 256"
    using boot_manager [OF started_boots(1) [OF c]] by (simp_all add: defaultConfig_def managerConfig_def)
  then have hook: "serveHook Submit ?ws sample_request m = (Some (202, HookAccepted), m\<lparr>mgr_queue := [eventOf ''d-1'' sample_payload]\<rparr>)"
    and ne: "m\<lparr>mgr_queue := [eventOf ''d-1'' sample_payload]\<rparr> \<noteq> m"
    using sample_webhook [of m] by (auto dest: arg_cong [where f = mgr_queue])
  have "readSecret sample_platform (cf_githubWebhookSecret ?f) = Inr ''s3cret''" using started_boots(2) [OF c] by simp
  with program_refines_system [OF run okEnv_known(1) hook, of "mgr_jobs m" "''e5''"] run hook ne
  show ?thesis by (intro exI [of _ m] exI [of _ ?ws] exI [of _ "m\<lparr>mgr_queue := [eventOf ''d-1'' sample_payload]\<rparr>"]) simp
qed

end
