(* ===== verification/Spec2Isabelle.thy ===== *)
theory Spec2Isabelle
  imports Controller_System
begin

text \<open>
  CIFleet runs GitHub Actions jobs on a fleet of workers, each job in a fresh container with a one-time (JIT)
  runner. This development models its Go sources under \<open>src/\<close> and proves what they promise.

  \<^bold>\<open>The program.\<close> Workers run the agent (\<open>cmd/agent\<close>): a service that reports the worker's capacity to the
  controller and removes expired containers, and an HTTP server through which the controller creates and destroys
  containers in the Docker backend. The controller (\<open>cmd/controller\<close>) keeps a table of the workers that report, and
  receives GitHub's webhook deliveries. A delivery with a valid signature becomes an event in a bounded queue. The
  runner manager takes the events one at a time: it asks GitHub for the workflow run of a queued job, rejects
  untrusted ones, places the job on a worker with the scheduler, obtains a JIT runner from GitHub, saves its job table
  to the state file, and only then asks the worker for a container. Completed jobs, deadlines, failures and
  restarts are cleaned up in the periodic reconciliation.

  \<^bold>\<open>Theories and sources.\<close>
  \<^item> \<open>Go_Prelude\<close>, \<open>Go_Paths\<close>, \<open>Go_Crypto\<close>, \<open>Go_URL\<close>: what the sources use of the Go language and library. 64-bit
    integers with wrap-around, times, errors, strings, maps in any \<open>range\<close> order, stable sorting; cleaned paths;
    SHA-256, HMAC and hex, computed; URL parsing and escaping. \<open>Go_JSON\<close>: reading and writing JSON texts, and decoding
    into structs; the interface \<open>wire_format\<close> is a format that is read as written. \<open>Go_Time\<close>: times in JSON texts.
    \<open>Go_Duration\<close>: \<open>time.ParseDuration\<close>. \<open>Go_Mux\<close>: requests and the patterns of \<open>http.ServeMux\<close>.
  \<^item> \<open>Spec_JSON\<close>, \<open>Node_JSON\<close>, \<open>State_File\<close>: the JSON texts of a job specification, of a heartbeat, a scheduling request and an
    instance, and of the state file, each with its round trip.
  \<^item> \<open>Model\<close>: the data of \<open>internal/model\<close>, \<open>internal/backend\<close> and of GitHub's answers.
  \<^item> \<open>Scheduler\<close>: \<open>internal/scheduler\<close>. The interface \<open>placement_interface\<close> states the contract.
  \<^item> \<open>Node_Server\<close>: \<open>internal/controller/server.go\<close>, the table of workers, its handlers and routes.
  \<^item> \<open>Policy\<close>: \<open>github_policy.go\<close>: trust, labels, names.
  \<^item> \<open>Job_Store\<close>: \<open>github_jobs.go\<close> and \<open>github_state.go\<close>: records, the world the manager acts on, saving, loading.
  \<^item> \<open>Runner_Manager\<close>: \<open>github_jobs.go\<close>, \<open>github_provision.go\<close> and \<open>github_lifecycle.go\<close>, every operation of the
    manager with all its calls to GitHub, the workers, the clock and the disk, in order.
  \<^item> \<open>Manager_Frame\<close>, \<open>Lifecycle\<close>, \<open>Runner_Refinement\<close>: the abstract protocol of a job, and the proof that the
    operations are sequences of its steps.
  \<^item> \<open>Runner_System\<close>, \<open>Runner_Safety\<close>: the run loop with queue, heartbeats, crashes at any effect and restarts from the
    state file; invariants of every reachable state through the interfaces \<open>jobs_invariant\<close> and \<open>effect_guard\<close>.
  \<^item> \<open>Runner_Behaviour\<close>, \<open>Sample_Run\<close>, \<open>Runner_Properties\<close>: the behaviour on each branch, a concrete run, and the
    properties of the manager.
  \<^item> \<open>Webhook\<close>: \<open>webhook.go\<close>; the manager is used through the interface \<open>event_submitter\<close>.
  \<^item> \<open>Docker_Backend\<close>: \<open>internal/backend/docker\<close> with the command lines it runs, and the two stub backends.
  \<^item> \<open>Agent\<close>: \<open>internal/agent\<close>, server and service; the backends are used through \<open>instance_backend\<close>.
  \<^item> \<open>Agent_Client\<close>: \<open>agent_client.go\<close>, the interface \<open>instance_client\<close>, and the wire between controller and worker.
  \<^item> \<open>Github_App\<close>: \<open>internal/githubapp\<close>: token cache, JSON web token, API calls.
  \<^item> \<open>Commands\<close>: the two \<open>main\<close> functions up to the started parts, and \<open>internal/tlsutil\<close>. \<open>Processes\<close>: the life of the started
    processes, goroutines, cancellation, shutdown and exit, through the interface \<open>process_life\<close>.
  \<^item> \<open>Controller_System\<close>: the whole controller, from \<open>main\<close> and the bytes at its two servers on, as a run of \<open>Runner_System\<close>.

  \<^bold>\<open>What is shown.\<close> Of every run of the controller, whatever GitHub, workers, clock and disk answer and wherever it
  crashes: no worker is overcommitted, no runner or container exists for an untrusted run, no container is created
  before the state file says where, and all records are well formed. Of each operation: what it does on success and
  on each failure, that completed jobs stay completed, that tombstones are dropped exactly after their time. Of the
  scheduler: it chooses the least loaded host, and fails only without one. Of the endpoints: only authentic
  deliveries, certified workers and the controller are listened to. Of the Docker backend: the exact
  commands, the accounting of resources, the exact set of containers that a cleanup removes, the confinement of
  cache directories. Of the clients: tokens are fresh, requests go to the intended repository, workers are
  reached by https only, and over the wire the controller's calls are the backend's operations. Of the programs: they start
  with mutual TLS, a cancelled one exits, and the exit code says how its server ended. \<open>Controller_System\<close> and this
  theory join the parts: the running controller is a run of the system of the safety theorems, a heartbeat is the worker's
  probe in the controller's table, and the manager's specification is the container on the worker.

  \<^bold>\<open>Parameters and bounds.\<close> The world is an argument of the definitions (\<open>Env\<close>, \<open>Host\<close>, \<open>Net\<close>, \<open>Platform\<close>): each
  answer may depend on everything that happened before, so theorems over all arguments cover all behaviours,
  concurrent heartbeats included. Recursion is structural or with a measure; the fuel of
  the JSON parser is twice the length of the text, and more makes no difference (\<open>Go_JSON.read_fuel\<close>). Strings are
  byte lists; functions on text are those of ASCII. Theorems on capacity assume that a worker always reports the
  same totals, and 64-bit sums are the code's own.

  \<^bold>\<open>Not modelled.\<close> RSA, PEM and X.509 are parameters, and so is the floating-point product in \<open>time.ParseDuration\<close>. JSON texts are
  those of valid UTF-8; the bodies of the control plane's and the webhook's own responses, which no part of the program
  reads, are the values that are encoded. Parsing of the command line is left to the library: the flags are arguments.
  Logging and the timeouts of contexts have no effect on the modelled state; a call that is cut off is one that returns an
  error. Calls inside one operation of the manager are sequential as in the code; the goroutines of the webhook and of
  heartbeats interleave between operations and while an operation waits for an answer. Scripts, units and workflows of the
  repository are not Go code.
\<close>

section \<open>From the controller to the container\<close>

lemma DestroyDocker_effect:
  "TrimSpace i \<noteq> [] \<Longrightarrow> snd (DestroyDocker H cfg i tr) =
     tr @ [DExec (dc_Binary cfg) [''rm'', ''-f'', i] (host_exec H tr (dc_Binary cfg) [''rm'', ''-f'', i])]"
  by (auto simp: DestroyDocker_def execRun_def split: option.split prod.split)

lemma containerName_plain: "plain_elem (containerName k) \<and> TrimSpace (containerName k) = containerName k"
proof -
  have n: "\<not> isSpace c" if "c \<in> set (containerName k)" for c
  proof -
    have "list_all (\<lambda>c. \<not> isSpace c) ''cifleet-gh-''" by code_simp
    moreover have "\<not> isSpace d" if "d \<in> set (FormatInt n)" for d n
      using FormatInt_bytes [of n] that by (auto simp: isSpace_def name_byte_def)
    ultimately show ?thesis using that by (auto simp: containerName_def containerJobID_def list_all_iff)
  qed
  then have "TrimSpace (containerName k) = containerName k"
    by (simp add: TrimSpace_none)
  moreover have "CHR ''/'' \<notin> set (containerName k)"
  proof -
    have "\<not> name_byte CHR ''/''" by code_simp
    with FormatInt_bytes [of k] have "CHR ''/'' \<notin> set (FormatInt k)" by metis
    then show ?thesis by (simp add: containerName_def containerJobID_def)
  qed
  ultimately show ?thesis by (simp add: plain_elem_def containerName_def)
qed

lemma marshal_runnerSpec [simp]: "marshalSpec (runnerSpec cfg k r jit) = runnerSpec cfg k r jit"
  by (simp add: marshalSpec_def runnerSpec_def)

text \<open>C29: the controller can always find the container it asked for. When it creates the instance of a job over the
  wire, the last command of the worker is \<open>docker run\<close> with exactly the name that the controller computes from the
  job number alone; and at any later time a destruction under that name, which is what recovery and roll back
  send, runs \<open>docker rm -f\<close> on exactly that name.\<close>

theorem runner_container_traceable:
  assumes "linked c node jsonErr other H0 now s tls H dcfg"
    and "spec_ok (runnerSpec cfg k r jit)" "int (length (specText (runnerSpec cfg k r jit))) \<le> maxSpecBody"
    and "CreateInstanceHTTP c node (runnerSpec cfg k r jit) w = (Inr inst, w')"
  shows "\<exists>es args out. w' = w @ es @ [DExec (dc_Binary dcfg) args (out, None)] \<and> commands es = [] \<and>
       take 4 args = [''run'', ''-d'', ''--name'', containerName k] \<and>
       snd (DestroyInstanceHTTP c node (containerName k) w'') =
         w'' @ [DExec (dc_Binary dcfg) [''rm'', ''-f'', containerName k]
           (host_exec H w'' (dc_Binary dcfg) [''rm'', ''-f'', containerName k])]"
proof -
  have "CreateDocker H dcfg (runnerSpec cfg k r jit) w = (Inr inst, w')"
    using linked_create [OF assms(1-3)] assms(4) by simp
  from CreateDocker_ran [OF this] obtain es args out where
    "w' = w @ es @ [DExec (dc_Binary dcfg) args (out, None)]" "commands es = []"
    "take 4 args = [''run'', ''-d'', ''--name'', ''cifleet-'' @ sanitizeName (spec_ID (runnerSpec cfg k r jit))]" by auto
  moreover have "''cifleet-'' @ sanitizeName (spec_ID (runnerSpec cfg k r jit)) = containerName k"
    by (simp only: runnerSpec_def JobSpec.select_convs container_name_agrees)
  moreover have "TrimSpace (containerName k) \<noteq> []" using containerName_plain [of k] by (auto simp: plain_elem_def)
  then have "snd (DestroyInstanceHTTP c node (containerName k) w'') =
         w'' @ [DExec (dc_Binary dcfg) [''rm'', ''-f'', containerName k]
           (host_exec H w'' (dc_Binary dcfg) [''rm'', ''-f'', containerName k])]"
    using linked_destroy [OF assms(1)] containerName_plain DestroyDocker_effect by simp
  ultimately show ?thesis by metis
qed

definition sample_jit :: JITConfig where
  "sample_jit = \<lparr>jit_RunnerID = 77, jit_EncodedConfig = ''jit-secret''\<rparr>"

theorem runner_container_traceable_witness:
  "\<exists>inst w' es args out. CreateInstanceHTTP sample_link e5_node (runnerSpec (defaultConfig cfg0) 12 record12 sample_jit) [] = (Inr inst, w') \<and>
     w' = es @ [DExec ''docker'' args (out, None)] \<and> take 4 args = [''run'', ''-d'', ''--name'', ''cifleet-gh-12'']"
proof -
  let ?spec = "runnerSpec (defaultConfig cfg0) 12 record12 sample_jit"
  have "case CreateDocker sample_host sample_docker ?spec [] of
      (Inr inst, _) \<Rightarrow> inst_ID inst \<noteq> [] \<and> json_year (inst_Deadline inst) | _ \<Rightarrow> False" by code_simp
  moreover have small: "spec_ok ?spec" "int (length (specText ?spec)) \<le> maxSpecBody" by code_simp+
  ultimately obtain inst w' where "CreateInstanceHTTP sample_link e5_node ?spec [] = (Inr inst, w')"
    using linked_create [OF sample_linked small, of "[]"] by (auto split: prod.splits sum.splits)
  moreover have "containerName 12 = ''cifleet-gh-12''" "dc_Binary sample_docker = ''docker''" by code_simp+
  ultimately show ?thesis using runner_container_traceable [OF sample_linked small, of "[]" inst w' "[]"]
    by auto
qed

text \<open>when the worker ran \<open>docker run\<close> for a job and it failed, the error that the worker sends back and the
  controller logs contains the JIT configuration of the runner, a credential, in the clear: the error of a
  command lists its arguments.\<close>

lemma failed_start_reveals_jit:
  assumes "as_Backend s = Some (dockerBackend H dcfg)"
    and "createInstance s tls (Inr (runnerSpec cfg k r jit)) tr = ((status, AgentError msg), tr @ es)"
    and "commands es \<noteq> []"
  shows "Contains msg (''ACTIONS_RUNNER_INPUT_JITCONFIG='' @ jit_EncodedConfig jit)"
proof -
  have auth: "authorizeController s tls = None"
    using assms(2,3) by (cases "authorizeController s tls") (auto simp: createInstance_def)
  with assms(1,2) obtain err where "CreateDocker H dcfg (runnerSpec cfg k r jit) tr = (Inl err, tr @ es)" "msg = Error err"
    by (auto simp: createInstance_def dockerBackend_def split: sum.splits prod.splits)
  moreover have "fmlookup (spec_Environment (runnerSpec cfg k r jit)) ''ACTIONS_RUNNER_INPUT_JITCONFIG'' = Some (jit_EncodedConfig jit)"
    by (simp add: runnerSpec_def)
  ultimately show ?thesis using CreateDocker_error_env assms(3) by fastforce
qed

definition refusing_host :: Host where
  "refusing_host = sample_host\<lparr>host_exec := \<lambda>_ _ _. (''no space left'', Some (Errorf ''exit status 125''))\<rparr>"

lemma failed_start_reveals_jit_witness:
  "\<exists>status msg es. createInstance (sample_agent\<lparr>as_Backend := Some (dockerBackend refusing_host sample_docker)\<rparr>) None
       (Inr (runnerSpec (defaultConfig cfg0) 12 record12 sample_jit)) [] = ((status, AgentError msg), es) \<and>
     Contains msg ''ACTIONS_RUNNER_INPUT_JITCONFIG=jit-secret''"
proof -
  let ?s = "sample_agent\<lparr>as_Backend := Some (dockerBackend refusing_host sample_docker)\<rparr>"
  let ?spec = "runnerSpec (defaultConfig cfg0) 12 record12 sample_jit"
  have "case createInstance ?s None (Inr ?spec) [] of ((_, AgentError _), es) \<Rightarrow> commands es \<noteq> [] | _ \<Rightarrow> False" by code_simp
  then obtain status msg es where run: "createInstance ?s None (Inr ?spec) [] = ((status, AgentError msg), [] @ es)" "commands es \<noteq> []"
    by (auto split: prod.splits agent_body.splits)
  have "as_Backend ?s = Some (dockerBackend refusing_host sample_docker)" by simp
  from failed_start_reveals_jit [OF this run] run show ?thesis by (simp add: sample_jit_def)
qed

text \<open>C35: a timeout in seconds becomes exactly that duration if and only if it is at most 9223372036 seconds; beyond,
  the 64-bit product wraps. The specifications of the controller stay below: their timeout is the
  configured one, rounded down to seconds.\<close>

theorem timeout_exact_iff:
  assumes "0 < spec_TimeoutSeconds spec" and "spec_Timeout spec = 0"
  shows "(EffectiveTimeout spec fallback = spec_TimeoutSeconds spec * Second \<longleftrightarrow> spec_TimeoutSeconds spec \<le> 9223372036) \<and>
     (spec = runnerSpec cfg k r jit \<and> in_int64 (cfg_RunnerTimeout cfg) \<longrightarrow>
        EffectiveTimeout spec fallback = cfg_RunnerTimeout cfg div Second * Second)"
proof -
  have iff: "in_int64 (n * Second) \<longleftrightarrow> n \<le> 9223372036" if "0 < n" for n
    using that by (auto simp: in_int64_def Second_def)
  then have 1: "EffectiveTimeout spec fallback = spec_TimeoutSeconds spec * Second \<longleftrightarrow> spec_TimeoutSeconds spec \<le> 9223372036"
    using assms by (simp add: EffectiveTimeout_def wrap64_id_iff)
  moreover have "EffectiveTimeout spec fallback = cfg_RunnerTimeout cfg div Second * Second"
    if "spec = runnerSpec cfg k r jit" "in_int64 (cfg_RunnerTimeout cfg)"
  proof -
    have t: "spec_TimeoutSeconds spec = go_div (cfg_RunnerTimeout cfg) Second" using that(1) by (simp add: runnerSpec_def)
    with assms(1) have "0 \<le> cfg_RunnerTimeout cfg" by (auto simp: go_div_def sgn_if Second_def split: if_splits)
    then have t': "spec_TimeoutSeconds spec = cfg_RunnerTimeout cfg div Second" using t by (simp add: go_div_nonneg Second_def)
    with that(2) have "spec_TimeoutSeconds spec \<le> 9223372036" by (auto simp: in_int64_def Second_def)
    with 1 t' show ?thesis by simp
  qed
  ultimately show ?thesis by blast
qed

theorem timeout_exact_iff_witness:
  "EffectiveTimeout (sample_spec\<lparr>spec_Timeout := 0, spec_TimeoutSeconds := 9223372037\<rparr>) 0 \<noteq> 9223372037 * Second"
  using timeout_exact_iff [of "sample_spec\<lparr>spec_Timeout := 0, spec_TimeoutSeconds := 9223372037\<rparr>" 0] by simp

section \<open>Numbers from outside\<close>



end
